(* ===== verification/Swarm_Prelude.thy ===== *)
theory Swarm_Prelude
  imports Main "HOL-Library.Char_ord" "HOL-Library.List_Lexorder" "HOL-Library.Product_Lexorder"
begin

text \<open>
  Shared vocabulary of the development: the parts of Go's \<^verbatim>\<open>strings\<close> and \<^verbatim>\<open>time\<close>
  packages the sources call, 64-bit integers with their wrap-around written out, and the
  generic operations on database tables (lists of rows with a key column) with their lemmas.

  A Go string is a list of bytes (\<open>string\<close>); valid UTF-8 is assumed where runes are counted.
  Times and durations are integers in microseconds, the resolution of the controller's
  DATETIME(6) columns.
\<close>

section \<open>Lemma collections\<close>

named_theorems table_simps \<open>lookup, update, delete and insert on keyed rows\<close>
named_theorems string_simps \<open>facts about the string functions of the sources\<close>

type_synonym time = int
type_synonym duration = int

abbreviation Second :: duration where "Second \<equiv> 1000000"
abbreviation Minute :: duration where "Minute \<equiv> 60000000"
abbreviation Hour :: duration where "Hour \<equiv> 3600000000"

section \<open>Strings\<close>

text \<open>
  The UTF-8 encodings of the runes for which \<^verbatim>\<open>unicode.IsSpace\<close> holds, the ones
  \<^verbatim>\<open>strings.TrimSpace\<close> removes.
\<close>

definition space_runes :: "string list" where
  "space_runes =
     [[CHR 0x20], [CHR 0x09], [CHR 0x0A], [CHR 0x0B], [CHR 0x0C], [CHR 0x0D],
      [CHR 0xC2, CHR 0x85], [CHR 0xC2, CHR 0xA0], [CHR 0xE1, CHR 0x9A, CHR 0x80]]
     @ map (\<lambda>b. [CHR 0xE2, CHR 0x80, b])
         [CHR 0x80, CHR 0x81, CHR 0x82, CHR 0x83, CHR 0x84, CHR 0x85, CHR 0x86, CHR 0x87,
          CHR 0x88, CHR 0x89, CHR 0x8A, CHR 0xA8, CHR 0xA9, CHR 0xAF]
     @ [[CHR 0xE2, CHR 0x81, CHR 0x9F], [CHR 0xE3, CHR 0x80, CHR 0x80]]"

definition starts_rune :: "string \<Rightarrow> string \<Rightarrow> bool" where
  "starts_rune s w \<longleftrightarrow> w \<noteq> [] \<and> take (length w) s = w"

lemma starts_rune_length: "starts_rune s w \<Longrightarrow> 0 < length w \<and> length w \<le> length s"
  by (auto simp: starts_rune_def) (metis length_take min.cobounded1)

function strip_runes :: "string list \<Rightarrow> string \<Rightarrow> string" where
  "strip_runes ws s =
     (case List.find (starts_rune s) ws of
        None \<Rightarrow> s
      | Some w \<Rightarrow> strip_runes ws (drop (length w) s))"
  by pat_completeness auto
termination
proof (relation "measure (\<lambda>(ws, s). length s)", goal_cases)
  case 1
  then show ?case by simp
next
  case (2 ws s w)
  then have "starts_rune s w" by (auto simp: find_Some_iff)
  from starts_rune_length [OF this] have "length s - length w < length s" by linarith
  then show ?case by simp
qed

declare strip_runes.simps [simp del]

definition TrimSpace :: "string \<Rightarrow> string" where
  "TrimSpace s = rev (strip_runes (map rev space_runes) (rev (strip_runes space_runes s)))"

definition HasPrefix :: "string \<Rightarrow> string \<Rightarrow> bool" where
  "HasPrefix s p \<longleftrightarrow> take (length p) s = p"

definition HasSuffix :: "string \<Rightarrow> string \<Rightarrow> bool" where
  "HasSuffix s p \<longleftrightarrow> HasPrefix (rev s) (rev p)"

fun Contains :: "string \<Rightarrow> string \<Rightarrow> bool" where
  "Contains [] sub \<longleftrightarrow> sub = []"
| "Contains (c # s) sub \<longleftrightarrow> HasPrefix (c # s) sub \<or> Contains s sub"

definition ContainsAny :: "string \<Rightarrow> string \<Rightarrow> bool" where
  "ContainsAny s chars \<longleftrightarrow> list_ex (\<lambda>c. List.member chars c) s"

definition lower_char :: "char \<Rightarrow> char" where
  "lower_char c = (let n = (of_char c :: nat) in if 65 \<le> n \<and> n \<le> 90 then char_of (n + 32) else c)"

definition upper_char :: "char \<Rightarrow> char" where
  "upper_char c = (let n = (of_char c :: nat) in if 97 \<le> n \<and> n \<le> 122 then char_of (n - 32) else c)"

text \<open>\<^verbatim>\<open>strings.ToLower\<close> on ASCII letters and on the two other runes whose lower case is ASCII
  (U+0130 and the Kelvin sign); the remaining runes are left as they are.\<close>

fun ToLower :: "string \<Rightarrow> string" where
  "ToLower [] = []"
| "ToLower (c # s) =
     (if starts_rune (c # s) [CHR 0xC4, CHR 0xB0] then CHR ''i'' # ToLower (drop 1 s)
      else if starts_rune (c # s) [CHR 0xE2, CHR 0x84, CHR 0xAA] then CHR ''k'' # ToLower (drop 2 s)
      else lower_char c # ToLower s)"

definition ToUpper :: "string \<Rightarrow> string" where
  "ToUpper s = map upper_char s"

text \<open>The characters \<^verbatim>\<open>"\r\n\x00"\<close> that the validators refuse inside a name.\<close>

definition control_chars :: string where
  "control_chars = [CHR 0x0D, CHR 0x0A, CHR 0x00]"

definition rune_start :: "char \<Rightarrow> bool" where
  "rune_start c \<longleftrightarrow> (let n = (of_char c :: nat) in n < 128 \<or> 192 \<le> n)"

definition RuneCount :: "string \<Rightarrow> nat" where
  "RuneCount s = length (filter rune_start s)"

fun take_runes :: "nat \<Rightarrow> string \<Rightarrow> string" where
  "take_runes n [] = []"
| "take_runes n (c # s) =
     (if rune_start c then (case n of 0 \<Rightarrow> [] | Suc m \<Rightarrow> c # take_runes m s)
      else c # take_runes n s)"

fun show_nat :: "nat \<Rightarrow> string" where
  "show_nat n =
     (if n < 10 then [char_of (48 + n)] else show_nat (n div 10) @ [char_of (48 + n mod 10)])"

declare show_nat.simps [simp del]

definition show_int :: "int \<Rightarrow> string" where
  "show_int i = (if i < 0 then ''-'' @ show_nat (nat (- i)) else show_nat (nat i))"

definition hex_digit :: "char \<Rightarrow> bool" where
  "hex_digit c \<longleftrightarrow> (let n = (of_char c :: nat) in (48 \<le> n \<and> n \<le> 57) \<or> (97 \<le> n \<and> n \<le> 102))"

text \<open>\<^verbatim>\<open>hex.EncodeToString\<close>.\<close>

definition hex_char :: "nat \<Rightarrow> char" where
  "hex_char n = (if n < 10 then char_of (48 + n) else char_of (87 + n))"

fun hex_encode :: "string \<Rightarrow> string" where
  "hex_encode [] = []"
| "hex_encode (c # s) =
     hex_char (of_char c div 16) # hex_char (of_char c mod 16) # hex_encode s"

text \<open>Non-ASCII punctuation of the sources' messages, in UTF-8.\<close>

definition em_dash :: string where "em_dash = [CHR 0xE2, CHR 0x80, CHR 0x94]"
definition ellipsis :: string where "ellipsis = [CHR 0xE2, CHR 0x80, CHR 0xA6]"

section \<open>64-bit integers\<close>

definition wrap64 :: "int \<Rightarrow> int" where
  "wrap64 x = (x + 2 ^ 63) mod 2 ^ 64 - 2 ^ 63"

abbreviation int64 :: "int \<Rightarrow> bool" where
  "int64 x \<equiv> - (2 ^ 63) \<le> x \<and> x < 2 ^ 63"

text \<open>Go's integer division truncates towards zero.\<close>

definition quot :: "int \<Rightarrow> int \<Rightarrow> int" where
  "quot a b = sgn a * sgn b * (\<bar>a\<bar> div \<bar>b\<bar>)"

section \<open>Tables\<close>

text \<open>
  A database table is the list of its rows; \<open>key\<close> reads the primary-key column. The
  operations mirror the statements of the stores: \<^verbatim>\<open>SELECT .. WHERE key = ?\<close>,
  \<^verbatim>\<open>UPDATE .. WHERE key = ?\<close> and \<^verbatim>\<open>DELETE .. WHERE key = ?\<close>.
\<close>

definition row_find :: "('r \<Rightarrow> 'k) \<Rightarrow> 'k \<Rightarrow> 'r list \<Rightarrow> 'r option" where
  "row_find key k rs = List.find (\<lambda>r. key r = k) rs"

definition row_update :: "('r \<Rightarrow> 'k) \<Rightarrow> 'k \<Rightarrow> ('r \<Rightarrow> 'r) \<Rightarrow> 'r list \<Rightarrow> 'r list" where
  "row_update key k f rs = map (\<lambda>r. if key r = k then f r else r) rs"

definition row_delete :: "('r \<Rightarrow> 'k) \<Rightarrow> 'k \<Rightarrow> 'r list \<Rightarrow> 'r list" where
  "row_delete key k rs = filter (\<lambda>r. key r \<noteq> k) rs"

text \<open>\<^verbatim>\<open>ORDER BY .. LIMIT 1\<close>.\<close>

definition row_first :: "('r \<Rightarrow> 'o::linorder) \<Rightarrow> 'r list \<Rightarrow> 'r option" where
  "row_first ord rs = (case sort_key ord rs of [] \<Rightarrow> None | r # _ \<Rightarrow> Some r)"

section \<open>Facts about strings\<close>

lemma strip_runes_no_rune: "List.find (starts_rune (strip_runes ws s)) ws = None"
proof (induction ws s rule: strip_runes.induct)
  case (1 ws s)
  show ?case
  proof (cases "List.find (starts_rune s) ws")
    case None
    then show ?thesis by (simp add: strip_runes.simps)
  next
    case (Some w)
    then have "strip_runes ws s = strip_runes ws (drop (length w) s)"
      by (simp add: strip_runes.simps [of ws s])
    with 1 [OF Some] show ?thesis by simp
  qed
qed

lemma strip_runes_suffix: "\<exists>p. s = p @ strip_runes ws s"
proof (induction ws s rule: strip_runes.induct)
  case (1 ws s)
  show ?case
  proof (cases "List.find (starts_rune s) ws")
    case None
    then have "s = [] @ strip_runes ws s" by (simp add: strip_runes.simps)
    then show ?thesis ..
  next
    case (Some w)
    from 1 [OF Some] obtain p where "drop (length w) s = p @ strip_runes ws (drop (length w) s)" ..
    with Some have "s = (take (length w) s @ p) @ strip_runes ws s"
      by (subst append_take_drop_id [of "length w" s, symmetric])
        (simp add: strip_runes.simps [of ws s])
    then show ?thesis ..
  qed
qed

lemma starts_rune_append: "starts_rune s w \<Longrightarrow> starts_rune (s @ t) w"
  using starts_rune_length [of s w] by (simp add: starts_rune_def)

lemma strip_runes_fixed: "List.find (starts_rune s) ws = None \<Longrightarrow> strip_runes ws s = s"
  by (simp add: strip_runes.simps)

lemma TrimSpace_idem [simp, string_simps]: "TrimSpace (TrimSpace s) = TrimSpace s"
proof -
  define t where "t = strip_runes space_runes s"
  define u where "u = strip_runes (map rev space_runes) (rev t)"
  have S: "TrimSpace s = rev u" by (simp add: TrimSpace_def t_def u_def)
  obtain p where "rev t = p @ u" using strip_runes_suffix unfolding u_def by blast
  then have t: "t = rev u @ rev p" by (metis rev_append rev_rev_ident)
  have "List.find (starts_rune t) space_runes = None"
    unfolding t_def by (rule strip_runes_no_rune)
  then have "List.find (starts_rune (rev u)) space_runes = None"
    by (auto simp: find_None_iff t dest: starts_rune_append)
  then have "strip_runes space_runes (rev u) = rev u" by (rule strip_runes_fixed)
  moreover have "strip_runes (map rev space_runes) u = u"
    by (rule strip_runes_fixed) (simp add: u_def strip_runes_no_rune)
  ultimately show ?thesis by (simp add: S) (simp add: TrimSpace_def)
qed

lemma TrimSpace_Nil [simp, string_simps]: "TrimSpace [] = []"
proof -
  have "strip_runes ws [] = []" for ws
    by (rule strip_runes_fixed) (auto simp: find_None_iff starts_rune_def)
  then show ?thesis by (simp add: TrimSpace_def)
qed

lemma take_runes_count: "RuneCount (take_runes n s) = min n (RuneCount s)"
  by (induction n s rule: take_runes.induct) (auto simp: RuneCount_def split: nat.splits)

lemma RuneCount_append [simp]: "RuneCount (s @ t) = RuneCount s + RuneCount t"
  by (simp add: RuneCount_def)

lemma RuneCount_le_length: "RuneCount s \<le> length s"
  by (simp add: RuneCount_def)

lemma hex_char_digit: "n < 16 \<Longrightarrow> hex_digit (hex_char n)"
  by (auto simp: hex_digit_def hex_char_def Let_def)

lemma hex_encode_digits: "list_all hex_digit (hex_encode s)"
  by (induction s rule: hex_encode.induct) (auto intro!: hex_char_digit simp: less_mult_imp_div_less)

lemma length_hex_encode [simp]: "length (hex_encode s) = 2 * length s"
  by (induction s rule: hex_encode.induct) auto

section \<open>Facts about 64-bit integers\<close>

lemma wrap64_id [simp]: "int64 x \<Longrightarrow> wrap64 x = x"
  by (simp add: wrap64_def)

lemma wrap64_range: "int64 (wrap64 x)"
  using pos_mod_bound [of "2 ^ 64" "x + 2 ^ 63"] pos_mod_sign [of "2 ^ 64" "x + 2 ^ 63"]
  by (simp add: wrap64_def)

lemma wrap64_add [simp]: "wrap64 (wrap64 x + y) = wrap64 (x + y)"
proof -
  define m h :: int where "m = 2 ^ 64" and "h = 2 ^ 63"
  have w: "wrap64 z = (z + h) mod m - h" for z by (simp add: wrap64_def m_def h_def)
  have "((x + h) mod m - h + y + h) mod m = ((x + h) mod m + y) mod m" by simp
  also have "\<dots> = (x + h + y) mod m" by (rule mod_add_left_eq)
  also have "x + h + y = x + y + h" by simp
  finally show ?thesis by (simp add: w)
qed

text \<open>A sum of two 64-bit values that overflows upwards is negative after wrapping.\<close>

lemma wrap64_overflow_negative:
  assumes "2 ^ 63 \<le> x" and "x < 2 ^ 64"
  shows "wrap64 x = x - 2 ^ 64" and "wrap64 x < 0"
proof -
  have "(x + 2 ^ 63) mod 2 ^ 64 = (x - 2 ^ 63 + 2 ^ 64) mod 2 ^ 64" by (simp add: add.commute)
  also have "\<dots> = x - 2 ^ 63" using assms by (subst mod_add_self2) simp
  finally show "wrap64 x = x - 2 ^ 64" by (simp add: wrap64_def)
  with assms show "wrap64 x < 0" by simp
qed

section \<open>Facts about tables\<close>

lemma row_find_SomeD [table_simps]: "row_find key k rs = Some r \<Longrightarrow> r \<in> set rs \<and> key r = k"
  by (auto simp: row_find_def find_Some_iff)

lemma row_find_None [table_simps]: "row_find key k rs = None \<longleftrightarrow> k \<notin> key ` set rs"
  by (auto simp: row_find_def find_None_iff)

lemma row_find_distinct:
  "distinct (map key rs) \<Longrightarrow> r \<in> set rs \<Longrightarrow> row_find key (key r) rs = Some r"
  by (induction rs) (auto simp: row_find_def image_iff)

lemma row_find_append:
  "row_find key k (rs @ ss) = (case row_find key k rs of None \<Rightarrow> row_find key k ss | Some r \<Rightarrow> Some r)"
  by (induction rs) (auto simp: row_find_def)

lemma row_find_update:
  assumes "\<And>r. key (f r) = key r"
  shows "row_find key j (row_update key k f rs) =
    (if j = k then map_option f (row_find key k rs) else row_find key j rs)"
  using assms by (induction rs) (auto simp: row_find_def row_update_def)

lemma row_find_delete:
  "row_find key j (row_delete key k rs) = (if j = k then None else row_find key j rs)"
  by (induction rs) (auto simp: row_find_def row_delete_def)

lemma row_update_keys:
  assumes "\<And>r. key r = k \<Longrightarrow> h (f r) = h r"
  shows "map h (row_update key k f rs) = map h rs"
  using assms by (induction rs) (auto simp: row_update_def)

lemma length_row_update [simp]: "length (row_update key k f rs) = length rs"
  by (simp add: row_update_def)

lemma set_row_update:
  "set (row_update key k f rs) = {r \<in> set rs. key r \<noteq> k} \<union> f ` {r \<in> set rs. key r = k}"
  by (auto simp: row_update_def)

lemma set_row_delete [simp]: "set (row_delete key k rs) = {r \<in> set rs. key r \<noteq> k}"
  by (auto simp: row_delete_def)

lemma distinct_map_row_delete: "distinct (map h rs) \<Longrightarrow> distinct (map h (row_delete key k rs))"
  by (simp add: row_delete_def distinct_map_filter)

lemma row_first_SomeD: "row_first ord rs = Some r \<Longrightarrow> r \<in> set rs \<and> (\<forall>s\<in>set rs. ord r \<le> ord s)"
proof -
  assume "row_first ord rs = Some r"
  then obtain qs where q: "sort_key ord rs = r # qs"
    by (auto simp: row_first_def split: list.splits)
  then have "set rs = set (r # qs)" by (metis set_sort)
  moreover have "sorted (map ord (r # qs))" using q by (metis sorted_sort_key)
  ultimately show ?thesis by auto
qed

lemma row_first_None [simp]: "row_first ord rs = None \<longleftrightarrow> rs = []"
  by (auto simp: row_first_def split: list.splits) (metis length_0_conv length_sort)

end
