(* ===== verification/Sql_Tx.thy ===== *)
theory Sql_Tx
  imports Swarm_Prelude
begin

text \<open>
  The transaction discipline of \<^verbatim>\<open>internal/sqlstore/db.go\<close>. A transaction function reads
  and writes a copy of the state and either commits it or returns an error; \<open>WithTx\<close> retries
  a function the server aborted for a deadlock or a lock-wait timeout. What the server does to
  each attempt is an argument (a schedule of events), so each of these failures of the database is a
  branch of the operations defined on top of it.

  Two things are outside this fault model. A transaction is one atomic step, so interleavings are
  those of whole transactions. And an attempt that reports an error did not commit: a commit the
  server carried out while its acknowledgement was lost has no event here.

  The second half holds the two interfaces the components share: \<open>transactional\<close>, what a
  transaction body promises, and \<open>op_system\<close>, a state machine of operations with an invariant.
\<close>

section \<open>Errors and schedules\<close>

text \<open>
  \<open>Server n\<close> is an error with MySQL error number \<open>n\<close>, \<open>Driver\<close> a failure of the connection,
  \<open>ContextDone\<close> a deadline or cancellation, \<open>Domain e\<close> an error the function returned to abort.
\<close>

datatype 'e store_error = Server nat | Driver | ContextDone | Domain 'e

type_synonym ('s, 'e, 'a) tx = "'s \<Rightarrow> 'e store_error + 'a \<times> 's"
type_synonym ('s, 'e, 'a) outcome = "('e store_error + 'a) \<times> 's"

text \<open>What happens to one attempt: it runs, the server aborts it, the connection drops, or the
  context ends.\<close>

datatype tx_event = Runs | Aborts nat | Drops | Expires

definition ErrDuplicateEntry :: nat where "ErrDuplicateEntry = 1062"
definition ErrLockWaitTimeout :: nat where "ErrLockWaitTimeout = 1205"
definition ErrDeadlock :: nat where "ErrDeadlock = 1213"
definition ErrCheckViolation :: nat where "ErrCheckViolation = 3819"
definition ErrDataTooLong :: nat where "ErrDataTooLong = 1406"
definition ErrOutOfRange :: nat where "ErrOutOfRange = 1264"
definition ErrForeignKey :: nat where "ErrForeignKey = 1452"
definition ErrMariaDBCheck :: nat where "ErrMariaDBCheck = 4025"

fun IsCode :: "'e store_error \<Rightarrow> nat \<Rightarrow> bool" where
  "IsCode (Server n) code \<longleftrightarrow> n = code"
| "IsCode _ code \<longleftrightarrow> False"

definition retryable :: "'e store_error \<Rightarrow> bool" where
  "retryable e \<longleftrightarrow> IsCode e ErrDeadlock \<or> IsCode e ErrLockWaitTimeout"

fun IsServerError :: "'e store_error \<Rightarrow> bool" where
  "IsServerError (Server n) \<longleftrightarrow> True"
| "IsServerError _ \<longleftrightarrow> False"

definition IsDuplicate :: "'e store_error \<Rightarrow> bool" where
  "IsDuplicate e \<longleftrightarrow> IsCode e ErrDuplicateEntry"

definition IsCheckViolation :: "'e store_error \<Rightarrow> bool" where
  "IsCheckViolation e \<longleftrightarrow> IsCode e ErrCheckViolation \<or> IsCode e ErrMariaDBCheck"

section \<open>Running a transaction\<close>

definition maxTransactionAttempts :: nat where "maxTransactionAttempts = 4"

definition runTx :: "tx_event \<Rightarrow> ('s, 'e, 'a) tx \<Rightarrow> 's \<Rightarrow> ('s, 'e, 'a) outcome" where
  "runTx ev fn s =
     (case ev of
        Runs \<Rightarrow> (case fn s of Inl e \<Rightarrow> (Inl e, s) | Inr (a, s') \<Rightarrow> (Inr a, s'))
      | Aborts n \<Rightarrow> (Inl (Server n), s)
      | Drops \<Rightarrow> (Inl Driver, s)
      | Expires \<Rightarrow> (Inl ContextDone, s))"

fun WithTx_from :: "nat \<Rightarrow> tx_event list \<Rightarrow> ('s, 'e, 'a) tx \<Rightarrow> 's \<Rightarrow> 'e store_error \<Rightarrow> ('s, 'e, 'a) outcome"
where
  "WithTx_from 0 evs fn s lastErr = (Inl lastErr, s)"
| "WithTx_from (Suc n) evs fn s lastErr =
     (case runTx (case evs of [] \<Rightarrow> Runs | ev # _ \<Rightarrow> ev) fn s of
        (Inr a, s') \<Rightarrow> (Inr a, s')
      | (Inl e, s') \<Rightarrow>
          if \<not> retryable e then (Inl e, s')
          else (case tl evs of
                  Expires # _ \<Rightarrow> (Inl ContextDone, s')
                | rest \<Rightarrow> WithTx_from n rest fn s' e))"

definition WithTx :: "tx_event list \<Rightarrow> ('s, 'e, 'a) tx \<Rightarrow> 's \<Rightarrow> ('s, 'e, 'a) outcome" where
  "WithTx evs fn s = WithTx_from maxTransactionAttempts evs fn s Driver"

text \<open>
  Every outcome is all or nothing: an error leaves the state as it was, a value is the
  result of exactly one execution of the function on the state the transaction started from.
\<close>

lemma runTx_atomic:
  "fst (runTx ev fn s) = Inl e \<Longrightarrow> snd (runTx ev fn s) = s"
  "fst (runTx ev fn s) = Inr a \<Longrightarrow> fn s = Inr (a, snd (runTx ev fn s))"
  by (auto simp: runTx_def split: tx_event.splits sum.splits)

lemma WithTx_from_atomic:
  "(fst (WithTx_from n evs fn s l) = Inl e \<longrightarrow> snd (WithTx_from n evs fn s l) = s) \<and>
   (fst (WithTx_from n evs fn s l) = Inr a \<longrightarrow> fn s = Inr (a, snd (WithTx_from n evs fn s l)))"
proof (induction n arbitrary: evs l)
  case 0
  then show ?case by simp
next
  case (Suc n)
  let ?r = "runTx (case evs of [] \<Rightarrow> Runs | ev # _ \<Rightarrow> ev) fn s"
  obtain o' s' where r: "?r = (o', s')" by fastforce
  show ?case
  proof (cases o')
    case (Inl e')
    with r have "s' = s" using runTx_atomic(1) by (metis fst_conv snd_conv)
    with Suc [of "tl evs" e'] r Inl show ?thesis
      by (auto split: list.splits tx_event.splits)
  next
    case (Inr a')
    with r have "fn s = Inr (a', s')" using runTx_atomic(2) by (metis fst_conv snd_conv)
    with r Inr show ?thesis by simp
  qed
qed

lemma WithTx_error: "fst (WithTx evs fn s) = Inl e \<Longrightarrow> snd (WithTx evs fn s) = s"
  unfolding WithTx_def by (rule WithTx_from_atomic [THEN conjunct1, rule_format])

lemma WithTx_value: "fst (WithTx evs fn s) = Inr a \<Longrightarrow> fn s = Inr (a, snd (WithTx evs fn s))"
  unfolding WithTx_def by (rule WithTx_from_atomic [THEN conjunct2, rule_format])

lemma WithTx_cases:
  obtains e where "WithTx evs fn s = (Inl e, s)"
  | a s' where "WithTx evs fn s = (Inr a, s')" and "fn s = Inr (a, s')"
  using WithTx_error [of evs fn s] WithTx_value [of evs fn s]
  by (cases "fst (WithTx evs fn s)") (metis prod.collapse)+

lemma WithTx_errorD: "WithTx evs fn s = (Inl e, s') \<Longrightarrow> s' = s"
  using WithTx_error [of evs fn s e] by simp

lemma WithTx_valueD: "WithTx evs fn s = (Inr a, s') \<Longrightarrow> fn s = Inr (a, s')"
  using WithTx_value [of evs fn s a] by simp

lemma WithTx_from_domain:
  assumes "WithTx_from n evs fn s l = (Inl (Domain e), s')" and "\<forall>x. l \<noteq> Domain x"
  shows "fn s = Inl (Domain e)"
  using assms
proof (induction n arbitrary: evs l)
  case (Suc n)
  let ?ev = "case evs of [] \<Rightarrow> Runs | ev # _ \<Rightarrow> ev"
  obtain o' s1 where r: "runTx ?ev fn s = (o', s1)" by fastforce
  with Suc.prems(1) obtain e' where e': "o' = Inl e'" by (cases o') auto
  from r e' have s1: "s1 = s" using runTx_atomic(1) [of ?ev fn s e'] by simp
  show ?case
  proof (cases "retryable e'")
    case True
    then have "\<forall>x. e' \<noteq> Domain x" by (auto simp: retryable_def)
    from Suc.IH [OF _ this, of "tl evs"] Suc.prems(1) r e' s1 True show ?thesis
      by (auto split: list.splits tx_event.splits)
  next
    case False
    with Suc.prems(1) r e' have "e' = Domain e" by simp
    with r e' show ?thesis by (auto simp: runTx_def split: tx_event.splits sum.splits)
  qed
qed simp

text \<open>An error of the function itself is one it returned on the state the transaction saw.\<close>

lemma WithTx_domain: "WithTx evs fn s = (Inl (Domain e), s') \<Longrightarrow> fn s = Inl (Domain e)"
  unfolding WithTx_def by (rule WithTx_from_domain) auto

text \<open>With nothing scheduled against it, a function that commits is committed at once.\<close>

lemma WithTx_runs: "fn s = Inr (a, s') \<Longrightarrow> WithTx [] fn s = (Inr a, s')"
  by (simp add: WithTx_def maxTransactionAttempts_def runTx_def numeral_eq_Suc)

lemma WithTx_domain_error: "fn s = Inl (Domain e) \<Longrightarrow> WithTx [] fn s = (Inl (Domain e), s)"
  by (simp add: WithTx_def maxTransactionAttempts_def runTx_def numeral_eq_Suc retryable_def)

section \<open>What a transaction body promises\<close>

locale transactional =
  fixes inv :: "'s \<Rightarrow> bool"
    and fn :: "('s, 'e, 'a) tx"
  assumes body_inv: "inv s \<Longrightarrow> fn s = Inr (a, s') \<Longrightarrow> inv s'"
begin

lemma WithTx_inv: "inv s \<Longrightarrow> inv (snd (WithTx evs fn s))"
  by (rule WithTx_cases [of evs fn s]) (auto dest: body_inv)

lemma runTx_inv: "inv s \<Longrightarrow> inv (snd (runTx ev fn s))"
  by (auto simp: runTx_def split: tx_event.splits sum.splits dest: body_inv)

end

section \<open>Operations as a state machine\<close>

text \<open>
  States reached from \<open>s0\<close> by operations the environment may choose freely, each performed
  only where \<open>enabled\<close> allows it.
\<close>

inductive reach :: "('op \<Rightarrow> 's \<Rightarrow> bool) \<Rightarrow> ('op \<Rightarrow> 's \<Rightarrow> 's) \<Rightarrow> 's \<Rightarrow> 's \<Rightarrow> bool"
  for enabled :: "'op \<Rightarrow> 's \<Rightarrow> bool" and exec :: "'op \<Rightarrow> 's \<Rightarrow> 's" and s0 :: 's
where
  start: "reach enabled exec s0 s0"
| step: "reach enabled exec s0 s \<Longrightarrow> enabled op s \<Longrightarrow> reach enabled exec s0 (exec op s)"

lemma reach_mono:
  "reach enabled exec s0 s \<Longrightarrow> (\<And>op t. enabled op t \<Longrightarrow> enabled' op t) \<Longrightarrow> reach enabled' exec s0 s"
  by (induction rule: reach.induct) (auto intro: reach.intros)

locale op_system =
  fixes enabled :: "'op \<Rightarrow> 's \<Rightarrow> bool"
    and exec :: "'op \<Rightarrow> 's \<Rightarrow> 's"
    and inv :: "'s \<Rightarrow> bool"
  assumes exec_inv: "inv s \<Longrightarrow> enabled op s \<Longrightarrow> inv (exec op s)"
begin

lemma reach_inv: "reach enabled exec s0 s \<Longrightarrow> inv s0 \<Longrightarrow> inv s"
  by (induction rule: reach.induct) (auto intro: exec_inv)

lemma fold_inv: "inv s \<Longrightarrow> (\<And>op t. op \<in> set ops \<Longrightarrow> enabled op t) \<Longrightarrow> inv (fold exec ops s)"
  by (induction ops arbitrary: s) (auto intro: exec_inv)

end

end
