(* ===== verification/Go_Json.thy ===== *)
theory Go_Json
  imports Swarm_Prelude
begin

text \<open>
  \<^verbatim>\<open>json.Valid\<close> of Go's standard library, which the command ledger applies to every
  payload: a byte-at-a-time scanner with a stack of open arrays and objects. The recursion
  is on the input, so validation always ends.
\<close>

datatype json_parse = ObjectKey | ObjectValue | ArrayValue

datatype json_state =
    BeginValue | BeginValueOrEmpty | BeginString | BeginStringOrEmpty | EndValue | EndTop
  | InString | InStringEsc | InStringEscU nat
  | Neg | Num0 | Num1 | NumDot | NumDot0 | NumE | NumESign | NumE0
  | InLiteral string

type_synonym json_scan = "json_state \<times> json_parse list"

definition maxNestingDepth :: nat where "maxNestingDepth = 10000"

definition json_space :: "char \<Rightarrow> bool" where
  "json_space c \<longleftrightarrow> c = CHR 0x20 \<or> c = CHR 0x09 \<or> c = CHR 0x0D \<or> c = CHR 0x0A"

definition digit :: "char \<Rightarrow> bool" where
  "digit c \<longleftrightarrow> (let n = (of_char c :: nat) in 48 \<le> n \<and> n \<le> 57)"

definition json_push :: "json_parse \<Rightarrow> json_state \<Rightarrow> json_parse list \<Rightarrow> json_scan option" where
  "json_push p next st = (if length st < maxNestingDepth then Some (next, p # st) else None)"

definition json_pop :: "json_parse list \<Rightarrow> json_scan option" where
  "json_pop st = (case tl st of [] \<Rightarrow> Some (EndTop, []) | st' \<Rightarrow> Some (EndValue, st'))"

definition json_end_value :: "json_parse list \<Rightarrow> char \<Rightarrow> json_scan option" where
  "json_end_value st c =
     (case st of
        [] \<Rightarrow> if json_space c then Some (EndTop, []) else None
      | p # ps \<Rightarrow>
          if json_space c then Some (EndValue, st)
          else (case p of
                  ObjectKey \<Rightarrow> if c = CHR '':'' then Some (BeginValue, ObjectValue # ps) else None
                | ObjectValue \<Rightarrow>
                    if c = CHR '','' then Some (BeginString, ObjectKey # ps)
                    else if c = CHR ''}'' then json_pop st else None
                | ArrayValue \<Rightarrow>
                    if c = CHR '','' then Some (BeginValue, st)
                    else if c = CHR '']'' then json_pop st else None))"

definition json_begin_value :: "json_parse list \<Rightarrow> char \<Rightarrow> json_scan option" where
  "json_begin_value st c =
     (if json_space c then Some (BeginValue, st)
      else if c = CHR ''{'' then json_push ObjectKey BeginStringOrEmpty st
      else if c = CHR ''['' then json_push ArrayValue BeginValueOrEmpty st
      else if c = CHR 0x22 then Some (InString, st)
      else if c = CHR ''-'' then Some (Neg, st)
      else if c = CHR ''0'' then Some (Num0, st)
      else if digit c then Some (Num1, st)
      else if c = CHR ''t'' then Some (InLiteral ''rue'', st)
      else if c = CHR ''f'' then Some (InLiteral ''alse'', st)
      else if c = CHR ''n'' then Some (InLiteral ''ull'', st)
      else None)"

definition json_num0 :: "json_parse list \<Rightarrow> char \<Rightarrow> json_scan option" where
  "json_num0 st c =
     (if c = CHR ''.'' then Some (NumDot, st)
      else if c = CHR ''e'' \<or> c = CHR ''E'' then Some (NumE, st)
      else json_end_value st c)"

definition json_esign :: "json_parse list \<Rightarrow> char \<Rightarrow> json_scan option" where
  "json_esign st c = (if digit c then Some (NumE0, st) else None)"

definition json_begin_string :: "json_parse list \<Rightarrow> char \<Rightarrow> json_scan option" where
  "json_begin_string st c =
     (if json_space c then Some (BeginString, st)
      else if c = CHR 0x22 then Some (InString, st) else None)"

fun json_step :: "json_scan \<Rightarrow> char \<Rightarrow> json_scan option" where
  "json_step (BeginValue, st) c = json_begin_value st c"
| "json_step (BeginValueOrEmpty, st) c =
     (if json_space c then Some (BeginValueOrEmpty, st)
      else if c = CHR '']'' then json_end_value st c else json_begin_value st c)"
| "json_step (BeginString, st) c = json_begin_string st c"
| "json_step (BeginStringOrEmpty, st) c =
     (if json_space c then Some (BeginStringOrEmpty, st)
      else if c = CHR ''}'' then json_end_value (ObjectValue # tl st) c
      else json_begin_string st c)"
| "json_step (EndValue, st) c = json_end_value st c"
| "json_step (EndTop, st) c = (if json_space c then Some (EndTop, st) else None)"
| "json_step (InString, st) c =
     (if c = CHR 0x22 then Some (EndValue, st)
      else if c = CHR 0x5C then Some (InStringEsc, st)
      else if (of_char c :: nat) < 32 then None else Some (InString, st))"
| "json_step (InStringEsc, st) c =
     (if List.member (CHR 0x5C # CHR 0x22 # ''bfnrt/'') c then Some (InString, st)
      else if c = CHR ''u'' then Some (InStringEscU 4, st) else None)"
| "json_step (InStringEscU n, st) c =
     (if hex_digit (lower_char c)
      then Some (if n \<le> 1 then InString else InStringEscU (n - 1), st) else None)"
| "json_step (Neg, st) c =
     (if c = CHR ''0'' then Some (Num0, st) else if digit c then Some (Num1, st) else None)"
| "json_step (Num1, st) c = (if digit c then Some (Num1, st) else json_num0 st c)"
| "json_step (Num0, st) c = json_num0 st c"
| "json_step (NumDot, st) c = (if digit c then Some (NumDot0, st) else None)"
| "json_step (NumDot0, st) c =
     (if digit c then Some (NumDot0, st)
      else if c = CHR ''e'' \<or> c = CHR ''E'' then Some (NumE, st) else json_end_value st c)"
| "json_step (NumE, st) c =
     (if c = CHR ''+'' \<or> c = CHR ''-'' then Some (NumESign, st) else json_esign st c)"
| "json_step (NumESign, st) c = json_esign st c"
| "json_step (NumE0, st) c = (if digit c then Some (NumE0, st) else json_end_value st c)"
| "json_step (InLiteral l, st) c =
     (case l of
        [] \<Rightarrow> None
      | x # xs \<Rightarrow> if c = x then Some (if xs = [] then EndValue else InLiteral xs, st) else None)"

fun json_scan_all :: "json_scan \<Rightarrow> string \<Rightarrow> json_scan option" where
  "json_scan_all q [] = Some q"
| "json_scan_all q (c # s) = (case json_step q c of None \<Rightarrow> None | Some q' \<Rightarrow> json_scan_all q' s)"

fun json_eof :: "json_scan \<Rightarrow> bool" where
  "json_eof q \<longleftrightarrow> fst q = EndTop \<or>
     (case json_step q (CHR 0x20) of Some q' \<Rightarrow> fst q' = EndTop | None \<Rightarrow> False)"

definition json_Valid :: "string \<Rightarrow> bool" where
  "json_Valid s \<longleftrightarrow>
     (case json_scan_all (BeginValue, []) s of None \<Rightarrow> False | Some q \<Rightarrow> json_eof q)"

lemma json_Valid_nonempty: "json_Valid s \<Longrightarrow> s \<noteq> []"
  by (auto simp: json_Valid_def json_begin_value_def json_space_def)

lemma json_Valid_empty_object: "json_Valid ''{}''"
  by code_simp

end
