(* ===== verification/Domain.thy ===== *)
theory Domain
  imports Swarm_Prelude
begin

text \<open>
  The data contracts of \<^verbatim>\<open>internal/domain\<close> that the stores share: the command record and
  its lifecycle states, and the control-plane placement records.
\<close>

section \<open>Commands\<close>

datatype CommandState =
    CommandUploading | CommandQueued | CommandLeased | CommandPreparing | CommandRunning
  | CommandRetryScheduled | CommandSucceeded | CommandFailed | CommandNeedsAttention
  | CommandSuperseded | CommandCancelled

text \<open>\<^verbatim>\<open>domain.Command\<close>. A \<^verbatim>\<open>*time.Time\<close> field is an optional time.\<close>

record Command =
  action :: string
  actor :: string
  attempt :: nat
  authorityEpoch :: nat
  autoRetry :: bool
  clusterID :: string
  createdAt :: time
  failureCode :: string
  failureSummary :: string
  commandID :: string
  lastAttemptAt :: "time option"
  lastError :: string
  leaseExpiresAt :: "time option"
  maxAttempts :: nat
  nextAttemptAt :: "time option"
  nodeID :: string
  requestID :: string
  recoveryHint :: string
  serverID :: string
  state :: CommandState
  target :: string
  updatedAt :: time

record CommandEvent =
  eventSequence :: nat
  eventState :: CommandState
  evidence :: string
  occurredAt :: time

section \<open>Control-plane placement\<close>

datatype CoreRole = CoreRoleActive | CoreRoleStandby
datatype CoreReplicaState = CoreReplicaAwaitingRestore | CoreReplicaVerified
datatype CoreHandoffState = CoreHandoffPrepared | CoreHandoffFenced

record CoreMember =
  agentServerID :: string
  endpoint :: string
  memberID :: string
  lastCheckpointAt :: "time option"
  memberName :: string
  replicaState :: CoreReplicaState
  role :: CoreRole

record CoreHandoff =
  fencedAt :: "time option"
  fromID :: string
  preparedAt :: time
  handoffState :: CoreHandoffState
  toID :: string

end
