(* ===== verification/Queue_Diagnostics.thy ===== *)
theory Queue_Diagnostics
  imports Domain
begin

text \<open>
  \<^verbatim>\<open>internal/queue/diagnostics.go\<close>: how an execution error becomes the bounded failure
  code, summary and recovery hint of a command record. The lemmas bound every text the
  classifier can produce, which is what lets the ledger store it.
\<close>

section \<open>Execution errors\<close>

text \<open>
  An executor's \<^verbatim>\<open>error\<close> as the queue reads it: its message, whether \<^verbatim>\<open>*Permanent\<close> is in
  its chain, and what the first \<^verbatim>\<open>SafeFailureCode\<close> in the chain answers (empty without one).
\<close>

record execution_error =
  errMessage :: string
  errPermanent :: bool
  errSafeCode :: string

definition commandIDPattern :: "string \<Rightarrow> bool" where
  "commandIDPattern s \<longleftrightarrow>
     HasPrefix s ''cmd-'' \<and> length s = 36 \<and> list_all hex_digit (drop 4 s)"

definition PermanentError :: "execution_error option \<Rightarrow> execution_error option" where
  "PermanentError err = map_option (\<lambda>e. e\<lparr>errPermanent := True\<rparr>) err"

fun isPermanent :: "execution_error option \<Rightarrow> bool" where
  "isPermanent None \<longleftrightarrow> False"
| "isPermanent (Some e) \<longleftrightarrow> errPermanent e"

fun safeFailureCode :: "execution_error option \<Rightarrow> string" where
  "safeFailureCode None = ''''"
| "safeFailureCode (Some e) = errSafeCode e"

definition FailureCodeUnclassified :: string where
  "FailureCodeUnclassified = ''execution_not_confirmed''"

definition maxLoggedCause :: nat where "maxLoggedCause = 2048"

text \<open>The lower-cased message the classifiers match on; empty without an error.\<close>

fun failure_message :: "execution_error option \<Rightarrow> string" where
  "failure_message None = ''''"
| "failure_message (Some e) = ToLower (errMessage e)"

section \<open>The classifiers\<close>

definition dockerFailureDiagnostic :: "string \<Rightarrow> string \<times> string \<times> string" where
  "dockerFailureDiagnostic code =
     (if code = ''docker_placement_unsatisfied'' then
         (''stack_placement_unsatisfied'',
          ''Docker could not place this stack's services on any eligible node.'',
          ''Check the placement this stack requires against the cluster: managed databases and the log aggregator need a ready, active node labelled nim.stateful=true, and every service needs a node with free capacity. Fix the placement, then retry.'')
      else if code = ''docker_image_unavailable'' then
         (''stack_image_unavailable'',
          ''The selected manager could not pull an image this stack declares.'',
          ''Verify registry reachability and the image reference, then retry.'')
      else if code = ''docker_port_unavailable'' then
         (''stack_port_unavailable'',
          ''Docker could not start the stack because a port it publishes is already in use.'',
          ''Inspect the selected manager for the process or service holding that port, resolve the conflict, then retry.'')
      else if code = ''docker_external_network_missing'' then
         (''stack_network_missing'',
          ''Docker rejected the stack because an external network it attaches to does not exist.'',
          ''Create the reviewed overlay network on the manager, then retry.'')
      else if code = ''docker_external_config_missing'' then
         (''stack_config_missing'',
          ''Docker rejected the stack because an external configuration it mounts does not exist.'',
          ''Repair the reviewed platform configurations, then retry.'')
      else if code = ''docker_external_secret_missing'' then
         (''stack_secret_missing'',
          ''Docker rejected the stack because an external secret it mounts does not exist.'',
          ''Create the reviewed secret on the manager, then retry.'')
      else if code = ''docker_command_timed_out'' then
         (''stack_deploy_timed_out'',
          ''The deployment did not converge before the machine-agent deadline.'',
          ''Inspect the stack's service tasks and the manager's capacity, confirm the intended state, then retry only if the change is still missing.'')
      else if code = ''docker_command_output_limit'' then
         (''stack_deploy_output_limit'',
          ''The deployment produced more status output than the bounded machine-agent response allows, which usually means services restarting repeatedly.'',
          ''Inspect the stack's service tasks for a repeating failure, resolve it, then retry.'')
      else if code = ''docker_stack_deploy_failed'' then
         (''stack_deploy_failed'',
          ''Docker rejected or failed to converge this stack.'',
          ''Inspect the stack's service tasks on the selected manager, resolve the reported Docker condition, then retry only if the change is still missing.'')
      else (''stack_operation_failed'', ''The machine agent reported that the Docker operation failed.'', ''Inspect the target's current state on the selected manager before retrying.''))"

definition commandFailureDiagnostic ::
  "string \<Rightarrow> execution_error option \<Rightarrow> string \<times> string \<times> string"
where
  "commandFailureDiagnostic act err =
     (let message = failure_message err; code = safeFailureCode err in
      if Contains message ''command execution ended before completion'' \<or> Contains message ''core restarted while'' then
         (''execution_interrupted'',
          ''The controller stopped before it could confirm the remote result.'',
          ''Verify the target's current state, then retry only if the intended change is still missing.'')
      else if Contains message ''server is not connected'' \<or> Contains message ''select a connected server'' then
         (''target_disconnected'',
          ''The selected server was not connected when execution started.'',
          ''Open Diagnostics, restore the agent connection, then retry this command.'')
      else if Contains message ''docker reported a build error'' then
         (''build_failed'',
          ''The image build failed on the machine.'',
          ''Read this command's execution log for the failing step and its output, correct it in the repository, then retry.'')
      else if Contains message ''docker reported an image push error'' \<or> Contains message ''push built image'' then
         (''image_push_failed'',
          ''The image built, but pushing it to the registry failed.'',
          ''Read this command's execution log for the push output, check the registry credential and that the namespace accepts this image, then retry.'')
      else if Contains message ''traefik acme email'' then
         (''traefik_acme_email_required'',
          ''Traefik has no valid ACME contact email configured, and the gateway cannot be used until it does.'',
          ''Open Gateway & ports, enter the ACME email under static settings, apply it, then retry.'')
      else if Contains message ''external traefik overlay network'' then
         (''traefik_network_required'',
          ''Traefik requires the external attachable overlay network named traefik.'',
          ''Open Docker resources and create the reviewed encrypted traefik overlay, then retry.'')
      else if Contains message ''nim.edge=true'' then
         (''traefik_edge_label_required'',
          ''Traefik has no eligible manager because nim.edge=true is missing.'',
          ''Open Swarm & placement, label the reviewed manager nim.edge=true, then retry.'')
      else if Contains message ''dynamic config'' then
         (''traefik_dynamic_config_required'',
          ''The reviewed Traefik dynamic config is missing.'',
          ''Create the configured dynamic Swarm config, then retry.'')
      else if Contains message ''dashboard'' \<and> Contains message ''secret'' then
         (''traefik_dashboard_auth_required'',
          ''The Traefik dashboard-auth secret is missing.'',
          ''Create the configured htpasswd Swarm secret, then retry.'')
      else if code = ''docker_ingress_network_missing'' then
         (''swarm_ingress_network_missing'',
          ''Docker has no swarm ingress network, so no service can publish a port.'',
          ''Recreate the ingress network on the manager (docker network create --driver overlay --ingress --subnet 10.0.0.0/24 --gateway 10.0.0.1 ingress), then retry.'')
      else if act = ''traefik.reconcile'' \<and> code = ''docker_external_network_missing'' then
         (''traefik_network_required'',
          ''Docker rejected the Traefik deployment because its required external overlay network is missing.'',
          ''Open Gateway & ports, refresh Installation prerequisites, repair the missing resources, then retry.'')
      else if act = ''traefik.reconcile'' \<and> code = ''docker_external_config_missing'' then
         (''traefik_config_required'',
          ''Docker rejected the Traefik deployment because a required external configuration is missing.'',
          ''Open Gateway & ports, refresh Installation prerequisites, repair the missing resources, then retry.'')
      else if act = ''traefik.reconcile'' \<and> code = ''docker_external_secret_missing'' then
         (''traefik_secret_required'',
          ''Docker rejected the Traefik deployment because a required external secret is missing.'',
          ''Open Gateway & ports, refresh Installation prerequisites, repair the missing resources, then retry.'')
      else if act = ''traefik.reconcile'' \<and> code = ''docker_placement_unsatisfied'' then
         (''traefik_placement_unsatisfied'',
          ''Docker could not place the Traefik service on an eligible node.'',
          ''Open Swarm placement, verify a ready active manager has nim.edge=true and sufficient capacity, then retry.'')
      else if act = ''traefik.reconcile'' \<and> code = ''docker_port_unavailable'' then
         (''traefik_port_unavailable'',
          ''Docker could not start Traefik because a configured gateway port is already in use.'',
          ''Inspect the selected manager for an existing gateway using ports 80 or 443, resolve the conflict, then retry.'')
      else if act = ''traefik.reconcile'' \<and> code = ''docker_image_unavailable'' then
         (''traefik_image_unavailable'',
          ''The selected manager could not pull the reviewed Traefik image.'',
          ''Verify registry reachability and the configured immutable Traefik image, then retry.'')
      else if act = ''traefik.reconcile'' \<and> code = ''docker_command_timed_out'' then
         (''traefik_deploy_timed_out'',
          ''The Traefik deployment did not converge before the machine-agent deadline.'',
          ''Inspect the Traefik service tasks and manager capacity, confirm the intended stack state, then retry only if it is absent.'')
      else if act = ''traefik.reconcile'' \<and> code = ''docker_command_output_limit'' then
         (''traefik_deploy_output_limit'',
          ''The Traefik deployment produced more status output than the bounded machine-agent response allows.'',
          ''Inspect the Traefik service tasks for repeated failures, resolve them, then retry only if the stack is absent.'')
      else if act = ''traefik.reconcile'' \<and> code = ''docker_stack_deploy_failed'' then
         (''traefik_deploy_failed'',
          ''Docker rejected or failed to converge the reviewed Traefik stack.'',
          ''Inspect Traefik service tasks and the selected manager's current gateway state, resolve the reported Docker condition, then retry only if the stack is absent.'')
      else if Contains message ''traefik singleton service was not found'' then
         (''gateway_required'',
          ''The managed Traefik gateway is required before this stack can create private routes.'',
          ''Install and verify Traefik under Gateway, routes & DNS, then retry.'')
      else if Contains message ''nim.stateful'' then
         (''stateful_node_required'',
          ''No ready active node satisfies the required nim.stateful=true placement.'',
          ''Open Swarm, assign the stateful label to the reviewed node, then retry.'')
      else if Contains message ''namespace prefix'' then
         (''stack_outside_namespace'',
          ''This stack name is outside the namespace SwarmOps deploys applications into.'',
          ''Rename the stack so it starts with the application namespace prefix, then retry.'')
      else if Contains message ''read trusted stack asset'' then
         (''controller_asset_missing'',
          ''The controller's reviewed deployment asset is unavailable.'',
          ''Repair or update the controller installation before retrying.'')
      else if Contains message ''config'' \<and> Contains message ''not found'' then
         (''swarm_config_missing'',
          ''A required versioned Swarm configuration is missing.'',
          ''Repair the reviewed platform configurations, then retry the stack deployment.'')
      else if act = ''observability.core'' then
         (''observability_not_confirmed'',
          ''SwarmOps could not confirm the Prometheus, Alertmanager, and Jaeger deployment.'',
          ''Check the selected manager, Traefik gateway, stateful placement, and reviewed Swarm configs before retrying.'')
      else if code \<noteq> '''' then
         dockerFailureDiagnostic code
      else (FailureCodeUnclassified, ''SwarmOps could not confirm that the requested change completed.'', ''Inspect the explicit target and current resource state before retrying.''))"

definition uploadFailureDiagnostic ::
  "execution_error option \<Rightarrow> int \<Rightarrow> string \<times> string \<times> string"
where
  "uploadFailureDiagnostic err limit =
     (let message = failure_message err in
      if Contains message ''encrypted state source exceeds'' \<or> Contains message ''http: request body too large'' then
         (''source_input_too_large'',
          ''The source input is larger than this controller's '' @ show_int (limit div 2 ^ 20) @ '' MiB build limit.'',
          ''Reduce what the build context carries '' @ em_dash @ '' a .dockerignore excluding vendor, node_modules, build output and history is usually enough '' @ em_dash @ '' or raise SWARMOPS_BUILD_MAX_BYTES on the controller, then submit again.'')
      else if Contains message ''no space left on device'' then
         (''controller_storage_full'',
          ''The controller has no disk space left to store the source input.'',
          ''Free space in the controller's state directory '' @ em_dash @ '' Controller & recovery reports what it holds '' @ em_dash @ '' then submit again. The command ledger is written before any operation runs, so this disk must never fill.'')
      else if Contains message ''permission denied'' \<or> Contains message ''read-only file system'' then
         (''controller_storage_unwritable'',
          ''The controller could not write to its own state directory.'',
          ''Check the ownership and mount of the controller's state directory, then submit again.'')
      else if Contains message ''file limit'' then
         (''build_context_too_many_files'',
          ''The build context holds more files than a deployment may carry.'',
          ''Exclude what the image does not need '' @ em_dash @ '' a .dockerignore covering vendor, node_modules, build output and .git is usually enough '' @ em_dash @ '' then submit again.'')
      else if Contains message ''build context exceeds'' \<or> Contains message ''provider archive exceeds'' then
         (''build_context_too_large'',
          ''The build context is larger than this controller allows.'',
          ''Exclude what the image does not need with a .dockerignore, or raise the configured archive limit on the controller, then submit again.'')
      else if Contains message ''symbolic link or special file'' then
         (''build_context_unsupported_entry'',
          ''The build context contains a symbolic link or a special file, which is not carried into a build.'',
          ''Replace it with a regular file, or move the build context to a directory that does not contain it, then submit again.'')
      else if Contains message ''no regular files'' then
         (''build_context_empty'',
          ''The selected build context contains no regular files.'',
          ''Check the build context path against the repository '' @ em_dash @ '' a path that matches nothing produces an empty context '' @ em_dash @ '' then submit again.'')
      else if Contains message ''repository root'' \<or> Contains message ''invalid path'' \<or> Contains message ''invalid root'' then
         (''provider_archive_malformed'',
          ''The archive the provider returned is not shaped like a repository export.'',
          ''Verify the repository and revision resolve to a normal source archive; nothing was stored.'')
      else if Contains message ''open provider archive'' then
         (''provider_archive_unreadable'',
          ''The provider returned something that is not a gzipped source archive, which usually means the request was answered by an error or a login page.'',
          ''Check the connection's token and its scope for this repository, then submit again.'')
      else if Contains message ''archive request failed with status'' then
         (''provider_archive_rejected'',
          ''The provider refused the archive request for this revision.'',
          ''Check that the connection still has access to the repository and that the revision exists, then submit again.'')
      else if Contains message ''context canceled'' \<or> Contains message ''context deadline exceeded'' then
         (''source_input_canceled'',
          ''The request carrying the source input ended before the archive was stored.'',
          ''Submit again and leave the deployment screen open; closing the tab, a reverse-proxy timeout, or navigating away all end the request this way.'')
      else if Contains message ''unexpected eof'' \<or> Contains message ''connection reset'' \<or> Contains message ''broken pipe'' \<or> Contains message ''read encrypted state source'' \<or> Contains message ''made no progress'' then
         (''source_input_stream_failed'',
          ''The source input stream ended before the whole archive arrived.'',
          ''Nothing was stored and no build ran. Check that the provider is reachable from the controller and that the revision still resolves, then submit again from the deployment screen.'')
      else (''source_input_not_stored'', ''The controller could not store the source input.'', ''Nothing was stored and no build ran. Submit a new command with the source input; if it fails again, check the controller's disk and its state directory.''))"

definition failureNarrative :: "'a Command_scheme \<Rightarrow> string" where
  "failureNarrative command =
     (let trimmed = TrimSpace (failureSummary command);
          summary = (if trimmed = '''' then
             ''SwarmOps could not confirm that the requested change completed.'' else trimmed) in
      if state command = CommandRetryScheduled then
        summary @ '' Attempt '' @ show_nat (attempt command) @ '' of '' @ show_nat (maxAttempts command) @
        '' failed; a retry is scheduled with backoff.''
      else
        summary @ '' Attempt '' @ show_nat (attempt command) @ '' of '' @ show_nat (maxAttempts command) @
        '' failed and no retry is scheduled; inspect the target before retrying.'')"

definition setCommandFailureDiagnostic ::
  "execution_error option \<Rightarrow> 'a Command_scheme \<Rightarrow> 'a Command_scheme"
where
  "setCommandFailureDiagnostic err command =
     (let (code, summary, recovery) = commandFailureDiagnostic (action command) err in
      command\<lparr>failureCode := code, failureSummary := summary, recoveryHint := recovery\<rparr>)"

definition clearCommandFailureDiagnostic :: "'a Command_scheme \<Rightarrow> 'a Command_scheme" where
  "clearCommandFailureDiagnostic command =
     command\<lparr>failureCode := '''', failureSummary := '''', recoveryHint := ''''\<rparr>"

definition boundedCause :: "string \<Rightarrow> string" where
  "boundedCause cause =
     (let trimmed = TrimSpace cause in
      if length trimmed \<le> maxLoggedCause then trimmed
      else take maxLoggedCause trimmed @ ellipsis @ '' (truncated)'')"

text \<open>The line \<^verbatim>\<open>logUnclassifiedFailure\<close> writes, if it writes one: its cause attribute.\<close>

definition logUnclassifiedFailure ::
  "'a Command_scheme \<Rightarrow> execution_error option \<Rightarrow> string option"
where
  "logUnclassifiedFailure command err =
     (case err of
        None \<Rightarrow> None
      | Some e \<Rightarrow> if failureCode command \<noteq> FailureCodeUnclassified then None
                  else Some (boundedCause (errMessage e)))"

section \<open>Every text is bounded\<close>

text \<open>What the columns of the ledger need of a diagnostic: a code that fits VARCHAR(64) and is
  never empty, and texts far below the TEXT limit.\<close>

definition bounded_diagnostic :: "string \<times> string \<times> string \<Rightarrow> bool" where
  "bounded_diagnostic d \<longleftrightarrow>
     (case d of (code, summary, recovery) \<Rightarrow>
        code \<noteq> '''' \<and> length code \<le> 64 \<and> summary \<noteq> '''' \<and> length summary \<le> 240 \<and> length recovery \<le> 320)"

lemma bounded_ifI:
  "bounded_diagnostic x \<Longrightarrow> bounded_diagnostic y \<Longrightarrow> bounded_diagnostic (if b then x else y)"
  by simp

lemma docker_bounded: "bounded_diagnostic (dockerFailureDiagnostic code)"
  unfolding dockerFailureDiagnostic_def
  by (intro bounded_ifI) (simp_all add: bounded_diagnostic_def)

lemma command_bounded: "bounded_diagnostic (commandFailureDiagnostic act err)"
  unfolding commandFailureDiagnostic_def Let_def
  by (intro bounded_ifI docker_bounded)
    (simp_all add: bounded_diagnostic_def FailureCodeUnclassified_def)

lemma length_show_nat: "length (show_nat n) \<le> n + 1"
proof (induction n rule: show_nat.induct)
  case (1 n)
  show ?case
  proof (cases "n < 10")
    case False
    with 1 have "length (show_nat (n div 10)) \<le> n div 10 + 1" by simp
    moreover have "n div 10 + 1 \<le> n" using False by presburger
    ultimately show ?thesis using False by (simp add: show_nat.simps [of n])
  qed (simp add: show_nat.simps [of n])
qed

lemma length_strip_runes: "length (strip_runes ws s) \<le> length s"
  using strip_runes_suffix [of s ws] by (metis le_add2 length_append)

lemma length_TrimSpace: "length (TrimSpace s) \<le> length s"
  unfolding TrimSpace_def
  using length_strip_runes [of space_runes s]
    length_strip_runes [of "map rev space_runes" "rev (strip_runes space_runes s)"]
  by simp

lemma failureNarrative_length:
  "length (failureNarrative c) \<le> length (failureSummary c) + attempt c + maxAttempts c + 160"
  using length_TrimSpace [of "failureSummary c"] length_show_nat [of "attempt c"]
    length_show_nat [of "maxAttempts c"]
  by (simp add: failureNarrative_def Let_def)

lemma setCommandFailureDiagnostic_fields [simp]:
  "action (setCommandFailureDiagnostic err c) = action c"
  "state (setCommandFailureDiagnostic err c) = state c"
  "commandID (setCommandFailureDiagnostic err c) = commandID c"
  "attempt (setCommandFailureDiagnostic err c) = attempt c"
  "maxAttempts (setCommandFailureDiagnostic err c) = maxAttempts c"
  by (simp_all add: setCommandFailureDiagnostic_def split: prod.split)

lemma boundedCause_length: "length (boundedCause cause) \<le> maxLoggedCause + 15"
  by (simp add: boundedCause_def Let_def ellipsis_def)

end
