(* ===== verification/Queue_Ledger.thy ===== *)
theory Queue_Ledger
  imports Sql_Tx Go_Json Queue_Diagnostics
begin

text \<open>
  The command ledger and scheduler of \<^verbatim>\<open>internal/queue/store.go\<close>. The state \<open>queue_store\<close>
  is the four ledger tables with the protected input files beside them; every method of
  \<^verbatim>\<open>Store\<close> is a function on it. What a method draws from its surroundings is an argument:
  the schedule of each transaction, the clock, the random identifiers, the rows other
  transactions hold (for SKIP LOCKED) and the hash function. Sealing is represented by its
  plaintext: a sealed column holds the value it opens to.
\<close>

section \<open>Data\<close>

definition maxPayloadBytes :: nat where "maxPayloadBytes = 2 ^ 20"
definition maxAttemptsLimit :: nat where "maxAttemptsLimit = 8"
definition MaxCommandEvents :: nat where "MaxCommandEvents = 64"
definition maxEvidenceRunes :: nat where "maxEvidenceRunes = 240"
definition MaxOutputBytes :: nat where "MaxOutputBytes = 256 * 2 ^ 10"

fun terminalCommandState :: "CommandState \<Rightarrow> bool" where
  "terminalCommandState st =
     (case st of CommandSucceeded \<Rightarrow> True | CommandFailed \<Rightarrow> True | CommandNeedsAttention \<Rightarrow> True
      | CommandSuperseded \<Rightarrow> True | CommandCancelled \<Rightarrow> True | _ \<Rightarrow> False)"

record SubmitInput =
  inAction :: string
  inActor :: string
  inAuthorityEpoch :: nat
  inAutoRetry :: bool
  inClusterID :: string
  inIdempotencyKey :: string
  inMaxArtifactBytes :: int
  inMaxAttempts :: nat
  inPayload :: string
  inRequestID :: string
  inServerID :: string
  inTarget :: string

text \<open>One ledger row: the public command and its private columns; \<open>seq\<close> is the
  AUTO_INCREMENT column.\<close>

record commandRow = Command +
  artifact :: bool
  idempotencyKey :: string
  leaseID :: string
  payloadDigest :: string
  seq :: nat

abbreviation public :: "commandRow \<Rightarrow> Command" where "public \<equiv> Command.truncate"

record Record =
  recArtifact :: bool
  recCommand :: Command
  recPayload :: "string option"

record Submission =
  subCommand :: Command
  subCreated :: bool
  subSuperseded :: "Command list"

record Lease =
  leaseToken :: string
  leaseRecord :: Record

text \<open>What \<^verbatim>\<open>Lstat\<close> finds at an input path: an owner-only regular file with its plaintext, or
  something the store refuses.\<close>

datatype artifact_file = SealedFile string | IrregularFile

record queue_store =
  commands :: "commandRow list"
  payloads :: "string \<Rightarrow> string option"
  events :: "string \<Rightarrow> CommandEvent list"
  outputs :: "string \<Rightarrow> (string \<times> time) option"
  nextSeq :: nat
  historyLimit :: nat
  inputs :: "string \<Rightarrow> artifact_file option"

datatype queue_error =
    FieldInvalid | PayloadInvalid | MaxAttemptsInvalid | IdempotencyKeyInvalid
  | ArtifactLimitInvalid | ArtifactRequired | IdempotencyConflict | CommandNotFound
  | RandomUnavailable | EpochRequired | NotReadyForRetry | StaleEpoch | InputNotProtected
  | InputNeverStored | LeaseIdentityInvalid | LeaseDurationInvalid | InvalidLeaseState
  | LeaseInvalid | NotLeased | NotPreparing | NotRunning | SupersededWhileStoring
  | StoreInputFailed execution_error | InputUnavailable | OutputUnavailable

type_synonym 'a qtx = "(queue_store, queue_error, 'a) tx"
type_synonym 'a qop = "(queue_store, queue_error, 'a) outcome"

section \<open>Validation and small helpers\<close>

definition invalid_field :: "string \<Rightarrow> bool" where
  "invalid_field v \<longleftrightarrow> TrimSpace v = '''' \<or> ContainsAny v control_chars"

text \<open>The source ranges over a map of the four fields, so which invalid field is named in the
  message is not determined; the model keeps the error without the name.\<close>

definition validateInput :: "SubmitInput \<Rightarrow> bool \<Rightarrow> queue_error option" where
  "validateInput input art =
     (if list_ex invalid_field [inAction input, inActor input, inServerID input, inTarget input]
      then Some FieldInvalid
      else if length (inPayload input) > maxPayloadBytes \<or> \<not> json_Valid (inPayload input)
      then Some PayloadInvalid
      else if inMaxAttempts input < 1 \<or> inMaxAttempts input > maxAttemptsLimit
      then Some MaxAttemptsInvalid
      else let key = TrimSpace (inIdempotencyKey input) in
        if key = '''' \<or> length key > 128 \<or> ContainsAny key control_chars
        then Some IdempotencyKeyInvalid
        else if art \<and> inMaxArtifactBytes input < 1 then Some ArtifactLimitInvalid
        else None)"

definition valueOrDefault :: "string \<Rightarrow> string \<Rightarrow> string" where
  "valueOrDefault v fallback = (let t = TrimSpace v in if t \<noteq> '''' then t else fallback)"

definition digest :: "(string \<Rightarrow> string) \<Rightarrow> string \<Rightarrow> string" where
  "digest sha p = (if p = '''' then '''' else sha p)"

definition oneOfCommandState :: "CommandState \<Rightarrow> CommandState list \<Rightarrow> bool" where
  "oneOfCommandState v choices \<longleftrightarrow> List.member choices v"

definition subtleStringMismatch :: "string \<Rightarrow> string \<Rightarrow> bool" where
  "subtleStringMismatch l r \<longleftrightarrow> length l \<noteq> length r \<or> l \<noteq> r"

definition backoff :: "nat \<Rightarrow> duration" where
  "backoff n = Second * 2 ^ (if n > 5 then 5 else n)"

section \<open>Input files\<close>

text \<open>One \<^verbatim>\<open>Read\<close> of the submitted body: the bytes it delivered and how it ended.\<close>

datatype read_end = ReadMore | ReadEOF | ReadFails string

definition maxIdleStreamReads :: nat where "maxIdleStreamReads = 128"

fun stream_reads ::
  "(string \<times> read_end) list \<Rightarrow> int \<Rightarrow> nat \<Rightarrow> string \<Rightarrow> string + string"
where
  "stream_reads [] maxBytes idle written = Inr written"
| "stream_reads ((chunk, e) # reads) maxBytes idle written =
     (if chunk \<noteq> '''' \<and> int (length written) > maxBytes - int (length chunk) then
        Inl (''encrypted state source exceeds the '' @ show_int maxBytes @ '' byte limit'')
      else
        (case e of
           ReadEOF \<Rightarrow> Inr (written @ chunk)
         | ReadFails msg \<Rightarrow> Inl (''read encrypted state source: '' @ msg)
         | ReadMore \<Rightarrow>
             (let idle' = (if chunk = '''' then idle + 1 else 0) in
              if idle' > maxIdleStreamReads then Inl ''encrypted state source made no progress''
              else stream_reads reads maxBytes idle' (written @ chunk))))"

text \<open>What the disk does to one write: it works, fails before the rename, or fails when the
  directory is synced after it.\<close>

datatype disk_event = DiskWorks | DiskFails string | DiskSyncFails string

definition plain_error :: "string \<Rightarrow> execution_error" where
  "plain_error msg = \<lparr>errMessage = msg, errPermanent = False, errSafeCode = ''''\<rparr>"

definition WriteReaderFile ::
  "disk_event \<Rightarrow> string \<Rightarrow> (string \<times> read_end) list \<Rightarrow> int \<Rightarrow> queue_store
   \<Rightarrow> execution_error option \<times> queue_store"
where
  "WriteReaderFile disk path reads maxBytes s =
     (if maxBytes < 0 then (Some (plain_error ''encrypted state size limit is invalid''), s)
      else case stream_reads reads maxBytes 0 '''' of
        Inl msg \<Rightarrow> (Some (plain_error msg), s)
      | Inr content \<Rightarrow>
          (case disk of
             DiskFails msg \<Rightarrow> (Some (plain_error msg), s)
           | DiskSyncFails msg \<Rightarrow>
               (Some (plain_error (''sync encrypted state directory: '' @ msg)),
                s\<lparr>inputs := (inputs s)(path \<mapsto> SealedFile content)\<rparr>)
           | DiskWorks \<Rightarrow> (None, s\<lparr>inputs := (inputs s)(path \<mapsto> SealedFile content)\<rparr>)))"

definition writeArtifact ::
  "disk_event \<Rightarrow> string \<Rightarrow> (string \<times> read_end) list \<Rightarrow> int \<Rightarrow> queue_store
   \<Rightarrow> execution_error option \<times> queue_store"
where
  "writeArtifact disk cid body limit s =
     (if \<not> commandIDPattern cid \<or> limit < 1
      then (Some (plain_error ''invalid command input''), s)
      else WriteReaderFile disk cid body limit s)"

definition removeArtifact :: "string \<Rightarrow> queue_store \<Rightarrow> queue_store" where
  "removeArtifact cid s = s\<lparr>inputs := (inputs s)(cid := None)\<rparr>"

definition ForgetInputs :: "string list \<Rightarrow> queue_store \<Rightarrow> queue_store" where
  "ForgetInputs ids s = fold removeArtifact ids s"

text \<open>\<^verbatim>\<open>Inl\<close> is the refusal of an irregular or exposed file.\<close>

definition protectedArtifactFile :: "string \<Rightarrow> queue_store \<Rightarrow> queue_error + bool" where
  "protectedArtifactFile cid s =
     (case inputs s cid of
        None \<Rightarrow> Inr False
      | Some IrregularFile \<Rightarrow> Inl InputNotProtected
      | Some (SealedFile _) \<Rightarrow> Inr True)"

section \<open>Statements\<close>

definition insert_fits :: "commandRow \<Rightarrow> bool" where
  "insert_fits r \<longleftrightarrow>
     RuneCount (commandID r) \<le> 36 \<and> RuneCount (action r) \<le> 64 \<and> RuneCount (actor r) \<le> 190 \<and>
     RuneCount (serverID r) \<le> 64 \<and> RuneCount (nodeID r) \<le> 64 \<and> RuneCount (clusterID r) \<le> 64 \<and>
     RuneCount (target r) \<le> 512 \<and> RuneCount (requestID r) \<le> 128 \<and>
     RuneCount (idempotencyKey r) \<le> 128"

definition update_fits :: "commandRow \<Rightarrow> bool" where
  "update_fits r \<longleftrightarrow>
     RuneCount (leaseID r) \<le> 64 \<and> RuneCount (failureCode r) \<le> 64 \<and> length (lastError r) < 2 ^ 16 \<and>
     length (failureSummary r) < 2 ^ 16 \<and> length (recoveryHint r) < 2 ^ 16"

text \<open>
  The INSERT statement with the constraints of the schema: the two unique keys, the column
  widths, and the two value checks. The AUTO_INCREMENT column takes the next number.
\<close>

definition insertTx :: "commandRow \<Rightarrow> string \<Rightarrow> unit qtx" where
  "insertTx row payload s =
     (if \<not> insert_fits row \<or> \<not> update_fits row then Inl (Server ErrDataTooLong)
      else if \<not> (1 \<le> maxAttempts row \<and> maxAttempts row \<le> 8) \<or> authorityEpoch row < 1
      then Inl (Server ErrCheckViolation)
      else if list_ex (\<lambda>r. commandID r = commandID row \<or>
          (actor r = actor row \<and> idempotencyKey r = idempotencyKey row)) (commands s)
      then Inl (Server ErrDuplicateEntry)
      else Inr ((), s\<lparr>commands := commands s @ [row\<lparr>seq := nextSeq s\<rparr>],
                      nextSeq := nextSeq s + 1,
                      payloads := (if payloadDigest row = '''' then payloads s
                                   else (payloads s)(commandID row \<mapsto> payload))\<rparr>))"

text \<open>The UPDATE statement writes these columns and no other.\<close>

definition write_columns :: "commandRow \<Rightarrow> commandRow \<Rightarrow> commandRow" where
  "write_columns row r =
     r\<lparr>state := state row, attempt := attempt row, authorityEpoch := authorityEpoch row,
       payloadDigest := payloadDigest row, artifact := artifact row, leaseID := leaseID row,
       leaseExpiresAt := leaseExpiresAt row, lastAttemptAt := lastAttemptAt row,
       nextAttemptAt := nextAttemptAt row, lastError := lastError row,
       failureCode := failureCode row, failureSummary := failureSummary row,
       recoveryHint := recoveryHint row, updatedAt := updatedAt row\<rparr>"

definition updateTx :: "commandRow \<Rightarrow> unit qtx" where
  "updateTx row s =
     (if \<not> update_fits row then Inl (Server ErrDataTooLong)
      else if authorityEpoch row < 1 then Inl (Server ErrCheckViolation)
      else Inr ((), s\<lparr>commands := row_update commandID (commandID row) (write_columns row) (commands s)\<rparr>))"

text \<open>DELETE of one command, with the foreign keys' ON DELETE CASCADE.\<close>

definition delete_command :: "string \<Rightarrow> queue_store \<Rightarrow> queue_store" where
  "delete_command cid s =
     s\<lparr>commands := row_delete commandID cid (commands s),
       payloads := (payloads s)(cid := None),
       events := (events s)(cid := []),
       outputs := (outputs s)(cid := None)\<rparr>"

definition lockRow :: "string \<Rightarrow> queue_store \<Rightarrow> commandRow option" where
  "lockRow cid s = row_find commandID cid (commands s)"

definition lockRows :: "(commandRow \<Rightarrow> bool) \<Rightarrow> queue_store \<Rightarrow> commandRow list" where
  "lockRows P s = filter P (commands s)"

fun update_all :: "commandRow list \<Rightarrow> unit qtx" where
  "update_all [] s = Inr ((), s)"
| "update_all (row # rows) s =
     (case updateTx row s of Inl e \<Rightarrow> Inl e | Inr (_, s') \<Rightarrow> update_all rows s')"

section \<open>Submission\<close>

text \<open>Identifiers are made of sixteen bytes of the random source, when it answers.\<close>

definition newID :: "string option \<Rightarrow> queue_error + string" where
  "newID rnd = (case rnd of None \<Rightarrow> Inl RandomUnavailable | Some bytes \<Rightarrow> Inr (''cmd-'' @ hex_encode bytes))"

definition newLeaseID :: "string option \<Rightarrow> queue_error + string" where
  "newLeaseID rnd = (case rnd of None \<Rightarrow> Inl RandomUnavailable | Some bytes \<Rightarrow> Inr (''lease-'' @ hex_encode bytes))"

definition newRecord ::
  "(string \<Rightarrow> string) \<Rightarrow> string option \<Rightarrow> time \<Rightarrow> SubmitInput \<Rightarrow> bool \<Rightarrow> queue_error + commandRow"
where
  "newRecord sha rid now input art =
     (case newID rid of
        Inl e \<Rightarrow> Inl e
      | Inr cid \<Rightarrow> Inr
         \<lparr>action = TrimSpace (inAction input), actor = TrimSpace (inActor input), attempt = 0,
          authorityEpoch = max (inAuthorityEpoch input) 1, autoRetry = inAutoRetry input,
          clusterID = valueOrDefault (inClusterID input) ''default'', createdAt = now,
          failureCode = '''', failureSummary = '''', commandID = cid, lastAttemptAt = None,
          lastError = '''', leaseExpiresAt = None, maxAttempts = inMaxAttempts input,
          nextAttemptAt = None, nodeID = TrimSpace (inServerID input),
          requestID = TrimSpace (inRequestID input), recoveryHint = '''',
          serverID = TrimSpace (inServerID input), state = CommandQueued,
          target = TrimSpace (inTarget input), updatedAt = now,
          artifact = art, idempotencyKey = TrimSpace (inIdempotencyKey input), leaseID = '''',
          payloadDigest = digest sha (inPayload input), seq = 0\<rparr>)"

definition idempotentTx ::
  "(string \<Rightarrow> string) \<Rightarrow> SubmitInput \<Rightarrow> bool \<Rightarrow> queue_store \<Rightarrow> queue_error + Command option"
where
  "idempotentTx sha input art s =
     (case List.find (\<lambda>r. actor r = TrimSpace (inActor input) \<and>
                          idempotencyKey r = TrimSpace (inIdempotencyKey input)) (commands s) of
        None \<Rightarrow> Inr None
      | Some row \<Rightarrow>
          (let samePayload = (if payloadDigest row = '''' then inPayload input = ''''
                              else payloadDigest row = digest sha (inPayload input)) in
           if artifact row \<noteq> art \<or> action row \<noteq> TrimSpace (inAction input) \<or>
              serverID row \<noteq> TrimSpace (inServerID input) \<or>
              target row \<noteq> TrimSpace (inTarget input) \<or> \<not> samePayload
           then Inl IdempotencyConflict
           else Inr (Some (public row))))"

definition being_stored :: string where
  "being_stored = ''Command input is being stored.''"

definition supersedable :: "commandRow \<Rightarrow> bool" where
  "supersedable row =
     (case state row of
        CommandQueued \<Rightarrow> True
      | CommandRetryScheduled \<Rightarrow> True
      | CommandNeedsAttention \<Rightarrow> artifact row \<and> lastError row = being_stored
      | _ \<Rightarrow> False)"

text \<open>The candidates of the SELECT, oldest sequence number first.\<close>

definition supersede_candidates :: "SubmitInput \<Rightarrow> queue_store \<Rightarrow> commandRow list" where
  "supersede_candidates input s =
     sort_key seq (lockRows (\<lambda>r. action r = TrimSpace (inAction input) \<and>
        serverID r = TrimSpace (inServerID input) \<and> target r = TrimSpace (inTarget input) \<and>
        oneOfCommandState (state r) [CommandQueued, CommandRetryScheduled, CommandNeedsAttention]) s)"

definition supersedeTx ::
  "SubmitInput \<Rightarrow> queue_store \<Rightarrow> (Command list \<times> string list) \<times> queue_store"
where
  "supersedeTx input s =
     (let gone = filter supersedable (supersede_candidates input s) in
      ((map public gone, map commandID (filter artifact gone)),
       fold delete_command (map commandID gone) s))"

definition pruneTx :: "queue_store \<Rightarrow> string list \<times> queue_store" where
  "pruneTx s =
     (let succeeded = lockRows (\<lambda>r. state r = CommandSucceeded) s;
          excess = length succeeded - historyLimit s;
          pruned = map commandID (take excess (sort_key seq succeeded)) in
      (pruned, fold delete_command pruned s))"

definition submitTx ::
  "(string \<Rightarrow> string) \<Rightarrow> string option \<Rightarrow> time \<Rightarrow> SubmitInput \<Rightarrow> (Submission \<times> string list) qtx"
where
  "submitTx sha rid now input s =
     (case idempotentTx sha input False s of
        Inl e \<Rightarrow> Inl (Domain e)
      | Inr (Some command) \<Rightarrow>
          Inr ((\<lparr>subCommand = command, subCreated = False, subSuperseded = []\<rparr>, []), s)
      | Inr None \<Rightarrow>
          (case newRecord sha rid now input False of
             Inl e \<Rightarrow> Inl (Domain e)
           | Inr record \<Rightarrow>
               (let ((superseded, artifacts), s1) = supersedeTx input s in
                case insertTx record (inPayload input) s1 of
                  Inl e \<Rightarrow> Inl e
                | Inr (_, s2) \<Rightarrow>
                    (let (pruned, s3) = pruneTx s2 in
                     Inr ((\<lparr>subCommand = public record, subCreated = True,
                            subSuperseded = superseded\<rparr>, artifacts @ pruned), s3)))))"

definition SubmitInTx ::
  "(string \<Rightarrow> string) \<Rightarrow> string option \<Rightarrow> time \<Rightarrow> SubmitInput \<Rightarrow> (Submission \<times> string list) qtx"
where
  "SubmitInTx sha rid now input s =
     (case validateInput input False of
        Some e \<Rightarrow> Inl (Domain e)
      | None \<Rightarrow> submitTx sha rid now input s)"

text \<open>What one run of the submission transaction draws: its schedule, identifier and clock.\<close>

type_synonym draw = "tx_event list \<times> string option \<times> time"

fun submit_once :: "(string \<Rightarrow> string) \<Rightarrow> draw \<Rightarrow> SubmitInput \<Rightarrow> queue_store \<Rightarrow> (Submission \<times> string list) qop"
where
  "submit_once sha (evs, rid, now) input s = WithTx evs (submitTx sha rid now input) s"

definition submit :: "(string \<Rightarrow> string) \<Rightarrow> draw \<Rightarrow> draw \<Rightarrow> SubmitInput \<Rightarrow> queue_store \<Rightarrow> Submission qop" where
  "submit sha d1 d2 input s =
     (let (r1, s1) = submit_once sha d1 input s;
          (r, s2) = (case r1 of
              Inl e \<Rightarrow> if IsDuplicate e then submit_once sha d2 input s1 else (r1, s1)
            | Inr _ \<Rightarrow> (r1, s1)) in
      case r of
        Inl e \<Rightarrow> (Inl e, s2)
      | Inr (submission, cleanup) \<Rightarrow> (Inr submission, fold removeArtifact cleanup s2))"

definition SubmitWithResult ::
  "(string \<Rightarrow> string) \<Rightarrow> draw \<Rightarrow> draw \<Rightarrow> SubmitInput \<Rightarrow> queue_store \<Rightarrow> Submission qop"
where
  "SubmitWithResult sha d1 d2 input s =
     (case validateInput input False of
        Some e \<Rightarrow> (Inl (Domain e), s)
      | None \<Rightarrow> submit sha d1 d2 input s)"

definition Submit ::
  "(string \<Rightarrow> string) \<Rightarrow> draw \<Rightarrow> draw \<Rightarrow> SubmitInput \<Rightarrow> queue_store \<Rightarrow> (Command \<times> bool) qop"
where
  "Submit sha d1 d2 input s =
     (case SubmitWithResult sha d1 d2 input s of
        (Inl e, s') \<Rightarrow> (Inl e, s')
      | (Inr sub, s') \<Rightarrow> (Inr (subCommand sub, subCreated sub), s'))"

text \<open>
  An artifact submission runs two transactions around the write of the input file. The first
  inserts the command as \<^verbatim>\<open>needs_attention\<close>; \<open>Inl\<close> in its result is the earlier command of an
  idempotent resubmission.
\<close>

definition artifact_insertTx ::
  "(string \<Rightarrow> string) \<Rightarrow> string option \<Rightarrow> time \<Rightarrow> SubmitInput
   \<Rightarrow> (Submission + commandRow \<times> Submission \<times> string list) qtx"
where
  "artifact_insertTx sha rid now input s =
     (case idempotentTx sha input True s of
        Inl e \<Rightarrow> Inl (Domain e)
      | Inr (Some command) \<Rightarrow>
          Inr (Inl \<lparr>subCommand = command, subCreated = False, subSuperseded = []\<rparr>, s)
      | Inr None \<Rightarrow>
          (case newRecord sha rid now input True of
             Inl e \<Rightarrow> Inl (Domain e)
           | Inr record \<Rightarrow>
               (let record = record\<lparr>state := CommandNeedsAttention, lastError := being_stored\<rparr>;
                    ((superseded, artifacts), s1) = supersedeTx input s in
                case insertTx record (inPayload input) s1 of
                  Inl e \<Rightarrow> Inl e
                | Inr (_, s2) \<Rightarrow>
                    Inr (Inr (record, \<lparr>subCommand = public record, subCreated = True,
                                       subSuperseded = superseded\<rparr>, artifacts), s2))))"

text \<open>The second transaction: \<open>None\<close> when the row is gone.\<close>

definition finish_row ::
  "time \<Rightarrow> execution_error option \<Rightarrow> int \<Rightarrow> commandRow \<Rightarrow> commandRow"
where
  "finish_row now writeErr limit row =
     (case writeErr of
        Some e \<Rightarrow>
          (let (code, summary, recovery) = uploadFailureDiagnostic (Some e) limit in
           row\<lparr>updatedAt := now, state := CommandNeedsAttention, failureCode := code,
               failureSummary := summary, recoveryHint := recovery,
               lastError := summary @ '' No build ran; submit a new command with the source input.''\<rparr>)
      | None \<Rightarrow> row\<lparr>updatedAt := now, state := CommandQueued, lastError := ''''\<rparr>)"

definition artifact_finishTx ::
  "time \<Rightarrow> execution_error option \<Rightarrow> int \<Rightarrow> string \<Rightarrow> (commandRow option) qtx"
where
  "artifact_finishTx now writeErr limit cid s =
     (case lockRow cid s of
        None \<Rightarrow> Inr (None, s)
      | Some row \<Rightarrow>
          (let row' = finish_row now writeErr limit row in
           case updateTx row' s of Inl e \<Rightarrow> Inl e | Inr (_, s') \<Rightarrow> Inr (Some row', s')))"

text \<open>
  Its two halves as separate operations, since other operations run between them. The result
  of the second half is the submission together with the error returned beside it, if any.
\<close>

definition SubmitArtifact_begin ::
  "(string \<Rightarrow> string) \<Rightarrow> draw \<Rightarrow> SubmitInput \<Rightarrow> queue_store \<Rightarrow> (Submission + commandRow \<times> Submission) qop"
where
  "SubmitArtifact_begin sha d input s =
     (case d of (evs, rid, now) \<Rightarrow>
        (case WithTx evs (artifact_insertTx sha rid now input) s of
           (Inl e, s1) \<Rightarrow> (Inl e, s1)
         | (Inr (Inl sub), s1) \<Rightarrow> (Inr (Inl sub), s1)
         | (Inr (Inr (record, sub, artifacts)), s1) \<Rightarrow>
             (Inr (Inr (record, sub)), fold removeArtifact artifacts s1)))"

definition SubmitArtifact_finish ::
  "tx_event list \<Rightarrow> time \<Rightarrow> execution_error option \<Rightarrow> int \<Rightarrow> string \<Rightarrow> Command \<Rightarrow> Submission
   \<Rightarrow> queue_store \<Rightarrow> (Submission \<times> queue_error option) qop"
where
  "SubmitArtifact_finish evs now writeErr limit cid record sub s =
     (case WithTx evs (artifact_finishTx now writeErr limit cid) s of
        (Inl e, s1) \<Rightarrow> (Inl e, s1)
      | (Inr None, s1) \<Rightarrow>
          (Inr (sub\<lparr>subCommand := record\<rparr>, Some SupersededWhileStoring), removeArtifact cid s1)
      | (Inr (Some row), s1) \<Rightarrow>
          (case writeErr of
             Some e \<Rightarrow> (Inr (sub\<lparr>subCommand := public row\<rparr>, Some (StoreInputFailed e)), removeArtifact cid s1)
           | None \<Rightarrow> (Inr (sub\<lparr>subCommand := public row\<rparr>, None), s1)))"

definition SubmitArtifactWithResult ::
  "(string \<Rightarrow> string) \<Rightarrow> draw \<Rightarrow> disk_event \<Rightarrow> tx_event list \<Rightarrow> time \<Rightarrow> SubmitInput
   \<Rightarrow> (string \<times> read_end) list option \<Rightarrow> queue_store \<Rightarrow> (Submission \<times> queue_error option) qop"
where
  "SubmitArtifactWithResult sha d disk evs now input body s =
     (case validateInput input True of
        Some e \<Rightarrow> (Inl (Domain e), s)
      | None \<Rightarrow>
          (case body of
             None \<Rightarrow> (Inl (Domain ArtifactRequired), s)
           | Some reads \<Rightarrow>
               (case SubmitArtifact_begin sha d input s of
                  (Inl e, s1) \<Rightarrow> (Inl e, s1)
                | (Inr (Inl sub), s1) \<Rightarrow> (Inr (sub, None), s1)
                | (Inr (Inr (record, sub)), s1) \<Rightarrow>
                    (let (writeErr, s2) =
                           writeArtifact disk (commandID record) reads (inMaxArtifactBytes input) s1 in
                     SubmitArtifact_finish evs now writeErr (inMaxArtifactBytes input)
                       (commandID record) (public record) sub s2))))"

section \<open>Reads\<close>

text \<open>A query outside a transaction: the server answers it or it fails.\<close>

definition query :: "tx_event \<Rightarrow> ('s \<Rightarrow> 'e store_error + 'a) \<Rightarrow> 's \<Rightarrow> 'e store_error + 'a" where
  "query ev q s = fst (runTx ev (\<lambda>s. case q s of Inl e \<Rightarrow> Inl e | Inr a \<Rightarrow> Inr (a, s)) s)"

definition List_commands :: "tx_event \<Rightarrow> int \<Rightarrow> queue_store \<Rightarrow> queue_error store_error + Command list" where
  "List_commands ev limit s =
     (if limit < 1 then Inr []
      else query ev (\<lambda>s. Inr (map public (take (nat (min limit 500))
             (rev (sort_key (\<lambda>r. (updatedAt r, commandID r)) (commands s)))))) s)"

definition Get :: "tx_event \<Rightarrow> string \<Rightarrow> queue_store \<Rightarrow> queue_error store_error + Command" where
  "Get ev cid s =
     (if \<not> commandIDPattern (TrimSpace cid) then Inl (Domain CommandNotFound)
      else query ev (\<lambda>s. case lockRow cid s of
             None \<Rightarrow> Inl (Domain CommandNotFound) | Some row \<Rightarrow> Inr (public row)) s)"

definition Events :: "tx_event \<Rightarrow> tx_event \<Rightarrow> string \<Rightarrow> queue_store \<Rightarrow> queue_error store_error + CommandEvent list" where
  "Events ev1 ev2 cid s =
     (case Get ev1 cid s of
        Inl e \<Rightarrow> Inl e
      | Inr _ \<Rightarrow> query ev2 (\<lambda>s. Inr (sort_key eventSequence (events s cid))) s)"

definition Output :: "tx_event \<Rightarrow> string \<Rightarrow> queue_store \<Rightarrow> queue_error store_error + string" where
  "Output ev cid s =
     (if \<not> commandIDPattern (TrimSpace cid) then Inl (Domain OutputUnavailable)
      else query ev (\<lambda>s. case outputs s cid of
             None \<Rightarrow> Inl (Domain OutputUnavailable) | Some (log, _) \<Rightarrow> Inr log) s)"

text \<open>\<^verbatim>\<open>Artifact\<close> returns the opened plaintext of the input.\<close>

definition Artifact :: "tx_event \<Rightarrow> tx_event \<Rightarrow> string \<Rightarrow> queue_store \<Rightarrow> queue_error + string" where
  "Artifact ev1 ev2 cid s =
     (case Get ev1 cid s of
        Inl _ \<Rightarrow> Inl InputUnavailable
      | Inr command \<Rightarrow>
          (case query ev2 (\<lambda>s. case lockRow (commandID command) s of
                  None \<Rightarrow> Inl (Domain CommandNotFound) | Some row \<Rightarrow> Inr (artifact row)) s of
             Inr True \<Rightarrow>
               (case inputs s cid of
                  None \<Rightarrow> Inl InputUnavailable
                | Some IrregularFile \<Rightarrow> Inl InputNotProtected
                | Some (SealedFile content) \<Rightarrow> Inr content)
           | _ \<Rightarrow> Inl InputUnavailable))"

end
