(* ===== verification/Queue_Scheduler.thy ===== *)
theory Queue_Scheduler
  imports Queue_Ledger
begin

text \<open>
  The transitions of the command ledger (\<^verbatim>\<open>internal/queue/store.go\<close>): claiming, leasing,
  completing and failing commands, operator retries, the authority fence, crash recovery, lease
  expiry, and the progress trail and execution log of a command. Each is one transaction, or a
  sequence of them, on the state of \<open>Queue_Ledger\<close>.
\<close>

section \<open>Locking one row\<close>

definition transitionTx ::
  "tx_event list \<Rightarrow> string \<Rightarrow> (commandRow \<Rightarrow> 'a qtx) \<Rightarrow> queue_store \<Rightarrow> 'a qop"
where
  "transitionTx evs cid fn s =
     (if \<not> commandIDPattern (TrimSpace cid) then (Inl (Domain CommandNotFound), s)
      else WithTx evs (\<lambda>s. case lockRow cid s of
             None \<Rightarrow> Inl (Domain CommandNotFound) | Some row \<Rightarrow> fn row s) s)"

definition transition ::
  "tx_event list \<Rightarrow> string \<Rightarrow> (commandRow \<Rightarrow> queue_error + commandRow) \<Rightarrow> queue_store \<Rightarrow> Command qop"
where
  "transition evs cid fn s =
     transitionTx evs cid (\<lambda>row s.
       case fn row of
         Inl e \<Rightarrow> Inl (Domain e)
       | Inr row' \<Rightarrow>
           if row' = row then Inr (public row', s)
           else (case updateTx row' s of Inl e \<Rightarrow> Inl e | Inr (_, s') \<Rightarrow> Inr (public row', s'))) s"

section \<open>Claiming and leasing\<close>

definition due :: "time \<Rightarrow> commandRow \<Rightarrow> bool" where
  "due now r \<longleftrightarrow> oneOfCommandState (state r) [CommandQueued, CommandRetryScheduled] \<and>
     (case nextAttemptAt r of None \<Rightarrow> True | Some t \<Rightarrow> t \<le> now)"

text \<open>The oldest due row that no other transaction holds (\<open>skip\<close>).\<close>

definition oldest_due :: "(commandRow \<Rightarrow> bool) \<Rightarrow> time \<Rightarrow> string list \<Rightarrow> queue_store \<Rightarrow> commandRow option" where
  "oldest_due P now skip s =
     row_first (\<lambda>r. (createdAt r, seq r))
       (filter (\<lambda>r. P r \<and> due now r \<and> \<not> List.member skip (commandID r)) (commands s))"

definition clear_events :: "string \<Rightarrow> queue_store \<Rightarrow> queue_store" where
  "clear_events cid s = s\<lparr>events := (events s)(cid := [])\<rparr>"

definition claim_row :: "time \<Rightarrow> commandRow \<Rightarrow> commandRow" where
  "claim_row now row =
     row\<lparr>attempt := attempt row + 1, lastAttemptAt := Some now, nextAttemptAt := None,
         state := CommandRunning, updatedAt := now\<rparr>"

definition claimTx :: "time \<Rightarrow> string list \<Rightarrow> (Record option) qtx" where
  "claimTx now skip s =
     (if list_ex (\<lambda>r. state r = CommandRunning) (commands s) then Inr (None, s)
      else (case oldest_due (\<lambda>_. True) now skip s of
              None \<Rightarrow> Inr (None, s)
            | Some row \<Rightarrow>
                (let row' = claim_row now row in
                 case updateTx row' (clear_events (commandID row) s) of
                   Inl e \<Rightarrow> Inl e
                 | Inr (_, s') \<Rightarrow>
                     Inr (Some \<lparr>recArtifact = artifact row', recCommand = public row',
                                recPayload = payloads s' (commandID row)\<rparr>, s'))))"

definition ClaimDue :: "tx_event list \<Rightarrow> time \<Rightarrow> string list \<Rightarrow> queue_store \<Rightarrow> (Record option) qop" where
  "ClaimDue evs now skip s = WithTx evs (claimTx now skip) s"

abbreviation in_flight :: "CommandState list" where
  "in_flight \<equiv> [CommandLeased, CommandPreparing, CommandRunning]"

definition expire_row :: "time \<Rightarrow> commandRow \<Rightarrow> commandRow" where
  "expire_row now row =
     (let row = row\<lparr>leaseID := '''', leaseExpiresAt := None, updatedAt := now\<rparr> in
      if autoRetry row \<and> attempt row < maxAttempts row then
        row\<lparr>nextAttemptAt := Some (now + backoff (attempt row)), state := CommandRetryScheduled,
            lastError := ''Agent lease expired; retry scheduled with backoff.''\<rparr>
      else
        row\<lparr>nextAttemptAt := None, state := CommandNeedsAttention,
            lastError := ''Agent lease expired with an uncertain remote outcome; reconcile the target before retrying.''\<rparr>)"

definition lapsed :: "time \<Rightarrow> commandRow \<Rightarrow> bool" where
  "lapsed now r \<longleftrightarrow> oneOfCommandState (state r) in_flight \<and>
     (case leaseExpiresAt r of None \<Rightarrow> False | Some t \<Rightarrow> t \<le> now)"

definition expireLeases :: "tx_event list \<Rightarrow> time \<Rightarrow> string list \<Rightarrow> queue_store \<Rightarrow> unit qop" where
  "expireLeases evs now skip s =
     WithTx evs (\<lambda>s. update_all (map (expire_row now)
       (lockRows (\<lambda>r. lapsed now r \<and> \<not> List.member skip (commandID r)) s)) s) s"

definition lease_row :: "nat \<Rightarrow> duration \<Rightarrow> string \<Rightarrow> time \<Rightarrow> commandRow \<Rightarrow> commandRow" where
  "lease_row epoch ttl lid now row =
     row\<lparr>attempt := attempt row + 1, authorityEpoch := epoch, lastAttemptAt := Some now,
         leaseExpiresAt := Some (now + ttl), nextAttemptAt := None, state := CommandLeased,
         updatedAt := now, leaseID := lid\<rparr>"

definition leaseTx ::
  "string \<Rightarrow> nat \<Rightarrow> duration \<Rightarrow> string \<Rightarrow> time \<Rightarrow> string list \<Rightarrow> (Lease option) qtx"
where
  "leaseTx server epoch ttl lid now skip s =
     (if list_ex (\<lambda>r. serverID r = server \<and> oneOfCommandState (state r) in_flight) (commands s)
      then Inr (None, s)
      else (case oldest_due (\<lambda>r. serverID r = server) now skip s of
              None \<Rightarrow> Inr (None, s)
            | Some row \<Rightarrow>
                (let row' = lease_row epoch ttl lid now row in
                 case updateTx row' (clear_events (commandID row) s) of
                   Inl e \<Rightarrow> Inl e
                 | Inr (_, s') \<Rightarrow>
                     Inr (Some \<lparr>leaseToken = lid, leaseRecord =
                            \<lparr>recArtifact = artifact row', recCommand = public row',
                             recPayload = payloads s' (commandID row)\<rparr>\<rparr>, s'))))"

definition invalid_ttl :: "duration \<Rightarrow> bool" where
  "invalid_ttl ttl \<longleftrightarrow> ttl < 5 * Second \<or> ttl > 5 * Minute"

definition LeaseDue ::
  "tx_event list \<Rightarrow> time \<Rightarrow> string list \<Rightarrow> string option \<Rightarrow> tx_event list \<Rightarrow> time \<Rightarrow> string list
   \<Rightarrow> string \<Rightarrow> nat \<Rightarrow> duration \<Rightarrow> queue_store \<Rightarrow> (Lease option) qop"
where
  "LeaseDue evs1 now1 skip1 rlid evs2 now2 skip2 server epoch ttl s =
     (let server = TrimSpace server in
      if server = '''' \<or> epoch = 0 then (Inl (Domain LeaseIdentityInvalid), s)
      else if invalid_ttl ttl then (Inl (Domain LeaseDurationInvalid), s)
      else (case expireLeases evs1 now1 skip1 s of
              (Inl e, s1) \<Rightarrow> (Inl e, s1)
            | (Inr _, s1) \<Rightarrow>
                (case newLeaseID rlid of
                   Inl e \<Rightarrow> (Inl (Domain e), s1)
                 | Inr lid \<Rightarrow> WithTx evs2 (leaseTx server epoch ttl lid now2 skip2) s1)))"

definition holds_lease :: "string \<Rightarrow> commandRow \<Rightarrow> bool" where
  "holds_lease lid row \<longleftrightarrow>
     \<not> (leaseID row = '''' \<or> subtleStringMismatch (leaseID row) lid \<or>
        \<not> oneOfCommandState (state row) in_flight)"

definition AdvanceLease ::
  "tx_event list \<Rightarrow> time \<Rightarrow> string \<Rightarrow> string \<Rightarrow> CommandState \<Rightarrow> queue_store \<Rightarrow> Command qop"
where
  "AdvanceLease evs now cid lid st s =
     (if \<not> oneOfCommandState st [CommandPreparing, CommandRunning]
      then (Inl (Domain InvalidLeaseState), s)
      else transition evs cid (\<lambda>row.
        if leaseID row = '''' \<or> subtleStringMismatch (leaseID row) lid then Inl LeaseInvalid
        else if st = CommandPreparing \<and> state row \<noteq> CommandLeased then Inl NotLeased
        else if st = CommandRunning \<and> \<not> oneOfCommandState (state row) [CommandLeased, CommandPreparing]
        then Inl NotPreparing
        else Inr (row\<lparr>state := st, updatedAt := now\<rparr>)) s)"

definition RenewLease ::
  "tx_event list \<Rightarrow> time \<Rightarrow> string \<Rightarrow> string \<Rightarrow> duration \<Rightarrow> queue_store \<Rightarrow> Command qop"
where
  "RenewLease evs now cid lid ttl s =
     (if invalid_ttl ttl then (Inl (Domain LeaseDurationInvalid), s)
      else transition evs cid (\<lambda>row.
        if \<not> holds_lease lid row then Inl LeaseInvalid
        else Inr (row\<lparr>leaseExpiresAt := Some (now + ttl)\<rparr>)) s)"

section \<open>Outcomes\<close>

definition succeed_row :: "time \<Rightarrow> commandRow \<Rightarrow> commandRow" where
  "succeed_row now row =
     (clearCommandFailureDiagnostic row)\<lparr>lastError := '''', leaseExpiresAt := None,
       nextAttemptAt := None, state := CommandSucceeded, updatedAt := now, leaseID := '''',
       payloadDigest := '''', artifact := False\<rparr>"

definition succeedTx ::
  "time \<Rightarrow> (commandRow \<Rightarrow> queue_error option) \<Rightarrow> commandRow \<Rightarrow> (Command \<times> bool \<times> string list) qtx"
where
  "succeedTx now check row s =
     (case check row of
        Some e \<Rightarrow> Inl (Domain e)
      | None \<Rightarrow>
          (let row' = succeed_row now row;
               s1 = s\<lparr>payloads := (payloads s)(commandID row := None)\<rparr> in
           case updateTx row' s1 of
             Inl e \<Rightarrow> Inl e
           | Inr (_, s2) \<Rightarrow>
               (let (pruned, s3) = pruneTx s2 in Inr ((public row', artifact row, pruned), s3))))"

definition succeed ::
  "tx_event list \<Rightarrow> time \<Rightarrow> string \<Rightarrow> (commandRow \<Rightarrow> queue_error option) \<Rightarrow> queue_store \<Rightarrow> Command qop"
where
  "succeed evs now cid check s =
     (case transitionTx evs cid (succeedTx now check) s of
        (Inl e, s1) \<Rightarrow> (Inl e, s1)
      | (Inr (command, art, pruned), s1) \<Rightarrow>
          (Inr command, fold removeArtifact pruned (if art then removeArtifact cid s1 else s1)))"

definition check_running :: "commandRow \<Rightarrow> queue_error option" where
  "check_running row = (if state row \<noteq> CommandRunning then Some NotRunning else None)"

definition check_lease :: "string \<Rightarrow> commandRow \<Rightarrow> queue_error option" where
  "check_lease lid row = (if holds_lease lid row then None else Some LeaseInvalid)"

definition Complete :: "tx_event list \<Rightarrow> time \<Rightarrow> string \<Rightarrow> queue_store \<Rightarrow> Command qop" where
  "Complete evs now cid s = succeed evs now cid check_running s"

definition CompleteLease :: "tx_event list \<Rightarrow> time \<Rightarrow> string \<Rightarrow> string \<Rightarrow> queue_store \<Rightarrow> Command qop" where
  "CompleteLease evs now cid lid s = succeed evs now cid (check_lease lid) s"

definition retries :: "execution_error option \<Rightarrow> commandRow \<Rightarrow> bool" where
  "retries err row \<longleftrightarrow> autoRetry row \<and> \<not> isPermanent err \<and> attempt row < maxAttempts row"

definition fail_row :: "time \<Rightarrow> execution_error option \<Rightarrow> commandRow \<Rightarrow> commandRow" where
  "fail_row now err row =
     (let scheduled =
            (if retries err row
             then row\<lparr>nextAttemptAt := Some (now + backoff (attempt row)), state := CommandRetryScheduled\<rparr>
             else row\<lparr>nextAttemptAt := None, state := CommandNeedsAttention\<rparr>);
          diagnosed = setCommandFailureDiagnostic err scheduled in
      diagnosed\<lparr>lastError := failureNarrative diagnosed, leaseExpiresAt := None, updatedAt := now,
                leaseID := ''''\<rparr>)"

definition failTx ::
  "time \<Rightarrow> execution_error option \<Rightarrow> bool \<Rightarrow> (commandRow \<Rightarrow> queue_error option) \<Rightarrow> commandRow
   \<Rightarrow> (Command \<times> string \<times> string list) qtx"
where
  "failTx now err prune check row s =
     (case check row of
        Some e \<Rightarrow> Inl (Domain e)
      | None \<Rightarrow>
          (let row' = fail_row now err row;
               event = (if retries err row then ''retry_scheduled'' else ''needs_attention'') in
           case updateTx row' s of
             Inl e \<Rightarrow> Inl e
           | Inr (_, s1) \<Rightarrow>
               (let (pruned, s2) = (if prune then pruneTx s1 else ([], s1)) in
                Inr ((public row', event, pruned), s2))))"

definition fail ::
  "tx_event list \<Rightarrow> time \<Rightarrow> string \<Rightarrow> execution_error option \<Rightarrow> bool
   \<Rightarrow> (commandRow \<Rightarrow> queue_error option) \<Rightarrow> queue_store \<Rightarrow> (Command \<times> string) qop"
where
  "fail evs now cid err prune check s =
     (case transitionTx evs cid (failTx now err prune check) s of
        (Inl e, s1) \<Rightarrow> (Inl e, s1)
      | (Inr (command, event, pruned), s1) \<Rightarrow> (Inr (command, event), fold removeArtifact pruned s1))"

definition Fail :: "tx_event list \<Rightarrow> time \<Rightarrow> string \<Rightarrow> execution_error option \<Rightarrow> queue_store \<Rightarrow> (Command \<times> string) qop"
where
  "Fail evs now cid err s = fail evs now cid err True check_running s"

definition FailLease ::
  "tx_event list \<Rightarrow> time \<Rightarrow> string \<Rightarrow> string \<Rightarrow> execution_error option \<Rightarrow> queue_store \<Rightarrow> (Command \<times> string) qop"
where
  "FailLease evs now cid lid err s = fail evs now cid err False (check_lease lid) s"

section \<open>Operator retry, the authority fence and recovery\<close>

definition retry_row :: "time \<Rightarrow> nat \<Rightarrow> commandRow \<Rightarrow> commandRow" where
  "retry_row now epoch row =
     (clearCommandFailureDiagnostic row)\<lparr>attempt := 0, authorityEpoch := epoch, lastError := '''',
       lastAttemptAt := None, nextAttemptAt := Some now, state := CommandQueued, updatedAt := now\<rparr>"

definition retry_fn :: "time \<Rightarrow> nat \<Rightarrow> queue_store \<Rightarrow> commandRow \<Rightarrow> queue_error + commandRow" where
  "retry_fn now epoch s row =
     (if state row \<noteq> CommandNeedsAttention then Inl NotReadyForRetry
      else if epoch = 0 \<or> epoch < authorityEpoch row then Inl StaleEpoch
      else if artifact row then
        (case protectedArtifactFile (commandID row) s of
           Inl e \<Rightarrow> Inl e
         | Inr stored \<Rightarrow> if \<not> stored then Inl InputNeverStored else Inr (retry_row now epoch row))
      else Inr (retry_row now epoch row))"

definition RetryNow :: "tx_event list \<Rightarrow> time \<Rightarrow> string \<Rightarrow> nat \<Rightarrow> queue_store \<Rightarrow> Command qop" where
  "RetryNow evs now cid epoch s = transition evs cid (retry_fn now epoch s) s"

definition fence_row :: "time \<Rightarrow> commandRow \<Rightarrow> commandRow" where
  "fence_row now r =
     r\<lparr>state := CommandNeedsAttention,
       lastError := ''Core authority changed before this command reached a confirmed terminal state. Review and retry it explicitly.'',
       leaseExpiresAt := None, nextAttemptAt := None, updatedAt := now\<rparr>"

definition FenceAuthority :: "tx_event \<Rightarrow> time \<Rightarrow> nat \<Rightarrow> queue_store \<Rightarrow> unit qop" where
  "FenceAuthority ev now newEpoch s =
     (if newEpoch = 0 then (Inl (Domain EpochRequired), s)
      else runTx ev (\<lambda>s. Inr ((), s\<lparr>commands := map (\<lambda>r.
             if authorityEpoch r < newEpoch \<and> \<not> terminalCommandState (state r) then fence_row now r
             else r) (commands s)\<rparr>)) s)"

definition restarted :: string where
  "restarted = ''Core restarted while the command lease was in flight; the agent result must be reconciled before retrying.''"

definition recover_row :: "time \<Rightarrow> commandRow \<Rightarrow> commandRow" where
  "recover_row now row =
     (setCommandFailureDiagnostic (Some (plain_error restarted))
        (row\<lparr>state := CommandNeedsAttention, lastError := restarted\<rparr>))
       \<lparr>leaseExpiresAt := None, leaseID := '''', nextAttemptAt := None, updatedAt := now\<rparr>"

definition recover_upload :: "time \<Rightarrow> queue_store \<Rightarrow> commandRow \<Rightarrow> commandRow" where
  "recover_upload now s row =
     (if protectedArtifactFile (commandID row) s = Inr True
      then row\<lparr>state := CommandQueued, lastError := '''', updatedAt := now\<rparr>
      else row\<lparr>lastError := ''Command input upload did not complete. Submit a new command with the source input.'',
               updatedAt := now\<rparr>)"

definition recoverTx :: "time \<Rightarrow> unit qtx" where
  "recoverTx now s =
     (case update_all (map (recover_row now)
             (lockRows (\<lambda>r. oneOfCommandState (state r) in_flight) s)) s of
        Inl e \<Rightarrow> Inl e
      | Inr (_, s1) \<Rightarrow>
          update_all (map (recover_upload now s1)
            (lockRows (\<lambda>r. state r = CommandNeedsAttention \<and> artifact r \<and> lastError r = being_stored) s1)) s1)"

definition Recover :: "tx_event list \<Rightarrow> time \<Rightarrow> queue_store \<Rightarrow> unit qop" where
  "Recover evs now s = WithTx evs (recoverTx now) s"

section \<open>Progress trail and execution log\<close>

definition bounded_evidence :: "string \<Rightarrow> string" where
  "bounded_evidence ev =
     (let t = TrimSpace ev in
      if RuneCount t > maxEvidenceRunes then take_runes maxEvidenceRunes t @ ellipsis else t)"

definition AppendEvent ::
  "tx_event list \<Rightarrow> time \<Rightarrow> string \<Rightarrow> CommandState \<Rightarrow> string \<Rightarrow> queue_store \<Rightarrow> unit qop"
where
  "AppendEvent evs now cid st ev s =
     transitionTx evs cid (\<lambda>row s.
       let trail = events s (commandID row); count = length trail in
       if count \<ge> MaxCommandEvents then Inr ((), s)
       else Inr ((), s\<lparr>events := (events s)(commandID row := trail @
              [\<lparr>eventSequence = count + 1, eventState = st, evidence = bounded_evidence ev,
                occurredAt = now\<rparr>])\<rparr>)) s"

definition truncated_log :: "string \<Rightarrow> string" where
  "truncated_log log =
     (if length log > MaxOutputBytes then
        (let head = MaxOutputBytes div 4; tail = MaxOutputBytes - head in
         take head log @ [CHR 0x0A] @ ellipsis @ '' (truncated) '' @ ellipsis @ [CHR 0x0A] @
         drop (length log - tail) log)
      else log)"

definition RetainOutput :: "tx_event list \<Rightarrow> time \<Rightarrow> string \<Rightarrow> string \<Rightarrow> queue_store \<Rightarrow> unit qop" where
  "RetainOutput evs now cid log s =
     (if TrimSpace log = '''' then (Inr (), s)
      else transitionTx evs cid (\<lambda>row s.
        Inr ((), s\<lparr>outputs := (outputs s)(commandID row \<mapsto> (truncated_log log, now))\<rparr>)) s)"

end
