(* ===== verification/Queue_Invariant.thy ===== *)
theory Queue_Invariant
  imports Queue_Scheduler
begin

text \<open>
  The ledger as a state machine whose steps are the operations of \<open>Queue_Ledger\<close> and
  \<open>Queue_Scheduler\<close> in any order, with any faults; the well-formedness invariants of its
  tables; \<open>row_contract\<close> of \<open>Queue_Wf\<close> reduces an invariant of every row to the
  row functions of the operations.
\<close>

section \<open>The state machine\<close>

datatype queue_op =
    OpSubmit draw draw SubmitInput
  | OpArtifactBegin draw SubmitInput
  | OpArtifactWrite disk_event string "(string \<times> read_end) list" int
  | OpArtifactFinish "tx_event list" time "execution_error option" int string Command Submission
  | OpForget "string list"
  | OpClaim "tx_event list" time "string list"
  | OpLease "tx_event list" time "string list" "string option" "tx_event list" time "string list" string nat duration
  | OpAdvance "tx_event list" time string string CommandState
  | OpRenew "tx_event list" time string string duration
  | OpComplete "tx_event list" time string
  | OpCompleteLease "tx_event list" time string string
  | OpFail "tx_event list" time string "execution_error option"
  | OpFailLease "tx_event list" time string string "execution_error option"
  | OpRetryNow "tx_event list" time string nat
  | OpFence tx_event time nat
  | OpRecover "tx_event list" time
  | OpAppendEvent "tx_event list" time string CommandState string
  | OpRetainOutput "tx_event list" time string string

text \<open>\<^verbatim>\<open>SubmitArtifactWithResult\<close> is the sequence of its begin, write and finish steps, between
  which other operations may run; the begin step validates first, as the method does.\<close>

primrec queue_exec :: "(string \<Rightarrow> string) \<Rightarrow> queue_op \<Rightarrow> queue_store \<Rightarrow> queue_store" where
  "queue_exec sha (OpSubmit d1 d2 input) s = snd (SubmitWithResult sha d1 d2 input s)"
| "queue_exec sha (OpArtifactBegin d input) s =
     (if validateInput input True = None then snd (SubmitArtifact_begin sha d input s) else s)"
| "queue_exec sha (OpArtifactWrite disk cid body limit) s = snd (writeArtifact disk cid body limit s)"
| "queue_exec sha (OpArtifactFinish evs now err limit cid record sub) s =
     snd (SubmitArtifact_finish evs now err limit cid record sub s)"
| "queue_exec sha (OpForget ids) s = ForgetInputs ids s"
| "queue_exec sha (OpClaim evs now skip) s = snd (ClaimDue evs now skip s)"
| "queue_exec sha (OpLease evs1 now1 skip1 rlid evs2 now2 skip2 server epoch ttl) s =
     snd (LeaseDue evs1 now1 skip1 rlid evs2 now2 skip2 server epoch ttl s)"
| "queue_exec sha (OpAdvance evs now cid lid st) s = snd (AdvanceLease evs now cid lid st s)"
| "queue_exec sha (OpRenew evs now cid lid ttl) s = snd (RenewLease evs now cid lid ttl s)"
| "queue_exec sha (OpComplete evs now cid) s = snd (Complete evs now cid s)"
| "queue_exec sha (OpCompleteLease evs now cid lid) s = snd (CompleteLease evs now cid lid s)"
| "queue_exec sha (OpFail evs now cid err) s = snd (Fail evs now cid err s)"
| "queue_exec sha (OpFailLease evs now cid lid err) s = snd (FailLease evs now cid lid err s)"
| "queue_exec sha (OpRetryNow evs now cid epoch) s = snd (RetryNow evs now cid epoch s)"
| "queue_exec sha (OpFence ev now epoch) s = snd (FenceAuthority ev now epoch s)"
| "queue_exec sha (OpRecover evs now) s = snd (Recover evs now s)"
| "queue_exec sha (OpAppendEvent evs now cid st ev) s = snd (AppendEvent evs now cid st ev s)"
| "queue_exec sha (OpRetainOutput evs now cid log) s = snd (RetainOutput evs now cid log s)"

definition empty_store :: "nat \<Rightarrow> queue_store" where
  "empty_store limit =
     \<lparr>commands = [], payloads = (\<lambda>_. None), events = (\<lambda>_. []), outputs = (\<lambda>_. None),
      nextSeq = 1, historyLimit = limit, inputs = (\<lambda>_. None)\<rparr>"

section \<open>Keys\<close>

text \<open>The primary key, the unique keys and the insertion order of the commands table.\<close>

definition keys_wf :: "queue_store \<Rightarrow> bool" where
  "keys_wf s \<longleftrightarrow>
     distinct (map commandID (commands s)) \<and>
     distinct (map (\<lambda>r. (actor r, idempotencyKey r)) (commands s)) \<and>
     sorted_wrt (<) (map seq (commands s)) \<and>
     (\<forall>r\<in>set (commands s). seq r < nextSeq s)"

named_theorems row_defs \<open>the row functions of the operations\<close>
declare claim_row_def [row_defs] lease_row_def [row_defs] expire_row_def [row_defs]
  succeed_row_def [row_defs] fail_row_def [row_defs] retry_row_def [row_defs]
  fence_row_def [row_defs] recover_row_def [row_defs] recover_upload_def [row_defs]
  finish_row_def [row_defs] clearCommandFailureDiagnostic_def [row_defs]
  setCommandFailureDiagnostic_def [row_defs]

text \<open>A row function only touches columns that the UPDATE statement writes.\<close>

definition keeps :: "commandRow \<Rightarrow> commandRow \<Rightarrow> bool" where
  "keeps r r' \<longleftrightarrow> commandID r' = commandID r \<and> write_columns r' r = r'"

lemma keeps_rows [simp]:
  "keeps r (claim_row now r)" "keeps r (lease_row epoch ttl lid now r)" "keeps r (expire_row now r)"
  "keeps r (succeed_row now r)" "keeps r (fail_row now err r)" "keeps r (retry_row now epoch r)"
  "keeps r (recover_row now r)" "keeps r (recover_upload now s r)"
  "keeps r (finish_row now werr limit r)" "keeps r (fence_row now r)"
  "keeps r (r\<lparr>state := st, updatedAt := now\<rparr>)" "keeps r (r\<lparr>leaseExpiresAt := le\<rparr>)"
  by (auto simp: keeps_def write_columns_def row_defs Let_def split: prod.splits option.splits)

lemma keeps_refl [simp]: "keeps r r"
  by (simp add: keeps_def write_columns_def)

lemma write_columns_keys [simp]:
  "commandID (write_columns r' r) = commandID r" "actor (write_columns r' r) = actor r"
  "idempotencyKey (write_columns r' r) = idempotencyKey r" "seq (write_columns r' r) = seq r"
  by (simp_all add: write_columns_def)

lemma keeps_columns:
  assumes "keeps r r'"
  shows "commandID r' = commandID r" "actor r' = actor r" "idempotencyKey r' = idempotencyKey r"
    "seq r' = seq r"
  using assms by (metis keeps_def write_columns_keys)+

section \<open>What the statements do to the tables\<close>

lemma updateTx_frame:
  assumes "updateTx r s = Inr (u, s')"
  shows "payloads s' = payloads s" "events s' = events s" "outputs s' = outputs s"
    "nextSeq s' = nextSeq s" "historyLimit s' = historyLimit s" "inputs s' = inputs s"
    "commands s' = row_update commandID (commandID r) (write_columns r) (commands s)"
    "update_fits r" "1 \<le> authorityEpoch r"
  using assms by (auto simp: updateTx_def split: if_splits)

lemma row_update_columns [simp]:
  "map commandID (row_update commandID k (write_columns r) rs) = map commandID rs"
  "map (\<lambda>r. (actor r, idempotencyKey r)) (row_update commandID k (write_columns r) rs) =
     map (\<lambda>r. (actor r, idempotencyKey r)) rs"
  "map seq (row_update commandID k (write_columns r) rs) = map seq rs"
  by (simp_all add: row_update_keys)

lemma row_update_single:
  assumes "distinct (map commandID rs)" and "r \<in> set rs" and "keeps r r'"
  shows "row_update commandID (commandID r') (write_columns r') rs =
    map (\<lambda>x. if x = r then r' else x) rs"
  unfolding row_update_def
proof (rule map_cong [OF refl])
  fix x assume "x \<in> set rs"
  with assms have "commandID x = commandID r' \<longleftrightarrow> x = r"
    by (metis inj_on_eq_iff distinct_map keeps_def)
  with assms show "(if commandID x = commandID r' then write_columns r' x else x) = (if x = r then r' else x)"
    by (simp add: keeps_def)
qed

lemma updateTx_commands:
  assumes "keys_wf s" "r \<in> set (commands s)" "keeps r r'" "updateTx r' s = Inr (u, s')"
  shows "commands s' = map (\<lambda>x. if x = r then r' else x) (commands s)"
  using assms row_update_single [of "commands s" r r'] by (simp add: updateTx_frame(7) keys_wf_def)

lemma keys_wf_map:
  assumes "keys_wf s" and "\<And>r. r \<in> set (commands s) \<Longrightarrow> keeps r (f r)"
    and "commands s' = map f (commands s)" and "nextSeq s' = nextSeq s"
  shows "keys_wf s'"
proof -
  have "map commandID (map f (commands s)) = map commandID (commands s)"
    "map (\<lambda>r. (actor r, idempotencyKey r)) (map f (commands s)) = map (\<lambda>r. (actor r, idempotencyKey r)) (commands s)"
    "map seq (map f (commands s)) = map seq (commands s)"
    using assms(2) by (auto simp: keeps_columns)
  moreover have "\<forall>r\<in>set (commands s'). seq r < nextSeq s'"
    using assms by (auto simp: keys_wf_def keeps_columns(4) [OF assms(2)])
  ultimately show ?thesis using assms by (simp add: keys_wf_def del: map_map)
qed

section \<open>The abstract ledger\<close>

text \<open>
  The lifecycle of one row: every change an operation may make to it. \<open>F\<close> says on which rows
  the second transaction of an artifact submission may land.
\<close>

inductive row_step :: "(commandRow \<Rightarrow> bool) \<Rightarrow> commandRow \<Rightarrow> commandRow \<Rightarrow> bool"
  for F :: "commandRow \<Rightarrow> bool"
where
  claimed: "due now r \<Longrightarrow> row_step F r (claim_row now r)"
| leased: "due now r \<Longrightarrow> 1 \<le> epoch \<Longrightarrow> lid \<noteq> '''' \<Longrightarrow> row_step F r (lease_row epoch ttl lid now r)"
| expired: "lapsed now r \<Longrightarrow> row_step F r (expire_row now r)"
| advanced: "leaseID r \<noteq> '''' \<Longrightarrow> state r = CommandLeased \<or> state r = CommandPreparing \<and> st = CommandRunning \<Longrightarrow>
    st = CommandPreparing \<or> st = CommandRunning \<Longrightarrow> row_step F r (r\<lparr>state := st, updatedAt := now\<rparr>)"
| renewed: "leaseID r \<noteq> '''' \<Longrightarrow> oneOfCommandState (state r) in_flight \<Longrightarrow>
    row_step F r (r\<lparr>leaseExpiresAt := Some t\<rparr>)"
| succeeded: "oneOfCommandState (state r) in_flight \<Longrightarrow> row_step F r (succeed_row now r)"
| failed: "oneOfCommandState (state r) in_flight \<Longrightarrow> row_step F r (fail_row now err r)"
| retried: "state r = CommandNeedsAttention \<Longrightarrow> 1 \<le> epoch \<Longrightarrow> authorityEpoch r \<le> epoch \<Longrightarrow>
    row_step F r (retry_row now epoch r)"
| fenced: "\<not> terminalCommandState (state r) \<Longrightarrow> row_step F r (fence_row now r)"
| recovered: "oneOfCommandState (state r) in_flight \<Longrightarrow> row_step F r (recover_row now r)"
| upload_recovered: "state r = CommandNeedsAttention \<Longrightarrow> artifact r \<Longrightarrow> lastError r = being_stored \<Longrightarrow>
    row_step F r (recover_upload now s r)"
| finished: "F r \<Longrightarrow> row_step F r (finish_row now werr limit r)"

definition inserted_row :: "bool \<Rightarrow> commandRow \<Rightarrow> commandRow" where
  "inserted_row art r = (if art then r\<lparr>state := CommandNeedsAttention, lastError := being_stored\<rparr> else r)"

text \<open>The steps of the whole ledger, without faults, schedules or clocks.\<close>

inductive ledger_step :: "(commandRow \<Rightarrow> bool) \<Rightarrow> (string \<Rightarrow> string) \<Rightarrow> queue_store \<Rightarrow> queue_store \<Rightarrow> bool"
  for F :: "commandRow \<Rightarrow> bool" and sha :: "string \<Rightarrow> string"
where
  Touch: "commands s' = map f (commands s) \<Longrightarrow>
    (\<And>r. r \<in> set (commands s) \<Longrightarrow> f r = r \<or> row_step F r (f r) \<and> state (f r) \<noteq> CommandSucceeded \<and>
       (update_fits r \<longrightarrow> update_fits (f r))) \<Longrightarrow>
    (\<And>cid. events s' cid = events s cid \<or> events s' cid = []) \<Longrightarrow> payloads s' = payloads s \<Longrightarrow>
    outputs s' = outputs s \<Longrightarrow> nextSeq s' = nextSeq s \<Longrightarrow> historyLimit s' = historyLimit s \<Longrightarrow>
    ledger_step F sha s s'"
| Succeed: "r \<in> set (commands s) \<Longrightarrow> oneOfCommandState (state r) in_flight \<Longrightarrow>
    s1 = s\<lparr>commands := map (\<lambda>x. if x = r then succeed_row now r else x) (commands s),
           payloads := (payloads s)(commandID r := None)\<rparr> \<Longrightarrow>
    ledger_step F sha s (snd (pruneTx s1))"
| Insert: "validateInput input art = None \<Longrightarrow> length bytes = 16 \<Longrightarrow>
    newRecord sha (Some bytes) now input art = Inr r \<Longrightarrow>
    insertTx (inserted_row art r) (inPayload input) s = Inr (u, s') \<Longrightarrow> ledger_step F sha s s'"
| Remove: "r \<in> set (commands s) \<Longrightarrow> supersedable r \<Longrightarrow> ledger_step F sha s (delete_command (commandID r) s)"
| Prune: "ledger_step F sha s (snd (pruneTx s))"
| Trail: "r \<in> set (commands s) \<Longrightarrow> length (events s (commandID r)) < MaxCommandEvents \<Longrightarrow>
    ledger_step F sha s (s\<lparr>events := (events s)(commandID r := events s (commandID r) @
      [\<lparr>eventSequence = length (events s (commandID r)) + 1, eventState = st,
        evidence = bounded_evidence ev, occurredAt = now\<rparr>])\<rparr>)"
| Log: "r \<in> set (commands s) \<Longrightarrow> ledger_step F sha s
    (s\<lparr>outputs := (outputs s)(commandID r \<mapsto> (truncated_log log, now))\<rparr>)"
| Files: "ledger_step F sha s (s\<lparr>inputs := files\<rparr>)"

abbreviation ledger_steps ::
  "(commandRow \<Rightarrow> bool) \<Rightarrow> (string \<Rightarrow> string) \<Rightarrow> queue_store \<Rightarrow> queue_store \<Rightarrow> bool"
where "ledger_steps F sha \<equiv> (ledger_step F sha)\<^sup>*\<^sup>*"

lemma row_step_keeps: "row_step F r r' \<Longrightarrow> keeps r r'"
  by (induction rule: row_step.induct) simp_all

section \<open>Keys are preserved\<close>

lemma delete_frame [simp]:
  "nextSeq (delete_command cid s) = nextSeq s" "historyLimit (delete_command cid s) = historyLimit s"
  "commands (delete_command cid s) = row_delete commandID cid (commands s)"
  "payloads (delete_command cid s) = (payloads s)(cid := None)"
  "events (delete_command cid s) = (events s)(cid := [])"
  "outputs (delete_command cid s) = (outputs s)(cid := None)"
  "inputs (delete_command cid s) = inputs s"
  by (simp_all add: delete_command_def)

lemma keys_wf_delete [intro]: "keys_wf s \<Longrightarrow> keys_wf (delete_command cid s)"
  by (auto simp: keys_wf_def row_delete_def distinct_map_filter
      sorted_wrt_map sorted_wrt_filter)

lemma delete_all_commands:
  "commands (fold delete_command ids s) = filter (\<lambda>r. commandID r \<notin> set ids) (commands s)"
  by (induction ids arbitrary: s) (auto simp: row_delete_def intro!: filter_cong)

lemma delete_all_frame:
  "nextSeq (fold delete_command ids s) = nextSeq s"
  "historyLimit (fold delete_command ids s) = historyLimit s"
  "inputs (fold delete_command ids s) = inputs s"
  "payloads (fold delete_command ids s) cid = (if cid \<in> set ids then None else payloads s cid)"
  "events (fold delete_command ids s) cid = (if cid \<in> set ids then [] else events s cid)"
  "outputs (fold delete_command ids s) cid = (if cid \<in> set ids then None else outputs s cid)"
  by (induction ids arbitrary: s) auto

lemma keys_wf_delete_all: "keys_wf s \<Longrightarrow> keys_wf (fold delete_command ids s)"
  by (induction ids arbitrary: s) auto

definition pruned_ids :: "queue_store \<Rightarrow> string list" where
  "pruned_ids s = fst (pruneTx s)"

lemma pruneTx_state: "snd (pruneTx s) = fold delete_command (pruned_ids s) s"
  by (simp add: pruneTx_def pruned_ids_def Let_def)

lemma keys_wf_prune [intro]: "keys_wf s \<Longrightarrow> keys_wf (snd (pruneTx s))"
  by (simp add: pruneTx_state keys_wf_delete_all)

lemma insertTx_frame:
  assumes "insertTx r p s = Inr (u, s')"
  shows "commands s' = commands s @ [r\<lparr>seq := nextSeq s\<rparr>]" "nextSeq s' = nextSeq s + 1"
    "payloads s' = (if payloadDigest r = '''' then payloads s else (payloads s)(commandID r \<mapsto> p))"
    "events s' = events s" "outputs s' = outputs s" "historyLimit s' = historyLimit s" "inputs s' = inputs s"
    "insert_fits r" "update_fits r" "1 \<le> maxAttempts r" "maxAttempts r \<le> 8" "1 \<le> authorityEpoch r"
    "commandID r \<notin> commandID ` set (commands s)"
    "(actor r, idempotencyKey r) \<notin> (\<lambda>r. (actor r, idempotencyKey r)) ` set (commands s)"
  using assms by (auto simp: insertTx_def list_ex_iff split: if_splits)

lemma keys_wf_insert: "insertTx r p s = Inr (u, s') \<Longrightarrow> keys_wf s \<Longrightarrow> keys_wf s'"
  by (frule insertTx_frame(13), frule insertTx_frame(14))
    (auto simp: keys_wf_def insertTx_frame(1,2) sorted_wrt_append less_Suc_eq)

lemma keys_wf_step: "ledger_step F sha s s' \<Longrightarrow> keys_wf s \<Longrightarrow> keys_wf s'"
proof (induction rule: ledger_step.induct)
  case (Touch s' f s)
  have "keeps r (f r)" if "r \<in> set (commands s)" for r
    using Touch(2) [OF that] row_step_keeps [of F r "f r"] keeps_refl [of r] by metis
  with Touch show ?case by (intro keys_wf_map [of s f s']) auto
next
  case (Succeed r s s1 now)
  then show ?case
    by (intro keys_wf_prune keys_wf_map [of s "\<lambda>x. if x = r then succeed_row now r else x" s1]) auto
qed (auto simp: keys_wf_insert, auto simp: keys_wf_def)

lemma keys_wf_steps: "ledger_steps F sha s s' \<Longrightarrow> keys_wf s \<Longrightarrow> keys_wf s'"
  by (induction rule: rtranclp_induct) (auto intro: keys_wf_step)

section \<open>The operations implement the abstract ledger\<close>

definition drawn :: "string option \<Rightarrow> bool" where
  "drawn rnd \<longleftrightarrow> (case rnd of None \<Rightarrow> True | Some bytes \<Rightarrow> length bytes = 16)"

text \<open>
  What the environment guarantees of an operation's draws: random identifiers are made of
  sixteen bytes, and the finish step of an artifact submission lands on a row satisfying \<open>F\<close>.
\<close>

definition queue_enabled :: "(commandRow \<Rightarrow> bool) \<Rightarrow> queue_op \<Rightarrow> queue_store \<Rightarrow> bool" where
  "queue_enabled F op s \<longleftrightarrow>
     (case op of
        OpSubmit d1 d2 input \<Rightarrow> drawn (fst (snd d1)) \<and> drawn (fst (snd d2))
      | OpArtifactBegin d input \<Rightarrow> drawn (fst (snd d))
      | OpArtifactFinish evs now err limit cid record sub \<Rightarrow>
          (case lockRow cid s of None \<Rightarrow> True | Some r \<Rightarrow> F r)
      | _ \<Rightarrow> True)"

lemma ledger_Files: "inputs_only = s\<lparr>inputs := files\<rparr> \<Longrightarrow> ledger_steps F sha s inputs_only"
  by (auto intro: Files)

lemma removeArtifacts_inputs: "\<exists>files. fold removeArtifact ids s = s\<lparr>inputs := files\<rparr>"
proof (induction ids arbitrary: s)
  case Nil
  have "fold removeArtifact [] s = s\<lparr>inputs := inputs s\<rparr>" by simp
  then show ?case by blast
next
  case (Cons i ids)
  then obtain files where "fold removeArtifact ids (removeArtifact i s) = (removeArtifact i s)\<lparr>inputs := files\<rparr>"
    by blast
  then have "fold removeArtifact (i # ids) s = s\<lparr>inputs := files\<rparr>" by (simp add: removeArtifact_def)
  then show ?case by blast
qed

lemma steps_removeArtifacts: "ledger_steps F sha s t \<Longrightarrow> ledger_steps F sha s (fold removeArtifact ids t)"
  using removeArtifacts_inputs [of ids t] by (metis Files rtranclp.rtrancl_into_rtrancl)

lemma steps_removeArtifact: "ledger_steps F sha s t \<Longrightarrow> ledger_steps F sha s (removeArtifact cid t)"
  using steps_removeArtifacts [of F sha s t "[cid]"] by simp

lemma lockRow_Some: "lockRow cid s = Some r \<Longrightarrow> r \<in> set (commands s) \<and> commandID r = cid"
  unfolding lockRow_def by (rule row_find_SomeD)

lemma ledger_update:
  assumes "keys_wf s" "r \<in> set (commands s)" "row_step F r r'" "state r' \<noteq> CommandSucceeded"
    and "updateTx r' s1 = Inr (u, s')" "commands s1 = commands s" "payloads s1 = payloads s"
    and "outputs s1 = outputs s" "nextSeq s1 = nextSeq s" "historyLimit s1 = historyLimit s"
    and "\<And>cid. events s1 cid = events s cid \<or> events s1 cid = []"
  shows "ledger_step F sha s s'"
proof (rule Touch [where f = "\<lambda>x. if x = r then r' else x"])
  have "keys_wf s1" using assms by (simp add: keys_wf_def)
  then show "commands s' = map (\<lambda>x. if x = r then r' else x) (commands s)"
    using assms updateTx_commands [of s1 r r' u s'] by (simp add: row_step_keeps)
qed (use assms updateTx_frame [OF assms(5)] in auto)

lemma ledger_update_simple:
  assumes "keys_wf s" "r \<in> set (commands s)" "row_step F r r'" "state r' \<noteq> CommandSucceeded"
    and "updateTx r' s = Inr (u, s')"
  shows "ledger_steps F sha s s'"
  using ledger_update [OF assms(1-5)] by auto

lemma update_all_steps:
  assumes "update_all (map f rs) s = Inr (u, s')" and "keys_wf s" and "distinct rs"
    and "set rs \<subseteq> set (commands s)" and "distinct (map commandID rs)"
    and "\<And>r. r \<in> set rs \<Longrightarrow> row_step F r (f r) \<and> state (f r) \<noteq> CommandSucceeded"
  shows "ledger_steps F sha s s'"
  using assms
proof (induction rs arbitrary: s)
  case Nil
  then show ?case by simp
next
  case (Cons r rs)
  then obtain s1 where s1: "updateTx (f r) s = Inr ((), s1)" "update_all (map f rs) s1 = Inr (u, s')"
    by (auto split: sum.splits)
  have k: "keeps r (f r)" using Cons.prems(6) [of r] row_step_keeps [of F r "f r"] by simp
  have step: "ledger_step F sha s s1"
    using ledger_update [OF Cons.prems(2) _ _ _ s1(1), of r F] Cons.prems by simp
  have cmds: "commands s1 = map (\<lambda>x. if x = r then f r else x) (commands s)"
    using updateTx_commands [OF Cons.prems(2) _ k s1(1)] Cons.prems by simp
  have "set rs \<subseteq> set (commands s1)"
  proof
    fix x assume "x \<in> set rs"
    with Cons.prems have "x \<noteq> r" "x \<in> set (commands s)" by auto
    then show "x \<in> set (commands s1)" by (auto simp: cmds image_iff)
  qed
  with Cons.IH [OF s1(2)] Cons.prems keys_wf_step [OF step] have "ledger_steps F sha s1 s'" by simp
  with step show ?case by (rule converse_rtranclp_into_rtranclp)
qed

lemma lockRows_steps:
  assumes "update_all (map f (lockRows P s)) s = Inr (u, s')" and "keys_wf s"
    and "\<And>r. r \<in> set (commands s) \<Longrightarrow> P r \<Longrightarrow> row_step F r (f r) \<and> state (f r) \<noteq> CommandSucceeded"
  shows "ledger_steps F sha s s'"
proof (rule update_all_steps [OF assms(1,2)])
  have "distinct (map commandID (commands s))" using assms(2) by (simp add: keys_wf_def)
  then show ids: "distinct (map commandID (lockRows P s))"
    by (simp add: lockRows_def distinct_map_filter)
  then show "distinct (lockRows P s)" by (simp add: distinct_map)
qed (use assms(3) in \<open>auto simp: lockRows_def\<close>)

text \<open>One lemma per group of operations.\<close>

lemma delete_all_steps:
  assumes "keys_wf s" and "\<And>r. r \<in> set rs \<Longrightarrow> r \<in> set (commands s) \<and> supersedable r"
    and "distinct (map commandID rs)"
  shows "ledger_steps F sha s (fold delete_command (map commandID rs) s)"
  using assms
proof (induction rs arbitrary: s)
  case Nil
  then show ?case by simp
next
  case (Cons r rs)
  let ?s1 = "delete_command (commandID r) s"
  have step: "ledger_step F sha s ?s1" using Cons.prems(2) by (intro Remove) auto
  have "ledger_steps F sha ?s1 (fold delete_command (map commandID rs) ?s1)"
    using Cons.prems by (intro Cons.IH) (auto simp: image_iff)
  with step show ?case by (simp add: converse_rtranclp_into_rtranclp)
qed

lemma distinct_map_sort_key: "distinct (map f (sort_key k xs)) \<longleftrightarrow> distinct (map f xs)"
  by (simp add: distinct_map)

lemma supersede_steps:
  assumes "keys_wf s"
  shows "ledger_steps F sha s (snd (supersedeTx input s))"
proof -
  let ?gone = "filter supersedable (supersede_candidates input s)"
  have "distinct (map commandID (commands s))" using assms by (simp add: keys_wf_def)
  then have "distinct (map commandID (supersede_candidates input s))"
    by (simp add: supersede_candidates_def distinct_map_sort_key lockRows_def distinct_map_filter)
  then have "distinct (map commandID ?gone)" by (rule distinct_map_filter)
  moreover have "r \<in> set (commands s) \<and> supersedable r" if "r \<in> set ?gone" for r
    using that by (simp add: supersede_candidates_def lockRows_def)
  ultimately show ?thesis
    unfolding supersedeTx_def Let_def snd_conv by (intro delete_all_steps [OF assms])
qed

lemma newRecord_drawn:
  "newRecord sha rid now input art = Inr r \<Longrightarrow> drawn rid \<Longrightarrow> \<exists>bytes. rid = Some bytes \<and> length bytes = 16"
  by (auto simp: newRecord_def newID_def drawn_def split: option.splits)

lemma insert_steps:
  assumes "keys_wf s" "validateInput input art = None" "drawn rid"
    and "newRecord sha rid now input art = Inr r"
    and "insertTx (inserted_row art r) (inPayload input) (snd (supersedeTx input s)) = Inr (u, s')"
  shows "ledger_steps F sha s s'"
proof -
  obtain bytes where "rid = Some bytes" "length bytes = 16"
    using newRecord_drawn [OF assms(4,3)] by blast
  then have "ledger_step F sha (snd (supersedeTx input s)) s'"
    using Insert assms(2,4,5) by metis
  with supersede_steps [OF assms(1)] show ?thesis by (rule rtranclp.rtrancl_into_rtrancl)
qed

lemma submitTx_steps:
  assumes "keys_wf s" "validateInput input False = None" "drawn rid"
    and "submitTx sha rid now input s = Inr (a, s')"
  shows "ledger_steps F sha s s'"
proof (cases "idempotentTx sha input False s")
  case (Inr found)
  show ?thesis
  proof (cases found)
    case None
    with assms(4) Inr obtain r s2 where
      r: "newRecord sha rid now input False = Inr r"
      "insertTx (inserted_row False r) (inPayload input) (snd (supersedeTx input s)) = Inr ((), s2)"
      and s': "s' = snd (pruneTx s2)"
      by (auto simp: submitTx_def inserted_row_def Let_def split: sum.splits prod.splits)
    from insert_steps [OF assms(1-3) r] show ?thesis
      unfolding s' by (rule rtranclp.rtrancl_into_rtrancl) (rule Prune)
  qed (use assms(4) Inr in \<open>auto simp: submitTx_def\<close>)
qed (use assms(4) in \<open>simp add: submitTx_def\<close>)

lemma artifact_insertTx_steps:
  assumes "keys_wf s" "validateInput input True = None" "drawn rid"
    and "artifact_insertTx sha rid now input s = Inr (a, s')"
  shows "ledger_steps F sha s s'"
proof (cases "idempotentTx sha input True s")
  case (Inr found)
  show ?thesis
  proof (cases found)
    case None
    with assms(4) Inr obtain r where
      "newRecord sha rid now input True = Inr r"
      "insertTx (inserted_row True r) (inPayload input) (snd (supersedeTx input s)) = Inr ((), s')"
      by (auto simp: artifact_insertTx_def inserted_row_def Let_def split: sum.splits prod.splits)
    then show ?thesis using insert_steps [OF assms(1-3)] by blast
  qed (use assms(4) Inr in \<open>auto simp: artifact_insertTx_def\<close>)
qed (use assms(4) in \<open>simp add: artifact_insertTx_def\<close>)

lemma WithTx_steps:
  assumes "\<And>a s'. fn s = Inr (a, s') \<Longrightarrow> ledger_steps F sha s s'"
  shows "ledger_steps F sha s (snd (WithTx evs fn s))"
  by (cases rule: WithTx_cases [of evs fn s]) (use assms in \<open>simp_all\<close>)

lemma submit_once_steps:
  assumes "keys_wf s" "validateInput input False = None" "drawn (fst (snd d))"
  shows "ledger_steps F sha s (snd (submit_once sha d input s))"
proof (cases d)
  case (fields evs rid now)
  with assms have "drawn rid" by simp
  from submitTx_steps [OF assms(1,2) this] show ?thesis
    unfolding fields submit_once.simps by (rule WithTx_steps)
qed

end
