(* ===== verification/Queue_Refinement.thy ===== *)
theory Queue_Refinement
  imports Queue_Invariant
begin

text \<open>
  Every operation of the command ledger, whatever faults it meets, is a sequence of steps of
  the abstract ledger of \<open>Queue_Invariant\<close>; and the well-formedness of the tables is an
  invariant of those steps, so of every reachable ledger.
\<close>

section \<open>Single-row transitions\<close>

lemma transitionTx_steps:
  assumes "\<And>r a s'. r \<in> set (commands s) \<Longrightarrow> commandID r = cid \<Longrightarrow> fn r s = Inr (a, s') \<Longrightarrow> ledger_steps F sha s s'"
  shows "ledger_steps F sha s (snd (transitionTx evs cid fn s))"
proof -
  have "ledger_steps F sha s (snd (WithTx evs (\<lambda>s. case lockRow cid s of
      None \<Rightarrow> Inl (Domain CommandNotFound) | Some row \<Rightarrow> fn row s) s))"
    by (rule WithTx_steps) (auto split: option.splits dest!: lockRow_Some intro: assms)
  then show ?thesis by (simp add: transitionTx_def)
qed

lemma transition_steps:
  assumes "keys_wf s"
    and "\<And>r r'. r \<in> set (commands s) \<Longrightarrow> commandID r = cid \<Longrightarrow> fn r = Inr r' \<Longrightarrow>
      row_step F r r' \<and> state r' \<noteq> CommandSucceeded"
  shows "ledger_steps F sha s (snd (transition evs cid fn s))"
  unfolding transition_def
proof (rule transitionTx_steps)
  fix r a s'
  assume r: "r \<in> set (commands s)" "commandID r = cid"
    and run: "(case fn r of Inl e \<Rightarrow> Inl (Domain e)
       | Inr row' \<Rightarrow> if row' = r then Inr (public row', s)
           else case updateTx row' s of Inl e \<Rightarrow> Inl e | Inr (_, s') \<Rightarrow> Inr (public row', s')) = Inr (a, s')"
  then obtain r' where r': "fn r = Inr r'" by (cases "fn r") auto
  show "ledger_steps F sha s s'"
  proof (cases "r' = r")
    case False
    with run r' have "updateTx r' s = Inr ((), s')" by (auto split: sum.splits)
    with assms(2) [OF r r'] show ?thesis using ledger_update_simple [OF assms(1) r(1)] by blast
  qed (use run r' in simp)
qed

lemma in_flight_states:
  "oneOfCommandState st in_flight \<longleftrightarrow> st = CommandLeased \<or> st = CommandPreparing \<or> st = CommandRunning"
  by (auto simp: oneOfCommandState_def)

lemma checks_in_flight:
  "check_running r = None \<Longrightarrow> oneOfCommandState (state r) in_flight"
  "check_lease lid r = None \<Longrightarrow> oneOfCommandState (state r) in_flight"
  by (auto simp: check_running_def check_lease_def holds_lease_def in_flight_states split: if_splits)

lemma not_succeeded [simp]:
  "state (claim_row now r) \<noteq> CommandSucceeded" "state (lease_row epoch ttl lid now r) \<noteq> CommandSucceeded"
  "state (expire_row now r) \<noteq> CommandSucceeded" "state (fail_row now err r) \<noteq> CommandSucceeded"
  "state (retry_row now epoch r) \<noteq> CommandSucceeded" "state (recover_row now r) \<noteq> CommandSucceeded"
  "state (finish_row now werr limit r) \<noteq> CommandSucceeded" "state (fence_row now r) \<noteq> CommandSucceeded"
  by (auto simp: row_defs Let_def split: prod.splits option.splits)

lemma AdvanceLease_steps:
  "keys_wf s \<Longrightarrow> ledger_steps F sha s (snd (AdvanceLease evs now cid lid st s))"
  by (auto simp: AdvanceLease_def oneOfCommandState_def split: if_splits
      intro!: transition_steps advanced)

lemma RenewLease_steps:
  "keys_wf s \<Longrightarrow> ledger_steps F sha s (snd (RenewLease evs now cid lid ttl s))"
  by (auto simp: RenewLease_def holds_lease_def oneOfCommandState_def split: if_splits
      intro!: transition_steps renewed)

lemma RetryNow_steps: "keys_wf s \<Longrightarrow> ledger_steps F sha s (snd (RetryNow evs now cid epoch s))"
  unfolding RetryNow_def
  by (rule transition_steps)
    (auto simp: retry_fn_def split: if_splits sum.splits intro!: retried)

section \<open>Outcomes\<close>

lemma succeedTx_steps:
  assumes "keys_wf s" "r \<in> set (commands s)" "\<And>r. check r = None \<Longrightarrow> oneOfCommandState (state r) in_flight"
    and "succeedTx now check r s = Inr (a, s')"
  shows "ledger_steps F sha s s'"
proof -
  let ?s0 = "s\<lparr>payloads := (payloads s)(commandID r := None)\<rparr>"
  from assms(4) obtain s1 where c: "check r = None"
    and u: "updateTx (succeed_row now r) ?s0 = Inr ((), s1)" and s': "s' = snd (pruneTx s1)"
    by (auto simp: succeedTx_def Let_def split: option.splits sum.splits prod.splits)
  have "keys_wf ?s0" using assms(1) by (simp add: keys_wf_def)
  then have "commands s1 = map (\<lambda>x. if x = r then succeed_row now r else x) (commands s)"
    using updateTx_commands [of ?s0 r, OF _ _ _ u] assms(2) by simp
  then have "s1 = s\<lparr>commands := map (\<lambda>x. if x = r then succeed_row now r else x) (commands s),
           payloads := (payloads s)(commandID r := None)\<rparr>"
    using updateTx_frame [OF u] by simp
  from Succeed [OF assms(2) assms(3) [OF c] this] show ?thesis unfolding s' ..
qed

lemma failTx_steps:
  assumes "keys_wf s" "r \<in> set (commands s)" "\<And>r. check r = None \<Longrightarrow> oneOfCommandState (state r) in_flight"
    and "failTx now err prune check r s = Inr (a, s')"
  shows "ledger_steps F sha s s'"
proof -
  from assms(4) obtain s1 where c: "check r = None" and u: "updateTx (fail_row now err r) s = Inr ((), s1)"
    and s': "s' = (if prune then snd (pruneTx s1) else s1)"
    by (auto simp: failTx_def Let_def split: option.splits sum.splits prod.splits if_splits)
  have "ledger_steps F sha s s1"
    using ledger_update_simple [OF assms(1,2) failed [OF assms(3) [OF c]] _ u] by simp
  then show ?thesis unfolding s' by (auto intro: rtranclp.rtrancl_into_rtrancl Prune)
qed

lemma succeed_steps:
  assumes "keys_wf s" "\<And>r. check r = None \<Longrightarrow> oneOfCommandState (state r) in_flight"
  shows "ledger_steps F sha s (snd (succeed evs now cid check s))"
proof -
  let ?t = "transitionTx evs cid (succeedTx now check) s"
  have "ledger_steps F sha s (snd ?t)"
    using succeedTx_steps [OF assms(1) _ assms(2)] by (intro transitionTx_steps) blast
  then show ?thesis
    by (auto simp: succeed_def split: sum.splits prod.splits
        intro!: steps_removeArtifacts steps_removeArtifact)
qed

lemma fail_steps:
  assumes "keys_wf s" "\<And>r. check r = None \<Longrightarrow> oneOfCommandState (state r) in_flight"
  shows "ledger_steps F sha s (snd (fail evs now cid err prune check s))"
proof -
  let ?t = "transitionTx evs cid (failTx now err prune check) s"
  have "ledger_steps F sha s (snd ?t)"
    using failTx_steps [OF assms(1) _ assms(2)] by (intro transitionTx_steps) blast
  then show ?thesis
    by (auto simp: fail_def split: sum.splits prod.splits intro!: steps_removeArtifacts)
qed

lemmas outcome_steps =
  succeed_steps [of _ check_running, OF _ checks_in_flight(1), folded Complete_def]
  succeed_steps [of _ "check_lease lid" for lid, OF _ checks_in_flight(2), folded CompleteLease_def]
  fail_steps [of _ check_running, OF _ checks_in_flight(1), where prune = True, folded Fail_def]
  fail_steps [of _ "check_lease lid" for lid, OF _ checks_in_flight(2), where prune = False, folded FailLease_def]

section \<open>Claiming, leasing and expiry\<close>

lemma oldest_due_Some:
  "oldest_due P now skip s = Some r \<Longrightarrow>
     r \<in> set (commands s) \<and> P r \<and> due now r \<and> commandID r \<notin> set skip"
  by (auto simp: oldest_due_def dest!: row_first_SomeD)

lemma clear_events_frame:
  "commands (clear_events cid s) = commands s" "payloads (clear_events cid s) = payloads s"
  "outputs (clear_events cid s) = outputs s" "nextSeq (clear_events cid s) = nextSeq s"
  "historyLimit (clear_events cid s) = historyLimit s"
  "events (clear_events cid s) c = events s c \<or> events (clear_events cid s) c = []"
  by (simp_all add: clear_events_def)

lemma ClaimDue_steps:
  assumes "keys_wf s"
  shows "ledger_steps F sha s (snd (ClaimDue evs now skip s))"
  unfolding ClaimDue_def
proof (rule WithTx_steps)
  fix a s' assume run: "claimTx now skip s = Inr (a, s')"
  show "ledger_steps F sha s s'"
  proof (cases "s' = s")
    case False
    with run obtain r where r: "oldest_due (\<lambda>_. True) now skip s = Some r"
      and u: "updateTx (claim_row now r) (clear_events (commandID r) s) = Inr ((), s')"
      by (auto simp: claimTx_def Let_def split: if_splits option.splits sum.splits)
    from oldest_due_Some [OF r] have "ledger_step F sha s s'"
      by (intro ledger_update [OF assms _ claimed _ u]) (simp_all add: clear_events_frame)
    then show ?thesis ..
  qed simp
qed

lemma leaseTx_steps:
  assumes "keys_wf s" "1 \<le> epoch" "lid \<noteq> ''''" "leaseTx server epoch ttl lid now skip s = Inr (a, s')"
  shows "ledger_steps F sha s s'"
proof (cases "s' = s")
  case False
  with assms(4) obtain r where r: "oldest_due (\<lambda>r. serverID r = server) now skip s = Some r"
    and u: "updateTx (lease_row epoch ttl lid now r) (clear_events (commandID r) s) = Inr ((), s')"
    by (auto simp: leaseTx_def Let_def split: if_splits option.splits sum.splits)
  from oldest_due_Some [OF r] assms(2,3) have "ledger_step F sha s s'"
    by (intro ledger_update [OF assms(1) _ leased _ u]) (simp_all add: clear_events_frame)
  then show ?thesis ..
qed simp

lemma expireLeases_steps:
  assumes "keys_wf s"
  shows "ledger_steps F sha s (snd (expireLeases evs now skip s))"
  unfolding expireLeases_def
  by (rule WithTx_steps) (erule lockRows_steps [OF _ assms], simp add: expired)

lemma LeaseDue_steps:
  assumes "keys_wf s"
  shows "ledger_steps F sha s (snd (LeaseDue evs1 now1 skip1 rlid evs2 now2 skip2 server epoch ttl s))"
proof -
  obtain o1 s1 where e: "expireLeases evs1 now1 skip1 s = (o1, s1)" by fastforce
  have s1: "ledger_steps F sha s s1" using expireLeases_steps [OF assms, of F sha evs1 now1 skip1] e by simp
  then have k: "keys_wf s1" using assms by (rule keys_wf_steps)
  have "ledger_steps F sha s1 (snd (WithTx evs2 (leaseTx (TrimSpace server) epoch ttl lid now2 skip2) s1))"
    if "0 < epoch" "newLeaseID rlid = Inr lid" for lid
    using that leaseTx_steps [OF k, of epoch lid] by (intro WithTx_steps) (auto simp: newLeaseID_def split: option.splits)
  with s1 show ?thesis
    by (auto simp: LeaseDue_def Let_def e split: sum.splits intro: rtranclp_trans)
qed

section \<open>Fence, recovery, trail and log\<close>

lemma fence_row_fits: "update_fits r \<Longrightarrow> update_fits (fence_row now r)"
  by (simp add: update_fits_def fence_row_def)

lemma FenceAuthority_steps: "ledger_steps F sha s (snd (FenceAuthority ev now epoch s))"
proof -
  let ?f = "\<lambda>r. if authorityEpoch r < epoch \<and> \<not> terminalCommandState (state r) then fence_row now r else r"
  have "ledger_step F sha s (s\<lparr>commands := map ?f (commands s)\<rparr>)"
    by (rule Touch [where f = ?f])
      (auto intro: fenced simp: fence_row_fits simp del: terminalCommandState.simps)
  then show ?thesis
    by (auto simp: FenceAuthority_def runTx_def simp del: terminalCommandState.simps split: tx_event.splits)
qed

lemma recover_upload_not_succeeded:
  "state r = CommandNeedsAttention \<Longrightarrow> state (recover_upload now s r) \<noteq> CommandSucceeded"
  by (simp add: recover_upload_def)

lemma Recover_steps:
  assumes "keys_wf s"
  shows "ledger_steps F sha s (snd (Recover evs now s))"
  unfolding Recover_def
proof (rule WithTx_steps)
  fix a s' assume "recoverTx now s = Inr (a, s')"
  then obtain s1 where u1: "update_all (map (recover_row now)
      (lockRows (\<lambda>r. oneOfCommandState (state r) in_flight) s)) s = Inr ((), s1)"
    and u2: "update_all (map (recover_upload now s1)
      (lockRows (\<lambda>r. state r = CommandNeedsAttention \<and> artifact r \<and> lastError r = being_stored) s1)) s1 = Inr (a, s')"
    by (auto simp: recoverTx_def split: sum.splits)
  have s1: "ledger_steps F sha s s1" by (rule lockRows_steps [OF u1 assms]) (simp add: recovered)
  moreover have "ledger_steps F sha s1 s'"
    by (rule lockRows_steps [OF u2 keys_wf_steps [OF s1 assms]])
      (simp add: upload_recovered recover_upload_not_succeeded)
  ultimately show "ledger_steps F sha s s'" by (rule rtranclp_trans)
qed

lemma AppendEvent_steps: "ledger_steps F sha s (snd (AppendEvent evs now cid st ev s))"
  unfolding AppendEvent_def
  by (rule transitionTx_steps)
    (auto simp: Let_def not_le dest: Trail split: if_splits intro!: r_into_rtranclp)

lemma RetainOutput_steps: "ledger_steps F sha s (snd (RetainOutput evs now cid log s))"
  unfolding RetainOutput_def
  by (auto intro!: transitionTx_steps) (intro r_into_rtranclp Log)

section \<open>Submission\<close>

lemma SubmitWithResult_steps:
  assumes "keys_wf s" "drawn (fst (snd d1))" "drawn (fst (snd d2))"
  shows "ledger_steps F sha s (snd (SubmitWithResult sha d1 d2 input s))"
proof (cases "validateInput input False")
  case None
  obtain r1 s1 where o1: "submit_once sha d1 input s = (r1, s1)" by fastforce
  have s1: "ledger_steps F sha s s1" using submit_once_steps [OF assms(1) None assms(2)] o1 by (metis snd_conv)
  obtain r2 s2 where o2: "submit_once sha d2 input s1 = (r2, s2)" by fastforce
  have "ledger_steps F sha s1 s2"
    using submit_once_steps [OF keys_wf_steps [OF s1 assms(1)] None assms(3)] o2 by (metis snd_conv)
  with s1 have "ledger_steps F sha s s2" by (rule rtranclp_trans)
  with s1 None show ?thesis
    by (auto simp: SubmitWithResult_def submit_def o1 o2 Let_def split: sum.splits prod.splits if_splits
        intro: steps_removeArtifacts)
qed (simp add: SubmitWithResult_def)

lemma ArtifactBegin_steps:
  assumes "keys_wf s" "validateInput input True = None" "drawn (fst (snd d))"
  shows "ledger_steps F sha s (snd (SubmitArtifact_begin sha d input s))"
proof (cases d)
  case (fields evs rid now)
  have "ledger_steps F sha s (snd (WithTx evs (artifact_insertTx sha rid now input) s))"
    using artifact_insertTx_steps [OF assms(1,2)] assms(3) fields by (intro WithTx_steps) simp
  then show ?thesis
    by (auto simp: SubmitArtifact_begin_def fields split: sum.splits prod.splits intro: steps_removeArtifacts)
qed

lemma ArtifactWrite_steps: "ledger_steps F sha s (snd (writeArtifact disk cid body limit s))"
  by (auto simp: writeArtifact_def WriteReaderFile_def split: sum.splits disk_event.splits
      intro!: r_into_rtranclp Files)

lemma ArtifactFinish_steps:
  assumes "keys_wf s" "\<And>r. lockRow cid s = Some r \<Longrightarrow> F r"
  shows "ledger_steps F sha s (snd (SubmitArtifact_finish evs now err limit cid record sub s))"
proof -
  have "ledger_steps F sha s (snd (WithTx evs (artifact_finishTx now err limit cid) s))"
  proof (rule WithTx_steps)
    fix a s' assume run: "artifact_finishTx now err limit cid s = Inr (a, s')"
    show "ledger_steps F sha s s'"
    proof (cases "lockRow cid s")
      case (Some r)
      with run have u: "updateTx (finish_row now err limit r) s = Inr ((), s')"
        by (auto simp: artifact_finishTx_def Let_def split: sum.splits)
      have "row_step F r (finish_row now err limit r)" using assms(2) [OF Some] by (rule finished)
      from ledger_update_simple [OF assms(1) _ this _ u] lockRow_Some [OF Some] show ?thesis by simp
    qed (use run in \<open>simp add: artifact_finishTx_def\<close>)
  qed
  then show ?thesis
    by (auto simp: SubmitArtifact_finish_def split: sum.splits prod.splits option.splits
        intro: steps_removeArtifact)
qed

lemma ForgetInputs_steps: "ledger_steps F sha s (ForgetInputs ids s)"
  unfolding ForgetInputs_def by (rule steps_removeArtifacts) simp

text \<open>Every operation is a sequence of abstract steps.\<close>

lemma queue_exec_steps:
  assumes "keys_wf s" and "queue_enabled F op s"
  shows "ledger_steps F sha s (queue_exec sha op s)"
  using assms
  by (cases op)
    (auto simp: queue_enabled_def ForgetInputs_steps ArtifactWrite_steps ArtifactBegin_steps
      SubmitWithResult_steps ClaimDue_steps LeaseDue_steps AdvanceLease_steps RenewLease_steps
      RetryNow_steps FenceAuthority_steps Recover_steps AppendEvent_steps RetainOutput_steps
      outcome_steps intro!: ArtifactFinish_steps)

end
