(* ===== verification/Queue_Wf.thy ===== *)
theory Queue_Wf
  imports Queue_Refinement
begin

text \<open>
  Well-formedness of the command ledger: the contract of one row (interface \<open>row_contract\<close>),
  the payload, trail, log and history tables, and the theorems that every reachable ledger
  satisfies them.
\<close>

section \<open>Invariants of rows\<close>

definition all_rows :: "(commandRow \<Rightarrow> bool) \<Rightarrow> queue_store \<Rightarrow> bool" where
  "all_rows P s \<longleftrightarrow> list_all P (commands s)"

text \<open>An invariant of every row needs only these laws; the ledger preserves it then.\<close>

lemma succeed_row_fits [simp]: "update_fits (succeed_row now r)"
  by (simp add: update_fits_def succeed_row_def clearCommandFailureDiagnostic_def RuneCount_def)

locale row_contract =
  fixes P :: "commandRow \<Rightarrow> bool" and F :: "commandRow \<Rightarrow> bool"
  assumes new_row: "validateInput input art = None \<Longrightarrow> newRecord sha (Some bytes) now input art = Inr r \<Longrightarrow>
      length bytes = 16 \<Longrightarrow> insert_fits r \<Longrightarrow> update_fits (inserted_row art r) \<Longrightarrow> P ((inserted_row art r)\<lparr>seq := n\<rparr>)"
    and step_row: "P r \<Longrightarrow> row_step F r r' \<Longrightarrow> (update_fits r \<Longrightarrow> update_fits r') \<Longrightarrow> P r'"
begin

lemma rows_delete_all: "all_rows P s \<Longrightarrow> all_rows P (fold delete_command ids s)"
  by (simp add: all_rows_def list_all_iff delete_all_commands)

lemma inserted_fits: "insert_fits (inserted_row art r) \<longleftrightarrow> insert_fits r"
  by (simp add: insert_fits_def inserted_row_def)

lemma ledger_rows: "ledger_step F sha s s' \<Longrightarrow> all_rows P s \<Longrightarrow> all_rows P s'"
proof (induction rule: ledger_step.induct)
  case (Touch s' f s)
  show ?case unfolding all_rows_def list_all_iff Touch(1)
  proof clarsimp
    fix r assume r: "r \<in> set (commands s)"
    then have "P r" using Touch by (simp add: all_rows_def list_all_iff)
    then show "P (f r)" using Touch(2) [OF r] step_row by metis
  qed
next
  case (Succeed r s s1 now)
  then have "P (succeed_row now r)"
    by (auto simp: all_rows_def list_all_iff succeed_row_fits intro: step_row succeeded)
  with Succeed have "all_rows P s1" by (auto simp: all_rows_def list_all_iff)
  then show ?case by (simp add: pruneTx_state rows_delete_all)
next
  case (Insert input art bytes now r s u s')
  from insertTx_frame(1,8,9) [OF Insert(4)] new_row [OF Insert(1,3,2)] Insert(5) show ?case
    by (auto simp: all_rows_def list_all_iff inserted_fits)
next
  case (Prune s)
  then show ?case by (simp add: pruneTx_state rows_delete_all)
qed (auto simp: all_rows_def list_all_iff)

lemma ledger_steps_rows: "ledger_steps F sha s s' \<Longrightarrow> all_rows P s \<Longrightarrow> all_rows P s'"
  by (induction rule: rtranclp_induct) (auto intro: ledger_rows)

lemma exec_rows:
  "keys_wf s \<Longrightarrow> queue_enabled F op s \<Longrightarrow> all_rows P s \<Longrightarrow> all_rows P (queue_exec sha op s)"
  by (rule ledger_steps_rows [OF queue_exec_steps])

end

text \<open>
  What every row satisfies, whatever runs concurrently: the bounds of the schema; only the
  states the store writes; a lease state carries its lease; a retry is scheduled only for an
  auto-retry command with attempts left; a succeeded command keeps no input and no lease.
\<close>

definition row_wf :: "commandRow \<Rightarrow> bool" where
  "row_wf r \<longleftrightarrow>
     update_fits r \<and> commandIDPattern (commandID r) \<and> 1 \<le> maxAttempts r \<and> maxAttempts r \<le> maxAttemptsLimit \<and>
     1 \<le> authorityEpoch r \<and> idempotencyKey r \<noteq> '''' \<and>
     List.member [CommandQueued, CommandLeased, CommandPreparing, CommandRunning,
       CommandRetryScheduled, CommandSucceeded, CommandNeedsAttention] (state r) \<and>
     (state r = CommandLeased \<or> state r = CommandPreparing \<longrightarrow>
        leaseID r \<noteq> '''' \<and> leaseExpiresAt r \<noteq> None) \<and>
     (state r = CommandRetryScheduled \<longrightarrow>
        autoRetry r \<and> attempt r < maxAttempts r \<and> nextAttemptAt r \<noteq> None) \<and>
     (state r = CommandSucceeded \<longrightarrow>
        payloadDigest r = '''' \<and> \<not> artifact r \<and> leaseID r = '''' \<and> leaseExpiresAt r = None \<and>
        nextAttemptAt r = None \<and> lastError r = '''' \<and> failureCode r = '''')"

lemma newRecord_row_wf:
  assumes "validateInput input art = None" "newRecord sha (Some bytes) now input art = Inr r" "length bytes = 16"
    "update_fits (inserted_row art r)"
  shows "row_wf (inserted_row art r)"
  using assms hex_encode_digits [of bytes]
  by (auto simp: newRecord_def newID_def row_wf_def inserted_row_def validateInput_def Let_def
      commandIDPattern_def HasPrefix_def maxAttemptsLimit_def max_def split: if_splits)

lemma row_wf_step: "row_step F r r' \<Longrightarrow> (update_fits r \<Longrightarrow> update_fits r') \<Longrightarrow> row_wf r \<Longrightarrow> row_wf r'"
proof (induction rule: row_step.induct)
  case (upload_recovered r now s)
  then show ?case by (simp add: row_wf_def recover_upload_def)
next
  case (failed r now err)
  then show ?case
    by (simp add: row_wf_def fail_row_def setCommandFailureDiagnostic_def retries_def Let_def split: prod.split)
next
  case (finished r now werr limit)
  then show ?case by (cases werr) (simp_all add: row_wf_def finish_row_def split: prod.split)
next
  case (recovered r now)
  then show ?case by (simp add: row_wf_def recover_row_def setCommandFailureDiagnostic_def split: prod.split)
next
  case (expired now r)
  then show ?case by (simp add: row_wf_def expire_row_def Let_def)
qed (auto simp: row_wf_def row_defs)

lemma row_wf_seq [simp]: "row_wf (r\<lparr>seq := n\<rparr>) \<longleftrightarrow> row_wf r"
  by (simp add: row_wf_def update_fits_def)

interpretation wf_rows: row_contract row_wf "\<lambda>_. True"
  by unfold_locales (simp_all add: newRecord_row_wf, rule row_wf_step)

text \<open>
  The attempt counter, in runs where the second transaction of an artifact submission finds
  the row as the first one left it (\<open>upload_open\<close>): a command never exceeds its attempt
  limit, a queued one has used none, and one in flight has used at least one.
\<close>

definition upload_open :: "commandRow \<Rightarrow> bool" where
  "upload_open r \<longleftrightarrow> state r = CommandNeedsAttention \<and> artifact r \<and> lastError r = being_stored"

definition row_counts :: "commandRow \<Rightarrow> bool" where
  "row_counts r \<longleftrightarrow>
     attempt r \<le> maxAttempts r \<and> 1 \<le> maxAttempts r \<and>
     (state r = CommandQueued \<longrightarrow> attempt r = 0) \<and>
     (state r = CommandRetryScheduled \<longrightarrow> 1 \<le> attempt r \<and> attempt r < maxAttempts r) \<and>
     (oneOfCommandState (state r) in_flight \<longrightarrow> 1 \<le> attempt r) \<and>
     (upload_open r \<longrightarrow> attempt r = 0)"

lemma failureNarrative_long: "40 < length (failureNarrative c)"
  by (simp add: failureNarrative_def Let_def)

lemma failureNarrative_not_being_stored [simp]: "failureNarrative c \<noteq> being_stored"
  using failureNarrative_long [of c] by (auto simp: being_stored_def dest!: arg_cong [of _ _ length])

lemma fail_row_counts:
  assumes "row_counts r" "oneOfCommandState (state r) in_flight"
  shows "row_counts (fail_row now err r)"
  using assms
  by (auto simp: row_counts_def fail_row_def retries_def in_flight_states Let_def upload_open_def)

lemma row_counts_step: "row_step upload_open r r' \<Longrightarrow> row_counts r \<Longrightarrow> row_counts r'"
proof (induction rule: row_step.induct)
  case (failed r now err)
  then show ?case by (simp add: fail_row_counts)
next
  case (finished r now werr limit)
  then have "finish_row now werr limit r = r\<lparr>updatedAt := now, state := CommandQueued, lastError := ''''\<rparr> \<or>
    attempt (finish_row now werr limit r) = 0 \<and> maxAttempts (finish_row now werr limit r) = maxAttempts r \<and>
    state (finish_row now werr limit r) = CommandNeedsAttention"
    by (cases werr) (auto simp: finish_row_def row_counts_def split: prod.splits)
  with finished show ?case by (auto simp: row_counts_def upload_open_def in_flight_states)
next
  case (recovered r now)
  then show ?case
    by (simp add: row_counts_def recover_row_def setCommandFailureDiagnostic_def upload_open_def
        being_stored_def restarted_def in_flight_states split: prod.split)
next
  case (upload_recovered r now s)
  then show ?case
    by (simp add: row_counts_def recover_upload_def upload_open_def being_stored_def in_flight_states)
next
  case (expired now r)
  then show ?case
    by (auto simp: row_counts_def expire_row_def Let_def upload_open_def being_stored_def in_flight_states lapsed_def)
next
  case (fenced r now)
  then show ?case
    by (simp add: row_counts_def fence_row_def upload_open_def being_stored_def in_flight_states)
qed (auto simp: row_counts_def claim_row_def lease_row_def succeed_row_def retry_row_def
    clearCommandFailureDiagnostic_def in_flight_states upload_open_def due_def oneOfCommandState_def)

lemma newRecord_counts:
  "validateInput input art = None \<Longrightarrow> newRecord sha rid now input art = Inr r \<Longrightarrow>
   row_counts ((inserted_row art r)\<lparr>seq := n\<rparr>)"
  by (auto simp: newRecord_def row_counts_def inserted_row_def upload_open_def validateInput_def Let_def
      in_flight_states split: sum.splits if_splits)

interpretation counted_rows: row_contract row_counts upload_open
  by unfold_locales (simp_all add: newRecord_counts row_counts_step)

section \<open>The other tables\<close>

definition ids :: "queue_store \<Rightarrow> string set" where
  "ids s = commandID ` set (commands s)"

text \<open>A payload is kept exactly for the commands that carry a digest, and matches it.\<close>

definition payload_ok :: "(string \<Rightarrow> string) \<Rightarrow> commandRow \<Rightarrow> string option \<Rightarrow> bool" where
  "payload_ok sha r p \<longleftrightarrow>
     (if payloadDigest r = '''' then p = None else map_option (digest sha) p = Some (payloadDigest r))"

definition payloads_wf :: "(string \<Rightarrow> string) \<Rightarrow> queue_store \<Rightarrow> bool" where
  "payloads_wf sha s \<longleftrightarrow>
     (\<forall>r\<in>set (commands s). payload_ok sha r (payloads s (commandID r))) \<and>
     (\<forall>cid. cid \<notin> ids s \<longrightarrow> payloads s cid = None)"

text \<open>A trail is numbered from one without gaps, is bounded, and belongs to a known command.\<close>

definition trail_ok :: "bool \<Rightarrow> CommandEvent list \<Rightarrow> bool" where
  "trail_ok known es \<longleftrightarrow>
     (es \<noteq> [] \<longrightarrow> known) \<and> length es \<le> MaxCommandEvents \<and>
     map eventSequence es = [1..<Suc (length es)] \<and>
     (\<forall>e\<in>set es. RuneCount (evidence e) \<le> maxEvidenceRunes + 1)"

definition trails_wf :: "queue_store \<Rightarrow> bool" where
  "trails_wf s \<longleftrightarrow> (\<forall>cid. trail_ok (cid \<in> ids s) (events s cid))"

definition logs_wf :: "queue_store \<Rightarrow> bool" where
  "logs_wf s \<longleftrightarrow>
     (\<forall>cid log t. outputs s cid = Some (log, t) \<longrightarrow> cid \<in> ids s \<and> length log \<le> MaxOutputBytes + 21)"

definition succeeded_rows :: "queue_store \<Rightarrow> commandRow list" where
  "succeeded_rows s = filter (\<lambda>r. state r = CommandSucceeded) (commands s)"

definition history_wf :: "queue_store \<Rightarrow> bool" where
  "history_wf s \<longleftrightarrow> length (succeeded_rows s) \<le> historyLimit s"

definition store_wf :: "(string \<Rightarrow> string) \<Rightarrow> queue_store \<Rightarrow> bool" where
  "store_wf sha s \<longleftrightarrow>
     keys_wf s \<and> all_rows row_wf s \<and> payloads_wf sha s \<and> trails_wf s \<and> logs_wf s \<and> history_wf s"

lemma bounded_evidence_runes: "RuneCount (bounded_evidence ev) \<le> maxEvidenceRunes + 1"
proof -
  have "RuneCount ellipsis = 1" by (simp add: ellipsis_def RuneCount_def rune_start_def)
  then show ?thesis by (simp add: bounded_evidence_def Let_def take_runes_count)
qed

lemma trail_ok_Nil [simp]: "trail_ok known []"
  by (simp add: trail_ok_def)

lemma trail_ok_known: "trail_ok known es \<Longrightarrow> known \<longrightarrow> known' \<Longrightarrow> trail_ok known' es"
  by (auto simp: trail_ok_def)

lemma trail_ok_snoc:
  "trail_ok known es \<Longrightarrow> length es < MaxCommandEvents \<Longrightarrow>
   trail_ok True (es @ [\<lparr>eventSequence = length es + 1, eventState = st,
     evidence = bounded_evidence ev, occurredAt = now\<rparr>])"
  using bounded_evidence_runes [of ev] by (simp add: trail_ok_def)

lemma truncated_log_length: "length (truncated_log log) \<le> MaxOutputBytes + 21"
  by (simp add: truncated_log_def Let_def ellipsis_def MaxOutputBytes_def)

section \<open>The tables stay well-formed\<close>

lemma ids_delete_all: "ids (fold delete_command cs s) = ids s - set cs"
  by (auto simp: ids_def delete_all_commands)

lemma ids_map: "commands s' = map f (commands s) \<Longrightarrow> (\<And>r. r \<in> set (commands s) \<Longrightarrow> keeps r (f r)) \<Longrightarrow> ids s' = ids s"
  unfolding ids_def by (simp add: image_image) (rule image_cong, auto dest: keeps_columns(1))

lemma payloads_wf_delete_all: "payloads_wf sha s \<Longrightarrow> payloads_wf sha (fold delete_command cs s)"
  by (auto simp: payloads_wf_def delete_all_commands delete_all_frame ids_delete_all split: if_splits)

lemma trails_wf_delete_all: "trails_wf s \<Longrightarrow> trails_wf (fold delete_command cs s)"
  by (simp add: trails_wf_def delete_all_frame ids_delete_all)

lemma logs_wf_delete_all: "logs_wf s \<Longrightarrow> logs_wf (fold delete_command cs s)"
  by (auto simp: logs_wf_def delete_all_frame ids_delete_all split: if_splits)

lemma succeeded_delete_all:
  "succeeded_rows (fold delete_command cs s) = filter (\<lambda>r. commandID r \<notin> set cs) (succeeded_rows s)"
  by (simp add: succeeded_rows_def delete_all_commands conj_commute)

lemma history_wf_delete_all: "history_wf s \<Longrightarrow> history_wf (fold delete_command cs s)"
  unfolding history_wf_def succeeded_delete_all delete_all_frame(2)
  using length_filter_le le_trans by blast

lemma delete_is_fold: "delete_command cid s = fold delete_command [cid] s"
  by simp

text \<open>Pruning restores the history bound: exactly the excess goes.\<close>

lemma pruned_ids_eq:
  "pruned_ids s = map commandID
     (take (length (succeeded_rows s) - historyLimit s) (sort_key seq (succeeded_rows s)))"
  by (simp add: pruned_ids_def pruneTx_def lockRows_def succeeded_rows_def Let_def)

lemma distinct_succeeded: "keys_wf s \<Longrightarrow> distinct (map commandID (succeeded_rows s))"
  by (simp add: keys_wf_def succeeded_rows_def distinct_map_filter)

lemma filter_not_taken:
  assumes "distinct (map f xs)"
  shows "length (filter (\<lambda>x. f x \<notin> f ` set (take n xs)) xs) = length xs - n"
proof -
  have "filter (\<lambda>x. f x \<notin> f ` set (take n xs)) (take n xs @ drop n xs) = drop n xs"
  proof -
    have "distinct (map f (take n xs) @ map f (drop n xs))"
      using assms by (metis append_take_drop_id map_append)
    then have "filter (\<lambda>x. f x \<notin> f ` set (take n xs)) (drop n xs) = drop n xs"
      by (auto simp: filter_id_conv)
    moreover have "filter (\<lambda>x. f x \<notin> f ` set (take n xs)) (take n xs) = []"
      by (simp add: filter_empty_conv)
    ultimately show ?thesis by (simp only: filter_append append_Nil)
  qed
  then show ?thesis by simp
qed

lemma length_filter_sort_key: "length (filter P (sort_key k xs)) = length (filter P xs)"
  by (simp add: filter_sort)

lemma history_wf_prune: "keys_wf s \<Longrightarrow> history_wf (snd (pruneTx s))"
proof -
  assume k: "keys_wf s"
  let ?sorted = "sort_key seq (succeeded_rows s)"
  let ?n = "length (succeeded_rows s) - historyLimit s"
  have "distinct (map commandID ?sorted)"
    using distinct_succeeded [OF k] by (simp add: distinct_map_sort_key)
  from filter_not_taken [OF this, of ?n]
  have "length (filter (\<lambda>r. commandID r \<notin> set (pruned_ids s)) (succeeded_rows s)) = length (succeeded_rows s) - ?n"
    by (simp add: pruned_ids_eq length_filter_sort_key [symmetric, of _ "succeeded_rows s" seq])
  then show ?thesis
    by (simp add: history_wf_def pruneTx_state succeeded_delete_all delete_all_frame)
qed

lemma row_step_digest:
  "row_step F r r' \<Longrightarrow> state r' \<noteq> CommandSucceeded \<Longrightarrow> payloadDigest r' = payloadDigest r"
  by (induction rule: row_step.induct)
    (auto simp: row_defs Let_def split: prod.splits option.splits)

lemma Touch_row:
  assumes "f r = r \<or> row_step F r (f r) \<and> state (f r) \<noteq> CommandSucceeded \<and> (update_fits r \<longrightarrow> update_fits (f r))"
  shows "keeps r (f r)" "payloadDigest (f r) = payloadDigest r"
    "state (f r) = CommandSucceeded \<Longrightarrow> f r = r"
  using assms row_step_keeps [of F r "f r"] row_step_digest [of F r "f r"] by auto

lemma newRecord_digest:
  "newRecord sha rid now input art = Inr r \<Longrightarrow> payloadDigest (inserted_row art r) = digest sha (inPayload input)"
  by (auto simp: newRecord_def inserted_row_def split: sum.splits)

lemma ids_insert: "insertTx r p s = Inr (u, s') \<Longrightarrow> ids s' = insert (commandID r) (ids s)"
  by (auto simp: ids_def insertTx_frame(1))

lemma payload_ok_cong: "payloadDigest r' = payloadDigest r \<Longrightarrow> payload_ok sha r' p \<longleftrightarrow> payload_ok sha r p"
  by (simp add: payload_ok_def)

lemma payloads_wf_succeed:
  assumes "keys_wf s" "payloads_wf sha s" "r \<in> set (commands s)"
    and cmds: "commands s1 = map (\<lambda>x. if x = r then succeed_row now r else x) (commands s)"
    and pay: "payloads s1 = (payloads s)(commandID r := None)"
  shows "payloads_wf sha s1"
proof -
  have id: "commandID (succeed_row now r) = commandID r" "payloadDigest (succeed_row now r) = ''''"
    by (simp_all add: succeed_row_def clearCommandFailureDiagnostic_def)
  have i: "ids s1 = ids s" by (rule ids_map [OF cmds]) simp
  have "payload_ok sha x (payloads s1 (commandID x))" if x: "x \<in> set (commands s)" "x \<noteq> r" for x
  proof -
    have "inj_on commandID (set (commands s))"
      using assms(1) by (simp add: keys_wf_def distinct_map)
    then have "commandID x \<noteq> commandID r" using x assms(3) by (metis inj_on_eq_iff)
    with x assms(2) show ?thesis by (simp add: pay payloads_wf_def)
  qed
  moreover have "payload_ok sha (succeed_row now r) (payloads s1 (commandID (succeed_row now r)))"
    by (simp add: pay id payload_ok_def)
  ultimately have "\<forall>x\<in>set (commands s1). payload_ok sha x (payloads s1 (commandID x))"
    unfolding cmds by auto
  moreover have "payloads s1 cid = None" if "cid \<notin> ids s" for cid
    using that assms(2) by (simp add: pay payloads_wf_def)
  ultimately show ?thesis by (simp add: payloads_wf_def i)
qed

lemma payloads_wf_insert:
  assumes "payloads_wf sha s" "insertTx r p s = Inr (u, s')" "payloadDigest r = digest sha p"
  shows "payloads_wf sha s'"
proof -
  note fr = insertTx_frame [OF assms(2)]
  have new: "payloads s (commandID r) = None" "commandID r \<notin> ids s"
    using assms(1) fr(13) by (simp_all add: payloads_wf_def ids_def)
  have "payload_ok sha x (payloads s' (commandID x))" if "x \<in> set (commands s)" for x
  proof -
    have "commandID x \<noteq> commandID r" using that fr(13) by (metis imageI)
    then show ?thesis using that assms(1) by (simp add: fr(3) payloads_wf_def)
  qed
  moreover have "payload_ok sha (r\<lparr>seq := nextSeq s\<rparr>) (payloads s' (commandID r))"
    using new assms(3) by (simp add: fr(3) payload_ok_def)
  ultimately show ?thesis
    using assms(1) by (auto simp: payloads_wf_def fr(1,3) ids_insert [OF assms(2)])
qed

lemma payloads_wf_step:
  assumes "ledger_step F sha s s'" and "keys_wf s" and "payloads_wf sha s"
  shows "payloads_wf sha s'"
  using assms
proof (induction rule: ledger_step.induct)
  case (Touch s' f s)
  note f = Touch_row(1,2) [of f _ F, OF Touch(2)]
  have "ids s' = ids s" using Touch(1) f(1) by (rule ids_map)
  moreover have "payload_ok sha (f r) (payloads s (commandID (f r)))" if "r \<in> set (commands s)" for r
    using Touch(9) that payload_ok_cong [OF f(2) [OF that]] keeps_columns(1) [OF f(1) [OF that]]
    by (simp add: payloads_wf_def)
  ultimately show ?case using Touch(1,4,9) by (simp add: payloads_wf_def)
next
  case (Succeed r s s1 now)
  then have "payloads_wf sha s1" by (intro payloads_wf_succeed [of s sha r s1 now]) simp_all
  then show ?case by (simp add: pruneTx_state payloads_wf_delete_all)
next
  case (Insert input art bytes now r s u s')
  show ?case by (rule payloads_wf_insert [OF Insert(6,4) newRecord_digest [OF Insert(3)]])
next
  case (Remove r s)
  from payloads_wf_delete_all [OF Remove(4)] show ?case by (subst delete_is_fold)
next
  case (Prune s)
  then show ?case by (simp add: pruneTx_state payloads_wf_delete_all)
qed (simp_all add: payloads_wf_def ids_def)

lemma trails_wf_step: "ledger_step F sha s s' \<Longrightarrow> trails_wf s \<Longrightarrow> trails_wf s'"
proof (induction rule: ledger_step.induct)
  case (Touch s' f s)
  note f = Touch_row(1) [of f _ F, OF Touch(2)]
  then have "ids s' = ids s" using Touch ids_map [of s' f s] by simp
  then show ?case unfolding trails_wf_def using Touch(3,8) by (metis trail_ok_Nil trails_wf_def)
next
  case (Succeed r s s1 now)
  have "ids s1 = ids s"
    using Succeed by (intro ids_map [of s1 "\<lambda>x. if x = r then succeed_row now r else x"]) auto
  with Succeed have "trails_wf s1" by (simp add: trails_wf_def)
  then show ?case by (simp add: pruneTx_state trails_wf_delete_all)
next
  case (Insert input art bytes now r s u s')
  from insertTx_frame [OF Insert(4)] ids_insert [OF Insert(4)] Insert(5) show ?case
    unfolding trails_wf_def using trail_ok_known by (metis insertI2)
next
  case (Trail r s st ev now)
  then have "trail_ok True (events s (commandID r) @ [\<lparr>eventSequence = length (events s (commandID r)) + 1,
      eventState = st, evidence = bounded_evidence ev, occurredAt = now\<rparr>])"
    unfolding trails_wf_def by (metis trail_ok_snoc)
  with Trail show ?case by (simp add: trails_wf_def ids_def)
next
  case (Remove r s)
  from trails_wf_delete_all [OF Remove(3)] show ?case by (subst delete_is_fold)
next
  case (Prune s)
  then show ?case by (simp add: pruneTx_state trails_wf_delete_all)
qed (auto simp: trails_wf_def ids_def)

lemma logs_wf_step: "ledger_step F sha s s' \<Longrightarrow> logs_wf s \<Longrightarrow> logs_wf s'"
proof (induction rule: ledger_step.induct)
  case (Touch s' f s)
  from Touch Touch_row(1) [of f _ F, OF Touch(2)] ids_map [of s' f s] show ?case
    by (simp add: logs_wf_def)
next
  case (Succeed r s s1 now)
  have "ids s1 = ids s"
    using Succeed by (intro ids_map [of s1 "\<lambda>x. if x = r then succeed_row now r else x"]) auto
  with Succeed have "logs_wf s1" by (simp add: logs_wf_def)
  then show ?case by (simp add: pruneTx_state logs_wf_delete_all)
next
  case (Insert input art bytes now r s u s')
  from insertTx_frame [OF Insert(4)] ids_insert [OF Insert(4)] Insert(5) show ?case
    by (auto simp: logs_wf_def)
next
  case (Log r s log now)
  then show ?case using truncated_log_length [of log] by (auto simp: logs_wf_def ids_def)
next
  case (Remove r s)
  from logs_wf_delete_all [OF Remove(3)] show ?case by (subst delete_is_fold)
next
  case (Prune s)
  then show ?case by (simp add: pruneTx_state logs_wf_delete_all)
qed (auto simp: logs_wf_def ids_def)

lemma history_wf_step: "ledger_step F sha s s' \<Longrightarrow> keys_wf s \<Longrightarrow> history_wf s \<Longrightarrow> history_wf s'"
proof (induction rule: ledger_step.induct)
  case (Touch s' f s)
  have "length (filter (\<lambda>r. state (f r) = CommandSucceeded) (commands s)) \<le> length (succeeded_rows s)"
    unfolding succeeded_rows_def length_filter_conv_card
  proof (rule card_mono)
    show "{i. i < length (commands s) \<and> state (f (commands s ! i)) = CommandSucceeded}
        \<subseteq> {i. i < length (commands s) \<and> state (commands s ! i) = CommandSucceeded}"
      using Touch_row(3) [of f _ F, OF Touch(2)] nth_mem by (metis (mono_tags, lifting) Collect_mono)
  qed simp
  with Touch show ?case by (simp add: history_wf_def succeeded_rows_def filter_map comp_def)
next
  case (Succeed r s s1 now)
  have "keys_wf s1"
    using Succeed by (intro keys_wf_map [of s "\<lambda>x. if x = r then succeed_row now r else x" s1]) auto
  then show ?case by (rule history_wf_prune)
next
  case (Insert input art bytes now r s u s')
  have "state (inserted_row art r) \<noteq> CommandSucceeded"
    using Insert(3) by (auto simp: newRecord_def inserted_row_def split: sum.splits)
  with insertTx_frame [OF Insert(4)] Insert(6) show ?case by (simp add: history_wf_def succeeded_rows_def)
next
  case (Remove r s)
  from history_wf_delete_all [OF Remove(4)] show ?case by (subst delete_is_fold)
next
  case (Prune s)
  then show ?case by (simp add: history_wf_prune)
qed (auto simp: history_wf_def succeeded_rows_def)

lemma store_wf_step:
  assumes "ledger_step (\<lambda>_. True) sha s s'" and "store_wf sha s"
  shows "store_wf sha s'"
  using assms(2) keys_wf_step [OF assms(1)] wf_rows.ledger_rows [OF assms(1)]
    payloads_wf_step [OF assms(1)] trails_wf_step [OF assms(1)] logs_wf_step [OF assms(1)]
    history_wf_step [OF assms(1)]
  by (simp add: store_wf_def)

lemma store_wf_steps: "ledger_steps (\<lambda>_. True) sha s s' \<Longrightarrow> store_wf sha s \<Longrightarrow> store_wf sha s'"
  by (induction rule: rtranclp_induct) (auto intro: store_wf_step)

interpretation wf_ledger: op_system "queue_enabled (\<lambda>_. True)" "queue_exec sha" "store_wf sha" for sha
  by unfold_locales (rule store_wf_steps [OF queue_exec_steps], auto simp: store_wf_def)

interpretation counted_ledger: op_system "queue_enabled upload_open" "queue_exec sha"
  "\<lambda>s. keys_wf s \<and> all_rows row_counts s" for sha
  by unfold_locales (auto intro: keys_wf_steps [OF queue_exec_steps] counted_rows.exec_rows)

lemma queue_enabled_any: "queue_enabled F op s \<Longrightarrow> queue_enabled (\<lambda>_. True) op s"
  by (auto simp: queue_enabled_def split: queue_op.splits option.splits)

lemma empty_store_wf: "store_wf sha (empty_store limit)"
  by (simp add: store_wf_def empty_store_def keys_wf_def all_rows_def payloads_wf_def trails_wf_def
      logs_wf_def history_wf_def succeeded_rows_def)

end
