(* ===== verification/Queue_Props.thy ===== *)
theory Queue_Props
  imports Queue_Wf
begin

text \<open>
  What the command ledger promises, stated on the operations of \<open>Queue_Ledger\<close> and
  \<open>Queue_Scheduler\<close>: submission, scheduling, outcomes, the authority fence and recovery. The
  sample ledgers at the start are the concrete inputs the witnesses evaluate.
\<close>

section \<open>Sample ledgers\<close>

definition sample_bytes :: string where
  "sample_bytes = replicate 16 (CHR ''k'')"

definition sample_id :: string where
  "sample_id = ''cmd-6b6b6b6b6b6b6b6b6b6b6b6b6b6b6b6b''"

definition sample_input :: SubmitInput where
  "sample_input =
     \<lparr>inAction = ''stack.deploy'', inActor = ''ops'', inAuthorityEpoch = 1, inAutoRetry = True,
      inClusterID = '''', inIdempotencyKey = ''key-1'', inMaxArtifactBytes = 64, inMaxAttempts = 2,
      inPayload = ''{}'', inRequestID = ''req-1'', inServerID = ''srv-1'', inTarget = ''web''\<rparr>"

definition sample_sha :: "string \<Rightarrow> string" where "sample_sha p = p"

definition sample_submit :: queue_op where
  "sample_submit = OpSubmit ([], Some sample_bytes, 10) ([], None, 0) sample_input"

text \<open>The row that submission inserts, and ledgers holding it in the states it passes through.\<close>

definition sample_row :: commandRow where
  "sample_row =
     \<lparr>action = ''stack.deploy'', actor = ''ops'', attempt = 0, authorityEpoch = 1, autoRetry = True,
      clusterID = ''default'', createdAt = 10, failureCode = '''', failureSummary = '''',
      commandID = sample_id, lastAttemptAt = None, lastError = '''', leaseExpiresAt = None,
      maxAttempts = 2, nextAttemptAt = None, nodeID = ''srv-1'', requestID = ''req-1'',
      recoveryHint = '''', serverID = ''srv-1'', state = CommandQueued, target = ''web'',
      updatedAt = 10, artifact = False, idempotencyKey = ''key-1'', leaseID = '''',
      payloadDigest = ''{}'', seq = 1\<rparr>"

definition sample_store :: "commandRow \<Rightarrow> queue_store" where
  "sample_store r = (empty_store 2)\<lparr>commands := [r], nextSeq := 2,
     payloads := [commandID r \<mapsto> ''{}'']\<rparr>"

definition sample_running :: queue_store where
  "sample_running = sample_store (claim_row 20 sample_row)"

definition sample_leased :: queue_store where
  "sample_leased = sample_store (lease_row 1 (10 * Second) ''lease-1'' 20 sample_row)"

lemma sample_id_pattern [simp]: "commandIDPattern sample_id"
  by code_simp

lemma sample_id_trim [simp]: "TrimSpace sample_id = sample_id"
  unfolding sample_id_def by code_simp

lemma sample_id_hex: "''cmd-'' @ hex_encode sample_bytes = sample_id"
  unfolding sample_id_def sample_bytes_def by code_simp

lemma sample_row_wf: "row_wf sample_row"
  by (simp add: row_wf_def sample_row_def update_fits_def maxAttemptsLimit_def RuneCount_def)

lemma sample_store_wf:
  assumes "row_wf r" "seq r = 1" "payloadDigest r = ''{}''" "state r \<noteq> CommandSucceeded"
  shows "store_wf sample_sha (sample_store r)"
  using assms
  by (simp add: store_wf_def sample_store_def empty_store_def keys_wf_def all_rows_def payloads_wf_def
      payload_ok_def digest_def sample_sha_def ids_def trails_wf_def logs_wf_def history_wf_def succeeded_rows_def)

lemma sample_id_runes: "length (filter rune_start sample_id) \<le> 36"
  by (rule order_trans [OF length_filter_le]) (simp add: sample_id_def)

lemma sample_trim [simp]:
  "TrimSpace ''stack.deploy'' = ''stack.deploy''" "TrimSpace ''ops'' = ''ops''"
  "TrimSpace ''key-1'' = ''key-1''" "TrimSpace ''req-1'' = ''req-1''"
  "TrimSpace ''srv-1'' = ''srv-1''" "TrimSpace ''web'' = ''web''"
  by code_simp+

lemma sample_valid: "validateInput sample_input art = None"
  using json_Valid_empty_object
  by (simp add: validateInput_def sample_input_def invalid_field_def ContainsAny_def control_chars_def
      maxPayloadBytes_def maxAttemptsLimit_def)

lemma sample_submitTx:
  "submitTx sample_sha (Some sample_bytes) 10 sample_input (empty_store 2) =
     Inr ((\<lparr>subCommand = public sample_row, subCreated = True, subSuperseded = []\<rparr>, []), sample_store sample_row)"
  using sample_id_hex sample_id_runes
  by (simp add: submitTx_def idempotentTx_def newRecord_def newID_def supersedeTx_def supersede_candidates_def
      lockRows_def insertTx_def pruneTx_def Let_def sample_input_def empty_store_def sample_row_def
      sample_store_def valueOrDefault_def digest_def sample_sha_def insert_fits_def update_fits_def RuneCount_def
      rune_start_def Command.truncate_def)

lemma sample_submitted: "queue_exec sample_sha sample_submit (empty_store 2) = sample_store sample_row"
  by (simp add: sample_submit_def SubmitWithResult_def sample_valid submit_def
      WithTx_runs [where fn = "submitTx sample_sha (Some sample_bytes) 10 sample_input" and s = "empty_store 2", OF sample_submitTx])

lemma sample_claimTx:
  "claimTx 20 [] (sample_store sample_row) =
     Inr (Some \<lparr>recArtifact = False, recCommand = public (claim_row 20 sample_row), recPayload = Some ''{}''\<rparr>,
          sample_running)"
  by (simp add: claimTx_def oldest_due_def due_def row_first_def sample_running_def sample_store_def
      sample_row_def claim_row_def updateTx_def update_fits_def clear_events_def empty_store_def
      oneOfCommandState_def row_update_def write_columns_def Let_def RuneCount_def fun_upd_idem)

lemma sample_claimed: "queue_exec sample_sha (OpClaim [] 20 []) (sample_store sample_row) = sample_running"
  by (simp add: ClaimDue_def
      WithTx_runs [where fn = "claimTx 20 []" and s = "sample_store sample_row", OF sample_claimTx])

lemma sample_running_reachable:
  "reach (queue_enabled F) (queue_exec sample_sha) (empty_store 2) sample_running"
  unfolding sample_claimed [symmetric] sample_submitted [symmetric]
  by (intro reach.step reach.start)
    (simp_all add: queue_enabled_def sample_submit_def drawn_def sample_bytes_def)

lemma samples_wf:
  "store_wf sample_sha (sample_store sample_row)" "store_wf sample_sha sample_running"
  "store_wf sample_sha sample_leased"
  unfolding sample_running_def sample_leased_def
  by (intro sample_store_wf; simp add: row_wf_def sample_row_def claim_row_def lease_row_def update_fits_def
      maxAttemptsLimit_def RuneCount_def rune_start_def)+

definition sample_succeeded :: queue_store where
  "sample_succeeded = (empty_store 2)\<lparr>commands := [succeed_row 30 (claim_row 20 sample_row)], nextSeq := 2\<rparr>"

lemma sample_succeeded_wf: "store_wf sample_sha sample_succeeded"
  by (simp add: store_wf_def sample_succeeded_def empty_store_def keys_wf_def all_rows_def payloads_wf_def
      payload_ok_def ids_def trails_wf_def logs_wf_def history_wf_def succeeded_rows_def row_wf_def
      succeed_row_def claim_row_def sample_row_def clearCommandFailureDiagnostic_def update_fits_def
      maxAttemptsLimit_def RuneCount_def)

section \<open>Every reachable ledger is well-formed\<close>

text \<open>C1: Starting from an empty ledger, after any sequence of the store's operations with any
  faults of \<open>Sql_Tx\<close>, clocks and interleavings, the ledger is well-formed: unique keys in insertion order,
  every row within its lifecycle contract, payload rows exactly where a digest is recorded and
  matching it, progress trails numbered without gaps and bounded, execution logs bounded, and no
  more succeeded commands than the history limit.\<close>

theorem reachable_store_wf:
  assumes "reach (queue_enabled (\<lambda>_. True)) (queue_exec sha) (empty_store limit) s"
  shows "store_wf sha s"
  using assms empty_store_wf by (rule wf_ledger.reach_inv)

theorem reachable_store_wf_witness:
  "store_wf sample_sha sample_running \<and> map state (commands sample_running) = [CommandRunning]"
  using reachable_store_wf [OF sample_running_reachable]
  by (simp add: sample_running_def sample_store_def claim_row_def)

text \<open>C3: As long as the second transaction of an artifact submission finds its row still marked
  as uploading, no command is ever attempted more often than its limit allows, the limit is at
  most eight, a queued command has used no attempt, and one in flight has used at least one.\<close>

theorem attempts_bounded:
  assumes "reach (queue_enabled upload_open) (queue_exec sha) (empty_store limit) s"
    and "r \<in> set (commands s)"
  shows "attempt r \<le> maxAttempts r \<and> maxAttempts r \<le> 8 \<and>
    (state r = CommandQueued \<longrightarrow> attempt r = 0) \<and>
    (oneOfCommandState (state r) in_flight \<longrightarrow> 1 \<le> attempt r)"
proof -
  have "reach (queue_enabled (\<lambda>_. True)) (queue_exec sha) (empty_store limit) s"
    using assms(1) queue_enabled_any by (rule reach_mono)
  then have "store_wf sha s" using empty_store_wf by (rule wf_ledger.reach_inv)
  moreover have "keys_wf s \<and> all_rows row_counts s"
    using assms(1) by (rule counted_ledger.reach_inv) (simp add: all_rows_def empty_store_def keys_wf_def)
  ultimately show ?thesis
    using assms(2) by (auto simp: store_wf_def all_rows_def list_all_iff row_wf_def row_counts_def maxAttemptsLimit_def)
qed

theorem attempts_bounded_witness:
  "attempt (claim_row 20 sample_row) \<le> maxAttempts (claim_row 20 sample_row) \<and>
   oneOfCommandState (state (claim_row 20 sample_row)) in_flight"
  using attempts_bounded [OF sample_running_reachable, of "claim_row 20 sample_row"]
  by (simp add: sample_running_def sample_store_def claim_row_def oneOfCommandState_def)

section \<open>Claiming\<close>

lemma oldest_due_first:
  assumes "oldest_due P now skip s = Some r"
  shows "\<forall>q\<in>set (commands s). P q \<and> due now q \<and> commandID q \<notin> set skip \<longrightarrow>
    (createdAt r, seq r) \<le> (createdAt q, seq q)"
  using row_first_SomeD [OF assms [unfolded oldest_due_def]] by simp

lemma filter_eq_single: "distinct xs \<Longrightarrow> x \<in> set xs \<Longrightarrow> filter (\<lambda>y. y = x) xs = [x]"
  by (induction xs) (auto simp: filter_empty_conv)

lemma claimTx_Some:
  assumes "keys_wf s" "claimTx now skip s = Inr (Some rec, s')"
  obtains r where "oldest_due (\<lambda>_. True) now skip s = Some r"
    and "\<forall>q\<in>set (commands s). state q \<noteq> CommandRunning"
    and "commands s' = map (\<lambda>q. if q = r then claim_row now r else q) (commands s)"
    and "payloads s' = payloads s" and "events s' = (events s)(commandID r := [])"
    and "rec = \<lparr>recArtifact = artifact r, recCommand = public (claim_row now r),
                recPayload = payloads s (commandID r)\<rparr>"
proof -
  from assms(2) obtain r where r: "oldest_due (\<lambda>_. True) now skip s = Some r"
    and idle: "\<forall>q\<in>set (commands s). state q \<noteq> CommandRunning"
    and u: "updateTx (claim_row now r) (clear_events (commandID r) s) = Inr ((), s')"
    and rec: "rec = \<lparr>recArtifact = artifact (claim_row now r), recCommand = public (claim_row now r),
                recPayload = payloads s' (commandID r)\<rparr>"
    by (auto simp: claimTx_def Let_def list_ex_iff split: if_splits option.splits sum.splits)
  have k: "keys_wf (clear_events (commandID r) s)" using assms(1) by (simp add: keys_wf_def clear_events_def)
  have m: "r \<in> set (commands (clear_events (commandID r) s))"
    using oldest_due_Some [OF r] by (simp add: clear_events_def)
  note fr = updateTx_frame [OF u]
  show thesis
  proof (rule that [OF r idle])
    show "commands s' = map (\<lambda>q. if q = r then claim_row now r else q) (commands s)"
      using updateTx_commands [OF k m _ u] by (simp add: clear_events_def)
    show "payloads s' = payloads s" "events s' = (events s)(commandID r := [])"
      using fr by (simp_all add: clear_events_def)
    show "rec = \<lparr>recArtifact = artifact r, recCommand = public (claim_row now r),
        recPayload = payloads s (commandID r)\<rparr>"
      using fr(1) by (simp add: rec clear_events_def claim_row_def)
  qed
qed

lemma state_claim_row [simp]: "state (claim_row now r) = CommandRunning"
  by (simp add: claim_row_def)

text \<open>C2: When a claim returns a command, under any schedule of the database: it was due, no older
  due command (by creation time, then sequence) was available, its payload is the stored one, its
  row is the only one that changed, and it is now the only running command in the ledger.\<close>

theorem ClaimDue_oldest_and_alone:
  assumes "store_wf sha s" and "ClaimDue evs now skip s = (Inr (Some rec), s')"
  shows "\<exists>r\<in>set (commands s). due now r \<and> commandID r \<notin> set skip \<and>
    (\<forall>q\<in>set (commands s). due now q \<and> commandID q \<notin> set skip \<longrightarrow>
       (createdAt r, seq r) \<le> (createdAt q, seq q)) \<and>
    recCommand rec = public (claim_row now r) \<and> recPayload rec = payloads s (commandID r) \<and>
    commands s' = map (\<lambda>q. if q = r then claim_row now r else q) (commands s) \<and>
    filter (\<lambda>q. state q = CommandRunning) (commands s') = [claim_row now r]"
proof -
  have k: "keys_wf s" using assms(1) by (simp add: store_wf_def)
  have "claimTx now skip s = Inr (Some rec, s')"
    using WithTx_value [of evs "claimTx now skip" s] assms(2) by (simp add: ClaimDue_def)
  then obtain r where
    r: "oldest_due (\<lambda>_. True) now skip s = Some r"
    and idle: "\<forall>q\<in>set (commands s). state q \<noteq> CommandRunning"
    and cmds: "commands s' = map (\<lambda>q. if q = r then claim_row now r else q) (commands s)"
    and "payloads s' = payloads s" "events s' = (events s)(commandID r := [])"
    and rec: "rec = \<lparr>recArtifact = artifact r, recCommand = public (claim_row now r),
                recPayload = payloads s (commandID r)\<rparr>" by (rule claimTx_Some [OF k])
  have d: "distinct (commands s)" using k by (simp add: keys_wf_def distinct_map)
  have "filter (\<lambda>q. state (if q = r then claim_row now r else q) = CommandRunning) (commands s) =
      filter (\<lambda>q. q = r) (commands s)"
    by (rule filter_cong) (use idle in auto)
  then have "filter (\<lambda>q. state q = CommandRunning) (commands s') =
      map (\<lambda>q. if q = r then claim_row now r else q) (filter (\<lambda>q. q = r) (commands s))"
    by (simp add: cmds filter_map comp_def)
  also have "filter (\<lambda>q. q = r) (commands s) = [r]"
    using d oldest_due_Some [OF r] by (simp add: filter_eq_single)
  finally have "filter (\<lambda>q. state q = CommandRunning) (commands s') = [claim_row now r]" by simp
  then show ?thesis
    using oldest_due_Some [OF r] oldest_due_first [OF r] cmds rec by (intro bexI [of _ r]) simp_all
qed

theorem ClaimDue_oldest_and_alone_witness:
  "filter (\<lambda>q. state q = CommandRunning) (commands sample_running) = [claim_row 20 sample_row]"
  using ClaimDue_oldest_and_alone [OF samples_wf(1), of "[]" 20 "[]"]
    WithTx_runs [where fn = "claimTx 20 []" and s = "sample_store sample_row", OF sample_claimTx]
  by (auto simp: ClaimDue_def sample_store_def)

text \<open>C4: The scheduler never stalls: on a well-formed ledger with nothing running, if some due
  command is not held by another transaction, a claim without database faults returns one.\<close>

theorem ClaimDue_progress:
  assumes "store_wf sha s" and "\<forall>q\<in>set (commands s). state q \<noteq> CommandRunning"
    and "r \<in> set (commands s)" "due now r" "commandID r \<notin> set skip"
  shows "\<exists>rec s'. ClaimDue [] now skip s = (Inr (Some rec), s')"
proof -
  have "oldest_due (\<lambda>_. True) now skip s \<noteq> None"
    using assms(3-5) by (auto simp: oldest_due_def filter_empty_conv)
  then obtain q where q: "oldest_due (\<lambda>_. True) now skip s = Some q" by auto
  then have "row_wf q" using assms(1) oldest_due_Some [OF q] by (simp add: store_wf_def all_rows_def list_all_iff)
  then have "updateTx (claim_row now q) (clear_events (commandID q) s) \<noteq> Inl e" for e
    by (auto simp: updateTx_def row_wf_def update_fits_def claim_row_def)
  then obtain s' where "updateTx (claim_row now q) (clear_events (commandID q) s) = Inr ((), s')"
    by (metis (full_types) obj_sumE old.unit.exhaust prod.exhaust)
  then have "\<exists>rec. claimTx now skip s = Inr (Some rec, s')"
    using q assms(2) by (simp add: claimTx_def list_ex_iff Let_def)
  then show ?thesis
    unfolding ClaimDue_def using WithTx_runs [of "claimTx now skip" s] by metis
qed

theorem ClaimDue_progress_witness:
  "\<exists>rec s'. ClaimDue [] 20 [] (sample_store sample_row) = (Inr (Some rec), s')"
  by (rule ClaimDue_progress [OF samples_wf(1), of sample_row])
    (simp_all add: sample_store_def sample_row_def due_def oneOfCommandState_def)

section \<open>Submission\<close>

lemma submit_once_error: "submit_once sha d input s = (Inl e, s') \<Longrightarrow> s' = s"
  by (cases d) (auto dest: WithTx_errorD)

lemma submit_once_value:
  "submit_once sha d input s = (Inr (sub, cleanup), s') \<Longrightarrow>
     \<exists>rid now. submitTx sha rid now input s = Inr ((sub, cleanup), s')"
  by (cases d) (auto dest: WithTx_valueD)

lemma submit_value:
  assumes "SubmitWithResult sha d1 d2 input s = (Inr sub, s')"
  obtains rid now cleanup s2 where "validateInput input False = None"
    and "submitTx sha rid now input s = Inr ((sub, cleanup), s2)" and "s' = fold removeArtifact cleanup s2"
proof -
  obtain o1 s1 where o1: "submit_once sha d1 input s = (o1, s1)" by fastforce
  have v: "validateInput input False = None" using assms by (auto simp: SubmitWithResult_def split: option.splits)
  have sub: "submit sha d1 d2 input s = (Inr sub, s')" using assms v by (simp add: SubmitWithResult_def)
  show thesis
  proof (cases o1)
    case (Inl e)
    then have "s1 = s" using o1 submit_once_error by blast
    moreover obtain o2 s2 where o2: "submit_once sha d2 input s1 = (o2, s2)" by fastforce
    ultimately obtain cleanup where "o2 = Inr (sub, cleanup)" "s' = fold removeArtifact cleanup s2" "s1 = s"
      using sub o1 Inl by (auto simp: submit_def Let_def split: if_splits sum.splits prod.splits)
    then show thesis using that [OF v] submit_once_value o2 by metis
  next
    case (Inr a)
    then obtain cleanup where "a = (sub, cleanup)" "s' = fold removeArtifact cleanup s1"
      using sub o1 by (cases a) (auto simp: submit_def)
    then show thesis using that [OF v] submit_once_value o1 Inr by metis
  qed
qed

lemma submit_error:
  assumes "SubmitWithResult sha d1 d2 input s = (Inl e, s')"
  shows "s' = s"
proof (cases "validateInput input False")
  case None
  obtain o1 s1 where o1: "submit_once sha d1 input s = (o1, s1)" by fastforce
  have sub: "submit sha d1 d2 input s = (Inl e, s')" using assms None by (simp add: SubmitWithResult_def)
  show ?thesis
  proof (cases o1)
    case (Inl e')
    then have "s1 = s" using o1 submit_once_error by blast
    moreover obtain o2 s2 where o2: "submit_once sha d2 input s1 = (o2, s2)" by fastforce
    ultimately show ?thesis
      using sub o1 Inl submit_once_error [of sha d2 input s]
      by (auto simp: submit_def Let_def split: if_splits sum.splits prod.splits)
  qed (use sub o1 in \<open>auto simp: submit_def split: prod.splits\<close>)
qed (use assms in \<open>simp add: SubmitWithResult_def\<close>)



lemma submitTx_created:
  assumes "submitTx sha rid now input s = Inr ((sub, cleanup), s')" and "subCreated sub"
  obtains r s2 where "newRecord sha rid now input False = Inr r"
    and "insertTx r (inPayload input) (snd (supersedeTx input s)) = Inr ((), s2)"
    and "s' = snd (pruneTx s2)" and "subCommand sub = public r"
proof (cases "idempotentTx sha input False s")
  case (Inr found)
  show thesis
  proof (cases found)
    case None
    with assms Inr obtain r s2 where "newRecord sha rid now input False = Inr r"
      "insertTx r (inPayload input) (snd (supersedeTx input s)) = Inr ((), s2)"
      "s' = snd (pruneTx s2)" "subCommand sub = public r"
      by (auto simp: submitTx_def Let_def split: sum.splits prod.splits)
    then show thesis by (rule that)
  qed (use assms Inr in \<open>auto simp: submitTx_def\<close>)
qed (use assms in \<open>simp add: submitTx_def\<close>)

lemma submitTx_found:
  assumes "submitTx sha rid now input s = Inr ((sub, cleanup), s')" and "\<not> subCreated sub"
  shows "s' = s" "cleanup = []"
  using assms by (auto simp: submitTx_def Let_def split: sum.splits option.splits prod.splits)

lemma pruned_succeeded:
  assumes "keys_wf s" "r \<in> set (commands s)" "commandID r \<in> set (pruned_ids s)"
  shows "state r = CommandSucceeded"
proof -
  from assms(3) obtain q where "q \<in> set (succeeded_rows s)" "commandID q = commandID r"
    by (auto simp: pruned_ids_eq dest!: in_set_takeD)
  moreover from this have "q = r"
    using assms(1,2) by (auto simp: succeeded_rows_def keys_wf_def distinct_map dest: inj_onD)
  ultimately show ?thesis by (simp add: succeeded_rows_def)
qed

lemma prune_keeps:
  assumes "keys_wf s" "r \<in> set (commands s)" "state r \<noteq> CommandSucceeded"
  shows "r \<in> set (commands (snd (pruneTx s)))"
  using assms pruned_succeeded [of s r] by (auto simp: pruneTx_state delete_all_commands)

lemma supersede_state:
  "snd (supersedeTx input s) =
     fold delete_command (map commandID (filter supersedable (supersede_candidates input s))) s"
  by (simp add: supersedeTx_def Let_def)

lemma keys_wf_supersede: "keys_wf s \<Longrightarrow> keys_wf (snd (supersedeTx input s))"
  by (simp add: supersede_state keys_wf_delete_all)

lemma removeArtifacts_frame [simp]:
  "commands (fold removeArtifact cs s) = commands s" "payloads (fold removeArtifact cs s) = payloads s"
  "events (fold removeArtifact cs s) = events s" "outputs (fold removeArtifact cs s) = outputs s"
  "nextSeq (fold removeArtifact cs s) = nextSeq s" "historyLimit (fold removeArtifact cs s) = historyLimit s"
  using removeArtifacts_inputs [of cs s] by auto

text \<open>The rows a submission is about: the same action on the same target of the same server.\<close>

definition same_intent :: "SubmitInput \<Rightarrow> commandRow \<Rightarrow> bool" where
  "same_intent input r \<longleftrightarrow> action r = TrimSpace (inAction input) \<and>
     serverID r = TrimSpace (inServerID input) \<and> target r = TrimSpace (inTarget input)"

lemma candidates_iff:
  "r \<in> set (supersede_candidates input s) \<and> supersedable r \<longleftrightarrow>
     r \<in> set (commands s) \<and> same_intent input r \<and> supersedable r"
  by (auto simp: supersede_candidates_def lockRows_def same_intent_def supersedable_def
      oneOfCommandState_def split: CommandState.splits)

lemma supersede_commands:
  assumes "keys_wf s"
  shows "commands (snd (supersedeTx input s)) =
    filter (\<lambda>r. \<not> (same_intent input r \<and> supersedable r)) (commands s)"
  unfolding supersede_state delete_all_commands
proof (rule filter_cong [OF refl])
  fix r assume r: "r \<in> set (commands s)"
  have "inj_on commandID (set (commands s))" using assms by (simp add: keys_wf_def distinct_map)
  then have "commandID r \<in> commandID ` {q \<in> set (commands s). same_intent input q \<and> supersedable q} \<longleftrightarrow>
      same_intent input r \<and> supersedable r"
    using r by (auto dest: inj_onD)
  moreover have "set (filter supersedable (supersede_candidates input s)) =
      {q \<in> set (commands s). same_intent input q \<and> supersedable q}"
    using candidates_iff [of _ input s] by auto
  ultimately show "(commandID r \<notin> set (map commandID (filter supersedable (supersede_candidates input s))))
      = (\<not> (same_intent input r \<and> supersedable r))" by simp
qed


lemma sample_created:
  "SubmitWithResult sample_sha ([], Some sample_bytes, 10) ([], None, 0) sample_input (empty_store 2) =
     (Inr \<lparr>subCommand = public sample_row, subCreated = True, subSuperseded = []\<rparr>, sample_store sample_row)"
  by (simp add: SubmitWithResult_def sample_valid submit_def
      WithTx_runs [where fn = "submitTx sample_sha (Some sample_bytes) 10 sample_input" and s = "empty_store 2", OF sample_submitTx])


lemma keys_wf_unique:
  "keys_wf s \<Longrightarrow> q \<in> set (commands s) \<Longrightarrow> r \<in> set (commands s) \<Longrightarrow> actor q = actor r \<Longrightarrow>
   idempotencyKey q = idempotencyKey r \<Longrightarrow> q = r"
  unfolding keys_wf_def distinct_map inj_on_def by blast

lemma find_unique:
  assumes "x \<in> set xs" "P x" and unique: "\<And>y. y \<in> set xs \<Longrightarrow> P y \<Longrightarrow> y = x"
  shows "List.find P xs = Some x"
proof (cases "List.find P xs")
  case None
  then have "\<forall>y\<in>set xs. \<not> P y" by (simp add: find_None_iff)
  with assms(1,2) show ?thesis by blast
next
  case (Some y)
  then have "y \<in> set xs" "P y" by (auto simp: find_Some_iff)
  from unique [OF this] Some show ?thesis by simp
qed

text \<open>C7: A lost response is safe to repeat: submitting the same input again right after it was
  accepted creates nothing and returns the original command, provided the hash of the payload is
  not the empty string.\<close>

theorem resubmission_returns_original:
  assumes "store_wf sha s" and "SubmitWithResult sha d1 d2 input s = (Inr sub, s')" and "subCreated sub"
    and "sha (inPayload input) \<noteq> ''''"
  shows "SubmitWithResult sha ([], rid', now') d input s' =
    (Inr \<lparr>subCommand = subCommand sub, subCreated = False, subSuperseded = []\<rparr>, s')"
proof -
  have k: "keys_wf s" using assms(1) by (simp add: store_wf_def)
  obtain rid now cleanup s3 where v: "validateInput input False = None"
    and tx: "submitTx sha rid now input s = Inr ((sub, cleanup), s3)"
    and s': "s' = fold removeArtifact cleanup s3" using assms(2) by (rule submit_value)
  obtain r s2 where new: "newRecord sha rid now input False = Inr r"
    and ins: "insertTx r (inPayload input) (snd (supersedeTx input s)) = Inr ((), s2)"
    and s3: "s3 = snd (pruneTx s2)" and sub: "subCommand sub = public r"
    using tx assms(3) by (rule submitTx_created)
  let ?new = "r\<lparr>seq := nextSeq (snd (supersedeTx input s))\<rparr>"
  have k2: "keys_wf s2" using ins keys_wf_supersede [OF k] by (rule keys_wf_insert)
  have r: "actor r = TrimSpace (inActor input)" "idempotencyKey r = TrimSpace (inIdempotencyKey input)"
    "state r = CommandQueued" "\<not> artifact r" "action r = TrimSpace (inAction input)"
    "serverID r = TrimSpace (inServerID input)" "target r = TrimSpace (inTarget input)"
    "payloadDigest r = digest sha (inPayload input)"
    using new by (auto simp: newRecord_def split: sum.splits)
  have "?new \<in> set (commands s2)" using insertTx_frame(1) [OF ins] by simp
  then have mem: "?new \<in> set (commands s')"
    using prune_keeps [OF k2] r(3) by (simp add: s' s3)
  have k': "keys_wf s'"
    using keys_wf_prune [OF k2] by (simp add: keys_wf_def s' s3)
  have "List.find (\<lambda>q. actor q = TrimSpace (inActor input) \<and>
      idempotencyKey q = TrimSpace (inIdempotencyKey input)) (commands s') = Some ?new"
    by (rule find_unique [OF mem]) (simp add: r, rule keys_wf_unique [OF k' _ mem], simp_all add: r)
  moreover have "inPayload input \<noteq> ''''" using v json_Valid_nonempty by (auto simp: validateInput_def split: if_splits)
  ultimately have "idempotentTx sha input False s' = Inr (Some (public ?new))"
    using r assms(4) by (simp add: idempotentTx_def digest_def)
  then have "submitTx sha rid' now' input s' =
      Inr ((\<lparr>subCommand = public ?new, subCreated = False, subSuperseded = []\<rparr>, []), s')"
    by (simp add: submitTx_def)
  from WithTx_runs [of "submitTx sha rid' now' input", OF this]
  show ?thesis by (simp add: SubmitWithResult_def v submit_def sub Command.truncate_def)
qed

theorem resubmission_returns_original_witness:
  "fst (SubmitWithResult sample_sha ([], None, 15) ([], None, 0) sample_input (sample_store sample_row)) =
     Inr \<lparr>subCommand = public sample_row, subCreated = False, subSuperseded = []\<rparr>"
  using resubmission_returns_original [OF empty_store_wf sample_created]
  by (simp add: sample_sha_def sample_input_def)

text \<open>C17: Once the command has succeeded its payload digest is gone, so the same resubmission is
  refused as an idempotency conflict and changes nothing (every valid payload is non-empty).\<close>

theorem resubmission_after_success_conflicts:
  assumes "store_wf sha s" and "r \<in> set (commands s)" and "state r = CommandSucceeded"
    and "actor r = TrimSpace (inActor input)" and "idempotencyKey r = TrimSpace (inIdempotencyKey input)"
    and "validateInput input False = None"
  shows "SubmitWithResult sha ([], rid, now) d input s = (Inl (Domain IdempotencyConflict), s)"
proof -
  have k: "keys_wf s" using assms(1) by (simp add: store_wf_def)
  have "List.find (\<lambda>q. actor q = TrimSpace (inActor input) \<and>
      idempotencyKey q = TrimSpace (inIdempotencyKey input)) (commands s) = Some r"
    by (rule find_unique [OF assms(2)]) (simp add: assms(4,5), rule keys_wf_unique [OF k _ assms(2)], simp_all add: assms(4,5))
  moreover have "row_wf r" using assms(1,2) by (simp add: store_wf_def all_rows_def list_all_iff)
  then have "payloadDigest r = ''''" using assms(3) by (simp add: row_wf_def)
  moreover have "inPayload input \<noteq> ''''"
    using assms(6) json_Valid_nonempty by (auto simp: validateInput_def split: if_splits)
  ultimately have "submitTx sha rid now input s = Inl (Domain IdempotencyConflict)"
    by (simp add: submitTx_def idempotentTx_def)
  from WithTx_domain_error [of "submitTx sha rid now input", OF this]
  show ?thesis by (simp add: SubmitWithResult_def assms(6) submit_def IsDuplicate_def)
qed

theorem resubmission_after_success_conflicts_witness:
  "SubmitWithResult sample_sha ([], Some sample_bytes, 40) ([], None, 0) sample_input sample_succeeded =
     (Inl (Domain IdempotencyConflict), sample_succeeded)"
  by (rule resubmission_after_success_conflicts [OF sample_succeeded_wf _ _ _ _ sample_valid, of "succeed_row 30 (claim_row 20 sample_row)"])
    (simp_all add: sample_succeeded_def sample_input_def succeed_row_def claim_row_def
      sample_row_def clearCommandFailureDiagnostic_def)

end
