(* ===== verification/Queue_Outcomes.thy ===== *)
theory Queue_Outcomes
  imports Queue_Props
begin

text \<open>
  What the ledger promises about outcomes: completing, failing and retrying a command, lease
  capabilities and expiry, the authority fence, crash recovery, pruning, and the stored inputs
  and execution logs.
\<close>

section \<open>Running a transition without faults\<close>

lemma strip_runes_hd:
  assumes "s \<noteq> []" "\<forall>w\<in>set ws. w \<noteq> [] \<longrightarrow> hd w \<noteq> hd s"
  shows "strip_runes ws s = s"
proof (rule strip_runes_fixed)
  have "\<not> starts_rune s w" if "w \<in> set ws" for w
    using assms that by (cases w; cases s) (auto simp: starts_rune_def)
  then show "List.find (starts_rune s) ws = None" by (simp add: find_None_iff)
qed

lemma space_runes_ends:
  "list_all (\<lambda>w. hd w \<noteq> CHR ''c'') space_runes" "list_all (\<lambda>w. \<not> hex_digit (hd w)) (map rev space_runes)"
  by code_simp+

lemma commandIDPattern_trim: "commandIDPattern cid \<Longrightarrow> TrimSpace cid = cid"
proof -
  assume p: "commandIDPattern cid"
  then have "take (length ''cmd-'') cid = ''cmd-''" and d: "length cid = 36" "list_all hex_digit (drop 4 cid)"
    by (simp_all add: commandIDPattern_def HasPrefix_def)
  then have h: "hd cid = CHR ''c''" "cid \<noteq> []" by (cases cid; simp)+
  have "drop 4 cid \<noteq> []" using d(1) by simp
  then have "last (drop 4 cid) \<in> set (drop 4 cid)" by (rule last_in_set)
  moreover have "last (drop 4 cid) = last cid" using d(1) by (simp add: last_drop)
  ultimately have l: "hex_digit (last cid)" using d(2) by (simp add: list_all_iff)
  have "strip_runes space_runes cid = cid"
    using h space_runes_ends(1) by (intro strip_runes_hd) (auto simp: list_all_iff)
  moreover have "strip_runes (map rev space_runes) (rev cid) = rev cid"
    using h l space_runes_ends(2) by (intro strip_runes_hd) (auto simp: list_all_iff hd_rev)
  ultimately show ?thesis by (simp add: TrimSpace_def)
qed

lemma store_wf_rows: "store_wf sha s \<Longrightarrow> r \<in> set (commands s) \<Longrightarrow> row_wf r"
  by (simp add: store_wf_def all_rows_def list_all_iff)

lemma keys_wf_id:
  "keys_wf s \<Longrightarrow> q \<in> set (commands s) \<Longrightarrow> r \<in> set (commands s) \<Longrightarrow> commandID q = commandID r \<Longrightarrow> q = r"
  unfolding keys_wf_def distinct_map inj_on_def by blast

lemma store_wf_lockRow:
  "store_wf sha s \<Longrightarrow> r \<in> set (commands s) \<Longrightarrow> lockRow (commandID r) s = Some r"
  unfolding lockRow_def by (rule row_find_distinct) (simp_all add: store_wf_def keys_wf_def)

lemma transitionTx_runs:
  assumes "store_wf sha s" "r \<in> set (commands s)" "fn r s = Inr (a, s')"
  shows "transitionTx [] (commandID r) fn s = (Inr a, s')"
proof -
  have "commandIDPattern (commandID r)" using store_wf_rows [OF assms(1,2)] by (simp add: row_wf_def)
  then show ?thesis
    using assms(3) store_wf_lockRow [OF assms(1,2)]
    by (simp add: transitionTx_def commandIDPattern_trim WithTx_runs)
qed

lemma transitionTx_refuses:
  assumes "\<And>r. r \<in> set (commands s) \<Longrightarrow> commandID r = cid \<Longrightarrow> \<exists>e. fn r s = Inl e"
  shows "\<exists>e. transitionTx evs cid fn s = (Inl e, s)"
proof (cases "commandIDPattern (TrimSpace cid)")
  case True
  let ?body = "\<lambda>s. case lockRow cid s of None \<Rightarrow> Inl (Domain CommandNotFound) | Some row \<Rightarrow> fn row s"
  have "\<exists>e. ?body s = Inl e"
  proof (cases "lockRow cid s")
    case (Some r)
    then show ?thesis using assms lockRow_Some [OF Some] by simp
  qed simp
  then obtain e where e: "?body s = Inl e" ..
  show ?thesis
  proof (cases rule: WithTx_cases [of evs ?body s])
    case (1 e')
    then show ?thesis using True by (simp add: transitionTx_def)
  qed (simp add: e)
qed (simp add: transitionTx_def)

lemma transition_refuses:
  assumes "\<And>r. r \<in> set (commands s) \<Longrightarrow> commandID r = cid \<Longrightarrow> \<exists>e. fn r = Inl e"
  shows "\<exists>e. transition evs cid fn s = (Inl e, s)"
  unfolding transition_def by (rule transitionTx_refuses) (use assms in \<open>fastforce split: sum.splits\<close>)

lemma updateTx_runs:
  assumes "keys_wf s" "r \<in> set (commands s)" "keeps r r'" "update_fits r'" "1 \<le> authorityEpoch r'"
  shows "updateTx r' s = Inr ((), s\<lparr>commands := map (\<lambda>x. if x = r then r' else x) (commands s)\<rparr>)"
proof -
  have "updateTx r' s = Inr ((), s\<lparr>commands := row_update commandID (commandID r') (write_columns r') (commands s)\<rparr>)"
    using assms(4,5) by (simp add: updateTx_def)
  also have "row_update commandID (commandID r') (write_columns r') (commands s) =
      map (\<lambda>x. if x = r then r' else x) (commands s)"
    using assms(1-3) by (intro row_update_single) (simp_all add: keys_wf_def)
  finally show ?thesis .
qed

section \<open>Completion\<close>

lemma succeed_row_fields [simp]:
  "state (succeed_row now r) = CommandSucceeded" "commandID (succeed_row now r) = commandID r"
  "authorityEpoch (succeed_row now r) = authorityEpoch r"
  by (simp_all add: succeed_row_def clearCommandFailureDiagnostic_def)

lemma prune_subset: "set (commands (snd (pruneTx s))) \<subseteq> set (commands s)"
  by (auto simp: pruneTx_state delete_all_commands)

lemma prune_payloads: "payloads s cid = None \<Longrightarrow> payloads (snd (pruneTx s)) cid = None"
  by (simp add: pruneTx_state delete_all_frame)

definition completed_store :: "time \<Rightarrow> commandRow \<Rightarrow> queue_store \<Rightarrow> queue_store" where
  "completed_store now r s = s\<lparr>payloads := (payloads s)(commandID r := None),
     commands := map (\<lambda>x. if x = r then succeed_row now r else x) (commands s)\<rparr>"

lemma Complete_runs:
  assumes "store_wf sha s" and "r \<in> set (commands s)" and "state r = CommandRunning"
  shows "Complete [] now (commandID r) s = (Inr (public (succeed_row now r)),
      fold removeArtifact (pruned_ids (completed_store now r s))
        (if artifact r then removeArtifact (commandID r) (snd (pruneTx (completed_store now r s)))
         else snd (pruneTx (completed_store now r s))))"
proof -
  have k: "keys_wf s" using assms(1) by (simp add: store_wf_def)
  let ?s0 = "s\<lparr>payloads := (payloads s)(commandID r := None)\<rparr>"
  let ?s1 = "completed_store now r s"
  have "keys_wf ?s0" using k by (simp add: keys_wf_def)
  then have "updateTx (succeed_row now r) ?s0 = Inr ((), ?s1)"
    using updateTx_runs [of ?s0 r "succeed_row now r"] assms(2) store_wf_rows [OF assms(1,2)]
    by (simp add: row_wf_def completed_store_def)
  then have "succeedTx now check_running r s =
      Inr ((public (succeed_row now r), artifact r, pruned_ids ?s1), snd (pruneTx ?s1))"
    using assms(3) by (simp add: succeedTx_def check_running_def Let_def pruned_ids_def split: prod.split)
  from transitionTx_runs [where fn = "succeedTx now check_running", OF assms(1,2) this]
  show ?thesis by (simp add: Complete_def succeed_def)
qed

text \<open>C8: Completing the running command always works on a well-formed ledger: it is reported
  succeeded, its payload row and its input file are erased, what remains of its row carries no
  input, lease or error, and no other row is touched except succeeded ones beyond the history
  limit.\<close>

theorem Complete_erases_input:
  assumes "store_wf sha s" and "r \<in> set (commands s)" and "state r = CommandRunning"
  shows "\<exists>s'. Complete [] now (commandID r) s = (Inr (public (succeed_row now r)), s') \<and>
    payloads s' (commandID r) = None \<and> (artifact r \<longrightarrow> inputs s' (commandID r) = None) \<and>
    (\<forall>q\<in>set (commands s'). commandID q = commandID r \<longrightarrow> q = succeed_row now r) \<and>
    (\<forall>q\<in>set (commands s). q \<in> set (commands s') \<or> q = r \<or> state q = CommandSucceeded)"
proof -
  have k: "keys_wf s" using assms(1) by (simp add: store_wf_def)
  let ?f = "\<lambda>x. if x = r then succeed_row now r else x"
  let ?s1 = "s\<lparr>payloads := (payloads s)(commandID r := None), commands := map ?f (commands s)\<rparr>"
  have run: "Complete [] now (commandID r) s = (Inr (public (succeed_row now r)),
      fold removeArtifact (pruned_ids ?s1)
        (if artifact r then removeArtifact (commandID r) (snd (pruneTx ?s1)) else snd (pruneTx ?s1)))"
    (is "_ = (_, ?s')") by (rule Complete_runs [OF assms, unfolded completed_store_def])
  have cmds: "commands ?s' = commands (snd (pruneTx ?s1))" by (simp add: removeArtifact_def)
  have k1: "keys_wf ?s1"
    by (rule keys_wf_map [where s = s and f = ?f, OF k]) simp_all
  have "inputs (fold removeArtifact cs t) cid = None" if "inputs t cid = None" for cs t cid
    using that by (induction cs arbitrary: t) (simp_all add: removeArtifact_def)
  then have "artifact r \<longrightarrow> inputs ?s' (commandID r) = None" by (simp add: removeArtifact_def)
  moreover have "payloads ?s' (commandID r) = None" by (simp add: removeArtifact_def prune_payloads)
  moreover have "q = succeed_row now r" if "q \<in> set (commands ?s')" "commandID q = commandID r" for q
  proof -
    have "q \<in> set (commands ?s1)" using that(1) prune_subset [of ?s1] unfolding cmds by blast
    then have "q \<in> ?f ` set (commands s)" by simp
    then obtain x where x: "x \<in> set (commands s)" "q = ?f x" by (rule imageE)
    then have "commandID x = commandID r" using that(2) by (auto split: if_splits)
    then have "x = r" by (rule keys_wf_id [OF k x(1) assms(2)])
    with x show ?thesis by simp
  qed
  moreover have "q \<in> set (commands ?s') \<or> q = r \<or> state q = CommandSucceeded" if "q \<in> set (commands s)" for q
  proof (cases "q = r \<or> state q = CommandSucceeded")
    case False
    then have "q \<in> set (commands ?s1)" using that by (simp add: image_iff)
    then show ?thesis using prune_keeps [OF k1 _ , of q] False unfolding cmds by blast
  qed blast
  ultimately show ?thesis using run by (intro exI [of _ ?s']) simp
qed

theorem Complete_erases_input_witness:
  "\<exists>s'. Complete [] 30 sample_id sample_running = (Inr (public (succeed_row 30 (claim_row 20 sample_row))), s') \<and>
     payloads s' sample_id = None"
  using Complete_erases_input [OF samples_wf(2), of "claim_row 20 sample_row" 30]
  by (simp add: sample_running_def sample_store_def claim_row_def sample_row_def) blast

section \<open>Failure and retry\<close>

lemma backoff_bounds: "Second \<le> backoff n" "backoff n \<le> 32 * Second"
  "1 \<le> n \<Longrightarrow> 2 * Second \<le> backoff n"
proof -
  have "2 ^ (if n > 5 then 5 else n) \<le> (2 :: int) ^ 5" by (rule power_increasing) auto
  then show "backoff n \<le> 32 * Second" by (simp add: backoff_def)
  have "(1 :: int) \<le> 2 ^ (if n > 5 then 5 else n)" by simp
  then show "Second \<le> backoff n" by (simp add: backoff_def)
  assume "1 \<le> n"
  then have "(2 :: int) ^ 1 \<le> 2 ^ (if n > 5 then 5 else n)" by (intro power_increasing) auto
  then show "2 * Second \<le> backoff n" by (simp add: backoff_def)
qed

lemma fail_row_fields [simp]:
  "commandID (fail_row now err r) = commandID r" "authorityEpoch (fail_row now err r) = authorityEpoch r"
  "leaseID (fail_row now err r) = ''''" "leaseExpiresAt (fail_row now err r) = None"
  "attempt (fail_row now err r) = attempt r" "payloadDigest (fail_row now err r) = payloadDigest r"
  by (simp_all add: fail_row_def setCommandFailureDiagnostic_def Let_def split: prod.split)

lemma fail_row_diagnostic:
  "(failureCode (fail_row now err r), failureSummary (fail_row now err r), recoveryHint (fail_row now err r)) =
     commandFailureDiagnostic (action r) err"
  by (simp add: fail_row_def setCommandFailureDiagnostic_def Let_def split: prod.split)

lemma fail_row_schedule:
  "(state (fail_row now err r), nextAttemptAt (fail_row now err r)) =
     (if retries err r then (CommandRetryScheduled, Some (now + backoff (attempt r)))
      else (CommandNeedsAttention, None))"
  by (simp add: fail_row_def setCommandFailureDiagnostic_def Let_def split: prod.split)

lemma fail_row_lastError:
  "lastError (fail_row now err r) = failureNarrative (fail_row now err r)"
  by (simp add: fail_row_def failureNarrative_def setCommandFailureDiagnostic_def Let_def split: prod.split)

lemma fail_row_fits:
  assumes "attempt r \<le> 8" "maxAttempts r \<le> 8"
  shows "update_fits (fail_row now err r)"
proof -
  let ?q = "fail_row now err r"
  have b: "bounded_diagnostic (failureCode ?q, failureSummary ?q, recoveryHint ?q)"
    unfolding fail_row_diagnostic by (rule command_bounded)
  have "maxAttempts ?q = maxAttempts r"
    by (simp add: fail_row_def setCommandFailureDiagnostic_def Let_def split: prod.split)
  then have "length (lastError ?q) \<le> 240 + 8 + 8 + 160"
    using failureNarrative_length [of ?q] b assms by (simp add: fail_row_lastError bounded_diagnostic_def)
  moreover have "RuneCount (failureCode ?q) \<le> 64"
    using b RuneCount_le_length [of "failureCode ?q"] by (simp add: bounded_diagnostic_def)
  ultimately show ?thesis using b by (simp add: update_fits_def bounded_diagnostic_def RuneCount_def)
qed

text \<open>C9: Failing the running command always works, and the decision is the documented one: a
  retry is scheduled exactly for an auto-retry command whose error is not permanent and that has
  attempts left, between one and thirty-two seconds ahead; every other failure needs an operator.
  The record carries a non-empty failure code, the lease is gone and the payload is kept.\<close>

theorem Fail_schedules_or_escalates:
  assumes "store_wf sha s" and "r \<in> set (commands s)" and "state r = CommandRunning"
    and "attempt r \<le> maxAttempts r"
  shows "\<exists>q s'. Fail [] now (commandID r) err s =
      (Inr (public q, if retries err r then ''retry_scheduled'' else ''needs_attention''), s') \<and>
    q \<in> set (commands s') \<and> commandID q = commandID r \<and> leaseID q = '''' \<and> failureCode q \<noteq> '''' \<and>
    payloads s' (commandID r) = payloads s (commandID r) \<and>
    (if autoRetry r \<and> \<not> isPermanent err \<and> attempt r < maxAttempts r
     then state q = CommandRetryScheduled \<and>
       (\<exists>t. nextAttemptAt q = Some t \<and> now + Second \<le> t \<and> t \<le> now + 32 * Second)
     else state q = CommandNeedsAttention \<and> nextAttemptAt q = None)"
proof -
  have k: "keys_wf s" using assms(1) by (simp add: store_wf_def)
  let ?q = "fail_row now err r"
  let ?f = "\<lambda>x. if x = r then ?q else x"
  let ?s1 = "s\<lparr>commands := map ?f (commands s)\<rparr>"
  have wf: "row_wf r" by (rule store_wf_rows [OF assms(1,2)])
  have "update_fits ?q" using wf assms(4) by (intro fail_row_fits) (simp_all add: row_wf_def maxAttemptsLimit_def)
  then have "updateTx ?q s = Inr ((), ?s1)"
    using updateTx_runs [OF k assms(2), of ?q] wf by (simp add: row_wf_def)
  then have "failTx now err True check_running r s =
      Inr ((public ?q, if retries err r then ''retry_scheduled'' else ''needs_attention'', pruned_ids ?s1), snd (pruneTx ?s1))"
    using assms(3) by (simp add: failTx_def check_running_def Let_def pruned_ids_def split: prod.split)
  from transitionTx_runs [where fn = "failTx now err True check_running", OF assms(1,2) this]
  have run: "Fail [] now (commandID r) err s =
      (Inr (public ?q, if retries err r then ''retry_scheduled'' else ''needs_attention''),
       fold removeArtifact (pruned_ids ?s1) (snd (pruneTx ?s1)))" (is "_ = (_, ?s')")
    by (simp add: Fail_def fail_def)
  have k1: "keys_wf ?s1" by (rule keys_wf_map [where s = s and f = ?f, OF k]) simp_all
  have in1: "?q \<in> set (commands ?s1)" using assms(2) by (simp add: image_iff)
  have ns: "state ?q \<noteq> CommandSucceeded" by simp
  have mem: "?q \<in> set (commands (snd (pruneTx ?s1)))" by (rule prune_keeps [OF k1 in1 ns])
  have "commandID r \<notin> set (pruned_ids ?s1)"
    using pruned_succeeded [OF k1 in1] ns by auto
  then have pay: "payloads ?s' (commandID r) = payloads s (commandID r)"
    by (simp add: pruneTx_state delete_all_frame)
  have code: "failureCode ?q \<noteq> ''''"
    using command_bounded [of "action r" err, folded fail_row_diagnostic [of now err r]]
    by (simp add: bounded_diagnostic_def)
  show ?thesis
    using run mem pay code fail_row_schedule [of now err r] backoff_bounds(1,2) [of "attempt r"]
    by (intro exI [of _ ?q] exI [of _ ?s']) (auto simp: retries_def split: if_splits)
qed

theorem Fail_schedules_or_escalates_witness:
  "\<exists>q s'. Fail [] 30 sample_id None sample_running = (Inr (public q, ''retry_scheduled''), s') \<and>
     q \<in> set (commands s') \<and> state q = CommandRetryScheduled"
proof -
  let ?r = "claim_row 20 sample_row"
  have "?r \<in> set (commands sample_running)" "state ?r = CommandRunning" "attempt ?r \<le> maxAttempts ?r"
    "commandID ?r = sample_id" "retries None ?r" "autoRetry ?r" "attempt ?r < maxAttempts ?r"
    by (simp_all add: sample_running_def sample_store_def claim_row_def sample_row_def retries_def)
  then show ?thesis
    using Fail_schedules_or_escalates [OF samples_wf(2), of ?r 30 None] by auto
qed

section \<open>Leases\<close>

text \<open>C10: A lease identifier is a capability: without the lease identifier stored on the row, no
  lease operation succeeds and none of them changes the ledger, under any schedule.\<close>

theorem wrong_lease_changes_nothing:
  assumes "\<forall>r\<in>set (commands s). commandID r = cid \<longrightarrow> leaseID r = '''' \<or> leaseID r \<noteq> lid"
  shows "(\<exists>e. CompleteLease evs now cid lid s = (Inl e, s)) \<and>
    (\<exists>e. FailLease evs now cid lid err s = (Inl e, s)) \<and>
    (\<exists>e. RenewLease evs now cid lid ttl s = (Inl e, s)) \<and>
    (\<exists>e. AdvanceLease evs now cid lid st s = (Inl e, s))"
proof -
  have bad: "leaseID r = '''' \<or> subtleStringMismatch (leaseID r) lid" if "r \<in> set (commands s)" "commandID r = cid" for r
    using assms that by (auto simp: subtleStringMismatch_def)
  have "\<exists>e. transitionTx evs cid (succeedTx now (check_lease lid)) s = (Inl e, s)"
    using bad by (intro transitionTx_refuses) (auto simp: succeedTx_def check_lease_def holds_lease_def)
  then have complete: "\<exists>e. CompleteLease evs now cid lid s = (Inl e, s)"
    by (auto simp: CompleteLease_def succeed_def)
  have "\<exists>e. transitionTx evs cid (failTx now err False (check_lease lid)) s = (Inl e, s)"
    using bad by (intro transitionTx_refuses) (auto simp: failTx_def check_lease_def holds_lease_def)
  then have failed: "\<exists>e. FailLease evs now cid lid err s = (Inl e, s)"
    by (auto simp: FailLease_def fail_def)
  have no: "\<not> holds_lease lid r" if "r \<in> set (commands s)" "commandID r = cid" for r
    using bad [OF that] by (auto simp: holds_lease_def)
  have "\<exists>e. transition evs cid (\<lambda>row. if \<not> holds_lease lid row then Inl LeaseInvalid
      else Inr (row\<lparr>leaseExpiresAt := Some (now + ttl)\<rparr>)) s = (Inl e, s)"
    by (rule transition_refuses) (simp add: no)
  then have renew: "\<exists>e. RenewLease evs now cid lid ttl s = (Inl e, s)"
    by (simp add: RenewLease_def)
  have "\<exists>e. transition evs cid (\<lambda>row.
        if leaseID row = '''' \<or> subtleStringMismatch (leaseID row) lid then Inl LeaseInvalid
        else if st = CommandPreparing \<and> state row \<noteq> CommandLeased then Inl NotLeased
        else if st = CommandRunning \<and> \<not> oneOfCommandState (state row) [CommandLeased, CommandPreparing]
        then Inl NotPreparing
        else Inr (row\<lparr>state := st, updatedAt := now\<rparr>)) s = (Inl e, s)"
    by (rule transition_refuses) (use bad in simp)
  then have "\<exists>e. AdvanceLease evs now cid lid st s = (Inl e, s)"
    by (simp add: AdvanceLease_def)
  with complete failed renew show ?thesis by blast
qed

theorem wrong_lease_changes_nothing_witness:
  "\<exists>e. CompleteLease [] 30 sample_id ''lease-2'' sample_leased = (Inl e, sample_leased)"
  using wrong_lease_changes_nothing [of sample_leased sample_id "''lease-2''" "[]" 30]
  by (simp add: sample_leased_def sample_store_def lease_row_def)

lemma update_all_runs:
  assumes "keys_wf s" "distinct (map commandID rs)" "set rs \<subseteq> set (commands s)"
    and "\<And>r. r \<in> set rs \<Longrightarrow> keeps r (f r) \<and> update_fits (f r) \<and> 1 \<le> authorityEpoch (f r)"
  shows "update_all (map f rs) s =
    Inr ((), s\<lparr>commands := map (\<lambda>x. if x \<in> set rs then f x else x) (commands s)\<rparr>)"
  using assms
proof (induction rs arbitrary: s)
  case Nil
  then show ?case by simp
next
  case (Cons r rs)
  let ?g = "\<lambda>x. if x = r then f r else x"
  let ?s1 = "s\<lparr>commands := map ?g (commands s)\<rparr>"
  have kr: "keeps r (f r)" using Cons.prems(4) [of r] by simp
  have u: "updateTx (f r) s = Inr ((), ?s1)"
    using Cons.prems by (intro updateTx_runs) auto
  have k1: "keys_wf ?s1"
    by (rule keys_wf_map [where s = s and f = ?g, OF Cons.prems(1)]) (use kr in simp_all)
  have sub: "set rs \<subseteq> set (commands ?s1)"
  proof
    fix x assume "x \<in> set rs"
    with Cons.prems have "x \<noteq> r" "x \<in> set (commands s)" by auto
    then show "x \<in> set (commands ?s1)" by (simp add: image_iff)
  qed
  have "f r \<notin> set rs"
  proof
    assume "f r \<in> set rs"
    then have "commandID (f r) \<in> commandID ` set rs" by (rule imageI)
    with kr Cons.prems(2) show False by (simp add: keeps_columns(1))
  qed
  then have "map (\<lambda>x. if x \<in> set rs then f x else x) (map ?g (commands s)) =
      map (\<lambda>x. if x \<in> set (r # rs) then f x else x) (commands s)" by simp
  moreover have "update_all (map f rs) ?s1 =
      Inr ((), ?s1\<lparr>commands := map (\<lambda>x. if x \<in> set rs then f x else x) (commands ?s1)\<rparr>)"
    using Cons.prems by (intro Cons.IH [OF k1 _ sub]) auto
  ultimately show ?case using u by simp
qed

lemma lockRows_runs:
  assumes "keys_wf s"
    and "\<And>r. r \<in> set (commands s) \<Longrightarrow> P r \<Longrightarrow> keeps r (f r) \<and> update_fits (f r) \<and> 1 \<le> authorityEpoch (f r)"
  shows "update_all (map f (lockRows P s)) s =
    Inr ((), s\<lparr>commands := map (\<lambda>x. if P x then f x else x) (commands s)\<rparr>)"
proof -
  have "distinct (map commandID (lockRows P s))"
    using assms(1) by (simp add: keys_wf_def lockRows_def distinct_map_filter)
  moreover have "map (\<lambda>x. if x \<in> set (lockRows P s) then f x else x) (commands s) =
      map (\<lambda>x. if P x then f x else x) (commands s)"
    by (rule map_cong) (simp_all add: lockRows_def)
  ultimately show ?thesis
    using update_all_runs [OF assms(1), of "lockRows P s" f] assms(2) by (simp add: lockRows_def)
qed

lemma expire_row_fields [simp]:
  "update_fits r \<Longrightarrow> update_fits (expire_row now r)" "authorityEpoch (expire_row now r) = authorityEpoch r"
  "leaseID (expire_row now r) = ''''" "leaseExpiresAt (expire_row now r) = None"
  by (auto simp: expire_row_def update_fits_def RuneCount_def Let_def)



section \<open>The authority fence\<close>

text \<open>C12: After the fence for a new authority epoch, every command of an older epoch is in a
  terminal state and commands of the new epoch are untouched; so a claim on the fenced ledger can
  only return a command accepted under the new epoch.\<close>

theorem FenceAuthority_stops_older_work:
  assumes "store_wf sha s" and "FenceAuthority ev now newEpoch s = (Inr (), s')"
  shows "(\<forall>r\<in>set (commands s'). authorityEpoch r < newEpoch \<longrightarrow> terminalCommandState (state r)) \<and>
    (\<forall>r\<in>set (commands s). newEpoch \<le> authorityEpoch r \<longrightarrow> r \<in> set (commands s')) \<and>
    (\<forall>evs t skip rec s''. ClaimDue evs t skip s' = (Inr (Some rec), s'') \<longrightarrow>
       newEpoch \<le> authorityEpoch (recCommand rec))"
proof -
  let ?f = "\<lambda>r. if authorityEpoch r < newEpoch \<and> \<not> terminalCommandState (state r) then fence_row now r else r"
  have s': "s' = s\<lparr>commands := map ?f (commands s)\<rparr>"
    using assms(2) by (auto simp: FenceAuthority_def runTx_def simp del: terminalCommandState.simps split: if_splits tx_event.splits)
  have old: "terminalCommandState (state r)" if "r \<in> set (commands s')" "authorityEpoch r < newEpoch" for r
    using that by (auto simp: s' fence_row_def)
  have k: "keys_wf s'"
    unfolding s' by (rule keys_wf_map [where s = s and f = ?f]) (use assms(1) in \<open>simp_all add: store_wf_def\<close>)
  have "newEpoch \<le> authorityEpoch (recCommand rec)" if claim: "ClaimDue evs t skip s' = (Inr (Some rec), s'')" for evs t skip rec s''
  proof -
    have "claimTx t skip s' = Inr (Some rec, s'')" using claim unfolding ClaimDue_def by (rule WithTx_valueD)
    then obtain r where r: "oldest_due (\<lambda>_. True) t skip s' = Some r"
      and rec: "rec = \<lparr>recArtifact = artifact r, recCommand = public (claim_row t r), recPayload = payloads s' (commandID r)\<rparr>"
      by (rule claimTx_Some [OF k])
    from oldest_due_Some [OF r] have "\<not> authorityEpoch r < newEpoch"
      using old [of r] by (auto simp: due_def oneOfCommandState_def)
    then show ?thesis by (simp add: rec Command.truncate_def claim_row_def)
  qed
  moreover have "r \<in> set (commands s')" if "r \<in> set (commands s)" "newEpoch \<le> authorityEpoch r" for r
    using that by (simp add: s' image_iff)
  ultimately show ?thesis using old by blast
qed

theorem FenceAuthority_stops_older_work_witness:
  "list_all (\<lambda>r. terminalCommandState (state r)) (commands (snd (FenceAuthority Runs 40 2 sample_running)))"
proof -
  let ?s = "snd (FenceAuthority Runs 40 2 sample_running)"
  have "FenceAuthority Runs 40 2 sample_running = (Inr (), ?s)"
    by (simp add: FenceAuthority_def runTx_def)
  from FenceAuthority_stops_older_work [OF samples_wf(2) this] show ?thesis
    by (simp add: FenceAuthority_def runTx_def sample_running_def sample_store_def claim_row_def sample_row_def fence_row_def)
qed

section \<open>Recovery\<close>

lemma recover_row_fields [simp]:
  "state (recover_row now r) = CommandNeedsAttention" "lastError (recover_row now r) = restarted"
  "leaseID (recover_row now r) = ''''" "authorityEpoch (recover_row now r) = authorityEpoch r"
  by (simp_all add: recover_row_def setCommandFailureDiagnostic_def split: prod.split)

lemma restarted_message: "Contains (ToLower restarted) ''core restarted while''"
  by code_simp

lemma recover_row_code: "failureCode (recover_row now r) = ''execution_interrupted''"
  using restarted_message
  by (simp add: recover_row_def setCommandFailureDiagnostic_def commandFailureDiagnostic_def plain_error_def)

lemma recover_row_fits: "update_fits (recover_row now r)"
proof -
  let ?q = "recover_row now r"
  have "(failureCode ?q, failureSummary ?q, recoveryHint ?q) =
      commandFailureDiagnostic (action r) (Some (plain_error restarted))"
    by (simp add: recover_row_def setCommandFailureDiagnostic_def split: prod.split)
  then have b: "bounded_diagnostic (failureCode ?q, failureSummary ?q, recoveryHint ?q)"
    by (simp add: command_bounded)
  moreover have "RuneCount (failureCode ?q) \<le> 64"
    using b RuneCount_le_length [of "failureCode ?q"] by (simp add: bounded_diagnostic_def)
  ultimately show ?thesis
    by (simp add: update_fits_def bounded_diagnostic_def RuneCount_def restarted_def)
qed

lemma restarted_not_stored: "restarted \<noteq> being_stored"
  by (simp add: restarted_def being_stored_def)

text \<open>C13: Recovery after a restart always works on a well-formed ledger: afterwards nothing is in
  flight and no upload is left open. A command that was in flight is never replayed: it needs
  attention with the code execution_interrupted and no lease. An interrupted upload is queued
  exactly if its input reached the disk. Every other row is untouched.\<close>

theorem Recover_leaves_nothing_in_flight:
  assumes "store_wf sha s"
  shows "\<exists>s'. Recover [] now s = (Inr (), s') \<and>
    (\<forall>r\<in>set (commands s'). \<not> oneOfCommandState (state r) in_flight \<and> \<not> upload_open r) \<and>
    (\<forall>r\<in>set (commands s). \<exists>q\<in>set (commands s'). commandID q = commandID r \<and>
       (if oneOfCommandState (state r) in_flight
        then state q = CommandNeedsAttention \<and> failureCode q = ''execution_interrupted'' \<and> leaseID q = ''''
        else if upload_open r
        then (state q = CommandQueued \<longleftrightarrow> protectedArtifactFile (commandID r) s = Inr True)
        else q = r))"
proof -
  have k: "keys_wf s" using assms by (simp add: store_wf_def)
  let ?in = "\<lambda>r. oneOfCommandState (state r) in_flight"
  let ?f = "\<lambda>r. if ?in r then recover_row now r else r"
  let ?s1 = "s\<lparr>commands := map ?f (commands s)\<rparr>"
  let ?g = "\<lambda>r. if upload_open r then recover_upload now ?s1 r else r"
  let ?s2 = "?s1\<lparr>commands := map ?g (commands ?s1)\<rparr>"
  have wf: "update_fits r \<and> 1 \<le> authorityEpoch r" if "r \<in> set (commands s)" for r
    using store_wf_rows [OF assms that] by (simp add: row_wf_def)
  have u1: "update_all (map (recover_row now) (lockRows ?in s)) s = Inr ((), ?s1)"
    using lockRows_runs [OF k, of ?in "recover_row now"] wf by (simp add: recover_row_fits)
  have k1: "keys_wf ?s1" by (rule keys_wf_map [where s = s and f = ?f, OF k]) simp_all
  have "update_fits (recover_upload now ?s1 r) \<and> 1 \<le> authorityEpoch (recover_upload now ?s1 r)"
    if "r \<in> set (commands s)" for r
    using wf [OF that] by (simp add: recover_upload_def update_fits_def)
  moreover have "update_fits (recover_upload now ?s1 (recover_row now r)) \<and>
      1 \<le> authorityEpoch (recover_upload now ?s1 (recover_row now r))" if "r \<in> set (commands s)" for r
    using wf [OF that] recover_row_fits [of now r] by (simp add: recover_upload_def update_fits_def)
  ultimately have "update_all (map (recover_upload now ?s1) (lockRows upload_open ?s1)) ?s1 = Inr ((), ?s2)"
    by (intro lockRows_runs [OF k1]) (auto split: if_splits)
  then have "recoverTx now s = Inr ((), ?s2)"
    using u1 by (simp add: recoverTx_def upload_open_def [abs_def])
  from WithTx_runs [where fn = "recoverTx now", OF this] have run: "Recover [] now s = (Inr (), ?s2)"
    by (simp add: Recover_def)
  have open_row: "\<not> oneOfCommandState (state r) in_flight" if "upload_open r" for r
    using that by (simp add: upload_open_def oneOfCommandState_def)
  define h where "h = (\<lambda>r. ?g (?f r))"
  have closed: "\<not> ?in (h r) \<and> \<not> upload_open (h r)" for r
    using open_row [of r] restarted_not_stored
    by (auto simp: h_def upload_open_def recover_upload_def in_flight_states being_stored_def)
  have row: "commandID (h r) = commandID r \<and>
      (if ?in r then state (h r) = CommandNeedsAttention \<and>
         failureCode (h r) = ''execution_interrupted'' \<and> leaseID (h r) = ''''
       else if upload_open r
       then (state (h r) = CommandQueued \<longleftrightarrow> protectedArtifactFile (commandID r) s = Inr True)
       else h r = r)" for r
    using recover_row_code [of now r] restarted_not_stored keeps_columns(1) [OF keeps_rows(7), of now r]
    by (auto simp: h_def upload_open_def recover_upload_def protectedArtifactFile_def)
  have set2: "set (commands ?s2) = h ` set (commands s)"
    by (simp add: h_def image_image del: if_image_distrib)
  show ?thesis
  proof (intro exI [of _ ?s2] conjI)
    show "Recover [] now s = (Inr (), ?s2)" by (rule run)
    show "\<forall>r\<in>set (commands ?s2). \<not> ?in r \<and> \<not> upload_open r"
      unfolding set2 using closed by blast
    show "\<forall>r\<in>set (commands s). \<exists>q\<in>set (commands ?s2). commandID q = commandID r \<and>
       (if ?in r then state q = CommandNeedsAttention \<and> failureCode q = ''execution_interrupted'' \<and> leaseID q = ''''
        else if upload_open r
        then (state q = CommandQueued \<longleftrightarrow> protectedArtifactFile (commandID r) s = Inr True)
        else q = r)"
      unfolding set2 using row by blast
  qed
qed

theorem Recover_leaves_nothing_in_flight_witness:
  "\<exists>s'. Recover [] 50 sample_running = (Inr (), s') \<and>
     list_all (\<lambda>r. \<not> oneOfCommandState (state r) in_flight) (commands s')"
  using Recover_leaves_nothing_in_flight [OF samples_wf(2), of 50] unfolding list_all_iff by blast

section \<open>Pruning\<close>

text \<open>C14: Pruning removes succeeded commands only, leaves exactly as many of them as the history
  limit allows, and always removes the oldest: a pruned command has a sequence number no larger
  than any succeeded one that stays.\<close>

theorem prune_removes_oldest_succeeded:
  assumes "keys_wf s"
  shows "(\<forall>r\<in>set (commands s). r \<in> set (commands (snd (pruneTx s))) \<or>
       state r = CommandSucceeded \<and>
       (\<forall>q\<in>set (commands (snd (pruneTx s))). state q = CommandSucceeded \<longrightarrow> seq r \<le> seq q)) \<and>
    length (succeeded_rows (snd (pruneTx s))) = min (length (succeeded_rows s)) (historyLimit s)"
proof -
  let ?n = "length (succeeded_rows s) - historyLimit s"
  let ?sorted = "sort_key seq (succeeded_rows s)"
  have d: "distinct (map commandID ?sorted)"
    using distinct_succeeded [OF assms] by (simp add: distinct_map_sort_key)
  have cmds: "commands (snd (pruneTx s)) = filter (\<lambda>r. commandID r \<notin> set (pruned_ids s)) (commands s)"
    by (simp add: pruneTx_state delete_all_commands)
  have "sorted (map seq (take ?n ?sorted @ drop ?n ?sorted))" by simp
  then have ord: "\<forall>x\<in>set (take ?n ?sorted). \<forall>y\<in>set (drop ?n ?sorted). seq x \<le> seq y"
    by (simp only: map_append sorted_append) auto
  have stays: "q \<in> set (drop ?n ?sorted)"
    if "q \<in> set (commands (snd (pruneTx s)))" "state q = CommandSucceeded" for q
  proof -
    have "q \<in> set (take ?n ?sorted @ drop ?n ?sorted)" using that by (simp add: cmds succeeded_rows_def)
    moreover have "q \<notin> set (take ?n ?sorted)" using that(1) by (auto simp: cmds pruned_ids_eq)
    ultimately show ?thesis by (simp only: set_append) blast
  qed
  have gone: "r \<in> set (take ?n ?sorted)" if "r \<in> set (commands s)" "commandID r \<in> set (pruned_ids s)" for r
  proof -
    from that(2) obtain q where q: "q \<in> set (take ?n ?sorted)" "commandID r = commandID q"
      by (auto simp: pruned_ids_eq)
    then have "q \<in> set (commands s)" by (auto simp: succeeded_rows_def dest!: in_set_takeD)
    with q that(1) show ?thesis using keys_wf_id [OF assms] by metis
  qed
  have "length (succeeded_rows (snd (pruneTx s))) = length (succeeded_rows s) - ?n"
    using filter_not_taken [OF d, of ?n]
    by (simp add: pruneTx_state succeeded_delete_all pruned_ids_eq
        length_filter_sort_key [symmetric, of _ "succeeded_rows s" seq])
  moreover have "r \<in> set (commands (snd (pruneTx s))) \<or> state r = CommandSucceeded \<and>
      (\<forall>q\<in>set (commands (snd (pruneTx s))). state q = CommandSucceeded \<longrightarrow> seq r \<le> seq q)"
    if "r \<in> set (commands s)" for r
  proof (cases "commandID r \<in> set (pruned_ids s)")
    case True
    then show ?thesis
      using pruned_succeeded [OF assms that True] gone [OF that True] stays ord by blast
  qed (simp add: cmds that)
  ultimately show ?thesis by auto
qed

text \<open>A ledger one succeeded command above its limit of one, the newer one with the larger
  sequence number.\<close>

definition sample_history :: queue_store where
  "sample_history = (empty_store 1)\<lparr>nextSeq := 3, commands :=
     [succeed_row 30 sample_row,
      (succeed_row 40 sample_row)\<lparr>commandID := ''cmd-2'', idempotencyKey := ''key-2'', seq := 2\<rparr>]\<rparr>"

theorem prune_removes_oldest_succeeded_witness:
  "keys_wf sample_history \<and> length (succeeded_rows (snd (pruneTx sample_history))) = 1"
proof -
  have k: "keys_wf sample_history"
    by (simp add: keys_wf_def sample_history_def succeed_row_def clearCommandFailureDiagnostic_def
        sample_row_def sample_id_def)
  have "length (succeeded_rows sample_history) = 2" "historyLimit sample_history = 1"
    by (simp_all add: sample_history_def succeeded_rows_def empty_store_def)
  with prune_removes_oldest_succeeded [OF k] k show ?thesis by simp
qed

text \<open>
  Sequence numbers follow submission, not completion: a command that was submitted before every
  retained succeeded command is pruned by its own completion once the history is full, and its
  row, trail and execution log are gone when \<^verbatim>\<open>Complete\<close> returns.
\<close>

lemma completion_can_prune_itself:
  assumes "keys_wf s" "r \<in> set (succeeded_rows s)" "historyLimit s < length (succeeded_rows s)"
    and "\<forall>q\<in>set (succeeded_rows s). q \<noteq> r \<longrightarrow> seq r < seq q"
  shows "lockRow (commandID r) (snd (pruneTx s)) = None"
proof -
  let ?sorted = "sort_key seq (succeeded_rows s)"
  obtain q qs where q: "?sorted = q # qs" using assms(3) by (metis length_sort list.exhaust list.size(3) not_less_zero)
  then have "set (succeeded_rows s) = set (q # qs)" by (metis set_sort)
  moreover have "sorted (map seq (q # qs))" using q by (metis sorted_sort_key)
  ultimately have "q = r" using assms(2,4) by fastforce
  moreover obtain m where "length (succeeded_rows s) - historyLimit s = Suc m"
    using assms(3) by (metis Suc_diff_Suc)
  ultimately have "commandID r \<in> set (pruned_ids s)" by (simp add: pruned_ids_eq q)
  then show ?thesis
    by (auto simp: lockRow_def row_find_None pruneTx_state delete_all_commands)
qed

section \<open>Stored inputs and logs\<close>

lemma query_runs: "q s = Inr a \<Longrightarrow> query Runs q s = Inr a"
  by (simp add: query_def runTx_def)

lemma Get_runs: "store_wf sha s \<Longrightarrow> r \<in> set (commands s) \<Longrightarrow> Get Runs (commandID r) s = Inr (public r)"
  using store_wf_rows [of sha s r] store_wf_lockRow [of sha s r]
  by (auto simp: Get_def row_wf_def commandIDPattern_trim query_def runTx_def)



lemma writeArtifact_stored:
  assumes "writeArtifact disk cid reads limit s = (None, s')"
  obtains content where "stream_reads reads limit 0 '''' = Inr content" "commandIDPattern cid"
    and "s' = s\<lparr>inputs := (inputs s)(cid \<mapsto> SealedFile content)\<rparr>"
  using assms by (auto simp: writeArtifact_def WriteReaderFile_def split: if_splits sum.splits disk_event.splits)

lemma artifact_insertTx_created:
  assumes "artifact_insertTx sha rid now input s = Inr (Inr (record, sub, cleanup), s')"
  obtains r where "newRecord sha rid now input True = Inr r" "record = inserted_row True r"
    and "insertTx record (inPayload input) (snd (supersedeTx input s)) = Inr ((), s')"
    and "subCommand sub = public record" "subCreated sub"
proof (cases "idempotentTx sha input True s")
  case (Inr found)
  show thesis
  proof (cases found)
    case None
    with assms Inr show thesis
      by (auto simp: artifact_insertTx_def inserted_row_def Let_def split: sum.splits prod.splits intro: that)
  qed (use assms Inr in \<open>auto simp: artifact_insertTx_def\<close>)
qed (use assms in \<open>simp add: artifact_insertTx_def\<close>)

lemma artifact_insertTx_found:
  "artifact_insertTx sha rid now input s = Inr (Inl sub, s') \<Longrightarrow> \<not> subCreated sub"
  by (auto simp: artifact_insertTx_def Let_def split: sum.splits option.splits prod.splits)

lemma lockRow_insert:
  assumes "insertTx r p s = Inr (u, s')"
  shows "lockRow (commandID r) s' = Some (r\<lparr>seq := nextSeq s\<rparr>)"
proof -
  have "row_find commandID (commandID r) (commands s) = None"
    using insertTx_frame(13) [OF assms] unfolding row_find_None .
  then show ?thesis
    unfolding lockRow_def insertTx_frame(1) [OF assms] row_find_append by simp (simp add: row_find_def)
qed

lemma finish_found:
  assumes "lockRow cid s = Some r" "artifact_finishTx now None limit cid s = Inr (a, s')"
  shows "a = Some (finish_row now None limit r)" "lockRow cid s' = Some (finish_row now None limit r)"
    "inputs s' = inputs s"
proof -
  let ?q = "finish_row now None limit r"
  have u: "updateTx ?q s = Inr ((), s')" and a: "a = Some ?q"
    using assms by (auto simp: artifact_finishTx_def Let_def split: sum.splits)
  have id: "commandID r = cid" using lockRow_Some [OF assms(1)] by simp
  have "lockRow cid s' = map_option (write_columns ?q) (lockRow cid s)"
    using updateTx_frame(7) [OF u] id
    by (simp add: lockRow_def row_find_update keeps_columns(1) [OF keeps_rows(9)])
  then show "lockRow cid s' = Some ?q"
    using assms(1) keeps_rows(9) [of r now None limit] by (simp add: keeps_def)
  show "a = Some ?q" "inputs s' = inputs s" using a updateTx_frame(6) [OF u] by simp_all
qed


definition sample_upload_row :: commandRow where
  "sample_upload_row = sample_row\<lparr>artifact := True, state := CommandNeedsAttention, lastError := being_stored\<rparr>"

lemma sample_artifact_insertTx:
  "artifact_insertTx sample_sha (Some sample_bytes) 10 sample_input (empty_store 2) =
     Inr (Inr (sample_upload_row\<lparr>seq := 0\<rparr>, \<lparr>subCommand = public sample_upload_row, subCreated = True,
       subSuperseded = []\<rparr>, []), sample_store sample_upload_row)"
  using sample_id_hex sample_id_runes
  by (simp add: artifact_insertTx_def idempotentTx_def newRecord_def newID_def supersedeTx_def supersede_candidates_def
      lockRows_def insertTx_def Let_def sample_input_def empty_store_def sample_row_def sample_upload_row_def
      sample_store_def valueOrDefault_def digest_def sample_sha_def insert_fits_def update_fits_def RuneCount_def
      rune_start_def Command.truncate_def being_stored_def)

lemma sample_upload_accepted:
  "\<exists>sub s'. SubmitArtifactWithResult sample_sha ([], Some sample_bytes, 10) DiskWorks [] 20 sample_input
      (Some [(''abc'', ReadEOF)]) (empty_store 2) = (Inr (sub, None), s') \<and> subCreated sub \<and>
      commandID (subCommand sub) = sample_id"
proof -
  let ?s2 = "(sample_store sample_upload_row)\<lparr>inputs := [sample_id \<mapsto> SealedFile ''abc'']\<rparr>"
  let ?q = "finish_row 20 None 64 sample_upload_row"
  have w: "writeArtifact DiskWorks sample_id [(''abc'', ReadEOF)] 64 (sample_store sample_upload_row) = (None, ?s2)"
    by (simp add: writeArtifact_def WriteReaderFile_def sample_store_def empty_store_def)
  have row: "lockRow sample_id ?s2 = Some sample_upload_row"
    by (simp add: lockRow_def row_find_def sample_store_def sample_upload_row_def sample_row_def)
  have "update_fits ?q" "1 \<le> authorityEpoch ?q" "commandID ?q = sample_id"
    by (simp_all add: finish_row_def sample_upload_row_def sample_row_def update_fits_def RuneCount_def)
  then obtain s3 where "updateTx ?q ?s2 = Inr ((), s3)" by (simp add: updateTx_def)
  then have "artifact_finishTx 20 None 64 sample_id ?s2 = Inr (Some ?q, s3)"
    using row by (simp add: artifact_finishTx_def)
  then have "WithTx [] (artifact_finishTx 20 None 64 sample_id) ?s2 = (Inr (Some ?q), s3)"
    by (rule WithTx_runs)
  moreover have "commandID (sample_upload_row\<lparr>seq := 0\<rparr>) = sample_id" "commandID ?q = sample_id"
    by (simp_all add: sample_upload_row_def sample_row_def finish_row_def)
  moreover have "inMaxArtifactBytes sample_input = 64" by (simp add: sample_input_def)
  ultimately show ?thesis
    using WithTx_runs [where fn = "artifact_insertTx sample_sha (Some sample_bytes) 10 sample_input"
        and s = "empty_store 2", OF sample_artifact_insertTx] w
    by (simp add: SubmitArtifactWithResult_def sample_valid SubmitArtifact_begin_def
        SubmitArtifact_finish_def Command.truncate_def)
qed


section \<open>Races and stale capabilities\<close>

text \<open>
  Two behaviours the documentation does not describe. The second transaction of an artifact
  submission does not look at the state it finds: if an operator retried the command meanwhile and
  it is running, it goes back to queued and can be claimed again. And the fence leaves the lease
  identifier on a row, where an operator retry and a later claim keep it: the old holder can
  complete the new attempt.
\<close>

lemma finish_requeues_running:
  assumes "store_wf sha s" "r \<in> set (commands s)" "state r = CommandRunning"
  shows "\<exists>s'. artifact_finishTx now None limit (commandID r) s = Inr (Some (finish_row now None limit r), s') \<and>
    state (finish_row now None limit r) = CommandQueued \<and> attempt (finish_row now None limit r) = attempt r"
proof -
  have wf: "row_wf r" by (rule store_wf_rows [OF assms(1,2)])
  have "update_fits (finish_row now None limit r)" "1 \<le> authorityEpoch (finish_row now None limit r)"
    using wf by (simp_all add: finish_row_def row_wf_def update_fits_def)
  then have "\<exists>s'. updateTx (finish_row now None limit r) s = Inr ((), s')" by (simp add: updateTx_def)
  then show ?thesis
    using store_wf_lockRow [OF assms(1,2)]
    by (auto simp: artifact_finishTx_def finish_row_def)
qed

lemma stale_lease_survives_fence:
  assumes "holds_lease lid r"
  shows "holds_lease lid (claim_row t3 (retry_row t2 epoch (fence_row t1 r)))"
  using assms
  by (simp add: holds_lease_def claim_row_def retry_row_def fence_row_def clearCommandFailureDiagnostic_def
      oneOfCommandState_def)

end
