(* ===== verification/Queue_Worker.thy ===== *)
theory Queue_Worker
  imports Queue_Outcomes
begin

text \<open>
  The command worker of \<^verbatim>\<open>internal/queue/worker.go\<close>: the bounded retry of a durable-store
  operation and one iteration of \<^verbatim>\<open>Worker.Run\<close>, which claims a command, executes it and records
  the outcome. The executor is a parameter; what the surroundings do during an iteration (the
  schedule of every store attempt, cancellation, the authority check, the clock) is the record
  \<open>worker_tick\<close>. \<^verbatim>\<open>Run\<close> iterates until its context ends or a store operation fails for good.
\<close>

section \<open>Retrying the store\<close>

definition defaultStoreRetryAttempts :: nat where "defaultStoreRetryAttempts = 5"

text \<open>The loop of \<^verbatim>\<open>storeRetry\<close> with \<open>left\<close> attempts to go; \<open>cancelled i\<close> says whether the context
  ends during the wait after attempt \<open>i\<close>.\<close>

fun retry_loop ::
  "nat \<Rightarrow> nat \<Rightarrow> (nat \<Rightarrow> bool) \<Rightarrow> (nat \<Rightarrow> 's \<Rightarrow> ('e + 'a) \<times> 's) \<Rightarrow> 's \<Rightarrow> ('e + 'a) \<times> 's"
where
  "retry_loop 0 i cancelled run s = run i s"
| "retry_loop (Suc left) i cancelled run s =
     (case run i s of
        (Inr a, s') \<Rightarrow> (Inr a, s')
      | (Inl e, s') \<Rightarrow> if cancelled i then (Inl e, s') else retry_loop left (Suc i) cancelled run s')"

definition storeRetry ::
  "int \<Rightarrow> (nat \<Rightarrow> bool) \<Rightarrow> (nat \<Rightarrow> 's \<Rightarrow> ('e + 'a) \<times> 's) \<Rightarrow> 's \<Rightarrow> ('e + 'a) \<times> 's"
where
  "storeRetry configured cancelled run s =
     (let attempts = (if configured \<le> 0 then defaultStoreRetryAttempts else nat configured) in
      retry_loop (attempts - 1) 0 cancelled run s)"

section \<open>One iteration\<close>

text \<open>What \<^verbatim>\<open>OnTransition\<close> is told.\<close>

type_synonym notice = "Command \<times> string"

record worker_tick =
  ctxDone :: bool
  canExecute :: bool
  claimEvs :: "nat \<Rightarrow> tx_event list"
  claimNow :: "nat \<Rightarrow> time"
  claimSkip :: "nat \<Rightarrow> string list"
  executionEnded :: bool
  outcomeEvs :: "nat \<Rightarrow> tx_event list"
  outcomeNow :: "nat \<Rightarrow> time"
  waitCancelled :: "nat \<Rightarrow> bool"

datatype run_result = RunContinues | RunReturns | RunFails "queue_error store_error"

definition interrupted_error :: "execution_error option" where
  "interrupted_error = PermanentError (Some (plain_error ''command execution ended before completion''))"

definition worker_iteration ::
  "int \<Rightarrow> (Record \<Rightarrow> execution_error option) \<Rightarrow> worker_tick \<Rightarrow> queue_store
   \<Rightarrow> run_result \<times> notice list \<times> queue_store"
where
  "worker_iteration retries_cfg execute w s =
     (if ctxDone w then (RunReturns, [], s)
      else if \<not> canExecute w then (RunContinues, [], s)
      else
        (case storeRetry retries_cfg (waitCancelled w)
                (\<lambda>i. ClaimDue (claimEvs w i) (claimNow w i) (claimSkip w i)) s of
           (Inl e, s1) \<Rightarrow> (RunFails e, [], s1)
         | (Inr None, s1) \<Rightarrow> (RunContinues, [], s1)
         | (Inr (Some rec), s1) \<Rightarrow>
             (let err = (if executionEnded w then interrupted_error else execute rec);
                  cid = commandID (recCommand rec);
                  running = (recCommand rec, ''running'') in
              if err = None then
                (case storeRetry retries_cfg (waitCancelled w)
                        (\<lambda>i. Complete (outcomeEvs w i) (outcomeNow w i) cid) s1 of
                   (Inl e, s2) \<Rightarrow> (RunFails e, [running], s2)
                 | (Inr command, s2) \<Rightarrow> (RunContinues, [running, (command, ''succeeded'')], s2))
              else
                (case storeRetry retries_cfg (waitCancelled w)
                        (\<lambda>i. Fail (outcomeEvs w i) (outcomeNow w i) cid err) s1 of
                   (Inl e, s2) \<Rightarrow> (RunFails e, [running], s2)
                 | (Inr (command, event), s2) \<Rightarrow> (RunContinues, [running, (command, event)], s2)))))"

text \<open>\<^verbatim>\<open>Run\<close> over the ticks of its surroundings, until it returns.\<close>

fun worker_run ::
  "int \<Rightarrow> (Record \<Rightarrow> execution_error option) \<Rightarrow> worker_tick list \<Rightarrow> queue_store
   \<Rightarrow> run_result \<times> notice list \<times> queue_store"
where
  "worker_run n execute [] s = (RunContinues, [], s)"
| "worker_run n execute (w # ws) s =
     (case worker_iteration n execute w s of
        (RunContinues, ns, s') \<Rightarrow>
          (case worker_run n execute ws s' of (r, ns', s'') \<Rightarrow> (r, ns @ ns', s''))
      | (r, ns, s') \<Rightarrow> (r, ns, s'))"

section \<open>The retry loop\<close>

text \<open>A store operation that reports an error changed nothing.\<close>

definition atomic_run :: "(nat \<Rightarrow> 's \<Rightarrow> ('e + 'a) \<times> 's) \<Rightarrow> bool" where
  "atomic_run run \<longleftrightarrow> (\<forall>i s e s'. run i s = (Inl e, s') \<longrightarrow> s' = s)"

lemma retry_loop_error:
  assumes "atomic_run run"
  shows "retry_loop left i cancelled run s = (Inl e, s') \<Longrightarrow> s' = s"
proof (induction left arbitrary: i)
  case 0
  then show ?case using assms by (simp add: atomic_run_def)
next
  case (Suc left)
  show ?case
  proof (cases "fst (run i s)")
    case (Inl e')
    then have "run i s = (Inl e', s)" using assms unfolding atomic_run_def by (metis prod.collapse)
    with Suc show ?thesis by (auto split: if_splits)
  next
    case (Inr a)
    with Suc.prems show ?thesis by (auto split: prod.splits sum.splits)
  qed
qed

lemma retry_loop_value:
  assumes "atomic_run run"
  shows "retry_loop left i cancelled run s = (Inr a, s') \<Longrightarrow> \<exists>j. i \<le> j \<and> j \<le> i + left \<and> run j s = (Inr a, s')"
proof (induction left arbitrary: i)
  case 0
  then show ?case by auto
next
  case (Suc left)
  show ?case
  proof (cases "fst (run i s)")
    case (Inl e')
    then have "run i s = (Inl e', s)" using assms unfolding atomic_run_def by (metis prod.collapse)
    with Suc.prems have "retry_loop left (Suc i) cancelled run s = (Inr a, s')" by (auto split: if_splits)
    from Suc.IH [OF this] show ?thesis by (metis Suc_leD add_Suc_shift)
  next
    case (Inr b)
    with Suc.prems have "run i s = (Inr a, s')" by (auto split: prod.splits sum.splits)
    then show ?thesis by auto
  qed
qed

section \<open>Outcomes under any schedule\<close>

lemma transitionTx_value:
  assumes "transitionTx evs cid fn s = (Inr a, s')"
  obtains r where "r \<in> set (commands s)" "commandID r = cid" "fn r s = Inr (a, s')"
proof -
  have "WithTx evs (\<lambda>s. case lockRow cid s of None \<Rightarrow> Inl (Domain CommandNotFound) | Some row \<Rightarrow> fn row s) s = (Inr a, s')"
    using assms by (auto simp: transitionTx_def split: if_splits)
  from WithTx_valueD [OF this] obtain r where "lockRow cid s = Some r" "fn r s = Inr (a, s')"
    by (auto split: option.splits)
  then show thesis using that lockRow_Some by blast
qed

lemma transitionTx_error: "transitionTx evs cid fn s = (Inl e, s') \<Longrightarrow> s' = s"
  by (auto simp: transitionTx_def split: if_splits dest: WithTx_errorD)

lemma Complete_value:
  assumes "keys_wf s" "Complete evs now cid s = (Inr c, s')"
  shows "\<exists>r\<in>set (commands s). commandID r = cid \<and> state r = CommandRunning \<and> c = public (succeed_row now r) \<and>
    set (commands s') \<subseteq> insert (succeed_row now r) (set (commands s) - {r})"
proof -
  obtain art pruned s1 where t: "transitionTx evs cid (succeedTx now check_running) s = (Inr (c, art, pruned), s1)"
    and s': "s' = fold removeArtifact pruned (if art then removeArtifact cid s1 else s1)"
    using assms(2) by (auto simp: Complete_def succeed_def split: prod.splits sum.splits)
  obtain r where r: "r \<in> set (commands s)" "commandID r = cid" "succeedTx now check_running r s = Inr ((c, art, pruned), s1)"
    using t by (rule transitionTx_value)
  let ?s0 = "s\<lparr>payloads := (payloads s)(commandID r := None)\<rparr>"
  from r(3) obtain s2 where run: "state r = CommandRunning" "c = public (succeed_row now r)"
    and u: "updateTx (succeed_row now r) ?s0 = Inr ((), s2)" and s1: "s1 = snd (pruneTx s2)"
    by (auto simp: succeedTx_def check_running_def Let_def split: if_splits sum.splits prod.splits)
  have "keys_wf ?s0" using assms(1) by (simp add: keys_wf_def)
  then have "commands s2 = map (\<lambda>x. if x = r then succeed_row now r else x) (commands s)"
    using updateTx_commands [of ?s0 r "succeed_row now r" "()" s2] r(1) u by simp
  then have "set (commands s2) \<subseteq> insert (succeed_row now r) (set (commands s) - {r})" by auto
  moreover have "set (commands s') \<subseteq> set (commands s2)"
    using prune_subset [of s2] by (simp add: s' s1 removeArtifact_def)
  ultimately show ?thesis using r(1,2) run by blast
qed

lemma Fail_value:
  assumes "keys_wf s" "Fail evs now cid err s = (Inr (c, ev), s')"
  shows "\<exists>r\<in>set (commands s). commandID r = cid \<and> state r = CommandRunning \<and> c = public (fail_row now err r) \<and>
    set (commands s') \<subseteq> insert (fail_row now err r) (set (commands s) - {r})"
proof -
  obtain pruned s1 where t: "transitionTx evs cid (failTx now err True check_running) s = (Inr (c, ev, pruned), s1)"
    and s': "s' = fold removeArtifact pruned s1"
    using assms(2) by (auto simp: Fail_def fail_def split: prod.splits sum.splits)
  obtain r where r: "r \<in> set (commands s)" "commandID r = cid" "failTx now err True check_running r s = Inr ((c, ev, pruned), s1)"
    using t by (rule transitionTx_value)
  from r(3) obtain s2 where run: "state r = CommandRunning" "c = public (fail_row now err r)"
    and u: "updateTx (fail_row now err r) s = Inr ((), s2)" and s1: "s1 = snd (pruneTx s2)"
    by (auto simp: failTx_def check_running_def Let_def split: if_splits sum.splits prod.splits)
  have "commands s2 = map (\<lambda>x. if x = r then fail_row now err r else x) (commands s)"
    using updateTx_commands [OF assms(1) r(1) _ u] by simp
  then have "set (commands s2) \<subseteq> insert (fail_row now err r) (set (commands s) - {r})" by auto
  moreover have "set (commands s') \<subseteq> set (commands s2)"
    using prune_subset [of s2] by (simp add: s' s1)
  ultimately show ?thesis using r(1,2) run by blast
qed

lemma store_op_error:
  "atomic_run (\<lambda>i. ClaimDue (evs i) (now i) (skip i))"
  "atomic_run (\<lambda>i. Complete (evs i) (now i) cid)"
  "atomic_run (\<lambda>i. Fail (evs i) (now i) cid err)"
  by (auto simp: atomic_run_def ClaimDue_def Complete_def succeed_def Fail_def fail_def
      dest: WithTx_errorD transitionTx_error split: prod.splits sum.splits)

lemma storeRetry_value:
  assumes errs: "atomic_run run"
    and "storeRetry n cancelled run s = (Inr a, s')"
  shows "\<exists>j. run j s = (Inr a, s')"
proof -
  have "retry_loop ((if n \<le> 0 then defaultStoreRetryAttempts else nat n) - 1) 0 cancelled run s = (Inr a, s')"
    using assms(2) unfolding storeRetry_def Let_def .
  from retry_loop_value [of run, OF errs this] show ?thesis by blast
qed

lemma storeRetry_error:
  assumes errs: "atomic_run run"
    and "storeRetry n cancelled run s = (Inl e, s')"
  shows "s' = s"
proof -
  have "retry_loop ((if n \<le> 0 then defaultStoreRetryAttempts else nat n) - 1) 0 cancelled run s = (Inl e, s')"
    using assms(2) unfolding storeRetry_def Let_def .
  from retry_loop_error [of run, OF errs this] show ?thesis .
qed

section \<open>What an iteration achieves\<close>

lemma interrupted_message: "Contains (ToLower ''command execution ended before completion'') ''command execution ended before completion''"
  by code_simp

lemma interrupted_row:
  "state (fail_row now interrupted_error r) = CommandNeedsAttention"
  "failureCode (fail_row now interrupted_error r) = ''execution_interrupted''"
proof -
  have "\<not> retries interrupted_error r"
    by (simp add: retries_def interrupted_error_def PermanentError_def)
  then show "state (fail_row now interrupted_error r) = CommandNeedsAttention"
    using fail_row_schedule [of now interrupted_error r] by simp
  show "failureCode (fail_row now interrupted_error r) = ''execution_interrupted''"
    using fail_row_diagnostic [of now interrupted_error r] interrupted_message
    by (simp add: commandFailureDiagnostic_def interrupted_error_def PermanentError_def plain_error_def)
qed

lemma claimed_alone:
  assumes "store_wf sha s" "ClaimDue evs now skip s = (Inr (Some rec), s1)"
  obtains r where "recCommand rec = public (claim_row now r)"
    and "\<forall>q\<in>set (commands s1). state q = CommandRunning \<longrightarrow> q = claim_row now r"
proof -
  have k: "keys_wf s" using assms(1) by (simp add: store_wf_def)
  have "claimTx now skip s = Inr (Some rec, s1)"
    using assms(2) unfolding ClaimDue_def by (rule WithTx_valueD)
  then obtain r where "oldest_due (\<lambda>_. True) now skip s = Some r"
    and idle: "\<forall>q\<in>set (commands s). state q \<noteq> CommandRunning"
    and cmds: "commands s1 = map (\<lambda>q. if q = r then claim_row now r else q) (commands s)"
    and "payloads s1 = payloads s" "events s1 = (events s)(commandID r := [])"
    and rec: "rec = \<lparr>recArtifact = artifact r, recCommand = public (claim_row now r), recPayload = payloads s (commandID r)\<rparr>"
    by (rule claimTx_Some [OF k])
  show thesis
  proof (rule that [of r])
    show "recCommand rec = public (claim_row now r)" by (simp add: rec)
    show "\<forall>q\<in>set (commands s1). state q = CommandRunning \<longrightarrow> q = claim_row now r"
      using idle by (auto simp: cmds)
  qed
qed

lemma store_wf_claim: "store_wf sha s \<Longrightarrow> ClaimDue evs now skip s = (o1, s1) \<Longrightarrow> store_wf sha s1"
  using wf_ledger.exec_inv [of sha s "OpClaim evs now skip"] by (simp add: queue_enabled_def)

lemma iteration_cases:
  assumes "store_wf sha s" "worker_iteration n execute w s = (RunContinues, ns, s')"
  obtains (idle) "ns = []" "s' = s"
  | (completed) j rec s1 i c where "ClaimDue (claimEvs w j) (claimNow w j) (claimSkip w j) s = (Inr (Some rec), s1)"
      and "\<not> executionEnded w" "execute rec = None"
      and "Complete (outcomeEvs w i) (outcomeNow w i) (commandID (recCommand rec)) s1 = (Inr c, s')"
      and "ns = [(recCommand rec, ''running''), (c, ''succeeded'')]"
  | (failed) j rec s1 i err c ev where "ClaimDue (claimEvs w j) (claimNow w j) (claimSkip w j) s = (Inr (Some rec), s1)"
      and "err = (if executionEnded w then interrupted_error else execute rec)" "err \<noteq> None"
      and "Fail (outcomeEvs w i) (outcomeNow w i) (commandID (recCommand rec)) err s1 = (Inr (c, ev), s')"
      and "ns = [(recCommand rec, ''running''), (c, ev)]"
proof (cases "ctxDone w \<or> \<not> canExecute w")
  case True
  then show thesis using assms(2) idle by (auto simp: worker_iteration_def split: if_splits)
next
  case False
  let ?claim = "\<lambda>i. ClaimDue (claimEvs w i) (claimNow w i) (claimSkip w i)"
  obtain out s1 where c: "storeRetry n (waitCancelled w) ?claim s = (out, s1)" by fastforce
  show thesis
  proof (cases out)
    case (Inl e)
    then show thesis using assms(2) False c by (simp add: worker_iteration_def)
  next
    case (Inr found)
    obtain j where j: "?claim j s = (Inr found, s1)"
      using storeRetry_value [of ?claim, OF store_op_error(1) c [unfolded Inr]] by blast
    show thesis
    proof (cases found)
      case None
      then have "s1 = s"
        using j by (auto simp: ClaimDue_def claimTx_def Let_def split: if_splits option.splits sum.splits dest!: WithTx_valueD)
      then show thesis using assms(2) False c Inr None idle by (simp add: worker_iteration_def)
    next
      case (Some rec)
      let ?cid = "commandID (recCommand rec)"
      let ?err = "if executionEnded w then interrupted_error else execute rec"
      show thesis
      proof (cases "?err = None")
        case True
        then have ok: "\<not> executionEnded w" "execute rec = None"
          by (auto simp: interrupted_error_def PermanentError_def split: if_splits)
        let ?complete = "\<lambda>i. Complete (outcomeEvs w i) (outcomeNow w i) ?cid"
        obtain c2 where "storeRetry n (waitCancelled w) ?complete s1 = (Inr c2, s')"
          and ns: "ns = [(recCommand rec, ''running''), (c2, ''succeeded'')]"
          using assms(2) False c Inr Some ok by (auto simp: worker_iteration_def Let_def split: prod.splits sum.splits)
        then obtain i where "?complete i s1 = (Inr c2, s')"
          using storeRetry_value [of ?complete, OF store_op_error(2)] by blast
        then show thesis using completed [OF j [unfolded Some] ok] ns by blast
      next
        case err: False
        let ?fail = "\<lambda>i. Fail (outcomeEvs w i) (outcomeNow w i) ?cid ?err"
        obtain c2 ev where "storeRetry n (waitCancelled w) ?fail s1 = (Inr (c2, ev), s')"
          and ns: "ns = [(recCommand rec, ''running''), (c2, ev)]"
          using assms(2) False c Inr Some err
          by (auto simp: worker_iteration_def Let_def split: prod.splits sum.splits if_splits)
        then obtain i where "?fail i s1 = (Inr (c2, ev), s')"
          using storeRetry_value [of ?fail, OF store_op_error(3)] by blast
        then show thesis using failed [OF j [unfolded Some] refl err] ns by blast
      qed
    qed
  qed
qed

lemma Complete_ends_running:
  assumes "keys_wf s1" "\<forall>q\<in>set (commands s1). state q = CommandRunning \<longrightarrow> q = r"
    and "Complete evs now cid s1 = (Inr c, s')"
  shows "\<forall>q\<in>set (commands s'). state q \<noteq> CommandRunning" "commandID c = cid"
proof -
  obtain r' where r': "r' \<in> set (commands s1)" "commandID r' = cid" "state r' = CommandRunning"
    and c: "c = public (succeed_row now r')"
    and sub: "set (commands s') \<subseteq> insert (succeed_row now r') (set (commands s1) - {r'})"
    using Complete_value [OF assms(1,3)] by blast
  have "r' = r" using assms(2) r'(1,3) by blast
  then show "\<forall>q\<in>set (commands s'). state q \<noteq> CommandRunning" using sub assms(2) by auto
  show "commandID c = cid" using c r'(2) by (simp add: Command.truncate_def)
qed

lemma Fail_ends_running:
  assumes "keys_wf s1" "\<forall>q\<in>set (commands s1). state q = CommandRunning \<longrightarrow> q = r"
    and "Fail evs now cid err s1 = (Inr (c, ev), s')"
  shows "\<forall>q\<in>set (commands s'). state q \<noteq> CommandRunning"
    "\<exists>r'. commandID r' = cid \<and> c = public (fail_row now err r')"
proof -
  obtain r' where r': "r' \<in> set (commands s1)" "commandID r' = cid" "state r' = CommandRunning"
    and c: "c = public (fail_row now err r')"
    and sub: "set (commands s') \<subseteq> insert (fail_row now err r') (set (commands s1) - {r'})"
    using Fail_value [OF assms(1,3)] by blast
  have r: "r' = r" using assms(2) r'(1,3) by blast
  have "state (fail_row now err r') \<noteq> CommandRunning"
    using fail_row_schedule [of now err r'] by (auto split: if_splits)
  then show "\<forall>q\<in>set (commands s'). state q \<noteq> CommandRunning" using sub assms(2) r by auto
  show "\<exists>r'. commandID r' = cid \<and> c = public (fail_row now err r')" using r'(2) c by blast
qed

text \<open>C18: One iteration of the worker that returns to its loop either did nothing at all (the
  context ended, the authority check refused, or nothing was due), or claimed a command, told the
  observer it was running, recorded an outcome for that same command, and left nothing running. An
  execution whose context ended is never counted as success and never retried on its own: it needs
  attention with the code execution_interrupted. A standby never touches the ledger.\<close>

theorem worker_iteration_settles:
  assumes "store_wf sha s" and "worker_iteration n execute w s = (RunContinues, ns, s')"
  shows "ns = [] \<and> s' = s \<or>
    canExecute w \<and> (\<forall>q\<in>set (commands s'). state q \<noteq> CommandRunning) \<and>
    (\<exists>c1 c2 ev. ns = [(c1, ''running''), (c2, ev)] \<and> commandID c2 = commandID c1 \<and>
       (executionEnded w \<longrightarrow>
          state c2 = CommandNeedsAttention \<and> failureCode c2 = ''execution_interrupted''))"
  using assms
proof (cases rule: iteration_cases)
  case idle
  then show ?thesis by simp
next
  case (completed j rec s1 i c)
  have can: "canExecute w" using assms(2) completed(5) by (auto simp: worker_iteration_def split: if_splits)
  have k: "keys_wf s1" using store_wf_claim [OF assms(1) completed(1)] by (simp add: store_wf_def)
  obtain r where "\<forall>q\<in>set (commands s1). state q = CommandRunning \<longrightarrow> q = claim_row (claimNow w j) r"
    using claimed_alone [OF assms(1) completed(1)] by blast
  from Complete_ends_running [OF k this completed(4)] show ?thesis using can completed(2,5) by blast
next
  case (failed j rec s1 i err c ev)
  have can: "canExecute w" using assms(2) failed(5) by (auto simp: worker_iteration_def split: if_splits)
  have k: "keys_wf s1" using store_wf_claim [OF assms(1) failed(1)] by (simp add: store_wf_def)
  obtain r where "\<forall>q\<in>set (commands s1). state q = CommandRunning \<longrightarrow> q = claim_row (claimNow w j) r"
    using claimed_alone [OF assms(1) failed(1)] by blast
  note ends = Fail_ends_running [OF k this failed(4)]
  then obtain r' where r': "commandID r' = commandID (recCommand rec)" "c = public (fail_row (outcomeNow w i) err r')"
    by blast
  have "commandID c = commandID (recCommand rec)" using r' by (simp add: Command.truncate_def)
  moreover have "state c = CommandNeedsAttention \<and> failureCode c = ''execution_interrupted''" if "executionEnded w"
    using that failed(2) r'(2) interrupted_row [of "outcomeNow w i" r'] by (simp add: Command.truncate_def)
  ultimately show ?thesis using ends(1) can failed(5) by blast
qed

text \<open>A tick in which every store operation works at once and the executor reports success.\<close>

definition sample_tick :: worker_tick where
  "sample_tick = \<lparr>ctxDone = False, canExecute = True, claimEvs = (\<lambda>_. []), claimNow = (\<lambda>_. 20),
     claimSkip = (\<lambda>_. []), executionEnded = False, outcomeEvs = (\<lambda>_. []), outcomeNow = (\<lambda>_. 30),
     waitCancelled = (\<lambda>_. False)\<rparr>"

theorem worker_iteration_settles_witness:
  "\<exists>ns s'. worker_iteration 5 (\<lambda>_. None) sample_tick (sample_store sample_row) = (RunContinues, ns, s') \<and>
     ns \<noteq> [] \<and> list_all (\<lambda>q. state q \<noteq> CommandRunning) (commands s')"
proof -
  have claim: "ClaimDue [] 20 [] (sample_store sample_row) = (Inr (Some \<lparr>recArtifact = False,
      recCommand = public (claim_row 20 sample_row), recPayload = Some ''{}''\<rparr>), sample_running)"
    unfolding ClaimDue_def
    by (rule WithTx_runs [where fn = "claimTx 20 []" and s = "sample_store sample_row", OF sample_claimTx])
  have r: "claim_row 20 sample_row \<in> set (commands sample_running)" "commandID (claim_row 20 sample_row) = sample_id"
    by (simp_all add: sample_running_def sample_store_def claim_row_def sample_row_def)
  obtain s' where "Complete [] 30 sample_id sample_running = (Inr (public (succeed_row 30 (claim_row 20 sample_row))), s')"
    using Complete_runs [OF samples_wf(2) r(1) state_claim_row, of 30] unfolding r(2) by blast
  then have "\<exists>ns. worker_iteration 5 (\<lambda>_. None) sample_tick (sample_store sample_row) = (RunContinues, ns, s') \<and> ns \<noteq> []"
    using claim r(2)
    by (simp add: worker_iteration_def sample_tick_def storeRetry_def Command.truncate_def eval_nat_numeral)
  then obtain ns where it: "worker_iteration 5 (\<lambda>_. None) sample_tick (sample_store sample_row) = (RunContinues, ns, s')"
    "ns \<noteq> []" by blast
  from worker_iteration_settles [OF samples_wf(1) it(1)] it show ?thesis unfolding list_all_iff by blast
qed

end
