(* ===== verification/Go_Time.thy ===== *)
theory Go_Time
  imports Swarm_Prelude
begin

text \<open>
  The part of Go's \<^verbatim>\<open>time\<close> package the commerce layer computes with, in UTC: truncation to the
  hour, the calendar month of an instant, \<^verbatim>\<open>time.Date\<close>, \<^verbatim>\<open>AddDate\<close> and the layouts its
  descriptions and keys are formatted with. Months are numbered consecutively: month \<open>12 * y + m\<close>
  is month \<open>m + 1\<close> of year \<open>y\<close> of the proleptic Gregorian calendar.
\<close>

section \<open>The calendar\<close>

abbreviation Day :: duration where "Day \<equiv> 86400000000"

definition leap_year :: "int \<Rightarrow> bool" where
  "leap_year y \<longleftrightarrow> y mod 4 = 0 \<and> (y mod 100 \<noteq> 0 \<or> y mod 400 = 0)"

text \<open>Days from 1 January of year 0 to 1 January of year \<open>y\<close>.\<close>

definition year_day :: "int \<Rightarrow> int" where
  "year_day y = 365 * y + (y + 3) div 4 - (y + 99) div 100 + (y + 399) div 400"

text \<open>Days from 1 January to the first of month \<open>m\<close> (0 to 11) of a year.\<close>

definition month_offset :: "bool \<Rightarrow> int \<Rightarrow> int" where
  "month_offset leap m =
     [0, 31, 59, 90, 120, 151, 181, 212, 243, 273, 304, 334] ! nat m + (if leap \<and> 2 \<le> m then 1 else 0)"

definition month_day :: "int \<Rightarrow> int" where
  "month_day k = year_day (k div 12) + month_offset (leap_year (k div 12)) (k mod 12)"

definition year_of_day :: "int \<Rightarrow> int" where
  "year_of_day d =
     (let y = 400 * d div 146097 in
      if d < year_day y then y - 1 else if year_day (y + 1) \<le> d then y + 1 else y)"

definition month_of_day :: "int \<Rightarrow> int" where
  "month_of_day d =
     (let y = year_of_day d in
      12 * y + int (length (filter (\<lambda>m. month_day (12 * y + m) \<le> d) [1, 2, 3, 4, 5, 6, 7, 8, 9, 10, 11])))"

lemma ceiling_step:
  assumes "0 < (n::int)"
  shows "(y + 1 + (n - 1)) div n = (y + (n - 1)) div n + (if y mod n = 0 then 1 else 0)"
proof -
  define q r where qr: "q = y div n" "r = y mod n"
  have y: "y = r + n * q" and r: "0 \<le> r" "r < n" using assms unfolding qr by simp_all
  have "(y + 1 + (n - 1)) div n = q + 1" using assms div_add_self2 [of n y] by (simp add: qr)
  moreover have "(y + (n - 1)) div n = (r + (n - 1)) div n + q"
    using assms unfolding y by (metis add.assoc add.commute div_mult_self2 less_irrefl)
  moreover have "(r + (n - 1)) div n = (if r = 0 then 0 else 1)"
  proof (cases "r = 0")
    case False
    with r have "(r - 1) div n = 0" by (intro div_pos_pos_trivial) simp_all
    with assms have "(r - 1 + n) div n = 1" using div_add_self2 [of n "r - 1"] by simp
    moreover have "r + (n - 1) = r - 1 + n" by simp
    ultimately show ?thesis using False by metis
  qed (use assms in simp)
  ultimately show ?thesis by (simp add: qr(2) [symmetric])
qed

lemma ceiling_bounds:
  assumes "0 < (n::int)"
  shows "y \<le> n * ((y + (n - 1)) div n)" "n * ((y + (n - 1)) div n) \<le> y + (n - 1)"
  using assms mult_div_mod_eq [of n "y + (n - 1)"] pos_mod_bound [of n "y + (n - 1)"]
    pos_mod_sign [of n "y + (n - 1)"] by linarith+

lemma year_day_ceilings:
  "year_day y = 365 * y + (y + (4 - 1)) div 4 - (y + (100 - 1)) div 100 + (y + (400 - 1)) div 400"
  by (simp add: year_day_def)

lemma leap_year_count:
  "(if leap_year y then 1 else 0) =
    ((if y mod 4 = 0 then 1 else 0) - (if y mod 100 = 0 then 1 else 0) + (if y mod 400 = 0 then 1 else 0) :: int)"
  using mod_mod_cancel [of 4 100 y] mod_mod_cancel [of 100 400 y]
  unfolding leap_year_def by (cases "y mod 4 = 0"; cases "y mod 100 = 0"; cases "y mod 400 = 0") auto

lemma year_day_step: "year_day (y + 1) = year_day y + 365 + (if leap_year y then 1 else 0)"
  unfolding year_day_ceilings leap_year_count
    ceiling_step [OF zero_less_numeral]
  by (simp only: algebra_simps)

lemma year_day_estimate: "146097 * y - 396 \<le> 400 * year_day y" "400 * year_day y \<le> 146097 * y + 699"
proof -
  define a b c where abc: "a = (y + (4 - 1)) div 4" "b = (y + (100 - 1)) div 100" "c = (y + (400 - 1)) div 400"
  have "year_day y = 365 * y + a - b + c" unfolding year_day_ceilings abc ..
  moreover have "y \<le> 4 * a" "4 * a \<le> y + 3" "y \<le> 100 * b" "100 * b \<le> y + 99" "y \<le> 400 * c" "400 * c \<le> y + 399"
    using ceiling_bounds [of 4 y] ceiling_bounds [of 100 y] ceiling_bounds [of 400 y]
    unfolding abc [symmetric] by simp_all
  ultimately show "146097 * y - 396 \<le> 400 * year_day y" "400 * year_day y \<le> 146097 * y + 699" by linarith+
qed

lemma year_of_day: "year_day (year_of_day d) \<le> d" "d < year_day (year_of_day d + 1)"
proof -
  define y where "y = 400 * d div 146097"
  have y: "146097 * y \<le> 400 * d" "400 * d < 146097 * y + 146097"
    using mult_div_mod_eq [of 146097 "400 * d"] pos_mod_bound [of 146097 "400 * d"]
      pos_mod_sign [of 146097 "400 * d"] unfolding y_def by linarith+
  have "year_day (y - 1) \<le> d" using year_day_estimate(2) [of "y - 1"] y by (simp add: right_diff_distrib)
  moreover have "d < year_day (y + 2)" using year_day_estimate(1) [of "y + 2"] y by (simp add: distrib_left)
  ultimately show "year_day (year_of_day d) \<le> d" "d < year_day (year_of_day d + 1)"
    by (auto simp: year_of_day_def y_def [symmetric] Let_def add.commute)
qed

lemma month_index_cases:
  assumes "0 \<le> m" and "m < (12::int)"
  shows "m = 0 \<or> m = 1 \<or> m = 2 \<or> m = 3 \<or> m = 4 \<or> m = 5 \<or> m = 6 \<or> m = 7 \<or> m = 8 \<or> m = 9 \<or> m = 10 \<or> m = 11"
  using assms by presburger

lemma month_day_in_year:
  "0 \<le> m \<Longrightarrow> m < 12 \<Longrightarrow> month_day (12 * y + m) = year_day y + month_offset (leap_year y) m"
  by (simp add: month_day_def)

lemma month_day_next_year: "month_day (12 * y + 12) = year_day (y + 1)"
  by (simp add: month_day_def month_offset_def add.commute)

lemma month_day_step: "month_day k + 28 \<le> month_day (k + 1)" "month_day (k + 1) \<le> month_day k + 31"
proof -
  define y m where ym: "y = k div 12" "m = k mod 12"
  have k: "k = 12 * y + m" unfolding ym by presburger
  have m: "0 \<le> m" "m < 12" unfolding ym by simp_all
  have *: "month_day (12 * y + m + 1) =
      (if m = 11 then year_day (y + 1) else year_day y + month_offset (leap_year y) (m + 1))"
    using month_day_in_year [of "m + 1" y] month_day_next_year [of y] m by (simp add: add.assoc)
  have "month_day k + 28 \<le> month_day (k + 1) \<and> month_day (k + 1) \<le> month_day k + 31"
    unfolding k * month_day_in_year [OF m] using month_index_cases [OF m]
    by (elim disjE) (simp_all add: month_offset_def year_day_step numeral_eq_Suc)
  then show "month_day k + 28 \<le> month_day (k + 1)" "month_day (k + 1) \<le> month_day k + 31" by simp_all
qed

lemma month_day_strict: "j < k \<Longrightarrow> month_day j + 28 \<le> month_day k"
proof (induction "nat (k - j)" arbitrary: k)
  case (Suc n)
  show ?case
  proof (cases "j = k - 1")
    case True
    then show ?thesis using month_day_step(1) [of j] by simp
  next
    case False
    with Suc.prems Suc.hyps(2) have "month_day j + 28 \<le> month_day (k - 1)" by (intro Suc.hyps(1)) auto
    with month_day_step(1) [of "k - 1"] show ?thesis by simp
  qed
qed simp

lemma month_of_day: "month_day (month_of_day d) \<le> d" "d < month_day (month_of_day d + 1)"
proof -
  define y where "y = year_of_day d"
  have first: "month_day (12 * y) \<le> d" and last: "d < month_day (12 * y + 12)"
    using year_of_day [of d] unfolding y_def by (simp_all add: month_day_def month_offset_def)
  define f where "f m = month_day (12 * y + m)" for m
  have mono: "i < j \<Longrightarrow> f i < f j" for i j using month_day_strict [of "12 * y + i" "12 * y + j"] by (simp add: f_def)
  have ord: "f 1 < f 2" "f 2 < f 3" "f 3 < f 4" "f 4 < f 5" "f 5 < f 6" "f 6 < f 7" "f 7 < f 8"
    "f 8 < f 9" "f 9 < f 10" "f 10 < f 11" by (rule mono; simp)+
  have "month_day (12 * y + int (length (filter (\<lambda>m. f m \<le> d) [1, 2, 3, 4, 5, 6, 7, 8, 9, 10, 11]))) \<le> d \<and>
      d < month_day (12 * y + int (length (filter (\<lambda>m. f m \<le> d) [1, 2, 3, 4, 5, 6, 7, 8, 9, 10, 11])) + 1)"
    using ord first last by (auto simp: f_def add.commute)
  then show "month_day (month_of_day d) \<le> d" "d < month_day (month_of_day d + 1)"
    by (simp_all add: month_of_day_def Let_def y_def [symmetric] f_def)
qed

lemma month_of_day_unique: "month_day k \<le> d \<Longrightarrow> d < month_day (k + 1) \<Longrightarrow> month_of_day d = k"
proof (rule linorder_cases [of "month_of_day d" k])
  assume k: "month_day k \<le> d" and "month_of_day d < k"
  then have "month_day (month_of_day d + 1) \<le> month_day k"
    using month_day_strict [of "month_of_day d + 1" k] by (cases "month_of_day d + 1 = k") auto
  with k month_of_day(2) [of d] show ?thesis by simp
next
  assume k: "d < month_day (k + 1)" and "k < month_of_day d"
  then have "month_day (k + 1) \<le> month_day (month_of_day d)"
    using month_day_strict [of "k + 1" "month_of_day d"] by (cases "k + 1 = month_of_day d") auto
  with k month_of_day(1) [of d] show ?thesis by simp
qed

section \<open>Instants\<close>

text \<open>The day number of the Unix epoch.\<close>

definition epoch_day :: int where "epoch_day = 719528"

definition day_of :: "time \<Rightarrow> int" where "day_of t = t div Day + epoch_day"
definition month_of :: "time \<Rightarrow> int" where "month_of t = month_of_day (day_of t)"

text \<open>\<^verbatim>\<open>time.Date\<close> for the first of a month, and \<^verbatim>\<open>t.Day()\<close>.\<close>

definition month_time :: "int \<Rightarrow> time" where "month_time k = (month_day k - epoch_day) * Day"
definition month_start :: "time \<Rightarrow> time" where "month_start t = month_time (month_of t)"
definition Day_of_month :: "time \<Rightarrow> int" where "Day_of_month t = day_of t - month_day (month_of t) + 1"

text \<open>\<^verbatim>\<open>t.AddDate(0, n, 0)\<close>: the same day number \<open>n\<close> months later, where a day the month does not
  have carries over into the next month.\<close>

definition AddMonths :: "int \<Rightarrow> time \<Rightarrow> time" where
  "AddMonths n t = (month_day (month_of t + n) + (Day_of_month t - 1) - epoch_day) * Day + t mod Day"

definition AddDays :: "int \<Rightarrow> time \<Rightarrow> time" where "AddDays n t = t + n * Day"

text \<open>\<^verbatim>\<open>t.Truncate(time.Hour)\<close>.\<close>

definition truncate_hour :: "time \<Rightarrow> time" where "truncate_hour t = t - t mod Hour"

lemma truncate_hour_le: "truncate_hour t \<le> t" "t < truncate_hour t + Hour"
  using pos_mod_bound [of Hour t] by (simp_all add: truncate_hour_def)

lemma truncate_hour_idem [simp]: "truncate_hour (truncate_hour t) = truncate_hour t"
  by (simp add: truncate_hour_def mod_diff_left_eq [symmetric])

lemma day_of_month_time [simp]: "day_of (month_time k) = month_day k"
  by (simp add: day_of_def month_time_def)

lemma month_of_month_time [simp]: "month_of (month_time k) = k"
  using month_day_step(1) [of k] by (simp add: month_of_def month_of_day_unique)

lemma AddMonths_month_time [simp]: "AddMonths n (month_time k) = month_time (k + n)"
  by (simp add: AddMonths_def Day_of_month_def month_time_def [of "k + n"]) (simp add: month_time_def)

lemma month_time_strict: "j < k \<Longrightarrow> month_time j < month_time k"
  using month_day_strict [of j k] by (simp add: month_time_def)

lemma day_of_ge: "(d - epoch_day) * Day \<le> t \<longleftrightarrow> d \<le> day_of t"
  using zdiv_mono1 [of "(d - epoch_day) * Day" t Day] mult_div_mod_eq [of Day t] pos_mod_sign [of Day t]
  by (auto simp: day_of_def)

text \<open>An instant lies in the half-open interval of its month, and in no other.\<close>

lemma in_month_iff: "month_time k \<le> t \<and> t < month_time (k + 1) \<longleftrightarrow> month_of t = k"
proof -
  have "month_time k \<le> t \<and> t < month_time (k + 1) \<longleftrightarrow> month_day k \<le> day_of t \<and> day_of t < month_day (k + 1)"
    using day_of_ge [of "month_day k" t] day_of_ge [of "month_day (k + 1)" t]
    by (auto simp: month_time_def not_le [symmetric])
  also have "\<dots> \<longleftrightarrow> month_of t = k"
    using month_of_day [of "day_of t"] month_of_day_unique [of k "day_of t"] by (auto simp: month_of_def)
  finally show ?thesis .
qed

lemma month_start_le: "month_start t \<le> t"
  using in_month_iff [of "month_of t" t] by (simp add: month_start_def)

section \<open>Layouts\<close>

text \<open>\<open>pad w n\<close> is \<open>n\<close> in decimal, zero-padded to \<open>w\<close> characters (\<^verbatim>\<open>%0wd\<close>).\<close>

definition pad :: "nat \<Rightarrow> nat \<Rightarrow> string" where
  "pad w n = (let s = show_nat n in replicate (w - length s) (CHR ''0'') @ s)"

definition format_year :: "time \<Rightarrow> string" where "format_year t = pad 4 (nat (month_of t div 12))"
definition format_month :: "time \<Rightarrow> string" where "format_month t = pad 2 (nat (month_of t mod 12) + 1)"
definition format_day :: "time \<Rightarrow> string" where "format_day t = pad 2 (nat (Day_of_month t))"
definition format_hour :: "time \<Rightarrow> string" where "format_hour t = pad 2 (nat (t mod Day div Hour))"

text \<open>The layouts \<^verbatim>\<open>200601\<close>, \<^verbatim>\<open>2006010215\<close>, \<^verbatim>\<open>2006-01-02 15:00\<close> and \<^verbatim>\<open>January 2006\<close>.\<close>

definition Format_200601 :: "time \<Rightarrow> string" where
  "Format_200601 t = format_year t @ format_month t"

definition Format_2006010215 :: "time \<Rightarrow> string" where
  "Format_2006010215 t = format_year t @ format_month t @ format_day t @ format_hour t"

definition Format_hour_of_day :: "time \<Rightarrow> string" where
  "Format_hour_of_day t =
     format_year t @ ''-'' @ format_month t @ ''-'' @ format_day t @ '' '' @ format_hour t @ '':00''"

definition month_names :: "string list" where
  "month_names = [''January'', ''February'', ''March'', ''April'', ''May'', ''June'', ''July'',
     ''August'', ''September'', ''October'', ''November'', ''December'']"

definition Format_January_2006 :: "time \<Rightarrow> string" where
  "Format_January_2006 t = month_names ! nat (month_of t mod 12) @ '' '' @ format_year t"

end
