(* ===== verification/Json_Encode.thy ===== *)
theory Json_Encode
  imports Go_Json
begin

text \<open>
  \<^verbatim>\<open>json.Marshal\<close> of Go's standard library for the values the controller encodes: null, booleans,
  integers, decimals with three places, strings, arrays and objects in the order of their
  fields. Every encoding is accepted by \<open>json_Valid\<close>, the check the command ledger applies to
  a payload.
\<close>

section \<open>Encoding\<close>

datatype json_value =
    JNull | JBool bool | JNat nat | JMilli nat | JString string
  | JArray "json_value list" | JObject "(string \<times> json_value) list"

definition quote :: string where "quote = [CHR 0x22]"
definition backslash :: string where "backslash = [CHR 0x5C]"

text \<open>The bytes \<^verbatim>\<open>encoding/json\<close> writes for one ASCII byte inside a string; bytes of longer runes
  are copied.\<close>

definition json_escape :: "char \<Rightarrow> string" where
  "json_escape c =
     (let n = (of_char c :: nat) in
      if c = CHR 0x22 \<or> c = CHR 0x5C then backslash @ [c]
      else if n = 8 then backslash @ ''b'' else if n = 12 then backslash @ ''f''
      else if n = 10 then backslash @ ''n'' else if n = 13 then backslash @ ''r''
      else if n = 9 then backslash @ ''t''
      else if n < 32 \<or> c = CHR ''<'' \<or> c = CHR ''>'' \<or> c = CHR ''&''
      then backslash @ ''u00'' @ [hex_char (n div 16), hex_char (n mod 16)]
      else [c])"

text \<open>The line separators U+2028 and U+2029 are escaped as well.\<close>

fun json_chars :: "string \<Rightarrow> string" where
  "json_chars [] = []"
| "json_chars (c # s) =
     (if starts_rune (c # s) [CHR 0xE2, CHR 0x80, CHR 0xA8] then backslash @ ''u2028'' @ json_chars (drop 2 s)
      else if starts_rune (c # s) [CHR 0xE2, CHR 0x80, CHR 0xA9] then backslash @ ''u2029'' @ json_chars (drop 2 s)
      else json_escape c @ json_chars s)"

definition json_string :: "string \<Rightarrow> string" where
  "json_string s = quote @ json_chars s @ quote"

text \<open>\<open>n / 1000\<close> in the shortest decimal notation.\<close>

definition milli_digits :: "nat \<Rightarrow> string" where
  "milli_digits r =
     (if r mod 100 = 0 then show_nat (r div 100)
      else if r mod 10 = 0 then [char_of (48 + r div 100), char_of (48 + r div 10 mod 10)]
      else [char_of (48 + r div 100), char_of (48 + r div 10 mod 10), char_of (48 + r mod 10)])"

definition json_milli :: "nat \<Rightarrow> string" where
  "json_milli n =
     show_nat (n div 1000) @ (if n mod 1000 = 0 then [] else ''.'' @ milli_digits (n mod 1000))"

fun comma_separated :: "string list \<Rightarrow> string" where
  "comma_separated [] = []"
| "comma_separated [x] = x"
| "comma_separated (x # y # zs) = x @ '','' @ comma_separated (y # zs)"

fun json_encode :: "json_value \<Rightarrow> string" where
  "json_encode JNull = ''null''"
| "json_encode (JBool b) = (if b then ''true'' else ''false'')"
| "json_encode (JNat n) = show_nat n"
| "json_encode (JMilli n) = json_milli n"
| "json_encode (JString s) = json_string s"
| "json_encode (JArray vs) = ''['' @ comma_separated (map json_encode vs) @ '']''"
| "json_encode (JObject fs) =
     ''{'' @ comma_separated (map (\<lambda>(k, v). json_string k @ '':'' @ json_encode v) fs) @ ''}''"

fun json_depth :: "json_value \<Rightarrow> nat" where
  "json_depth JNull = 0"
| "json_depth (JBool b) = 0"
| "json_depth (JNat n) = 0"
| "json_depth (JMilli n) = 0"
| "json_depth (JString s) = 0"
| "json_depth (JArray vs) = Suc (foldr max (map json_depth vs) 0)"
| "json_depth (JObject fs) = Suc (foldr max (map (\<lambda>(k, v). json_depth v) fs) 0)"

section \<open>The scanner on encodings\<close>

lemma json_scan_append:
  "json_scan_all q (s @ t) = (case json_scan_all q s of None \<Rightarrow> None | Some q' \<Rightarrow> json_scan_all q' t)"
  by (induction q s rule: json_scan_all.induct) (auto split: option.splits)

lemma of_char_hex_char: "n < 16 \<Longrightarrow> (of_char (hex_char n) :: nat) = (if n < 10 then 48 + n else 87 + n)"
  by (simp add: hex_char_def)

lemma lower_hex_char: "n < 16 \<Longrightarrow> hex_digit (lower_char (hex_char n))"
  using of_char_hex_char [of n] by (auto simp: lower_char_def hex_digit_def Let_def)

lemma lower_zero: "hex_digit (lower_char CHR ''0'')" "hex_digit (lower_char CHR ''2'')"
  "hex_digit (lower_char CHR ''8'')" "hex_digit (lower_char CHR ''9'')"
  by code_simp+

lemma scan_escape: "json_scan_all (InString, st) (json_escape c) = Some (InString, st)"
proof -
  have "(of_char c :: nat) < 256" by simp
  then have h: "hex_digit (lower_char (hex_char (of_char c div 16)))"
    "hex_digit (lower_char (hex_char (of_char c mod 16)))"
    by (auto intro!: lower_hex_char simp: less_mult_imp_div_less)
  show ?thesis
    by (auto simp: json_escape_def backslash_def Let_def h lower_zero)
qed

lemma scan_chars: "json_scan_all (InString, st) (json_chars s) = Some (InString, st)"
proof (induction s rule: json_chars.induct)
  case (2 c s)
  then show ?case
    by (simp add: json_scan_append scan_escape) (simp add: backslash_def lower_zero)
qed simp

lemma scan_string:
  "q = BeginValue \<or> q = BeginValueOrEmpty \<or> q = BeginString \<or> q = BeginStringOrEmpty \<Longrightarrow>
   json_scan_all (q, st) (json_string s) = Some (EndValue, st)"
  by (auto simp: json_string_def json_scan_append quote_def scan_chars json_begin_value_def
      json_begin_string_def json_space_def)

text \<open>The scanner has read a complete value at nesting \<open>st\<close>.\<close>

definition ends_value :: "json_scan \<Rightarrow> json_parse list \<Rightarrow> bool" where
  "ends_value q st \<longleftrightarrow> (\<forall>c. List.member [CHR '','', CHR ''}'', CHR '']'', CHR 0x20] c \<longrightarrow> json_step q c = json_end_value st c)"

lemma ends_value_EndValue: "ends_value (EndValue, st) st"
  by (simp add: ends_value_def)

lemma ends_value_pop:
  "ends_value (case tl st of [] \<Rightarrow> (EndTop, []) | st' \<Rightarrow> (EndValue, st')) (tl st)"
  by (cases "tl st") (auto simp: ends_value_def json_end_value_def json_space_def)

lemma ends_value_number: "q = Num0 \<or> q = Num1 \<or> q = NumDot0 \<Longrightarrow> ends_value (q, st) st"
  by (auto simp: ends_value_def json_num0_def digit_def)

lemma digit_show_nat: "\<forall>c\<in>set (show_nat n). digit c"
  by (induction n rule: show_nat.induct) (subst show_nat.simps, auto simp: digit_def Let_def)

lemma scan_digits: "\<forall>c\<in>set s. digit c \<Longrightarrow> json_scan_all (Num1, st) s = Some (Num1, st)"
  "\<forall>c\<in>set s. digit c \<Longrightarrow> json_scan_all (NumDot0, st) s = Some (NumDot0, st)"
  by (induction s) auto

text \<open>A positive number in decimal does not start with zero.\<close>

lemma show_nat_head: "0 < n \<Longrightarrow> \<exists>c s. show_nat n = c # s \<and> digit c \<and> c \<noteq> CHR ''0''"
proof (induction n rule: show_nat.induct)
  case (1 n)
  show ?case
  proof (cases "n < 10")
    case True
    then have "(of_char (char_of (48 + n) :: char) :: nat) = 48 + n" by simp
    moreover have "(of_char CHR ''0'' :: nat) = 48" by simp
    ultimately have "char_of (48 + n) \<noteq> CHR ''0''" using 1 by (metis add_cancel_right_right less_numeral_extra(3))
    with True show ?thesis by (subst show_nat.simps) (simp add: digit_def)
  next
    case False
    then have "0 < n div 10" by (simp add: div_greater_zero_iff)
    with 1 False obtain c s where "show_nat (n div 10) = c # s" "digit c" "c \<noteq> CHR ''0''" by auto
    with False show ?thesis by (subst show_nat.simps) simp
  qed
qed

lemma digit_other:
  assumes "digit c"
  shows "c \<noteq> CHR 0x20" "c \<noteq> CHR 0x09" "c \<noteq> CHR 0x0D" "c \<noteq> CHR 0x0A" "c \<noteq> CHR ''{''" "c \<noteq> CHR ''[''"
    "c \<noteq> CHR 0x22" "c \<noteq> CHR ''-''" "c \<noteq> CHR '']''" "c \<noteq> CHR ''.''" "c \<noteq> CHR ''e''" "c \<noteq> CHR ''E''"
  using assms by (auto simp: digit_def)

lemma show_nat_zero: "show_nat 0 = ''0''"
  by code_simp

lemma scan_nat:
  assumes "q = BeginValue \<or> q = BeginValueOrEmpty"
  shows "\<exists>m. (m = Num0 \<or> m = Num1) \<and> json_scan_all (q, st) (show_nat n) = Some (m, st)"
proof (cases "n = 0")
  case True
  with assms show ?thesis
    by (auto simp: show_nat_zero json_begin_value_def json_space_def)
next
  case False
  then obtain c s where s: "show_nat n = c # s" "digit c" "c \<noteq> CHR ''0''" using show_nat_head [of n] by auto
  then have "\<forall>c\<in>set s. digit c" using digit_show_nat [of n] by auto
  moreover have "json_begin_value st c = Some (Num1, st)" "\<not> json_space c" "c \<noteq> CHR '']''"
    using s(2,3) digit_other [OF s(2)] by (simp_all add: json_begin_value_def json_space_def)
  ultimately show ?thesis using assms scan_digits(1) [of s st] by (auto simp: s(1))
qed

lemma milli_digits_digit: "r < 1000 \<Longrightarrow> \<forall>c\<in>set (milli_digits r). digit c" "milli_digits r \<noteq> []"
  using digit_show_nat [of "r div 100"]
  by (auto simp: milli_digits_def digit_def Let_def show_nat.simps [of "r div 100"])

lemma scan_milli:
  assumes "q = BeginValue \<or> q = BeginValueOrEmpty"
  shows "\<exists>m. (m = Num0 \<or> m = Num1 \<or> m = NumDot0) \<and> json_scan_all (q, st) (json_milli n) = Some (m, st)"
proof -
  obtain m where m: "m = Num0 \<or> m = Num1" "json_scan_all (q, st) (show_nat (n div 1000)) = Some (m, st)"
    using scan_nat [OF assms] by blast
  obtain d ds where d: "milli_digits (n mod 1000) = d # ds" "digit d" "\<forall>c\<in>set ds. digit c"
    using milli_digits_digit [of "n mod 1000"] by (cases "milli_digits (n mod 1000)") auto
  from m d scan_digits(2) [of ds st] show ?thesis
    by (auto simp: json_milli_def json_scan_append json_num0_def digit_def)
qed

section \<open>Every encoding is valid\<close>

definition scans_value :: "json_parse list \<Rightarrow> string \<Rightarrow> bool" where
  "scans_value st s \<longleftrightarrow> (\<forall>q. q = BeginValue \<or> q = BeginValueOrEmpty \<longrightarrow>
     (\<exists>q'. json_scan_all (q, st) s = Some q' \<and> ends_value q' st))"

lemma scans_valueD:
  assumes "scans_value st s" and "q = BeginValue \<or> q = BeginValueOrEmpty"
  obtains q' where "json_scan_all (q, st) s = Some q'" and "ends_value q' st"
  using assms unfolding scans_value_def by blast

lemma ends_value_step:
  "ends_value q st \<Longrightarrow> json_step q CHR '','' = json_end_value st CHR '',''"
  "ends_value q st \<Longrightarrow> json_step q CHR ''}'' = json_end_value st CHR ''}''"
  "ends_value q st \<Longrightarrow> json_step q CHR '']'' = json_end_value st CHR '']''"
  "ends_value q st \<Longrightarrow> json_step q CHR 0x20 = json_end_value st CHR 0x20"
  by (simp_all add: ends_value_def)

lemma scan_elements:
  assumes "\<forall>v\<in>set vs. scans_value (ArrayValue # st) v" and "vs \<noteq> []"
    and "q = BeginValue \<or> q = BeginValueOrEmpty"
  shows "\<exists>q'. json_scan_all (q, ArrayValue # st) (comma_separated vs) = Some q' \<and> ends_value q' (ArrayValue # st)"
  using assms
proof (induction vs arbitrary: q rule: comma_separated.induct)
  case (2 x)
  then show ?case by (auto elim: scans_valueD)
next
  case (3 x y zs)
  from "3.prems" obtain q1 where q1: "json_scan_all (q, ArrayValue # st) x = Some q1" "ends_value q1 (ArrayValue # st)"
    by (auto elim: scans_valueD)
  from 3 obtain q2 where "json_scan_all (BeginValue, ArrayValue # st) (comma_separated (y # zs)) = Some q2"
    "ends_value q2 (ArrayValue # st)" by (metis list.set_intros(2) list.simps(3))
  with q1 show ?case
    by (simp add: json_scan_append ends_value_step json_end_value_def json_space_def)
qed simp

lemma scan_field:
  assumes "scans_value (ObjectValue # st) v" and "q = BeginString \<or> q = BeginStringOrEmpty"
  shows "\<exists>q'. json_scan_all (q, ObjectKey # st) (json_string k @ '':'' @ v) = Some q' \<and> ends_value q' (ObjectValue # st)"
proof -
  from assms(1) obtain q' where "json_scan_all (BeginValue, ObjectValue # st) v = Some q'" "ends_value q' (ObjectValue # st)"
    by (auto elim: scans_valueD)
  with assms(2) show ?thesis
    by (auto simp: json_scan_append scan_string json_end_value_def json_space_def)
qed

lemma scan_fields:
  assumes "\<forall>f\<in>set fs. \<exists>k v. f = json_string k @ '':'' @ v \<and> scans_value (ObjectValue # st) v" and "fs \<noteq> []"
    and "q = BeginString \<or> q = BeginStringOrEmpty"
  shows "\<exists>q'. json_scan_all (q, ObjectKey # st) (comma_separated fs) = Some q' \<and> ends_value q' (ObjectValue # st)"
  using assms
proof (induction fs arbitrary: q rule: comma_separated.induct)
  case (2 x)
  then show ?case using scan_field by auto
next
  case (3 x y zs)
  from "3.prems" obtain q1 where q1: "json_scan_all (q, ObjectKey # st) x = Some q1" "ends_value q1 (ObjectValue # st)"
    using scan_field by (metis list.set_intros(1))
  from 3 obtain q2 where "json_scan_all (BeginString, ObjectKey # st) (comma_separated (y # zs)) = Some q2"
    "ends_value q2 (ObjectValue # st)" by (metis list.set_intros(2) list.simps(3))
  with q1 show ?case
    by (simp add: json_scan_append ends_value_step json_end_value_def json_space_def)
qed simp

lemma foldr_max_le: "x \<in> set xs \<Longrightarrow> (x::nat) \<le> foldr max xs 0"
  by (induction xs) auto

lemma scan_close:
  assumes "json_scan_all (q, p # st) s = Some q'" and "ends_value q' (p' # st)"
    and "c = CHR '']'' \<and> p' = ArrayValue \<or> c = CHR ''}'' \<and> p' = ObjectValue"
  shows "\<exists>q''. json_scan_all (q, p # st) (s @ [c]) = Some q'' \<and> ends_value q'' st"
proof -
  have "json_step q' c = json_pop (p' # st)"
    using assms(2,3) by (auto simp: ends_value_step json_end_value_def json_space_def)
  moreover obtain r where "json_pop (p' # st) = Some r" "ends_value r st"
    using ends_value_pop [of "p' # st"] by (auto simp: json_pop_def split: list.splits)
  ultimately show ?thesis using assms(1) by (simp add: json_scan_append)
qed

lemma scans_encode: "json_depth v + length st \<le> maxNestingDepth \<Longrightarrow> scans_value st (json_encode v)"
proof (induction v arbitrary: st rule: json_encode.induct)
  case (6 vs)
  have len: "length st < maxNestingDepth" using 6 by simp
  have each: "\<forall>s\<in>set (map json_encode vs). scans_value (ArrayValue # st) s"
    using 6 foldr_max_le [of _ "map json_depth vs"] by fastforce
  show ?case unfolding scans_value_def
  proof (intro allI impI)
    fix q assume "q = BeginValue \<or> q = BeginValueOrEmpty"
    then have s: "json_scan_all (q, st) (json_encode (JArray vs)) =
        json_scan_all (BeginValueOrEmpty, ArrayValue # st) (comma_separated (map json_encode vs) @ '']'')"
      using len by (auto simp: json_begin_value_def json_space_def json_push_def)
    show "\<exists>q'. json_scan_all (q, st) (json_encode (JArray vs)) = Some q' \<and> ends_value q' st"
    proof (cases "vs = []")
      case True
      then show ?thesis unfolding s using ends_value_pop [of "ArrayValue # st"]
        by (auto simp: json_end_value_def json_space_def json_pop_def split: list.splits)
    next
      case False
      from scan_elements [OF each, of BeginValueOrEmpty] False obtain q' where
        "json_scan_all (BeginValueOrEmpty, ArrayValue # st) (comma_separated (map json_encode vs)) = Some q'"
        "ends_value q' (ArrayValue # st)" by auto
      from scan_close [OF this] show ?thesis unfolding s by simp
    qed
  qed
next
  case (7 fs)
  have len: "length st < maxNestingDepth" using 7 by simp
  let ?fields = "map (\<lambda>(k, v). json_string k @ '':'' @ json_encode v) fs"
  have each: "\<forall>f\<in>set ?fields. \<exists>k v. f = json_string k @ '':'' @ v \<and> scans_value (ObjectValue # st) v"
  proof
    fix f assume "f \<in> set ?fields"
    then obtain k v where kv: "(k, v) \<in> set fs" "f = json_string k @ '':'' @ json_encode v" by auto
    then have "json_depth v \<le> foldr max (map (\<lambda>(k, v). json_depth v) fs) 0"
      by (intro foldr_max_le) force
    with "7.prems" have "json_depth v + length (ObjectValue # st) \<le> maxNestingDepth" by simp
    with "7.IH" [OF kv(1) refl] kv(2) show "\<exists>k v. f = json_string k @ '':'' @ v \<and> scans_value (ObjectValue # st) v"
      by blast
  qed
  show ?case unfolding scans_value_def
  proof (intro allI impI)
    fix q assume "q = BeginValue \<or> q = BeginValueOrEmpty"
    then have s: "json_scan_all (q, st) (json_encode (JObject fs)) =
        json_scan_all (BeginStringOrEmpty, ObjectKey # st) (comma_separated ?fields @ ''}'')"
      using len by (auto simp: json_begin_value_def json_space_def json_push_def)
    show "\<exists>q'. json_scan_all (q, st) (json_encode (JObject fs)) = Some q' \<and> ends_value q' st"
    proof (cases "fs = []")
      case True
      then show ?thesis unfolding s using ends_value_pop [of "ObjectValue # st"]
        by (auto simp: json_end_value_def json_space_def json_pop_def split: list.splits)
    next
      case False
      from scan_fields [OF each, of BeginStringOrEmpty] False obtain q' where
        "json_scan_all (BeginStringOrEmpty, ObjectKey # st) (comma_separated ?fields) = Some q'"
        "ends_value q' (ObjectValue # st)" by auto
      from scan_close [OF this] show ?thesis unfolding s by simp
    qed
  qed
next
  case (3 n)
  then show ?case using scan_nat [of _ st n] ends_value_number by (fastforce simp: scans_value_def)
next
  case (4 n)
  then show ?case using scan_milli [of _ st n] ends_value_number by (fastforce simp: scans_value_def)
next
  case (5 s)
  then show ?case by (auto simp: scans_value_def scan_string ends_value_EndValue)
qed (auto simp: scans_value_def json_begin_value_def json_space_def digit_def ends_value_EndValue)

lemma json_Valid_encode: "json_depth v \<le> maxNestingDepth \<Longrightarrow> json_Valid (json_encode v)"
proof -
  assume "json_depth v \<le> maxNestingDepth"
  then have "scans_value [] (json_encode v)" using scans_encode [of v "[]"] by simp
  then obtain q where "json_scan_all (BeginValue, []) (json_encode v) = Some q" "ends_value q []"
    by (auto elim: scans_valueD)
  then show ?thesis by (simp add: json_Valid_def ends_value_step json_end_value_def json_space_def)
qed

end
