(* ===== verification/App_Spec.thy ===== *)
theory App_Spec
  imports Json_Encode
begin

text \<open>
  The application specification of \<^verbatim>\<open>internal/ops\<close>: \<^verbatim>\<open>ApplicationSpec\<close> with \<^verbatim>\<open>Normalize\<close> and
  \<^verbatim>\<open>Validate\<close> (\<^verbatim>\<open>application.go\<close>), the resource plans (\<^verbatim>\<open>resource_plan.go\<close>) and the image rule
  (\<^verbatim>\<open>policy.go\<close>). Every deployment passes through them, an operator's and a customer's alike.

  A Go map is an association list with distinct keys; the order of the list is the order in which
  an iteration visits the map. CPU shares are kept in thousandths of a core, the resolution of the
  plans. Error texts are not kept, only which rule refused.
\<close>

section \<open>Patterns\<close>

definition lower_letter :: "char \<Rightarrow> bool" where
  "lower_letter c \<longleftrightarrow> (let n = (of_char c :: nat) in 97 \<le> n \<and> n \<le> 122)"

definition upper_letter :: "char \<Rightarrow> bool" where
  "upper_letter c \<longleftrightarrow> (let n = (of_char c :: nat) in 65 \<le> n \<and> n \<le> 90)"

definition lower_alnum :: "char \<Rightarrow> bool" where "lower_alnum c \<longleftrightarrow> lower_letter c \<or> digit c"
definition alnum :: "char \<Rightarrow> bool" where "alnum c \<longleftrightarrow> lower_alnum c \<or> upper_letter c"

text \<open>One leading character and at most \<open>n\<close> following ones.\<close>

definition matches_name :: "(char \<Rightarrow> bool) \<Rightarrow> (char \<Rightarrow> bool) \<Rightarrow> nat \<Rightarrow> string \<Rightarrow> bool" where
  "matches_name head rest n s \<longleftrightarrow>
     (case s of [] \<Rightarrow> False | c # t \<Rightarrow> head c \<and> length t \<le> n \<and> list_all rest t)"

definition applicationNamePattern :: "string \<Rightarrow> bool" where
  "applicationNamePattern = matches_name lower_letter (\<lambda>c. lower_alnum c \<or> c = CHR ''-'') 40"

definition environmentKeyPattern :: "string \<Rightarrow> bool" where
  "environmentKeyPattern = matches_name (\<lambda>c. lower_letter c \<or> upper_letter c \<or> c = CHR ''_'') (\<lambda>c. alnum c \<or> c = CHR ''_'') 63"

definition httpPathPattern :: "string \<Rightarrow> bool" where
  "httpPathPattern = matches_name (\<lambda>c. c = CHR ''/'') (\<lambda>c. alnum c \<or> List.member ''._~/-'' c) 200"

definition dockerReferenceName :: "string \<Rightarrow> bool" where
  "dockerReferenceName = matches_name alnum (\<lambda>c. alnum c \<or> List.member ''_.-'' c) 127"

fun split_dots :: "string \<Rightarrow> string list" where
  "split_dots [] = [[]]"
| "split_dots (c # s) =
     (if c = CHR ''.'' then [] # split_dots s
      else (case split_dots s of [] \<Rightarrow> [[c]] | l # ls \<Rightarrow> (c # l) # ls))"

definition host_label :: "string \<Rightarrow> bool" where
  "host_label l \<longleftrightarrow> l \<noteq> [] \<and> length l \<le> 63 \<and> lower_alnum (hd l) \<and> lower_alnum (last l) \<and>
     list_all (\<lambda>c. lower_alnum c \<or> c = CHR ''-'') l"

definition applicationHostPattern :: "string \<Rightarrow> bool" where
  "applicationHostPattern s \<longleftrightarrow> 2 \<le> length (split_dots s) \<and> list_all host_label (split_dots s)"

text \<open>The key is matched only after \<open>environmentKeyPattern\<close>, so it is ASCII without hyphens.\<close>

definition secretLikeKey :: "string \<Rightarrow> bool" where
  "secretLikeKey key \<longleftrightarrow> list_ex (Contains (ToLower key))
     [''password'', ''secret'', ''token'', ''credential'', ''apikey'', ''api_key'', ''api-key'',
      ''privatekey'', ''private_key'', ''private-key'']"

section \<open>Data\<close>

record ApplicationDependency =
  depApplication :: string
  depEnv :: "string list"

record ApplicationSpec =
  Backend :: string
  CPUs :: int
  Databases :: "string list"
  DependsOn :: "ApplicationDependency list"
  DatabaseDelivery :: string
  DatabaseEnv :: "(string \<times> string list) list"
  DatabaseOwner :: string
  Domain' :: string
  Env :: "(string \<times> string) list option"
  HealthCommand :: "string list"
  HealthPath :: string
  Image :: string
  Kind :: string
  MemoryMiB :: int
  Metrics :: bool
  MetricsPath :: string
  MetricsPort :: nat
  Name :: string
  Plan' :: string
  Port :: nat
  Protocol :: string
  Replicas :: nat
  Resolver :: string
  SecretEnv :: "(string \<times> string) list"
  Tracing :: bool

text \<open>The zero value.\<close>

definition zero_spec :: ApplicationSpec where
  "zero_spec = \<lparr>Backend = '''', CPUs = 0, Databases = [], DependsOn = [], DatabaseDelivery = '''',
     DatabaseEnv = [], DatabaseOwner = '''', Domain' = '''', Env = None, HealthCommand = [], HealthPath = '''',
     Image = '''', Kind = '''', MemoryMiB = 0, Metrics = False, MetricsPath = '''', MetricsPort = 0,
     Name = '''', Plan' = '''', Port = 0, Protocol = '''', Replicas = 0, Resolver = '''', SecretEnv = [],
     Tracing = False\<rparr>"

record ResourcePlan =
  CPUCores :: int
  planMemoryMiB :: int
  planLabel :: string

definition resourcePlans :: "ResourcePlan list" where
  "resourcePlans =
     [\<lparr>CPUCores = 250, planMemoryMiB = 256, planLabel = ''nano''\<rparr>,
      \<lparr>CPUCores = 500, planMemoryMiB = 512, planLabel = ''small''\<rparr>,
      \<lparr>CPUCores = 1000, planMemoryMiB = 1024, planLabel = ''medium''\<rparr>,
      \<lparr>CPUCores = 2000, planMemoryMiB = 2048, planLabel = ''large''\<rparr>,
      \<lparr>CPUCores = 4000, planMemoryMiB = 4096, planLabel = ''xlarge''\<rparr>]"

definition LookupResourcePlan :: "string \<Rightarrow> ResourcePlan option" where
  "LookupResourcePlan name =
     (let name = ToLower (TrimSpace name);
          name = (if name = '''' then ''small'' else name) in
      List.find (\<lambda>p. planLabel p = name) resourcePlans)"

text \<open>The engines of \<^verbatim>\<open>databaseCatalog\<close>.\<close>

definition DatabaseDefinitionFor :: "string \<Rightarrow> bool" where
  "DatabaseDefinitionFor engine \<longleftrightarrow> List.member [''postgres'', ''mongo'', ''redis''] (TrimSpace engine)"

section \<open>Normalize\<close>

definition TrimSuffix_dot :: "string \<Rightarrow> string" where
  "TrimSuffix_dot s = (if s \<noteq> [] \<and> last s = CHR ''.'' then butlast s else s)"

definition clean_keys :: "string list \<Rightarrow> string list" where
  "clean_keys keys = filter (\<lambda>k. k \<noteq> '''') (map TrimSpace keys)"

definition normalize_dependency :: "ApplicationDependency \<Rightarrow> ApplicationDependency" where
  "normalize_dependency d =
     \<lparr>depApplication = ToLower (TrimSpace (depApplication d)), depEnv = sort (clean_keys (depEnv d))\<rparr>"

definition normalize_databases :: "string list \<Rightarrow> string list" where
  "normalize_databases engines =
     sort (rev (remdups (rev (filter (\<lambda>e. e \<noteq> '''') (map (\<lambda>e. ToLower (TrimSpace e)) engines)))))"

definition set_key :: "'k \<Rightarrow> 'v \<Rightarrow> ('k \<times> 'v) list \<Rightarrow> ('k \<times> 'v) list" where
  "set_key k v m = filter (\<lambda>p. fst p \<noteq> k) m @ [(k, v)]"

definition normalize_databaseEnv :: "string list \<Rightarrow> (string \<times> string list) list \<Rightarrow> (string \<times> string list) list" where
  "normalize_databaseEnv engines m =
     fold (\<lambda>(engine, keys) acc.
        let engine = ToLower (TrimSpace engine);
            cleaned = sort (rev (remdups (rev (clean_keys keys)))) in
        if \<not> List.member engines engine \<or> cleaned = [] then acc else set_key engine cleaned acc) m []"

definition Normalize :: "ApplicationSpec \<Rightarrow> ApplicationSpec" where
  "Normalize s =
     (let owner = ToLower (TrimSpace (DatabaseOwner s));
          s = s\<lparr>Backend := TrimSpace (Backend s), DatabaseDelivery := TrimSpace (DatabaseDelivery s),
                DatabaseOwner := (if owner = Name s then '''' else owner),
                Domain' := ToLower (TrimSuffix_dot (TrimSpace (Domain' s))),
                HealthPath := TrimSpace (HealthPath s), Image := TrimSpace (Image s),
                MetricsPath := TrimSpace (MetricsPath s), Name := ToLower (TrimSpace (Name s)),
                Resolver := TrimSpace (Resolver s), Kind := ToLower (TrimSpace (Kind s)),
                Protocol := ToLower (TrimSpace (Protocol s))\<rparr>;
          s = (if Kind s = '''' then s\<lparr>Kind := ''web''\<rparr> else s);
          s = (if Protocol s = '''' \<and> Kind s = ''web'' then s\<lparr>Protocol := ''http''\<rparr> else s);
          s = s\<lparr>DependsOn := sort_key depApplication (map normalize_dependency (DependsOn s))\<rparr>;
          s = (if Domain' s \<noteq> '''' \<and> Resolver s = '''' then s\<lparr>Resolver := ''http''\<rparr> else s);
          s = (if DatabaseDelivery s = '''' then s\<lparr>DatabaseDelivery := ''secret''\<rparr> else s);
          s = (if Kind s = ''web'' \<and> Protocol s = ''http'' \<and> HealthPath s = '''' \<and> HealthCommand s = []
               then s\<lparr>HealthPath := ''/healthz''\<rparr> else s);
          s = (if Kind s = ''job'' then s\<lparr>Replicas := 1\<rparr> else s);
          s = (if Metrics s \<and> MetricsPath s = '''' then s\<lparr>MetricsPath := ''/metrics''\<rparr> else s);
          s = (if Metrics s \<and> MetricsPort s = 0 then s\<lparr>MetricsPort := Port s\<rparr> else s);
          s = (if Replicas s = 0 then s\<lparr>Replicas := 1\<rparr> else s);
          s = s\<lparr>Plan' := ToLower (TrimSpace (Plan' s))\<rparr>;
          s = (case LookupResourcePlan (Plan' s) of
                 None \<Rightarrow> s
               | Some p \<Rightarrow> s\<lparr>CPUs := (if CPUs s = 0 then CPUCores p else CPUs s),
                             MemoryMiB := (if MemoryMiB s = 0 then planMemoryMiB p else MemoryMiB s)\<rparr>);
          s = s\<lparr>Databases := normalize_databases (Databases s)\<rparr> in
      s\<lparr>DatabaseEnv := normalize_databaseEnv (Databases s) (DatabaseEnv s)\<rparr>)"

section \<open>Validate\<close>

datatype spec_error =
    NameInvalid | ImageInvalid | ImageUntagged | ImageLatest | PortRequired | TcpDomain | TcpHealth
  | ProtocolInvalid | RouteProtocol | RouteDomain | RouteMetrics | JobHealth | WorkerHealth | KindInvalid
  | PlanUnknown | DomainInvalid | ResolverRequired | ResolverInvalid | HealthPathInvalid
  | HealthCommandInvalid | MetricsPathInvalid | MetricsPortRequired | MetricsPortOther
  | ReplicasExceeded | CPUsInvalid | MemoryInvalid | DeliveryInvalid | EngineUnknown
  | DatabaseEnvExceeded | DatabaseEnvKey | DatabaseEnvTaken | OwnerInvalid | BackendInvalid | BackendSelf
  | EnvExceeded | EnvKey | EnvCredential | EnvValue | DependenciesExceeded | DependencyInvalid
  | DependencyTwice | DependencyBackend | DependencyKey | DependencyTaken | DependencyEnvExceeded
  | SecretCase | SecretKey | SecretTaken | SecretFileTaken | SecretDatabase | SecretValue

fun last_index :: "char \<Rightarrow> string \<Rightarrow> int" where
  "last_index c [] = -1"
| "last_index c (x # xs) =
     (let i = last_index c xs in if 0 \<le> i then i + 1 else if x = c then 0 else -1)"

text \<open>\<^verbatim>\<open>strings.EqualFold(.., "latest")\<close>: the long s folds to s.\<close>

fun fold_long_s :: "string \<Rightarrow> string" where
  "fold_long_s [] = []"
| "fold_long_s (c # s) =
     (if starts_rune (c # s) [CHR 0xC5, CHR 0xBF] then CHR ''s'' # fold_long_s (drop 1 s) else c # fold_long_s s)"

definition latest_tag :: "string \<Rightarrow> bool" where
  "latest_tag t \<longleftrightarrow> map lower_char (fold_long_s t) = ''latest''"

definition validateImage :: "string \<Rightarrow> spec_error option" where
  "validateImage value =
     (let image = TrimSpace value in
      if ContainsAny image [CHR 0x20, CHR 0x09, CHR 0x0D, CHR 0x0A] then Some ImageInvalid
      else if Contains image ''@sha256:'' then None
      else let slash = last_index CHR ''/'' image; colon = last_index CHR '':'' image in
        if colon \<le> slash \<or> colon = int (length image) - 1 then Some ImageUntagged
        else if latest_tag (drop (nat (colon + 1)) image) then Some ImageLatest
        else None)"

definition validateHealthCommand :: "string list \<Rightarrow> spec_error option" where
  "validateHealthCommand command =
     (if length command > 12 then Some HealthCommandInvalid
      else if list_ex (\<lambda>a. a = '''' \<or> length a > 256 \<or> ContainsAny a control_chars) command
      then Some HealthCommandInvalid else None)"

text \<open>The first error a loop over \<open>xs\<close> returns.\<close>

fun first_error :: "('a \<Rightarrow> 'e option) \<Rightarrow> 'a list \<Rightarrow> 'e option" where
  "first_error f [] = None"
| "first_error f (x # xs) = (case f x of Some e \<Rightarrow> Some e | None \<Rightarrow> first_error f xs)"

definition env_list :: "ApplicationSpec \<Rightarrow> (string \<times> string) list" where
  "env_list s = (case Env s of None \<Rightarrow> [] | Some m \<Rightarrow> m)"

definition has_key :: "'k \<Rightarrow> ('k \<times> 'v) list \<Rightarrow> bool" where
  "has_key k m \<longleftrightarrow> List.member (map fst m) k"

definition validateApplicationEnv :: "(string \<times> string) list \<Rightarrow> spec_error option" where
  "validateApplicationEnv env =
     (if length env > 50 then Some EnvExceeded
      else first_error (\<lambda>(key, value).
        if \<not> environmentKeyPattern key then Some EnvKey
        else if secretLikeKey key then Some EnvCredential
        else if length value > 2048 \<or> ContainsAny value control_chars then Some EnvValue
        else None) env)"

definition dependencyAddressVariable :: "string \<Rightarrow> string" where
  "dependencyAddressVariable application =
     ToUpper (map (\<lambda>c. if c = CHR ''-'' then CHR ''_'' else c) application) @ ''_ADDRESS''"

fun validate_dependencies_from ::
  "ApplicationSpec \<Rightarrow> string list \<Rightarrow> ApplicationDependency list \<Rightarrow> spec_error option"
where
  "validate_dependencies_from s seen [] = None"
| "validate_dependencies_from s seen (d # ds) =
     (let a = depApplication d in
      if \<not> applicationNamePattern a \<or> a = Name s then Some DependencyInvalid
      else if List.member seen a then Some DependencyTwice
      else if a = Backend s then Some DependencyBackend
      else case first_error (\<lambda>key.
             if \<not> environmentKeyPattern key then Some DependencyKey
             else if has_key key (env_list s) \<or> has_key key (SecretEnv s) then Some DependencyTaken
             else None) (dependencyAddressVariable a # depEnv d) of
          Some e \<Rightarrow> Some e
        | None \<Rightarrow> if length (depEnv d) > 8 then Some DependencyEnvExceeded
                  else validate_dependencies_from s (a # seen) ds)"

definition validateDependencies :: "ApplicationSpec \<Rightarrow> spec_error option" where
  "validateDependencies s =
     (if length (DependsOn s) > 8 then Some DependenciesExceeded
      else validate_dependencies_from s [] (DependsOn s))"

fun validate_secrets_from ::
  "ApplicationSpec \<Rightarrow> string list \<Rightarrow> (string \<times> string) list \<Rightarrow> spec_error option"
where
  "validate_secrets_from s folded [] = None"
| "validate_secrets_from s folded ((key, value) # kvs) =
     (if List.member folded (ToLower key) then Some SecretCase
      else if \<not> environmentKeyPattern key \<or> length key > 58 then Some SecretKey
      else if has_key key (env_list s) then Some SecretTaken
      else if has_key (key @ ''_FILE'') (env_list s) then Some SecretFileTaken
      else if list_ex (\<lambda>(_, keys). List.member keys key) (DatabaseEnv s) then Some SecretDatabase
      else if length value > 4096 \<or> List.member value (CHR 0x00) then Some SecretValue
      else validate_secrets_from s (ToLower key # folded) kvs)"

definition validateSecretEnv :: "ApplicationSpec \<Rightarrow> spec_error option" where
  "validateSecretEnv s =
     (if length (env_list s) + length (SecretEnv s) > 50 then Some EnvExceeded
      else validate_secrets_from s [] (SecretEnv s))"

definition refuse :: "bool \<Rightarrow> 'e \<Rightarrow> 'e option" where
  "refuse b e = (if b then Some e else None)"

definition validate_kind :: "ApplicationSpec \<Rightarrow> spec_error option" where
  "validate_kind s =
     (if Kind s = ''web'' \<or> Kind s = '''' then
        (if Port s = 0 then Some PortRequired
         else if Protocol s = '''' \<or> Protocol s = ''http'' then None
         else if Protocol s = ''tcp'' then
           (if Domain' s \<noteq> '''' then Some TcpDomain
            else refuse (HealthPath s \<noteq> '''' \<or> Metrics s) TcpHealth)
         else Some ProtocolInvalid)
      else if Kind s = ''worker'' \<or> Kind s = ''job'' then
        first_error id
          [refuse (Protocol s \<noteq> '''') RouteProtocol, refuse (Domain' s \<noteq> '''') RouteDomain,
           refuse (Metrics s) RouteMetrics,
           refuse (Kind s = ''job'' \<and> (HealthPath s \<noteq> '''' \<or> HealthCommand s \<noteq> [])) JobHealth,
           refuse (Kind s = ''worker'' \<and> HealthPath s \<noteq> '''') WorkerHealth]
      else Some KindInvalid)"

definition validate_databaseEnv :: "ApplicationSpec \<Rightarrow> spec_error option" where
  "validate_databaseEnv s =
     first_error (\<lambda>(engine, keys).
       if \<not> DatabaseDefinitionFor engine then Some EngineUnknown
       else if length keys > 8 then Some DatabaseEnvExceeded
       else first_error (\<lambda>key.
         if \<not> environmentKeyPattern key then Some DatabaseEnvKey
         else refuse (has_key key (env_list s)) DatabaseEnvTaken) keys) (DatabaseEnv s)"

definition Validate :: "ApplicationSpec \<Rightarrow> spec_error option" where
  "Validate s =
     first_error id
       [refuse (\<not> applicationNamePattern (Name s)) NameInvalid,
        validateImage (Image s),
        validate_kind s,
        refuse (LookupResourcePlan (Plan' s) = None) PlanUnknown,
        refuse (Domain' s \<noteq> '''' \<and> \<not> applicationHostPattern (Domain' s)) DomainInvalid,
        refuse (Domain' s \<noteq> '''' \<and> TrimSpace (Resolver s) = '''') ResolverRequired,
        refuse (Resolver s \<noteq> '''' \<and> \<not> dockerReferenceName (Resolver s)) ResolverInvalid,
        refuse (HealthPath s \<noteq> '''' \<and> \<not> httpPathPattern (HealthPath s)) HealthPathInvalid,
        validateHealthCommand (HealthCommand s),
        refuse (Metrics s \<and> \<not> httpPathPattern (MetricsPath s)) MetricsPathInvalid,
        refuse (Metrics s \<and> MetricsPort s = 0) MetricsPortRequired,
        refuse (Metrics s \<and> MetricsPort s \<noteq> Port s) MetricsPortOther,
        refuse (Replicas s > 1000) ReplicasExceeded,
        refuse (CPUs s \<le> 0 \<or> CPUs s > 64000) CPUsInvalid,
        refuse (MemoryMiB s < 64 \<or> MemoryMiB s > 262144) MemoryInvalid,
        refuse (DatabaseDelivery s \<noteq> ''secret'' \<and> DatabaseDelivery s \<noteq> ''env'') DeliveryInvalid,
        refuse (list_ex (\<lambda>e. \<not> DatabaseDefinitionFor e) (Databases s)) EngineUnknown,
        validate_databaseEnv s,
        refuse (DatabaseOwner s \<noteq> '''' \<and> (\<not> applicationNamePattern (DatabaseOwner s) \<or> Databases s = [])) OwnerInvalid,
        refuse (Backend s \<noteq> '''' \<and> \<not> applicationNamePattern (Backend s)) BackendInvalid,
        refuse (Backend s = Name s \<and> Backend s \<noteq> '''') BackendSelf,
        validateApplicationEnv (env_list s),
        validateDependencies s,
        validateSecretEnv s]"

section \<open>The payload of a deployment\<close>

text \<open>\<^verbatim>\<open>json.Marshal\<close> of the specification: the fields in declaration order, those tagged
  \<^verbatim>\<open>omitempty\<close> left out when empty, map keys sorted.\<close>

definition omitempty :: "bool \<Rightarrow> string \<Rightarrow> json_value \<Rightarrow> (string \<times> json_value) list" where
  "omitempty isEmpty key v = (if isEmpty then [] else [(key, v)])"

definition json_strings :: "string list \<Rightarrow> json_value" where
  "json_strings xs = JArray (map JString xs)"

definition json_map :: "('v \<Rightarrow> json_value) \<Rightarrow> (string \<times> 'v) list \<Rightarrow> json_value" where
  "json_map f m = JObject (map (\<lambda>(k, v). (k, f v)) (sort_key fst m))"

definition dependency_json :: "ApplicationDependency \<Rightarrow> json_value" where
  "dependency_json d =
     JObject ((''application'', JString (depApplication d)) # omitempty (depEnv d = []) ''env'' (json_strings (depEnv d)))"

definition spec_json :: "ApplicationSpec \<Rightarrow> json_value" where
  "spec_json s = JObject
     (omitempty (Backend s = '''') ''backend'' (JString (Backend s)) @
      [(''cpus'', JMilli (nat (CPUs s)))] @
      omitempty (Databases s = []) ''databases'' (json_strings (Databases s)) @
      omitempty (DependsOn s = []) ''dependsOn'' (JArray (map dependency_json (DependsOn s))) @
      omitempty (DatabaseDelivery s = '''') ''databaseDelivery'' (JString (DatabaseDelivery s)) @
      omitempty (DatabaseEnv s = []) ''databaseEnv'' (json_map json_strings (DatabaseEnv s)) @
      omitempty (DatabaseOwner s = '''') ''databaseOwner'' (JString (DatabaseOwner s)) @
      omitempty (Domain' s = '''') ''domain'' (JString (Domain' s)) @
      [(''Env'', case Env s of None \<Rightarrow> JNull | Some m \<Rightarrow> json_map JString m)] @
      omitempty (HealthCommand s = []) ''healthCommand'' (json_strings (HealthCommand s)) @
      omitempty (HealthPath s = '''') ''healthPath'' (JString (HealthPath s)) @
      [(''image'', JString (Image s))] @
      omitempty (Kind s = '''') ''kind'' (JString (Kind s)) @
      [(''memoryMiB'', JNat (nat (MemoryMiB s))), (''metrics'', JBool (Metrics s))] @
      omitempty (MetricsPath s = '''') ''metricsPath'' (JString (MetricsPath s)) @
      omitempty (MetricsPort s = 0) ''metricsPort'' (JNat (MetricsPort s)) @
      [(''name'', JString (Name s))] @
      omitempty (Plan' s = '''') ''plan'' (JString (Plan' s)) @
      [(''port'', JNat (Port s))] @
      omitempty (Protocol s = '''') ''protocol'' (JString (Protocol s)) @
      [(''replicas'', JNat (Replicas s))] @
      omitempty (Resolver s = '''') ''resolver'' (JString (Resolver s)) @
      omitempty (SecretEnv s = []) ''secretEnv'' (json_map JString (SecretEnv s)) @
      [(''tracing'', JBool (Tracing s))])"

definition deploy_payload :: "ApplicationSpec \<Rightarrow> string" where
  "deploy_payload s = json_encode (JObject [(''spec'', spec_json s)])"

section \<open>What a valid specification guarantees\<close>

lemma first_error_None: "first_error f xs = None \<longleftrightarrow> (\<forall>x\<in>set xs. f x = None)"
  by (induction xs) (auto split: option.splits)

lemma refuse_None [simp]: "refuse b e = None \<longleftrightarrow> \<not> b"
  by (simp add: refuse_def)

text \<open>A validated specification is bounded and routable: what the order columns, the deployment
  and the resource limits rely on.\<close>

lemma Validate_bounds:
  assumes "Validate s = None"
  shows "applicationNamePattern (Name s)" and "validateImage (Image s) = None"
    and "0 < CPUs s" and "CPUs s \<le> 64000" and "64 \<le> MemoryMiB s" and "MemoryMiB s \<le> 262144"
    and "Replicas s \<le> 1000" and "Kind s = ''web'' \<longrightarrow> 0 < Port s"
    and "length (env_list s) + length (SecretEnv s) \<le> 50"
proof -
  have "validate_kind s = None" "validateSecretEnv s = None" and b: "applicationNamePattern (Name s)"
    "validateImage (Image s) = None" "0 < CPUs s \<and> CPUs s \<le> 64000" "64 \<le> MemoryMiB s \<and> MemoryMiB s \<le> 262144"
    "Replicas s \<le> 1000"
    using assms unfolding Validate_def first_error_None by simp_all
  then show "Kind s = ''web'' \<longrightarrow> 0 < Port s" "length (env_list s) + length (SecretEnv s) \<le> 50"
    by (auto simp: validate_kind_def validateSecretEnv_def split: if_splits)
  from b show "applicationNamePattern (Name s)" "validateImage (Image s) = None" "0 < CPUs s" "CPUs s \<le> 64000"
    "64 \<le> MemoryMiB s" "MemoryMiB s \<le> 262144" "Replicas s \<le> 1000" by simp_all
qed

lemma applicationNamePattern_length: "applicationNamePattern s \<Longrightarrow> 0 < length s \<and> length s \<le> 41"
  by (auto simp: applicationNamePattern_def matches_name_def split: list.splits)

section \<open>The payload of a deployment is valid JSON\<close>

lemma json_depth_le:
  "json_depth (JObject fs) \<le> Suc n \<longleftrightarrow> (\<forall>(k, v)\<in>set fs. json_depth v \<le> n)"
  "json_depth (JArray vs) \<le> Suc n \<longleftrightarrow> (\<forall>v\<in>set vs. json_depth v \<le> n)"
proof -
  have max: "foldr max xs 0 \<le> n \<longleftrightarrow> (\<forall>x\<in>set xs. x \<le> n)" for xs :: "nat list" by (induction xs) auto
  show "json_depth (JObject fs) \<le> Suc n \<longleftrightarrow> (\<forall>(k, v)\<in>set fs. json_depth v \<le> n)" by (auto simp: max)
  show "json_depth (JArray vs) \<le> Suc n \<longleftrightarrow> (\<forall>v\<in>set vs. json_depth v \<le> n)" by (simp add: max)
qed

lemma json_depth_parts:
  "json_depth (json_strings xs) \<le> Suc n" "(\<And>v. json_depth (f v) \<le> n) \<Longrightarrow> json_depth (json_map f m) \<le> Suc n"
  "json_depth (dependency_json d) \<le> Suc (Suc n)"
proof -
  show 1: "json_depth (json_strings xs) \<le> Suc n" for xs n unfolding json_strings_def json_depth_le by simp
  show "(\<And>v. json_depth (f v) \<le> n) \<Longrightarrow> json_depth (json_map f m) \<le> Suc n" unfolding json_map_def json_depth_le by auto
  show "json_depth (dependency_json d) \<le> Suc (Suc n)"
    unfolding dependency_json_def json_depth_le using 1 by (simp add: omitempty_def)
qed

lemma spec_json_depth: "json_depth (spec_json s) \<le> 4"
proof -
  have "json_depth (JArray (map dependency_json ds)) \<le> 3" "json_depth (json_map json_strings m) \<le> 3"
    "json_depth (json_map JString m') \<le> 3" "json_depth (json_strings xs) \<le> 3" for ds m m' xs
    using json_depth_parts(3) [of _ 0] json_depth_parts(2) [of json_strings 2 m] json_depth_parts(1) [of _ 1]
      json_depth_parts(2) [of JString 2 m'] json_depth_parts(1) [of xs 2]
    by (simp_all add: json_depth_le numeral_3_eq_3 numeral_2_eq_2 del: json_depth.simps(6,7))
  then have "json_depth (spec_json s) \<le> Suc 3"
    unfolding spec_json_def json_depth_le by (auto simp: omitempty_def simp del: json_depth.simps(6,7) split: option.splits)
  then show ?thesis by simp
qed

lemma deploy_payload_Valid: "json_Valid (deploy_payload s)"
  unfolding deploy_payload_def
proof (rule json_Valid_encode)
  have "json_depth (JObject [(''spec'', spec_json s)]) \<le> Suc 4" unfolding json_depth_le using spec_json_depth by simp
  then show "json_depth (JObject [(''spec'', spec_json s)]) \<le> maxNestingDepth" by (simp add: maxNestingDepth_def)
qed

end
