(* ===== verification/Cloud_Data.thy ===== *)
theory Cloud_Data
  imports Sql_Tx Go_Time App_Spec Queue_Ledger
begin

text \<open>
  The commerce database of \<^verbatim>\<open>internal/cloud\<close>: the tables of migration \<^verbatim>\<open>0008_commerce.sql\<close> with
  one record per row type (\<^verbatim>\<open>types.go\<close> holds the views of the same rows), the statements on a
  table with an AUTO_INCREMENT key, and the service's settings (\<^verbatim>\<open>service.go\<close>).

  A status or role column with a CHECK list is a datatype with the source's names. A nullable
  column is an option. Money columns are integers in rials; Go arithmetic on them wraps at 64
  bits where the source computes with \<^verbatim>\<open>int64\<close>.
\<close>

section \<open>Tables\<close>

record 'r tbl =
  rows :: "'r list"
  nextID :: nat

definition insert_row :: "(nat \<Rightarrow> 'r) \<Rightarrow> 'r tbl \<Rightarrow> 'r tbl" where
  "insert_row mk t = \<lparr>rows = rows t @ [mk (nextID t)], nextID = nextID t + 1\<rparr>"

definition update_where :: "('r \<Rightarrow> bool) \<Rightarrow> ('r \<Rightarrow> 'r) \<Rightarrow> 'r tbl \<Rightarrow> 'r tbl" where
  "update_where P f t = t\<lparr>rows := map (\<lambda>r. if P r then f r else r) (rows t)\<rparr>"

definition delete_where :: "('r \<Rightarrow> bool) \<Rightarrow> 'r tbl \<Rightarrow> 'r tbl" where
  "delete_where P t = t\<lparr>rows := filter (\<lambda>r. \<not> P r) (rows t)\<rparr>"

definition row_by :: "('r \<Rightarrow> 'k) \<Rightarrow> 'k \<Rightarrow> 'r tbl \<Rightarrow> 'r option" where
  "row_by key k t = row_find key k (rows t)"

definition empty_tbl :: "'r tbl" where "empty_tbl = \<lparr>rows = [], nextID = 1\<rparr>"

definition tbl_wf :: "('r \<Rightarrow> nat) \<Rightarrow> 'r tbl \<Rightarrow> bool" where
  "tbl_wf key t \<longleftrightarrow> distinct (map key (rows t)) \<and> (\<forall>r\<in>set (rows t). 0 < key r \<and> key r < nextID t) \<and> 0 < nextID t"

section \<open>Rows\<close>

datatype Role = RoleCustomer | RoleAdmin
datatype AccountStatus = AccountActive | AccountSuspended
datatype OrderStatus =
  OrderPending | OrderRejected | OrderCancelled | OrderProvisioning | OrderActive | OrderFailed
datatype ProjectStatus =
  ProjectProvisioning | ProjectActive | ProjectSuspended | ProjectFailed | ProjectDeleted
datatype TransactionKind = KindTopUp | KindOrderCharge | KindUsage | KindRefund | KindAdjustment
datatype TicketStatus = TicketOpen | TicketAnswered | TicketClosed
datatype TicketPriority = PriorityLow | PriorityNormal | PriorityHigh

record User =
  uID :: nat
  uEmail :: string
  uFullName :: string
  uRole :: Role
  uStatus :: AccountStatus
  uCreatedAt :: time
  uLastLoginAt :: "time option"

record userRow = User +
  uPasswordHash :: string
  uUpdatedAt :: time

record sessionRow =
  sTokenHash :: string
  sUser :: nat
  sCSRFToken :: string
  sCreatedAt :: time
  sExpiresAt :: time
  sRevokedAt :: "time option"

record Session =
  seCSRFToken :: string
  seExpiresAt :: time
  seToken :: string
  seUser :: User

record planRow =
  plID :: nat
  plCode :: string
  plName :: string
  plDescription :: string
  plDescriptionFa :: string
  plCPUMillicores :: nat
  plMemoryMiB :: nat
  plDiskGiB :: nat
  plHourly :: int
  plMonthly :: int
  plActive :: bool
  plSortOrder :: nat
  plUpdatedAt :: time

record featureRow =
  ftPlan :: nat
  ftLocale :: string
  ftPosition :: nat
  ftFeature :: string

record Wallet =
  wUser :: nat
  wBalance :: int
  wUpdatedAt :: time

record Transaction =
  tID :: nat
  tUser :: nat
  tKind :: TransactionKind
  tAmount :: int
  tBalanceAfter :: int
  tReferenceType :: string
  tReferenceID :: nat
  tDescription :: string
  tCreatedAt :: time

record transactionRow = Transaction +
  tKey :: "string option"
  tCreatedBy :: "nat option"

record orderRow =
  oID :: nat
  oUser :: nat
  oStatus :: OrderStatus
  oNote :: string
  oUpfront :: int
  oReviewer :: "nat option"
  oReason :: string
  oPlacedAt :: time
  oReviewedAt :: "time option"
  oUpdatedAt :: time

record itemRow =
  iID :: nat
  iOrder :: nat
  iPlan :: nat
  iAppName :: string
  iImage :: string
  iPort :: nat
  iHourly :: int
  iMonthly :: int

record projectRow =
  pID :: nat
  pUser :: nat
  pItem :: nat
  pPlan :: nat
  pAppName :: string
  pStatus :: ProjectStatus
  pServer :: string
  pCommand :: "string option"
  pHourly :: int
  pMonthly :: int
  pCreatedAt :: time
  pActivatedAt :: "time option"
  pSuspendedAt :: "time option"
  pResumedAt :: "time option"
  pUpdatedAt :: time

record usageRow =
  rID :: nat
  rProject :: nat
  rPeriod :: time
  rAmount :: int
  rTransaction :: "nat option"
  rInvoice :: "nat option"
  rCreatedAt :: time

record Invoice =
  vID :: nat
  vNumber :: string
  vUser :: nat
  vPeriodStart :: time
  vPeriodEnd :: time
  vSubtotal :: int
  vTaxRateBP :: int
  vTax :: int
  vTotal :: int
  vIssuedAt :: time

record lineRow =
  lID :: nat
  lInvoice :: nat
  lProject :: nat
  lDescription :: string
  lQuantityHours :: nat
  lAmount :: int

record ticketRow =
  kID :: nat
  kUser :: nat
  kProject :: "nat option"
  kSubject :: string
  kStatus :: TicketStatus
  kPriority :: TicketPriority
  kCreatedAt :: time
  kUpdatedAt :: time

record messageRow =
  mID :: nat
  mTicket :: nat
  mAuthor :: nat
  mBody :: string
  mCreatedAt :: time

text \<open>\<open>applications\<close> is the controller's own application table, of which only the names are
  read.\<close>

record cloud_db =
  users :: "userRow tbl"
  sessions :: "sessionRow list"
  plans :: "planRow tbl"
  features :: "featureRow list"
  wallets :: "Wallet list"
  transactions :: "transactionRow tbl"
  orders :: "orderRow tbl"
  items :: "itemRow tbl"
  projects :: "projectRow tbl"
  usage :: "usageRow tbl"
  invoices :: "Invoice tbl"
  lines :: "lineRow tbl"
  tickets :: "ticketRow tbl"
  messages :: "messageRow tbl"
  applications :: "string list"

section \<open>Errors and settings\<close>

text \<open>\<open>ValidationError\<close> keeps the field, a conflict only its kind; message texts are dropped.\<close>

datatype cloud_error =
    ErrNotFound | ErrForbidden | ErrConflict | ErrInsufficientFunds | ErrInvalidCredentials
  | ErrSessionExpired | ValidationError string | FundsError int int | ErrCannotPay
  | QueueError "queue_error" | RandomFailed | HashFailed | ProvisionerFailed

type_synonym 'a ctx = "(cloud_db, cloud_error, 'a) tx"
type_synonym 'a cop = "(cloud_db, cloud_error, 'a) outcome"

text \<open>\<open>collate\<close> is the collation the text columns are compared with: two values are equal to the
  server exactly if it maps them to the same key.\<close>

record Options =
  SessionTTL :: duration
  ReserveHours :: int
  TaxRateBP :: int
  MinTopUpRial :: int
  MaxTopUpRial :: int

record Service = Options +
  collate :: "string \<Rightarrow> string"

text \<open>\<^verbatim>\<open>New\<close> fills the options left at zero.\<close>

definition New :: "(string \<Rightarrow> string) \<Rightarrow> Options \<Rightarrow> Service" where
  "New collation opts =
     \<lparr>SessionTTL = (if SessionTTL opts \<le> 0 then 12 * Hour else SessionTTL opts),
      ReserveHours = (if ReserveHours opts \<le> 0 then 24 else ReserveHours opts),
      TaxRateBP = (if TaxRateBP opts = 0 then 1000 else TaxRateBP opts),
      MinTopUpRial = (if MinTopUpRial opts \<le> 0 then 100000 else MinTopUpRial opts),
      MaxTopUpRial = (if MaxTopUpRial opts \<le> 0 then 2000000000 else MaxTopUpRial opts),
      collate = collation\<rparr>"

definition boundedLimit :: "int \<Rightarrow> nat" where
  "boundedLimit limit = (if limit < 1 \<or> limit > 500 then 100 else nat limit)"


text \<open>Scanning a SUM into an \<^verbatim>\<open>int64\<close>.\<close>

definition scan_int64 :: "int \<Rightarrow> 'e store_error + int" where
  "scan_int64 x = (if int64 x then Inr x else Inl Driver)"

definition user_exists :: "nat \<Rightarrow> cloud_db \<Rightarrow> bool" where
  "user_exists uid s \<longleftrightarrow> row_by uID uid (users s) \<noteq> None"

section \<open>Facts about tables\<close>

lemma rows_insert [simp]: "rows (insert_row mk t) = rows t @ [mk (nextID t)]" "nextID (insert_row mk t) = nextID t + 1"
  by (simp_all add: insert_row_def)

lemma rows_update_where [simp]: "rows (update_where P f t) = map (\<lambda>r. if P r then f r else r) (rows t)"
  "nextID (update_where P f t) = nextID t"
  by (simp_all add: update_where_def)

lemma rows_delete_where [simp]: "rows (delete_where P t) = filter (\<lambda>r. \<not> P r) (rows t)"
  "nextID (delete_where P t) = nextID t"
  by (simp_all add: delete_where_def)

lemma tbl_wf_empty [simp]: "tbl_wf key empty_tbl" by (simp add: tbl_wf_def empty_tbl_def)

lemma tbl_wf_insert [simp]:
  assumes "tbl_wf key t" and "key (mk (nextID t)) = nextID t"
  shows "tbl_wf key (insert_row mk t)"
  using assms by (fastforce simp: tbl_wf_def)

lemma tbl_wf_update [simp]:
  assumes "tbl_wf key t" and "\<And>r. P r \<Longrightarrow> key (f r) = key r"
  shows "tbl_wf key (update_where P f t)"
proof -
  have "map key (rows (update_where P f t)) = map key (rows t)" using assms(2) by simp
  moreover have "\<forall>r\<in>set (rows (update_where P f t)). 0 < key r \<and> key r < nextID t"
    using assms by (auto simp: tbl_wf_def)
  ultimately show ?thesis using assms(1) by (simp add: tbl_wf_def del: rows_update_where(1))
qed

lemma tbl_wf_delete [simp]: "tbl_wf key t \<Longrightarrow> tbl_wf key (delete_where P t)"
  by (simp add: tbl_wf_def) (blast intro: distinct_map_filter)

lemma row_by_SomeD: "row_by key k t = Some r \<Longrightarrow> r \<in> set (rows t) \<and> key r = k"
  unfolding row_by_def by (rule row_find_SomeD)

lemma row_by_None: "row_by key k t = None \<longleftrightarrow> k \<notin> key ` set (rows t)"
  by (simp add: row_by_def row_find_None)

lemma row_by_wf: "tbl_wf key t \<Longrightarrow> r \<in> set (rows t) \<Longrightarrow> row_by key (key r) t = Some r"
  by (simp add: tbl_wf_def row_by_def row_find_distinct)

lemma tbl_wf_unique:
  assumes "tbl_wf key t" "r \<in> set (rows t)" "q \<in> set (rows t)" "key r = key q"
  shows "r = q"
proof -
  have "row_by key (key q) t = Some r" using row_by_wf [OF assms(1,2)] unfolding assms(4) .
  with row_by_wf [OF assms(1,3)] have "Some r = Some q" by (rule trans [OF sym, rotated])
  then show ?thesis by simp
qed

lemma row_by_fresh: "tbl_wf key t \<Longrightarrow> row_by key (nextID t) t = None"
  by (auto simp: row_by_None tbl_wf_def)

end
