(* ===== verification/Cloud_Wallet.thy ===== *)
theory Cloud_Wallet
  imports Cloud_Data
begin

text \<open>
  The wallet of \<^verbatim>\<open>internal/cloud/wallet.go\<close>: \<open>applyTx\<close> writes one ledger row and moves the balance
  with it, \<open>Adjust\<close>, the reads, and \<open>LedgerConsistent\<close>. The invariant \<open>ledger_wf\<close> states the double
  entry: every balance is the sum of its ledger, non-negative, and every row carries the balance
  it left behind. The locale \<open>wallet_ledger\<close> is the contract the order and billing code relies on.
\<close>

section \<open>Model\<close>

record ledgerEntry =
  leAmount :: int
  leCreatedBy :: nat
  leDescription :: string
  leKey :: string
  leKind :: TransactionKind
  leReferenceID :: nat
  leReferenceType :: string
  leUser :: nat

definition same_key :: "Service \<Rightarrow> nat \<Rightarrow> string \<Rightarrow> transactionRow \<Rightarrow> bool" where
  "same_key sv uid key t \<longleftrightarrow>
     tUser t = uid \<and> (case tKey t of None \<Rightarrow> False | Some k \<Rightarrow> collate sv k = collate sv key)"

definition transactionByKey :: "Service \<Rightarrow> nat \<Rightarrow> string \<Rightarrow> cloud_db \<Rightarrow> transactionRow option" where
  "transactionByKey sv uid key s = List.find (same_key sv uid key) (rows (transactions s))"

text \<open>The INSERT with the widths, checks and keys of the schema.\<close>

definition insert_transaction :: "Service \<Rightarrow> (nat \<Rightarrow> transactionRow) \<Rightarrow> nat ctx" where
  "insert_transaction sv mk s =
     (let t = mk (nextID (transactions s)) in
      if RuneCount (tDescription t) > 255 \<or> (case tKey t of None \<Rightarrow> False | Some k \<Rightarrow> RuneCount k > 128)
      then Inl (Server ErrDataTooLong)
      else if tAmount t = 0 \<or> tBalanceAfter t < 0 then Inl (Server ErrCheckViolation)
      else if (case tKey t of None \<Rightarrow> False | Some k \<Rightarrow> transactionByKey sv (tUser t) k s \<noteq> None)
      then Inl (Server ErrDuplicateEntry)
      else if row_find wUser (tUser t) (wallets s) = None \<or>
              (case tCreatedBy t of None \<Rightarrow> False | Some c \<Rightarrow> \<not> user_exists c s)
      then Inl (Server ErrForeignKey)
      else Inr (tID t, s\<lparr>transactions := insert_row mk (transactions s)\<rparr>))"

definition update_wallet :: "nat \<Rightarrow> int \<Rightarrow> time \<Rightarrow> unit ctx" where
  "update_wallet uid balance now s =
     (if balance < 0 then Inl (Server ErrCheckViolation)
      else Inr ((), s\<lparr>wallets := row_update wUser uid
             (\<lambda>w. w\<lparr>wBalance := balance, wUpdatedAt := now\<rparr>) (wallets s)\<rparr>))"

definition entry_row :: "time \<Rightarrow> ledgerEntry \<Rightarrow> int \<Rightarrow> nat \<Rightarrow> transactionRow" where
  "entry_row now entry balance i =
     \<lparr>tID = i, tUser = leUser entry, tKind = leKind entry, tAmount = leAmount entry, tBalanceAfter = balance,
      tReferenceType = leReferenceType entry, tReferenceID = leReferenceID entry,
      tDescription = leDescription entry, tCreatedAt = now,
      tKey = (if leKey entry = '''' then None else Some (leKey entry)),
      tCreatedBy = (if leCreatedBy entry = 0 then None else Some (leCreatedBy entry))\<rparr>"

definition funds_error :: "cloud_error store_error \<Rightarrow> cloud_error store_error" where
  "funds_error e = (if IsCheckViolation e then Domain ErrInsufficientFunds else e)"

definition applyTx :: "Service \<Rightarrow> time \<Rightarrow> ledgerEntry \<Rightarrow> Transaction ctx" where
  "applyTx sv now entry s =
     (if leAmount entry = 0 then Inl (Domain (ValidationError ''amount''))
      else case row_find wUser (leUser entry) (wallets s) of
        None \<Rightarrow> Inl (Domain ErrNotFound)
      | Some w \<Rightarrow>
          (case (if leKey entry \<noteq> '''' then transactionByKey sv (leUser entry) (leKey entry) s else None) of
             Some existing \<Rightarrow>
               if tKind existing \<noteq> leKind entry \<or> tAmount existing \<noteq> leAmount entry
               then Inl (Domain ErrConflict)
               else Inr (Transaction.truncate existing, s)
           | None \<Rightarrow>
               (let balance = wrap64 (wBalance w + leAmount entry) in
                if balance < 0 then Inl (Domain ErrInsufficientFunds)
                else case insert_transaction sv (entry_row now entry balance) s of
                  Inl e \<Rightarrow> Inl (funds_error e)
                | Inr (i, s1) \<Rightarrow>
                    (case update_wallet (leUser entry) balance now s1 of
                       Inl e \<Rightarrow> Inl (funds_error e)
                     | Inr (_, s2) \<Rightarrow> Inr (Transaction.truncate (entry_row now entry balance i), s2)))))"

definition WalletOf :: "tx_event \<Rightarrow> nat \<Rightarrow> cloud_db \<Rightarrow> cloud_error store_error + Wallet" where
  "WalletOf ev uid =
     query ev (\<lambda>s. case row_find wUser uid (wallets s) of None \<Rightarrow> Inl (Domain ErrNotFound) | Some w \<Rightarrow> Inr w)"

definition Transactions :: "tx_event \<Rightarrow> nat \<Rightarrow> int \<Rightarrow> cloud_db \<Rightarrow> cloud_error store_error + Transaction list" where
  "Transactions ev uid limit =
     query ev (\<lambda>s. Inr (map Transaction.truncate (take (boundedLimit limit)
       (rev (sort_key tID (filter (\<lambda>t. tUser t = uid) (rows (transactions s))))))))"

definition Adjust ::
  "Service \<Rightarrow> tx_event list \<Rightarrow> time \<Rightarrow> User \<Rightarrow> nat \<Rightarrow> int \<Rightarrow> string \<Rightarrow> string \<Rightarrow> cloud_db \<Rightarrow> Transaction cop"
where
  "Adjust sv evs now admin uid amount reason key s =
     (if uRole admin \<noteq> RoleAdmin then (Inl (Domain ErrForbidden), s)
      else let reason = TrimSpace reason in
        if length reason < 5 \<or> length reason > 255 then (Inl (Domain (ValidationError ''reason'')), s)
        else WithTx evs (applyTx sv now
          \<lparr>leAmount = amount, leCreatedBy = uID admin, leDescription = ''Adjustment: '' @ reason,
           leKey = TrimSpace key, leKind = KindAdjustment, leReferenceID = 0, leReferenceType = '''',
           leUser = uid\<rparr>) s)"

text \<open>The credit of \<^verbatim>\<open>TopUp\<close>; resuming suspended projects follows it in \<open>Cloud_Billing\<close>.\<close>

definition topup_entry :: "nat \<Rightarrow> int \<Rightarrow> string \<Rightarrow> ledgerEntry" where
  "topup_entry uid amount key =
     \<lparr>leAmount = amount, leCreatedBy = 0, leDescription = ''Wallet top-up'', leKey = key, leKind = KindTopUp,
      leReferenceID = 0, leReferenceType = '''', leUser = uid\<rparr>"

definition TopUp_credit ::
  "Service \<Rightarrow> tx_event list \<Rightarrow> time \<Rightarrow> nat \<Rightarrow> int \<Rightarrow> string \<Rightarrow> cloud_db \<Rightarrow> Transaction cop"
where
  "TopUp_credit sv evs now uid amount key s =
     (if amount < MinTopUpRial sv \<or> amount > MaxTopUpRial sv
      then (Inl (Domain (ValidationError ''amountRial'')), s)
      else let key = TrimSpace key in
        if key = '''' \<or> length key > 128 then (Inl (Domain (ValidationError ''idempotencyKey'')), s)
        else WithTx evs (applyTx sv now (topup_entry uid amount key)) s)"

definition ledger_sum :: "nat \<Rightarrow> transactionRow list \<Rightarrow> int" where
  "ledger_sum uid ts = sum_list (map tAmount (filter (\<lambda>t. tUser t = uid) ts))"

definition LedgerConsistent :: "tx_event \<Rightarrow> nat \<Rightarrow> cloud_db \<Rightarrow> cloud_error store_error + bool" where
  "LedgerConsistent ev uid =
     query ev (\<lambda>s. case row_find wUser uid (wallets s) of
         None \<Rightarrow> Inl (Domain ErrNotFound)
       | Some w \<Rightarrow>
           (case scan_int64 (ledger_sum uid (rows (transactions s))) of
              Inl e \<Rightarrow> Inl e
            | Inr amount \<Rightarrow> Inr (wBalance w = amount)))"

section \<open>The ledger invariant\<close>

text \<open>Every row carries the balance it left behind.\<close>

fun running :: "transactionRow list \<Rightarrow> bool" where
  "running [] \<longleftrightarrow> True"
| "running (t # before) \<longleftrightarrow> tBalanceAfter t = ledger_sum (tUser t) before + tAmount t \<and> running before"

definition keys_once :: "Service \<Rightarrow> transactionRow list \<Rightarrow> bool" where
  "keys_once sv ts \<longleftrightarrow> distinct (map (\<lambda>t. (tUser t, map_option (collate sv) (tKey t))) (filter (\<lambda>t. tKey t \<noteq> None) ts))"

definition ledger_wf :: "Service \<Rightarrow> cloud_db \<Rightarrow> bool" where
  "ledger_wf sv s \<longleftrightarrow>
     distinct (map wUser (wallets s)) \<and> tbl_wf tID (transactions s) \<and>
     (\<forall>w\<in>set (wallets s). 0 \<le> wBalance w \<and> wBalance w < 2 ^ 63 \<and>
        wBalance w = ledger_sum (wUser w) (rows (transactions s))) \<and>
     (\<forall>t\<in>set (rows (transactions s)). tUser t \<in> wUser ` set (wallets s) \<and> tAmount t \<noteq> 0 \<and> 0 \<le> tBalanceAfter t) \<and>
     running (rev (rows (transactions s))) \<and> keys_once sv (rows (transactions s))"

lemma ledger_sum_append [simp]:
  "ledger_sum uid (ts @ us) = ledger_sum uid ts + ledger_sum uid us"
  "ledger_sum uid (rev ts) = ledger_sum uid ts"
  by (simp_all add: ledger_sum_def rev_filter [symmetric] rev_map [symmetric])

lemma ledger_sum_simps [simp]:
  "ledger_sum uid [] = 0"
  "ledger_sum uid (t # ts) = (if tUser t = uid then tAmount t else 0) + ledger_sum uid ts"
  by (simp_all add: ledger_sum_def)

text \<open>What a successful \<open>applyTx\<close> did: replayed a row, or appended one and moved the balance.\<close>

definition applied :: "time \<Rightarrow> ledgerEntry \<Rightarrow> int \<Rightarrow> cloud_db \<Rightarrow> cloud_db" where
  "applied now entry balance s =
     s\<lparr>transactions := insert_row (entry_row now entry balance) (transactions s),
       wallets := row_update wUser (leUser entry) (\<lambda>w. w\<lparr>wBalance := balance, wUpdatedAt := now\<rparr>) (wallets s)\<rparr>"

definition replays :: "Service \<Rightarrow> ledgerEntry \<Rightarrow> transactionRow \<Rightarrow> cloud_db \<Rightarrow> bool" where
  "replays sv entry r s \<longleftrightarrow> leKey entry \<noteq> '''' \<and> transactionByKey sv (leUser entry) (leKey entry) s = Some r \<and>
     tKind r = leKind entry \<and> tAmount r = leAmount entry"

definition unused_key :: "Service \<Rightarrow> nat \<Rightarrow> string \<Rightarrow> cloud_db \<Rightarrow> bool" where
  "unused_key sv uid key s \<longleftrightarrow> key = '''' \<or> transactionByKey sv uid key s = None"

lemma applyTx_cases:
  assumes "applyTx sv now entry s = Inr (t, s')"
  obtains r where "s' = s" and "replays sv entry r s" and "t = Transaction.truncate r"
  | w where "row_find wUser (leUser entry) (wallets s) = Some w" and "unused_key sv (leUser entry) (leKey entry) s"
      and "0 \<le> wrap64 (wBalance w + leAmount entry)" and "leAmount entry \<noteq> 0"
      and "s' = applied now entry (wrap64 (wBalance w + leAmount entry)) s"
      and "t = Transaction.truncate (entry_row now entry (wrap64 (wBalance w + leAmount entry)) (nextID (transactions s)))"
  using assms
  by (auto simp: applyTx_def replays_def unused_key_def insert_transaction_def update_wallet_def entry_row_def
      applied_def Let_def split: if_splits option.splits sum.splits)

lemma wrap64_balance:
  assumes "0 \<le> b" "b < 2 ^ 63" "int64 a" "0 \<le> wrap64 (b + a)"
  shows "wrap64 (b + a) = b + a" and "b + a < 2 ^ 63" and "0 \<le> b + a"
proof -
  have lt: "b + a < 2 ^ 63"
  proof (rule ccontr)
    assume "\<not> b + a < 2 ^ 63"
    with assms have "wrap64 (b + a) < 0" by (intro wrap64_overflow_negative) auto
    with assms(4) show False by simp
  qed
  then show eq: "wrap64 (b + a) = b + a" using assms by (intro wrap64_id) auto
  show "b + a < 2 ^ 63" by (rule lt)
  show "0 \<le> b + a" using assms(4) eq by simp
qed

lemma transactionByKey_None_iff:
  "transactionByKey sv uid key s = None \<longleftrightarrow> (\<forall>t\<in>set (rows (transactions s)). \<not> same_key sv uid key t)"
  by (auto simp: transactionByKey_def find_None_iff)

lemma keys_once_append:
  assumes "keys_once sv ts" and "\<And>k. tKey t = Some k \<Longrightarrow> \<forall>r\<in>set ts. \<not> same_key sv (tUser t) k r"
  shows "keys_once sv (ts @ [t])"
  using assms by (cases "tKey t") (auto simp: keys_once_def same_key_def)

lemma ledger_wf_wallet:
  "ledger_wf sv s \<Longrightarrow> row_find wUser uid (wallets s) = Some w \<Longrightarrow>
   0 \<le> wBalance w \<and> wBalance w < 2 ^ 63 \<and> wBalance w = ledger_sum uid (rows (transactions s))"
  using row_find_SomeD [of wUser uid "wallets s" w] by (auto simp: ledger_wf_def)

lemma entry_row_simps [simp]:
  "tID (entry_row now entry balance i) = i" "tUser (entry_row now entry balance i) = leUser entry"
  "tAmount (entry_row now entry balance i) = leAmount entry"
  "tBalanceAfter (entry_row now entry balance i) = balance" "tKind (entry_row now entry balance i) = leKind entry"
  "tKey (entry_row now entry balance i) = (if leKey entry = '''' then None else Some (leKey entry))"
  by (simp_all add: entry_row_def)

lemma applied_wf:
  assumes wf: "ledger_wf sv s" and w: "row_find wUser (leUser entry) (wallets s) = Some w"
    and key: "unused_key sv (leUser entry) (leKey entry) s" and amount: "int64 (leAmount entry)" "leAmount entry \<noteq> 0"
    and nonneg: "0 \<le> wrap64 (wBalance w + leAmount entry)"
  shows "ledger_wf sv (applied now entry (wrap64 (wBalance w + leAmount entry)) s)"
proof -
  note b = ledger_wf_wallet [OF wf w]
  from wrap64_balance [OF _ _ amount(1) nonneg] b
  have bal: "wrap64 (wBalance w + leAmount entry) = wBalance w + leAmount entry"
    "0 \<le> wBalance w + leAmount entry" "wBalance w + leAmount entry < 2 ^ 63" by auto
  let ?s = "applied now entry (wBalance w + leAmount entry) s"
  have "distinct (map wUser (wallets ?s))"
    using wf by (simp add: applied_def ledger_wf_def row_update_keys)
  moreover have "tbl_wf tID (transactions ?s)" using wf by (simp add: applied_def ledger_wf_def)
  moreover have "\<forall>v\<in>set (wallets ?s). 0 \<le> wBalance v \<and> wBalance v < 2 ^ 63 \<and>
      wBalance v = ledger_sum (wUser v) (rows (transactions ?s))"
    using wf b bal by (auto simp: applied_def ledger_wf_def set_row_update)
  moreover have "\<forall>t\<in>set (rows (transactions ?s)). tUser t \<in> wUser ` set (wallets ?s) \<and> tAmount t \<noteq> 0 \<and> 0 \<le> tBalanceAfter t"
  proof -
    have "wUser ` set (wallets ?s) = wUser ` set (wallets s)"
      by (simp add: applied_def row_update_keys flip: set_map)
    moreover have "leUser entry \<in> wUser ` set (wallets s)" using row_find_SomeD [OF w] by (auto intro: rev_image_eqI)
    ultimately show ?thesis using wf bal amount(2) by (auto simp: applied_def ledger_wf_def)
  qed
  moreover have "running (rev (rows (transactions ?s)))" using wf b by (simp add: applied_def ledger_wf_def)
  moreover have "keys_once sv (rows (transactions ?s))"
    using wf key by (auto simp: applied_def ledger_wf_def unused_key_def transactionByKey_None_iff
        intro!: keys_once_append split: if_splits)
  ultimately show ?thesis unfolding bal(1) ledger_wf_def by blast
qed

lemma applyTx_wf:
  assumes "ledger_wf sv s" and "int64 (leAmount entry)" and "applyTx sv now entry s = Inr (t, s')"
  shows "ledger_wf sv s'"
  using assms(3)
proof (rule applyTx_cases)
  fix w
  assume "row_find wUser (leUser entry) (wallets s) = Some w" "unused_key sv (leUser entry) (leKey entry) s"
    "0 \<le> wrap64 (wBalance w + leAmount entry)" "leAmount entry \<noteq> 0"
    "s' = applied now entry (wrap64 (wBalance w + leAmount entry)) s"
  then show ?thesis using applied_wf [OF assms(1) _ _ assms(2)] by blast
qed (use assms(1) in simp)

section \<open>The contract of the ledger\<close>

text \<open>
  What the order and billing code relies on: \<open>apply e\<close> moves one balance by the entry's amount or
  replays an entry already applied, never below zero, and touches nothing else. \<open>bal\<close> reads a
  balance, \<open>rest\<close> everything outside the ledger, \<open>used\<close> whether an entry's key is taken.
\<close>

locale wallet_ledger =
  fixes inv :: "'s \<Rightarrow> bool"
    and bal :: "nat \<Rightarrow> 's \<Rightarrow> int option"
    and rest :: "'s \<Rightarrow> 'r"
    and used :: "'e \<Rightarrow> 's \<Rightarrow> bool"
    and apply_entry :: "'e \<Rightarrow> 's \<Rightarrow> 'x + 'a \<times> 's"
    and owner :: "'e \<Rightarrow> nat"
    and amount :: "'e \<Rightarrow> int"
  assumes keeps_inv: "inv s \<Longrightarrow> int64 (amount e) \<Longrightarrow> apply_entry e s = Inr (a, s') \<Longrightarrow> inv s'"
    and moves: "inv s \<Longrightarrow> int64 (amount e) \<Longrightarrow> apply_entry e s = Inr (a, s') \<Longrightarrow> \<not> used e s \<Longrightarrow>
      \<exists>b. bal (owner e) s = Some b \<and> bal (owner e) s' = Some (b + amount e) \<and> 0 \<le> b + amount e"
    and others: "inv s \<Longrightarrow> int64 (amount e) \<Longrightarrow> apply_entry e s = Inr (a, s') \<Longrightarrow> uid \<noteq> owner e \<Longrightarrow> bal uid s' = bal uid s"
    and frame: "apply_entry e s = Inr (a, s') \<Longrightarrow> rest s' = rest s"
    and replay: "apply_entry e s = Inr (a, s') \<Longrightarrow> used e s \<Longrightarrow> s' = s"
begin

text \<open>A charge and its refund cancel out, whoever else was billed in between by other entries.\<close>

lemma charge_refund:
  assumes "inv s" "int64 (amount c)" "int64 (amount r)" "apply_entry c s = Inr (a, s1)" "apply_entry r s1 = Inr (b, s2)"
    and "owner r = owner c" "amount r = - amount c" "\<not> used c s" "\<not> used r s1"
  shows "bal uid s2 = bal uid s"
proof (cases "uid = owner c")
  case True
  have i1: "inv s1" using assms(1,2,4) by (rule keeps_inv)
  from moves [OF assms(1,2,4,8)] moves [OF i1 assms(3,5,9)] assms(6,7) True show ?thesis by auto
next
  case False
  have "inv s1" using assms(1,2,4) by (rule keeps_inv)
  from others [OF this assms(3,5)] others [OF assms(1,2,4)] False assms(6) show ?thesis by simp
qed

lemma never_negative:
  assumes "inv s" "int64 (amount e)" "apply_entry e s = Inr (a, s')" "\<not> used e s" "bal (owner e) s' = Some b"
  shows "0 \<le> b"
  using moves [OF assms(1-4)] assms(5) by auto

end

definition balance_of :: "nat \<Rightarrow> cloud_db \<Rightarrow> int option" where
  "balance_of uid s = map_option wBalance (row_find wUser uid (wallets s))"

text \<open>Everything but the wallets and their ledger.\<close>

definition outside_ledger :: "cloud_db \<Rightarrow> cloud_db" where
  "outside_ledger s = s\<lparr>wallets := [], transactions := empty_tbl\<rparr>"

definition key_used :: "Service \<Rightarrow> ledgerEntry \<Rightarrow> cloud_db \<Rightarrow> bool" where
  "key_used sv entry s \<longleftrightarrow> \<not> unused_key sv (leUser entry) (leKey entry) s"

lemma balance_of_applied:
  "balance_of uid (applied now entry b s) =
    (if uid = leUser entry then map_option (\<lambda>_. b) (balance_of uid s) else balance_of uid s)"
  by (simp add: balance_of_def applied_def row_find_update option.map_comp comp_def)

lemma outside_applied [simp]: "outside_ledger (applied now entry b s) = outside_ledger s"
  by (simp add: outside_ledger_def applied_def)

interpretation wallet: wallet_ledger "ledger_wf sv" balance_of outside_ledger "key_used sv" "applyTx sv now" leUser leAmount
  for sv now
proof
  fix s e a s'
  assume wf: "ledger_wf sv s" and amt: "int64 (leAmount e)" and app: "applyTx sv now e s = Inr (a, s')"
  show "ledger_wf sv s'" using wf amt app by (rule applyTx_wf)
  show "\<not> key_used sv e s \<Longrightarrow>
      \<exists>b. balance_of (leUser e) s = Some b \<and> balance_of (leUser e) s' = Some (b + leAmount e) \<and> 0 \<le> b + leAmount e"
    using app
  proof (rule applyTx_cases, goal_cases)
    case (1 r)
    then show ?case by (simp add: key_used_def unused_key_def replays_def)
  next
    case (2 w)
    from ledger_wf_wallet [OF wf 2(2)] wrap64_balance [OF _ _ amt 2(4)] 2 show ?case
      by (simp add: balance_of_applied) (simp add: balance_of_def)
  qed
  show "balance_of uid s' = balance_of uid s" if "uid \<noteq> leUser e" for uid
    using app by (rule applyTx_cases) (use that in \<open>auto simp: balance_of_applied\<close>)
next
  fix s e a s'
  assume app: "applyTx sv now e s = Inr (a, s')"
  show "outside_ledger s' = outside_ledger s" using app by (rule applyTx_cases) auto
  show "key_used sv e s \<Longrightarrow> s' = s" using app by (rule applyTx_cases) (auto simp: key_used_def)
qed

end
