(* ===== verification/Cloud_Accounts.thy ===== *)
theory Cloud_Accounts
  imports Cloud_Wallet
begin

text \<open>
  Customer accounts and sessions of \<^verbatim>\<open>internal/cloud/accounts.go\<close>. Password hashing, SHA-256, the
  mail-address parser and the random source are arguments: \<open>verify hash password\<close> is
  \<^verbatim>\<open>bcrypt.CompareHashAndPassword\<close>, \<open>sha256\<close> returns the 32 bytes of the digest, \<open>parse\<close> is
  \<^verbatim>\<open>mail.ParseAddress\<close> (the address it found, if any), and a random draw is \<open>None\<close> when reading fails.
\<close>

section \<open>Model\<close>

definition operatorEmailDomain :: string where "operatorEmailDomain = ''operators.swarmops.invalid''"

definition normalizeEmail :: "(string \<Rightarrow> string option) \<Rightarrow> string \<Rightarrow> cloud_error + string" where
  "normalizeEmail parse value =
     (let value = ToLower (TrimSpace value) in
      if parse value \<noteq> Some value \<or> length value > 254 \<or> HasSuffix value (''.'' @ operatorEmailDomain) \<or>
         HasSuffix value (''@'' @ operatorEmailDomain)
      then Inl (ValidationError ''email'') else Inr value)"

definition same_email :: "Service \<Rightarrow> string \<Rightarrow> userRow \<Rightarrow> bool" where
  "same_email sv email u \<longleftrightarrow> collate sv (uEmail u) = collate sv email"

text \<open>\<^verbatim>\<open>INSERT INTO users\<close>, with the column widths and the unique address.\<close>

definition insert_user :: "Service \<Rightarrow> (nat \<Rightarrow> userRow) \<Rightarrow> nat ctx" where
  "insert_user sv mk s =
     (let u = mk (nextID (users s)) in
      if RuneCount (uEmail u) > 254 \<or> RuneCount (uFullName u) > 120 \<or> RuneCount (uPasswordHash u) > 100
      then Inl (Server ErrDataTooLong)
      else if list_ex (same_email sv (uEmail u)) (rows (users s)) then Inl (Server ErrDuplicateEntry)
      else Inr (uID u, s\<lparr>users := insert_row mk (users s)\<rparr>))"

definition new_user :: "string \<Rightarrow> string \<Rightarrow> string \<Rightarrow> Role \<Rightarrow> time \<Rightarrow> nat \<Rightarrow> userRow" where
  "new_user email fullName hash r now i =
     \<lparr>uID = i, uEmail = email, uFullName = fullName, uRole = r, uStatus = AccountActive, uCreatedAt = now,
      uLastLoginAt = None, uPasswordHash = hash, uUpdatedAt = now\<rparr>"

definition insert_wallet :: "nat \<Rightarrow> time \<Rightarrow> unit ctx" where
  "insert_wallet uid now s =
     (if row_find wUser uid (wallets s) \<noteq> None then Inl (Server ErrDuplicateEntry)
      else Inr ((), s\<lparr>wallets := wallets s @ [\<lparr>wUser = uid, wBalance = 0, wUpdatedAt = now\<rparr>]\<rparr>))"

definition registerTx :: "Service \<Rightarrow> time \<Rightarrow> string \<Rightarrow> string \<Rightarrow> string \<Rightarrow> User ctx" where
  "registerTx sv now email fullName hash s =
     (case insert_user sv (new_user email fullName hash RoleCustomer now) s of
        Inl e \<Rightarrow> Inl (if IsDuplicate e then Domain ErrConflict else e)
      | Inr (uid, s1) \<Rightarrow>
          (case insert_wallet uid now s1 of
             Inl e \<Rightarrow> Inl e
           | Inr (_, s2) \<Rightarrow> Inr (User.truncate (new_user email fullName hash RoleCustomer now uid), s2)))"

definition Register ::
  "Service \<Rightarrow> (string \<Rightarrow> string option) \<Rightarrow> tx_event list \<Rightarrow> time \<Rightarrow> string option
   \<Rightarrow> string \<Rightarrow> string \<Rightarrow> string \<Rightarrow> cloud_db \<Rightarrow> User cop"
where
  "Register sv parse evs now hashed email fullName password s =
     (case normalizeEmail parse email of
        Inl e \<Rightarrow> (Inl (Domain e), s)
      | Inr email \<Rightarrow>
          let fullName = TrimSpace fullName in
          if RuneCount fullName < 2 \<or> RuneCount fullName > 120 then (Inl (Domain (ValidationError ''fullName'')), s)
          else if RuneCount password < 10 \<or> length password > 72 then (Inl (Domain (ValidationError ''password'')), s)
          else case hashed of
            None \<Rightarrow> (Inl (Domain HashFailed), s)
          | Some hash \<Rightarrow> WithTx evs (registerTx sv now email fullName hash) s)"

text \<open>\<^verbatim>\<open>base64.RawURLEncoding\<close>.\<close>

definition base64_alphabet :: string where
  "base64_alphabet = ''ABCDEFGHIJKLMNOPQRSTUVWXYZabcdefghijklmnopqrstuvwxyz0123456789-_''"

fun base64_url :: "string \<Rightarrow> string" where
  "base64_url [] = []"
| "base64_url [a] =
     (let n = (of_char a :: nat) in [base64_alphabet ! (n div 4), base64_alphabet ! (n mod 4 * 16)])"
| "base64_url [a, b] =
     (let n = (of_char a :: nat) * 256 + of_char b in
      [base64_alphabet ! (n div 1024), base64_alphabet ! (n div 16 mod 64), base64_alphabet ! (n mod 16 * 4)])"
| "base64_url (a # b # c # s) =
     (let n = ((of_char a :: nat) * 256 + of_char b) * 256 + of_char c in
      [base64_alphabet ! (n div 262144), base64_alphabet ! (n div 4096 mod 64),
       base64_alphabet ! (n div 64 mod 64), base64_alphabet ! (n mod 64)] @ base64_url s)"

definition randomToken :: "string option \<Rightarrow> cloud_error + string" where
  "randomToken draw = (case draw of None \<Rightarrow> Inl RandomFailed | Some bytes \<Rightarrow> Inr (base64_url bytes))"

definition hashToken :: "(string \<Rightarrow> string) \<Rightarrow> string \<Rightarrow> string" where
  "hashToken sha256 token = hex_encode (sha256 token)"

definition same_token :: "Service \<Rightarrow> string \<Rightarrow> sessionRow \<Rightarrow> bool" where
  "same_token sv hash x \<longleftrightarrow> collate sv (sTokenHash x) = collate sv hash"

definition loginTx :: "Service \<Rightarrow> sessionRow \<Rightarrow> unit ctx" where
  "loginTx sv x s =
     (if RuneCount (sTokenHash x) > 64 \<or> RuneCount (sCSRFToken x) > 64 then Inl (Server ErrDataTooLong)
      else if list_ex (same_token sv (sTokenHash x)) (sessions s) then Inl (Server ErrDuplicateEntry)
      else if \<not> user_exists (sUser x) s then Inl (Server ErrForeignKey)
      else Inr ((), s\<lparr>sessions := sessions s @ [x],
                     users := update_where (\<lambda>u. uID u = sUser x) (\<lambda>u. u\<lparr>uLastLoginAt := Some (sCreatedAt x)\<rparr>) (users s)\<rparr>))"

definition customer_by_email :: "Service \<Rightarrow> string \<Rightarrow> cloud_db \<Rightarrow> userRow option" where
  "customer_by_email sv email s = List.find (\<lambda>u. same_email sv email u \<and> uRole u = RoleCustomer) (rows (users s))"

definition Login ::
  "Service \<Rightarrow> (string \<Rightarrow> string \<Rightarrow> bool) \<Rightarrow> (string \<Rightarrow> string) \<Rightarrow> tx_event \<Rightarrow> tx_event list \<Rightarrow> time
   \<Rightarrow> string option \<Rightarrow> string option \<Rightarrow> string \<Rightarrow> string \<Rightarrow> cloud_db \<Rightarrow> Session cop"
where
  "Login sv verify sha256 ev evs now draw1 draw2 email password s =
     (case query ev (\<lambda>s. Inr (customer_by_email sv (ToLower (TrimSpace email)) s)) s of
        Inl e \<Rightarrow> (Inl e, s)
      | Inr None \<Rightarrow> (Inl (Domain ErrInvalidCredentials), s)
      | Inr (Some u) \<Rightarrow>
          if \<not> verify (uPasswordHash u) password then (Inl (Domain ErrInvalidCredentials), s)
          else if uStatus u \<noteq> AccountActive then (Inl (Domain ErrForbidden), s)
          else case randomToken draw1 of
            Inl e \<Rightarrow> (Inl (Domain e), s)
          | Inr token \<Rightarrow>
              (case randomToken draw2 of
                 Inl e \<Rightarrow> (Inl (Domain e), s)
               | Inr csrf \<Rightarrow>
                   (case WithTx evs (loginTx sv \<lparr>sTokenHash = hashToken sha256 token, sUser = uID u, sCSRFToken = csrf,
                              sCreatedAt = now, sExpiresAt = now + SessionTTL sv, sRevokedAt = None\<rparr>) s of
                      (Inl e, s') \<Rightarrow> (Inl e, s')
                    | (Inr _, s') \<Rightarrow>
                        (Inr \<lparr>seCSRFToken = csrf, seExpiresAt = now + SessionTTL sv, seToken = token,
                              seUser = User.truncate u\<lparr>uLastLoginAt := Some now\<rparr>\<rparr>, s'))))"

definition open_session :: "Service \<Rightarrow> time \<Rightarrow> string \<Rightarrow> cloud_db \<Rightarrow> (sessionRow \<times> userRow) option" where
  "open_session sv now hash s =
     (case List.find (\<lambda>x. same_token sv hash x \<and> sRevokedAt x = None \<and> sExpiresAt x > now) (sessions s) of
        None \<Rightarrow> None
      | Some x \<Rightarrow> map_option (Pair x) (row_by uID (sUser x) (users s)))"

definition Authenticate ::
  "Service \<Rightarrow> (string \<Rightarrow> string) \<Rightarrow> tx_event \<Rightarrow> time \<Rightarrow> string \<Rightarrow> cloud_db \<Rightarrow> cloud_error store_error + Session"
where
  "Authenticate sv sha256 ev now token s =
     (if length token < 20 \<or> length token > 128 then Inl (Domain ErrSessionExpired)
      else case query ev (\<lambda>s. Inr (open_session sv now (hashToken sha256 token) s)) s of
        Inl e \<Rightarrow> Inl e
      | Inr None \<Rightarrow> Inl (Domain ErrSessionExpired)
      | Inr (Some (x, u)) \<Rightarrow>
          if uStatus u \<noteq> AccountActive then Inl (Domain ErrForbidden)
          else Inr \<lparr>seCSRFToken = sCSRFToken x, seExpiresAt = sExpiresAt x, seToken = token, seUser = User.truncate u\<rparr>)"

definition VerifyCSRF :: "Session \<Rightarrow> string \<Rightarrow> bool" where
  "VerifyCSRF session token \<longleftrightarrow> token \<noteq> '''' \<and> seCSRFToken session = token"

definition revoke :: "(sessionRow \<Rightarrow> bool) \<Rightarrow> time \<Rightarrow> cloud_db \<Rightarrow> cloud_db" where
  "revoke P now s = s\<lparr>sessions := map (\<lambda>x. if P x \<and> sRevokedAt x = None then x\<lparr>sRevokedAt := Some now\<rparr> else x) (sessions s)\<rparr>"

definition Logout :: "Service \<Rightarrow> (string \<Rightarrow> string) \<Rightarrow> tx_event \<Rightarrow> time \<Rightarrow> string \<Rightarrow> cloud_db \<Rightarrow> unit cop" where
  "Logout sv sha256 ev now token s =
     runTx ev (\<lambda>s. Inr ((), revoke (same_token sv (hashToken sha256 token)) now s)) s"

definition ensure_operator :: "Service \<Rightarrow> time \<Rightarrow> string \<Rightarrow> string \<Rightarrow> unit ctx" where
  "ensure_operator sv now email username s =
     (case insert_user sv (new_user email username ''!'' RoleAdmin now) s of
        Inl e \<Rightarrow> if IsDuplicate e then Inr ((), s) else Inl e
      | Inr (_, s') \<Rightarrow> Inr ((), s'))"

definition EnsureOperator ::
  "Service \<Rightarrow> tx_event \<Rightarrow> tx_event \<Rightarrow> time \<Rightarrow> string \<Rightarrow> cloud_db \<Rightarrow> User cop"
where
  "EnsureOperator sv ev1 ev2 now username s =
     (let username = ToLower (TrimSpace username) in
      if username = '''' \<or> ContainsAny username (CHR ''@'' # [CHR 0x20, CHR 0x09, CHR 0x0D, CHR 0x0A]) \<or> length username > 64
      then (Inl (Domain (ValidationError ''username'')), s)
      else let email = username @ ''@'' @ operatorEmailDomain in
        case runTx ev1 (ensure_operator sv now email username) s of
          (Inl e, s') \<Rightarrow> (Inl e, s')
        | (Inr _, s') \<Rightarrow>
            (case query ev2 (\<lambda>s. Inr (List.find (same_email sv email) (rows (users s)))) s' of
               Inl e \<Rightarrow> (Inl e, s')
             | Inr None \<Rightarrow> (Inl Driver, s')
             | Inr (Some u) \<Rightarrow>
                 if uRole u \<noteq> RoleAdmin then (Inl (Domain ErrForbidden), s')
                 else (Inr (User.truncate u\<lparr>uLastLoginAt := None\<rparr>), s')))"

definition setStatusTx :: "time \<Rightarrow> nat \<Rightarrow> AccountStatus \<Rightarrow> unit ctx" where
  "setStatusTx now uid status s =
     (if \<not> list_ex (\<lambda>u. uID u = uid \<and> uRole u = RoleCustomer) (rows (users s)) then Inl (Domain ErrNotFound)
      else let s1 = s\<lparr>users := update_where (\<lambda>u. uID u = uid \<and> uRole u = RoleCustomer)
                         (\<lambda>u. u\<lparr>uStatus := status, uUpdatedAt := now\<rparr>) (users s)\<rparr> in
        Inr ((), if status = AccountSuspended then revoke (\<lambda>x. sUser x = uid) now s1 else s1))"

definition account_status :: "string \<Rightarrow> AccountStatus option" where
  "account_status status =
     (if status = ''active'' then Some AccountActive
      else if status = ''suspended'' then Some AccountSuspended else None)"

definition SetCustomerStatus :: "tx_event list \<Rightarrow> time \<Rightarrow> nat \<Rightarrow> string \<Rightarrow> cloud_db \<Rightarrow> unit cop" where
  "SetCustomerStatus evs now uid status s =
     (case account_status status of
        None \<Rightarrow> (Inl (Domain (ValidationError ''status'')), s)
      | Some st \<Rightarrow> WithTx evs (setStatusTx now uid st) s)"

end
