(* ===== verification/Cloud_Catalog.thy ===== *)
theory Cloud_Catalog
  imports Cloud_Accounts
begin

text \<open>
  The plan catalogue of \<^verbatim>\<open>internal/cloud/catalog.go\<close> and the support tickets of
  \<^verbatim>\<open>internal/cloud/tickets.go\<close>.
\<close>

section \<open>Plans\<close>

definition planCodePattern :: "string \<Rightarrow> bool" where
  "planCodePattern s \<longleftrightarrow> matches_name lower_letter (\<lambda>c. lower_alnum c \<or> c = CHR ''-'') 31 s \<and> 2 \<le> length s"

record Plan =
  plan :: planRow
  Features :: "string list"
  FeaturesFa :: "string list"

record PlanInput =
  inActive :: bool
  inCode :: string
  inCPUMillicores :: nat
  inDescription :: string
  inDescriptionFa :: string
  inDiskGiB :: nat
  inFeatures :: "string list"
  inFeaturesFa :: "string list"
  inHourlyPriceRial :: int
  inMemoryMiB :: nat
  inMonthlyPriceRial :: int
  inName :: string
  inSortOrder :: nat

definition features_of :: "bool \<Rightarrow> nat \<Rightarrow> cloud_db \<Rightarrow> string list" where
  "features_of fa pid s =
     map ftFeature (sort_key ftPosition (filter (\<lambda>f. ftPlan f = pid \<and> (ftLocale f = ''fa'') = fa) (features s)))"

definition list_plans :: "bool \<Rightarrow> cloud_db \<Rightarrow> Plan list" where
  "list_plans includeInactive s =
     map (\<lambda>p. \<lparr>plan = p, Features = features_of False (plID p) s, FeaturesFa = features_of True (plID p) s\<rparr>)
       (sort_key (\<lambda>p. (plSortOrder p, plID p)) (filter (\<lambda>p. includeInactive \<or> plActive p) (rows (plans s))))"

definition Plans :: "tx_event \<Rightarrow> bool \<Rightarrow> cloud_db \<Rightarrow> cloud_error store_error + Plan list" where
  "Plans ev includeInactive = query ev (\<lambda>s. Inr (list_plans includeInactive s))"

definition PlanByCode :: "tx_event \<Rightarrow> string \<Rightarrow> cloud_db \<Rightarrow> cloud_error store_error + Plan" where
  "PlanByCode ev code s =
     (case Plans ev True s of
        Inl e \<Rightarrow> Inl e
      | Inr ps \<Rightarrow>
          (case List.find (\<lambda>p. plCode (plan p) = TrimSpace code) ps of
             None \<Rightarrow> Inl (Domain ErrNotFound)
           | Some p \<Rightarrow> Inr p))"

definition normalize_plan :: "PlanInput \<Rightarrow> PlanInput" where
  "normalize_plan i = i\<lparr>inCode := ToLower (TrimSpace (inCode i)), inName := TrimSpace (inName i),
     inDescription := TrimSpace (inDescription i), inDescriptionFa := TrimSpace (inDescriptionFa i)\<rparr>"

definition plan_field_error :: "PlanInput \<Rightarrow> string option" where
  "plan_field_error i =
     first_error id
       [refuse (\<not> planCodePattern (inCode i)) ''code'',
        refuse (RuneCount (inName i) < 2 \<or> RuneCount (inName i) > 64) ''name'',
        refuse (RuneCount (inDescription i) > 255) ''description'',
        refuse (RuneCount (inDescriptionFa i) > 255) ''descriptionFa'',
        refuse (inCPUMillicores i < 100 \<or> inCPUMillicores i > 64000) ''cpuMillicores'',
        refuse (inMemoryMiB i < 128 \<or> inMemoryMiB i > 262144) ''memoryMiB'',
        refuse (inHourlyPriceRial i \<le> 0) ''hourlyPriceRial'',
        refuse (inMonthlyPriceRial i < inHourlyPriceRial i) ''monthlyPriceRial'',
        refuse (length (inFeatures i) > 12) ''features'',
        refuse (length (inFeaturesFa i) > 12) ''featuresFa'']"

definition same_code :: "Service \<Rightarrow> string \<Rightarrow> planRow \<Rightarrow> bool" where
  "same_code sv code p \<longleftrightarrow> collate sv (plCode p) = collate sv code"

definition plan_values :: "PlanInput \<Rightarrow> time \<Rightarrow> planRow \<Rightarrow> planRow" where
  "plan_values i now p =
     p\<lparr>plName := inName i, plDescription := inDescription i, plDescriptionFa := inDescriptionFa i,
       plCPUMillicores := inCPUMillicores i, plMemoryMiB := inMemoryMiB i, plDiskGiB := inDiskGiB i,
       plHourly := inHourlyPriceRial i, plMonthly := inMonthlyPriceRial i, plActive := inActive i,
       plSortOrder := inSortOrder i, plUpdatedAt := now\<rparr>"

definition new_plan :: "PlanInput \<Rightarrow> time \<Rightarrow> nat \<Rightarrow> planRow" where
  "new_plan i now n =
     plan_values i now \<lparr>plID = n, plCode = inCode i, plName = '''', plDescription = '''', plDescriptionFa = '''',
       plCPUMillicores = 0, plMemoryMiB = 0, plDiskGiB = 0, plHourly = 0, plMonthly = 0, plActive = False,
       plSortOrder = 0, plUpdatedAt = now\<rparr>"

text \<open>\<^verbatim>\<open>INSERT .. ON DUPLICATE KEY UPDATE\<close> on the unique code.\<close>

definition upsert_plan :: "Service \<Rightarrow> time \<Rightarrow> PlanInput \<Rightarrow> cloud_db \<Rightarrow> cloud_db" where
  "upsert_plan sv now i s =
     s\<lparr>plans := (if list_ex (same_code sv (inCode i)) (rows (plans s))
                 then update_where (same_code sv (inCode i)) (plan_values i now) (plans s)
                 else insert_row (new_plan i now) (plans s))\<rparr>"

fun insert_features_from ::
  "nat \<Rightarrow> string \<Rightarrow> string \<Rightarrow> nat \<Rightarrow> string list \<Rightarrow> unit ctx"
where
  "insert_features_from pid locale field position [] s = Inr ((), s)"
| "insert_features_from pid locale field position (f # fs) s =
     (let feature = TrimSpace f in
      if feature = '''' then insert_features_from pid locale field position fs s
      else if RuneCount feature > 160 then Inl (Domain (ValidationError field))
      else insert_features_from pid locale field (position + 1) fs
        (s\<lparr>features := features s @ [\<lparr>ftPlan = pid, ftLocale = locale, ftPosition = position, ftFeature = feature\<rparr>]\<rparr>))"

definition insertFeatures :: "nat \<Rightarrow> string \<Rightarrow> string \<Rightarrow> string list \<Rightarrow> unit ctx" where
  "insertFeatures pid locale field fs = insert_features_from pid locale field 0 fs"

definition savePlanTx :: "Service \<Rightarrow> time \<Rightarrow> PlanInput \<Rightarrow> unit ctx" where
  "savePlanTx sv now i s =
     (let s1 = upsert_plan sv now i s in
      case List.find (same_code sv (inCode i)) (rows (plans s1)) of
        None \<Rightarrow> Inl Driver
      | Some p \<Rightarrow>
          (case insertFeatures (plID p) ''en'' ''features'' (inFeatures i)
                  (s1\<lparr>features := filter (\<lambda>f. ftPlan f \<noteq> plID p) (features s1)\<rparr>) of
             Inl e \<Rightarrow> Inl e
           | Inr (_, s2) \<Rightarrow> insertFeatures (plID p) ''fa'' ''featuresFa'' (inFeaturesFa i) s2))"

definition SavePlan :: "Service \<Rightarrow> tx_event list \<Rightarrow> tx_event \<Rightarrow> time \<Rightarrow> PlanInput \<Rightarrow> cloud_db \<Rightarrow> Plan cop" where
  "SavePlan sv evs ev now inp s =
     (let i = normalize_plan inp in
      case plan_field_error i of
        Some field \<Rightarrow> (Inl (Domain (ValidationError field)), s)
      | None \<Rightarrow>
          (case WithTx evs (savePlanTx sv now i) s of
             (Inl e, s') \<Rightarrow> (Inl e, s')
           | (Inr _, s') \<Rightarrow> (PlanByCode ev (inCode i) s', s')))"

section \<open>Tickets\<close>

record Ticket =
  ticket :: ticketRow
  kCustomerEmail :: string

record TicketMessage =
  messageID :: nat
  AuthorName :: string
  AuthorRole :: Role
  Body :: string
  messageCreatedAt :: time

definition ticket_priority :: "string \<Rightarrow> TicketPriority option" where
  "ticket_priority p =
     (if p = '''' \<or> p = ''normal'' then Some PriorityNormal
      else if p = ''low'' then Some PriorityLow
      else if p = ''high'' then Some PriorityHigh else None)"

definition insert_message :: "nat \<Rightarrow> nat \<Rightarrow> string \<Rightarrow> time \<Rightarrow> unit ctx" where
  "insert_message kid author body now s =
     (if \<not> user_exists author s then Inl (Server ErrForeignKey)
      else Inr ((), s\<lparr>messages := insert_row
             (\<lambda>i. \<lparr>mID = i, mTicket = kid, mAuthor = author, mBody = body, mCreatedAt = now\<rparr>) (messages s)\<rparr>))"

definition openTicketTx ::
  "time \<Rightarrow> nat \<Rightarrow> string \<Rightarrow> string \<Rightarrow> TicketPriority \<Rightarrow> nat \<Rightarrow> nat ctx"
where
  "openTicketTx now customer subject body priority pid s =
     (if pid \<noteq> 0 \<and> (case row_by pID pid (projects s) of None \<Rightarrow> True | Some p \<Rightarrow> pUser p \<noteq> customer)
      then Inl (Domain (ValidationError ''projectId''))
      else if \<not> user_exists customer s then Inl (Server ErrForeignKey)
      else let kid = nextID (tickets s);
               s1 = s\<lparr>tickets := insert_row (\<lambda>i. \<lparr>kID = i, kUser = customer,
                       kProject = (if pid = 0 then None else Some pid), kSubject = subject, kStatus = TicketOpen,
                       kPriority = priority, kCreatedAt = now, kUpdatedAt = now\<rparr>) (tickets s)\<rparr> in
        case insert_message kid customer body now s1 of
          Inl e \<Rightarrow> Inl e
        | Inr (_, s2) \<Rightarrow> Inr (kid, s2))"

definition ticket_messages :: "nat \<Rightarrow> cloud_db \<Rightarrow> TicketMessage list" where
  "ticket_messages kid s =
     List.map_filter (\<lambda>m. map_option (\<lambda>u. \<lparr>messageID = mID m, AuthorName = uFullName u, AuthorRole = uRole u,
         Body = mBody m, messageCreatedAt = mCreatedAt m\<rparr>) (row_by uID (mAuthor m) (users s)))
       (sort_key (\<lambda>m. (mCreatedAt m, mID m)) (filter (\<lambda>m. mTicket m = kid) (rows (messages s))))"

definition read_ticket :: "User \<Rightarrow> nat \<Rightarrow> cloud_db \<Rightarrow> cloud_error store_error + Ticket \<times> TicketMessage list" where
  "read_ticket user kid s =
     (case row_by kID kid (tickets s) of
        None \<Rightarrow> Inl (Domain ErrNotFound)
      | Some k \<Rightarrow>
          (case row_by uID (kUser k) (users s) of
             None \<Rightarrow> Inl (Domain ErrNotFound)
           | Some u \<Rightarrow>
               if uRole user \<noteq> RoleAdmin \<and> kUser k \<noteq> uID user then Inl (Domain ErrNotFound)
               else Inr (\<lparr>ticket = k, kCustomerEmail = uEmail u\<rparr>, ticket_messages kid s)))"

definition TicketOf ::
  "tx_event \<Rightarrow> User \<Rightarrow> nat \<Rightarrow> cloud_db \<Rightarrow> cloud_error store_error + Ticket \<times> TicketMessage list"
where
  "TicketOf ev user kid = query ev (read_ticket user kid)"

definition bad_body :: "string \<Rightarrow> bool" where
  "bad_body body \<longleftrightarrow> RuneCount body < 1 \<or> RuneCount body > 5000"

definition OpenTicket ::
  "tx_event list \<Rightarrow> tx_event \<Rightarrow> time \<Rightarrow> User \<Rightarrow> string \<Rightarrow> string \<Rightarrow> string \<Rightarrow> nat \<Rightarrow> cloud_db
   \<Rightarrow> (Ticket \<times> TicketMessage list) cop"
where
  "OpenTicket evs ev now customer subject body priority pid s =
     (let subject = TrimSpace subject; body = TrimSpace body in
      if RuneCount subject < 3 \<or> RuneCount subject > 160 then (Inl (Domain (ValidationError ''subject'')), s)
      else if bad_body body then (Inl (Domain (ValidationError ''body'')), s)
      else case ticket_priority priority of
        None \<Rightarrow> (Inl (Domain (ValidationError ''priority'')), s)
      | Some p \<Rightarrow>
          (case WithTx evs (openTicketTx now (uID customer) subject body p pid) s of
             (Inl e, s') \<Rightarrow> (Inl e, s')
           | (Inr kid, s') \<Rightarrow> (TicketOf ev customer kid s', s')))"

definition lockTicket :: "User \<Rightarrow> nat \<Rightarrow> cloud_db \<Rightarrow> cloud_error store_error + TicketStatus" where
  "lockTicket user kid s =
     (case row_by kID kid (tickets s) of
        None \<Rightarrow> Inl (Domain ErrNotFound)
      | Some k \<Rightarrow>
          if uRole user \<noteq> RoleAdmin \<and> kUser k \<noteq> uID user then Inl (Domain ErrNotFound)
          else Inr (kStatus k))"

definition set_ticket :: "nat \<Rightarrow> TicketStatus \<Rightarrow> time \<Rightarrow> cloud_db \<Rightarrow> cloud_db" where
  "set_ticket kid status now s =
     s\<lparr>tickets := update_where (\<lambda>k. kID k = kid) (\<lambda>k. k\<lparr>kStatus := status, kUpdatedAt := now\<rparr>) (tickets s)\<rparr>"

definition replyTx :: "time \<Rightarrow> User \<Rightarrow> nat \<Rightarrow> string \<Rightarrow> unit ctx" where
  "replyTx now author kid body s =
     (case lockTicket author kid s of
        Inl e \<Rightarrow> Inl e
      | Inr status \<Rightarrow>
          if status = TicketClosed then Inl (Domain ErrConflict)
          else let new_status = (if uRole author = RoleAdmin then TicketAnswered else TicketOpen) in
            case insert_message kid (uID author) body now s of
              Inl e \<Rightarrow> Inl e
            | Inr (_, s1) \<Rightarrow> Inr ((), set_ticket kid new_status now s1))"

definition ReplyTicket ::
  "tx_event list \<Rightarrow> tx_event \<Rightarrow> time \<Rightarrow> User \<Rightarrow> nat \<Rightarrow> string \<Rightarrow> cloud_db \<Rightarrow> (Ticket \<times> TicketMessage list) cop"
where
  "ReplyTicket evs ev now author kid body s =
     (let body = TrimSpace body in
      if bad_body body then (Inl (Domain (ValidationError ''body'')), s)
      else case WithTx evs (replyTx now author kid body) s of
        (Inl e, s') \<Rightarrow> (Inl e, s')
      | (Inr _, s') \<Rightarrow> (TicketOf ev author kid s', s'))"

definition closeTx :: "time \<Rightarrow> User \<Rightarrow> nat \<Rightarrow> unit ctx" where
  "closeTx now user kid s =
     (case lockTicket user kid s of
        Inl e \<Rightarrow> Inl e
      | Inr _ \<Rightarrow> Inr ((), set_ticket kid TicketClosed now s))"

definition CloseTicket ::
  "tx_event list \<Rightarrow> tx_event \<Rightarrow> time \<Rightarrow> User \<Rightarrow> nat \<Rightarrow> cloud_db \<Rightarrow> (Ticket \<times> TicketMessage list) cop"
where
  "CloseTicket evs ev now user kid s =
     (case WithTx evs (closeTx now user kid) s of
        (Inl e, s') \<Rightarrow> (Inl e, s')
      | (Inr _, s') \<Rightarrow> (TicketOf ev user kid s', s'))"

fun ticket_status_text :: "TicketStatus \<Rightarrow> string" where
  "ticket_status_text TicketOpen = ''open''"
| "ticket_status_text TicketAnswered = ''answered''"
| "ticket_status_text TicketClosed = ''closed''"

definition Tickets :: "Service \<Rightarrow> tx_event \<Rightarrow> User \<Rightarrow> string \<Rightarrow> int \<Rightarrow> cloud_db \<Rightarrow> cloud_error store_error + Ticket list" where
  "Tickets sv ev user status limit =
     query ev (\<lambda>s. Inr (take (boundedLimit limit)
       (List.map_filter (\<lambda>k. map_option (\<lambda>u. \<lparr>ticket = k, kCustomerEmail = uEmail u\<rparr>) (row_by uID (kUser k) (users s)))
         (rev (sort_key (\<lambda>k. (kUpdatedAt k, kID k))
           (filter (\<lambda>k. (uRole user = RoleAdmin \<or> kUser k = uID user) \<and>
              (status = '''' \<or> collate sv (ticket_status_text (kStatus k)) = collate sv status)) (rows (tickets s))))))))"

end
