(* ===== verification/Cloud_Orders.thy ===== *)
theory Cloud_Orders
  imports Cloud_Catalog
begin

text \<open>
  Orders and projects of \<^verbatim>\<open>internal/cloud/orders.go\<close>. Confirming an order runs on the commerce
  tables and the command ledger together (\<open>core_db\<close>), which share one database and one
  transaction; the ledger is reached through the \<^verbatim>\<open>CommandQueue\<close> interface, the argument \<open>enqueue\<close>.
  One reading of the clock stands for all readings of a transaction.
\<close>

section \<open>Placing and reading orders\<close>

definition ApplicationSpec_for :: "nat \<Rightarrow> nat \<Rightarrow> string \<Rightarrow> string \<Rightarrow> nat \<Rightarrow> cloud_error + ApplicationSpec" where
  "ApplicationSpec_for cpuMillicores memory appName img port =
     (let spec = Normalize (zero_spec\<lparr>CPUs := int cpuMillicores, Image := TrimSpace img, MemoryMiB := int memory,
                    Name := ToLower (TrimSpace appName), Port := port, Replicas := 1\<rparr>) in
      case Validate spec of Some _ \<Rightarrow> Inl (ValidationError ''application'') | None \<Rightarrow> Inr spec)"

record OrderInput =
  inAppName :: string
  inImage :: string
  inNote :: string
  inPlanCode :: string
  inPort :: nat

record OrderItem =
  item :: itemRow
  PlanCode :: string
  PlanName :: string

record Order =
  order :: orderRow
  CustomerEmail :: string
  Items :: "OrderItem list"

definition order_items :: "nat \<Rightarrow> cloud_db \<Rightarrow> (itemRow \<times> planRow) list" where
  "order_items oid s =
     List.map_filter (\<lambda>i. map_option (Pair i) (row_by plID (iPlan i) (plans s)))
       (sort_key iID (filter (\<lambda>i. iOrder i = oid) (rows (items s))))"

definition order_view :: "cloud_db \<Rightarrow> orderRow \<Rightarrow> Order option" where
  "order_view s o' =
     map_option (\<lambda>u. \<lparr>order = o', CustomerEmail = uEmail u,
        Items = map (\<lambda>(i, p). \<lparr>item = i, PlanCode = plCode p, PlanName = plName p\<rparr>) (order_items (oID o') s)\<rparr>)
       (row_by uID (oUser o') (users s))"

definition loadOrders ::
  "tx_event \<Rightarrow> (orderRow list \<Rightarrow> orderRow list) \<Rightarrow> nat option \<Rightarrow> cloud_db \<Rightarrow> cloud_error store_error + Order list"
where
  "loadOrders ev select limit =
     query ev (\<lambda>s. Inr ((case limit of None \<Rightarrow> id | Some n \<Rightarrow> take n)
       (List.map_filter (order_view s) (select (rows (orders s))))))"

definition OrderOf :: "tx_event \<Rightarrow> nat \<Rightarrow> cloud_db \<Rightarrow> cloud_error store_error + Order" where
  "OrderOf ev oid s =
     (case loadOrders ev (filter (\<lambda>o'. oID o' = oid)) None s of
        Inl e \<Rightarrow> Inl e
      | Inr [] \<Rightarrow> Inl (Domain ErrNotFound)
      | Inr (o' # _) \<Rightarrow> Inr o')"

definition CustomerOrder :: "tx_event \<Rightarrow> nat \<Rightarrow> nat \<Rightarrow> cloud_db \<Rightarrow> cloud_error store_error + Order" where
  "CustomerOrder ev uid oid s =
     (case OrderOf ev oid s of
        Inl e \<Rightarrow> Inl e
      | Inr o' \<Rightarrow> if oUser (order o') \<noteq> uid then Inl (Domain ErrNotFound) else Inr o')"

definition newest_first :: "orderRow list \<Rightarrow> orderRow list" where
  "newest_first os = rev (sort_key (\<lambda>o'. (oPlacedAt o', oID o')) os)"

definition Orders :: "tx_event \<Rightarrow> nat \<Rightarrow> int \<Rightarrow> cloud_db \<Rightarrow> cloud_error store_error + Order list" where
  "Orders ev uid limit =
     loadOrders ev (\<lambda>os. newest_first (filter (\<lambda>o'. oUser o' = uid) os)) (Some (boundedLimit limit))"

fun order_status_text :: "OrderStatus \<Rightarrow> string" where
  "order_status_text OrderPending = ''pending''"
| "order_status_text OrderRejected = ''rejected''"
| "order_status_text OrderCancelled = ''cancelled''"
| "order_status_text OrderProvisioning = ''provisioning''"
| "order_status_text OrderActive = ''active''"
| "order_status_text OrderFailed = ''failed''"

definition AllOrders :: "Service \<Rightarrow> tx_event \<Rightarrow> string \<Rightarrow> int \<Rightarrow> cloud_db \<Rightarrow> cloud_error store_error + Order list" where
  "AllOrders sv ev status limit =
     (if status = '''' then loadOrders ev newest_first (Some (boundedLimit limit))
      else loadOrders ev (\<lambda>os.
        let found = filter (\<lambda>o'. collate sv (order_status_text (oStatus o')) = collate sv status) os in
        if status = ''pending'' then rev (newest_first found) else newest_first found) (Some (boundedLimit limit)))"

definition in_flight_order :: "OrderStatus \<Rightarrow> bool" where
  "in_flight_order st \<longleftrightarrow> st = OrderPending \<or> st = OrderProvisioning \<or> st = OrderActive"

definition nameAvailableTx :: "Service \<Rightarrow> string \<Rightarrow> cloud_db \<Rightarrow> cloud_error store_error + unit" where
  "nameAvailableTx sv name s =
     (let same = (\<lambda>x. collate sv x = collate sv name);
          taken = length (filter (\<lambda>p. same (pAppName p) \<and> pStatus p \<noteq> ProjectDeleted) (rows (projects s)))
            + length (filter (\<lambda>i. same (iAppName i) \<and>
                (case row_by oID (iOrder i) (orders s) of None \<Rightarrow> False | Some o' \<Rightarrow> in_flight_order (oStatus o')))
                (rows (items s)))
            + length (filter same (applications s)) in
      if taken > 0 then Inl (Domain ErrConflict) else Inr ())"

definition placeOrderTx ::
  "Service \<Rightarrow> time \<Rightarrow> nat \<Rightarrow> planRow \<Rightarrow> ApplicationSpec \<Rightarrow> string \<Rightarrow> nat ctx"
where
  "placeOrderTx sv now uid p spec note s =
     (case nameAvailableTx sv (Name spec) s of
        Inl e \<Rightarrow> Inl e
      | Inr _ \<Rightarrow>
          if \<not> user_exists uid s then Inl (Server ErrForeignKey)
          else let oid = nextID (orders s);
                   s1 = s\<lparr>orders := insert_row (\<lambda>i. \<lparr>oID = i, oUser = uid, oStatus = OrderPending, oNote = note,
                           oUpfront = 0, oReviewer = None, oReason = '''', oPlacedAt = now, oReviewedAt = None,
                           oUpdatedAt = now\<rparr>) (orders s)\<rparr> in
            if RuneCount (Image spec) > 512 \<or> RuneCount (Name spec) > 41 then Inl (Server ErrDataTooLong)
            else if Port spec = 0 then Inl (Server ErrCheckViolation)
            else if row_by plID (plID p) (plans s1) = None then Inl (Server ErrForeignKey)
            else Inr (oid, s1\<lparr>items := insert_row (\<lambda>i. \<lparr>iID = i, iOrder = oid, iPlan = plID p, iAppName = Name spec,
                        iImage = Image spec, iPort = Port spec, iHourly = plHourly p, iMonthly = plMonthly p\<rparr>) (items s1)\<rparr>))"

definition PlaceOrder ::
  "Service \<Rightarrow> tx_event \<Rightarrow> tx_event list \<Rightarrow> tx_event \<Rightarrow> time \<Rightarrow> nat \<Rightarrow> OrderInput \<Rightarrow> cloud_db \<Rightarrow> Order cop"
where
  "PlaceOrder sv ev1 evs ev2 now uid input s =
     (case PlanByCode ev1 (inPlanCode input) s of
        Inl e \<Rightarrow> (Inl (if e = Domain ErrNotFound then Domain (ValidationError ''planCode'') else e), s)
      | Inr p \<Rightarrow>
          if \<not> plActive (plan p) then (Inl (Domain (ValidationError ''planCode'')), s)
          else case ApplicationSpec_for (plCPUMillicores (plan p)) (plMemoryMiB (plan p)) (inAppName input)
                      (inImage input) (inPort input) of
            Inl e \<Rightarrow> (Inl (Domain e), s)
          | Inr spec \<Rightarrow>
              (let note = TrimSpace (inNote input) in
               if RuneCount note > 500 then (Inl (Domain (ValidationError ''note'')), s)
               else case WithTx evs (placeOrderTx sv now uid (plan p) spec note) s of
                 (Inl e, s') \<Rightarrow> (Inl e, s')
               | (Inr oid, s') \<Rightarrow> (OrderOf ev2 oid s', s')))"

section \<open>Reviewing orders\<close>

definition update_order :: "nat \<Rightarrow> (orderRow \<Rightarrow> orderRow) \<Rightarrow> cloud_db \<Rightarrow> cloud_db" where
  "update_order oid f s = s\<lparr>orders := update_where (\<lambda>o'. oID o' = oid) f (orders s)\<rparr>"

definition cancelTx :: "time \<Rightarrow> nat \<Rightarrow> nat \<Rightarrow> unit ctx" where
  "cancelTx now uid oid s =
     (case row_by oID oid (orders s) of
        None \<Rightarrow> Inl (Domain ErrNotFound)
      | Some o' \<Rightarrow>
          if oUser o' \<noteq> uid then Inl (Domain ErrNotFound)
          else if oStatus o' \<noteq> OrderPending then Inl (Domain ErrConflict)
          else Inr ((), update_order oid (\<lambda>x. x\<lparr>oStatus := OrderCancelled, oUpdatedAt := now\<rparr>) s))"

definition CancelOrder :: "tx_event list \<Rightarrow> tx_event \<Rightarrow> time \<Rightarrow> nat \<Rightarrow> nat \<Rightarrow> cloud_db \<Rightarrow> Order cop" where
  "CancelOrder evs ev now uid oid s =
     (case WithTx evs (cancelTx now uid oid) s of
        (Inl e, s') \<Rightarrow> (Inl e, s')
      | (Inr _, s') \<Rightarrow> (OrderOf ev oid s', s'))"

definition lockPendingOrder :: "nat \<Rightarrow> cloud_db \<Rightarrow> cloud_error store_error + nat" where
  "lockPendingOrder oid s =
     (case row_by oID oid (orders s) of
        None \<Rightarrow> Inl (Domain ErrNotFound)
      | Some o' \<Rightarrow> if oStatus o' \<noteq> OrderPending then Inl (Domain ErrConflict) else Inr (oUser o'))"

definition rejectTx :: "time \<Rightarrow> nat \<Rightarrow> nat \<Rightarrow> string \<Rightarrow> unit ctx" where
  "rejectTx now reviewer oid reason s =
     (case lockPendingOrder oid s of
        Inl e \<Rightarrow> Inl e
      | Inr _ \<Rightarrow>
          if \<not> user_exists reviewer s then Inl (Server ErrForeignKey)
          else Inr ((), update_order oid (\<lambda>x. x\<lparr>oStatus := OrderRejected, oReviewer := Some reviewer, oReason := reason,
                     oReviewedAt := Some now, oUpdatedAt := now\<rparr>) s))"

definition RejectOrder :: "tx_event list \<Rightarrow> tx_event \<Rightarrow> time \<Rightarrow> User \<Rightarrow> nat \<Rightarrow> string \<Rightarrow> cloud_db \<Rightarrow> Order cop" where
  "RejectOrder evs ev now reviewer oid reason s =
     (if uRole reviewer \<noteq> RoleAdmin then (Inl (Domain ErrForbidden), s)
      else let reason = TrimSpace reason in
        if RuneCount reason < 5 \<or> RuneCount reason > 500 then (Inl (Domain (ValidationError ''reason'')), s)
        else case WithTx evs (rejectTx now (uID reviewer) oid reason) s of
          (Inl e, s') \<Rightarrow> (Inl e, s')
        | (Inr _, s') \<Rightarrow> (OrderOf ev oid s', s'))"

section \<open>Projects\<close>

record Project =
  project :: projectRow
  projectPlanCode :: string
  projectPlanName :: string
  UsageThisMonth :: int

definition usage_sum :: "(usageRow \<Rightarrow> bool) \<Rightarrow> cloud_db \<Rightarrow> int" where
  "usage_sum P s = sum_list (map rAmount (filter P (rows (usage s))))"

definition project_view :: "time \<Rightarrow> cloud_db \<Rightarrow> projectRow \<Rightarrow> Project option" where
  "project_view monthStart s p =
     map_option (\<lambda>pl. \<lparr>project = p, projectPlanCode = plCode pl, projectPlanName = plName pl,
        UsageThisMonth = usage_sum (\<lambda>r. rProject r = pID p \<and> rPeriod r \<ge> monthStart) s\<rparr>)
       (row_by plID (pPlan p) (plans s))"

definition loadProjects ::
  "tx_event \<Rightarrow> time \<Rightarrow> (projectRow list \<Rightarrow> projectRow list) \<Rightarrow> nat option \<Rightarrow> cloud_db
   \<Rightarrow> cloud_error store_error + Project list"
where
  "loadProjects ev now select limit =
     query ev (\<lambda>s. Inr ((case limit of None \<Rightarrow> id | Some n \<Rightarrow> take n)
       (List.map_filter (project_view (month_start now) s) (select (rows (projects s))))))"

definition ProjectOf :: "tx_event \<Rightarrow> time \<Rightarrow> nat \<Rightarrow> cloud_db \<Rightarrow> cloud_error store_error + Project" where
  "ProjectOf ev now pid s =
     (case loadProjects ev now (filter (\<lambda>p. pID p = pid)) None s of
        Inl e \<Rightarrow> Inl e
      | Inr [] \<Rightarrow> Inl (Domain ErrNotFound)
      | Inr (p # _) \<Rightarrow> Inr p)"

definition newest_projects :: "projectRow list \<Rightarrow> projectRow list" where
  "newest_projects ps = rev (sort_key (\<lambda>p. (pCreatedAt p, pID p)) ps)"

definition Projects :: "tx_event \<Rightarrow> time \<Rightarrow> nat \<Rightarrow> cloud_db \<Rightarrow> cloud_error store_error + Project list" where
  "Projects ev now uid =
     loadProjects ev now (\<lambda>ps. newest_projects (filter (\<lambda>p. pUser p = uid \<and> pStatus p \<noteq> ProjectDeleted) ps)) None"

fun project_status_text :: "ProjectStatus \<Rightarrow> string" where
  "project_status_text ProjectProvisioning = ''provisioning''"
| "project_status_text ProjectActive = ''active''"
| "project_status_text ProjectSuspended = ''suspended''"
| "project_status_text ProjectFailed = ''failed''"
| "project_status_text ProjectDeleted = ''deleted''"

definition AllProjects ::
  "Service \<Rightarrow> tx_event \<Rightarrow> time \<Rightarrow> string \<Rightarrow> int \<Rightarrow> cloud_db \<Rightarrow> cloud_error store_error + Project list"
where
  "AllProjects sv ev now status limit =
     loadProjects ev now (\<lambda>ps. newest_projects (filter (\<lambda>p. status = '''' \<or>
        collate sv (project_status_text (pStatus p)) = collate sv status) ps)) (Some (boundedLimit limit))"

end
