(* ===== verification/Cloud_Confirm.thy ===== *)
theory Cloud_Confirm
  imports Cloud_Orders
begin

text \<open>
  Confirming an order and following its deployment (\<^verbatim>\<open>ConfirmOrder\<close> and \<^verbatim>\<open>OnCommandTransition\<close> of
  \<^verbatim>\<open>internal/cloud/orders.go\<close>). The transaction charges the first hour, creates the project and its
  first usage row and queues the deployment, on the commerce tables and the command ledger at once.
\<close>

section \<open>Confirming\<close>

record 'q core_db =
  cloud :: cloud_db
  ledger :: 'q

record ProvisionTarget =
  tgAuthorityEpoch :: nat
  tgRequestID :: string
  tgServerID :: string

text \<open>The \<^verbatim>\<open>SubmitInTx\<close> method of the \<^verbatim>\<open>CommandQueue\<close> interface.\<close>

type_synonym 'q submit_in_tx = "SubmitInput \<Rightarrow> ('q, queue_error, Submission \<times> string list) tx"

definition DeployAction :: string where "DeployAction = ''application.deploy''"

definition order_charge_key :: "nat \<Rightarrow> string" where "order_charge_key oid = ''order-charge-'' @ show_nat oid"
definition order_refund_key :: "nat \<Rightarrow> string" where "order_refund_key oid = ''order-refund-'' @ show_nat oid"

definition charge_entry :: "nat \<Rightarrow> nat \<Rightarrow> string \<Rightarrow> int \<Rightarrow> ledgerEntry" where
  "charge_entry uid oid appName hourly =
     \<lparr>leAmount = - hourly, leCreatedBy = 0, leDescription = ''First hour of '' @ appName, leKey = order_charge_key oid,
      leKind = KindOrderCharge, leReferenceID = oid, leReferenceType = ''order'', leUser = uid\<rparr>"

definition refund_entry :: "nat \<Rightarrow> nat \<Rightarrow> int \<Rightarrow> ledgerEntry" where
  "refund_entry uid oid charged =
     \<lparr>leAmount = charged, leCreatedBy = 0, leDescription = ''Refund: the deployment did not succeed'',
      leKey = order_refund_key oid, leKind = KindRefund, leReferenceID = oid, leReferenceType = ''order'', leUser = uid\<rparr>"

definition new_project :: "nat \<Rightarrow> itemRow \<Rightarrow> string \<Rightarrow> time \<Rightarrow> nat \<Rightarrow> projectRow" where
  "new_project uid i server now n =
     \<lparr>pID = n, pUser = uid, pItem = iID i, pPlan = iPlan i, pAppName = iAppName i, pStatus = ProjectProvisioning,
      pServer = server, pCommand = None, pHourly = iHourly i, pMonthly = iMonthly i, pCreatedAt = now,
      pActivatedAt = None, pSuspendedAt = None, pResumedAt = None, pUpdatedAt = now\<rparr>"

definition insert_project :: "Service \<Rightarrow> (nat \<Rightarrow> projectRow) \<Rightarrow> nat ctx" where
  "insert_project sv mk s =
     (let p = mk (nextID (projects s)) in
      if RuneCount (pServer p) > 64 then Inl (Server ErrDataTooLong)
      else if list_ex (\<lambda>q. collate sv (pAppName q) = collate sv (pAppName p)) (rows (projects s))
      then Inl (Domain ErrConflict)
      else if list_ex (\<lambda>q. pItem q = pItem p) (rows (projects s)) then Inl (Server ErrDuplicateEntry)
      else Inr (pID p, s\<lparr>projects := insert_row mk (projects s)\<rparr>))"

definition insert_usage :: "(nat \<Rightarrow> usageRow) \<Rightarrow> nat ctx" where
  "insert_usage mk s =
     (let r = mk (nextID (usage s)) in
      if list_ex (\<lambda>q. rProject q = rProject r \<and> rPeriod q = rPeriod r) (rows (usage s))
      then Inl (Server ErrDuplicateEntry)
      else Inr (rID r, s\<lparr>usage := insert_row mk (usage s)\<rparr>))"

definition new_usage :: "nat \<Rightarrow> time \<Rightarrow> int \<Rightarrow> nat option \<Rightarrow> time \<Rightarrow> nat \<Rightarrow> usageRow" where
  "new_usage pid period amount tx now n =
     \<lparr>rID = n, rProject = pid, rPeriod = period, rAmount = amount, rTransaction = tx, rInvoice = None, rCreatedAt = now\<rparr>"

definition update_project :: "nat \<Rightarrow> (projectRow \<Rightarrow> projectRow) \<Rightarrow> cloud_db \<Rightarrow> cloud_db" where
  "update_project pid f s = s\<lparr>projects := update_where (\<lambda>p. pID p = pid) f (projects s)\<rparr>"

definition deploy_input :: "User \<Rightarrow> nat \<Rightarrow> ProvisionTarget \<Rightarrow> ApplicationSpec \<Rightarrow> SubmitInput" where
  "deploy_input reviewer oid target' spec =
     \<lparr>inAction = DeployAction, inActor = uFullName reviewer, inAuthorityEpoch = tgAuthorityEpoch target',
      inAutoRetry = True, inClusterID = ''default'', inIdempotencyKey = ''cloud-order-'' @ show_nat oid,
      inMaxArtifactBytes = 0, inMaxAttempts = 3, inPayload = deploy_payload spec, inRequestID = tgRequestID target',
      inServerID = tgServerID target', inTarget = ''application/'' @ Name spec\<rparr>"

fun queue_failure :: "queue_error store_error \<Rightarrow> cloud_error store_error" where
  "queue_failure (Server n) = Server n"
| "queue_failure Driver = Driver"
| "queue_failure ContextDone = ContextDone"
| "queue_failure (Domain e) = Domain (QueueError e)"

text \<open>The part of the transaction that touches commerce tables before the deployment is queued:
  lock the order, check the reserve, charge, create the project and its first usage row.\<close>

definition confirm_charge ::
  "Service \<Rightarrow> time \<Rightarrow> nat \<Rightarrow> ProvisionTarget \<Rightarrow> (nat \<times> int \<times> ApplicationSpec) ctx"
where
  "confirm_charge sv now oid target' s =
     (case lockPendingOrder oid s of
        Inl e \<Rightarrow> Inl e
      | Inr uid \<Rightarrow>
          (case order_items oid s of
             [] \<Rightarrow> Inl Driver
           | (i, p) # _ \<Rightarrow>
               (case ApplicationSpec_for (plCPUMillicores p) (plMemoryMiB p) (iAppName i) (iImage i) (iPort i) of
                  Inl e \<Rightarrow> Inl (Domain e)
                | Inr spec \<Rightarrow>
                    (case row_find wUser uid (wallets s) of
                       None \<Rightarrow> Inl Driver
                     | Some w \<Rightarrow>
                         (let required = wrap64 (iHourly i * ReserveHours sv) in
                          if wBalance w < required then Inl (Domain (FundsError required (wBalance w)))
                          else case applyTx sv now (charge_entry uid oid (iAppName i) (iHourly i)) s of
                            Inl e \<Rightarrow> Inl e
                          | Inr (charge, s1) \<Rightarrow>
                              (case insert_project sv (new_project uid i (tgServerID target') now) s1 of
                                 Inl e \<Rightarrow> Inl e
                               | Inr (pid, s2) \<Rightarrow>
                                   (case insert_usage (new_usage pid (truncate_hour now) (iHourly i) (Some (tID charge)) now) s2 of
                                      Inl e \<Rightarrow> Inl e
                                    | Inr (_, s3) \<Rightarrow> Inr ((pid, iHourly i, spec), s3))))))))"

text \<open>What the transaction writes once the deployment is queued.\<close>

definition confirm_record :: "time \<Rightarrow> nat \<Rightarrow> nat \<Rightarrow> nat \<Rightarrow> int \<Rightarrow> string \<Rightarrow> cloud_db \<Rightarrow> cloud_db" where
  "confirm_record now reviewer oid pid hourly cid s =
     update_order oid (\<lambda>x. x\<lparr>oStatus := OrderProvisioning, oUpfront := hourly, oReviewer := Some reviewer,
        oReviewedAt := Some now, oUpdatedAt := now\<rparr>) (update_project pid (\<lambda>p. p\<lparr>pCommand := Some cid\<rparr>) s)"

definition confirmTx ::
  "Service \<Rightarrow> 'q submit_in_tx \<Rightarrow> time \<Rightarrow> User \<Rightarrow> nat \<Rightarrow> ProvisionTarget
   \<Rightarrow> ('q core_db, cloud_error, Command \<times> nat \<times> string list) tx"
where
  "confirmTx sv enqueue now reviewer oid target' s =
     (case confirm_charge sv now oid target' (cloud s) of
        Inl e \<Rightarrow> Inl e
      | Inr ((pid, hourly, spec), c1) \<Rightarrow>
          (case enqueue (deploy_input reviewer oid target' spec) (ledger s) of
             Inl e \<Rightarrow> Inl (queue_failure e)
           | Inr ((submission, forget), q1) \<Rightarrow>
               (let cid = commandID (subCommand submission) in
                if RuneCount cid > 36 then Inl (Server ErrDataTooLong)
                else if \<not> user_exists (uID reviewer) c1 then Inl (Server ErrForeignKey)
                else Inr ((subCommand submission, pid, forget),
                  \<lparr>cloud = confirm_record now (uID reviewer) oid pid hourly cid c1, ledger = q1\<rparr>))))"

definition ConfirmOrder ::
  "Service \<Rightarrow> 'q submit_in_tx \<Rightarrow> (string list \<Rightarrow> 'q \<Rightarrow> 'q) \<Rightarrow> tx_event list \<Rightarrow> tx_event \<Rightarrow> tx_event \<Rightarrow> time
   \<Rightarrow> User \<Rightarrow> nat \<Rightarrow> ProvisionTarget \<Rightarrow> 'q core_db \<Rightarrow> ('q core_db, cloud_error, Order \<times> Project \<times> Command) outcome"
where
  "ConfirmOrder sv enqueue forgetInputs evs ev1 ev2 now reviewer oid target' s =
     (if uRole reviewer \<noteq> RoleAdmin then (Inl (Domain ErrForbidden), s)
      else let target' = target'\<lparr>tgServerID := TrimSpace (tgServerID target')\<rparr> in
        if tgServerID target' = '''' then (Inl (Domain (ValidationError ''serverId'')), s)
        else case WithTx evs (confirmTx sv enqueue now reviewer oid target') s of
          (Inl e, s') \<Rightarrow> (Inl e, s')
        | (Inr (command, pid, forget), s') \<Rightarrow>
            (let s2 = s'\<lparr>ledger := forgetInputs forget (ledger s')\<rparr> in
             case OrderOf ev1 oid (cloud s2) of
               Inl e \<Rightarrow> (Inl e, s2)
             | Inr o' \<Rightarrow>
                 (case ProjectOf ev2 now pid (cloud s2) of
                    Inl e \<Rightarrow> (Inl e, s2)
                  | Inr p \<Rightarrow> (Inr (o', p, command), s2))))"

section \<open>Following the deployment\<close>

definition failed_outcome :: "CommandState \<Rightarrow> bool" where
  "failed_outcome st \<longleftrightarrow> st = CommandNeedsAttention \<or> st = CommandFailed \<or> st = CommandCancelled"

text \<open>The project a command provisions, with the order of its item.\<close>

definition project_of_command :: "string \<Rightarrow> cloud_db \<Rightarrow> (projectRow \<times> nat) option" where
  "project_of_command cid s =
     (case List.find (\<lambda>p. pCommand p = Some cid \<and> row_by iID (pItem p) (items s) \<noteq> None) (rows (projects s)) of
        None \<Rightarrow> None
      | Some p \<Rightarrow> map_option (\<lambda>i. (p, iOrder i)) (row_by iID (pItem p) (items s)))"

definition advance_order :: "nat \<Rightarrow> OrderStatus \<Rightarrow> time \<Rightarrow> cloud_db \<Rightarrow> cloud_db" where
  "advance_order oid status now s =
     s\<lparr>orders := update_where (\<lambda>o'. oID o' = oid \<and> oStatus o' = OrderProvisioning)
                    (\<lambda>o'. o'\<lparr>oStatus := status, oUpdatedAt := now\<rparr>) (orders s)\<rparr>"

definition order_charged :: "nat \<Rightarrow> nat \<Rightarrow> cloud_db \<Rightarrow> int" where
  "order_charged uid oid s =
     - sum_list (map tAmount (filter (\<lambda>t. tUser t = uid \<and> tReferenceType t = ''order'' \<and> tReferenceID t = oid \<and>
         tKind t = KindOrderCharge) (rows (transactions s))))"

definition activated :: "time \<Rightarrow> projectRow \<Rightarrow> nat \<Rightarrow> cloud_db \<Rightarrow> cloud_db" where
  "activated now p oid s =
     advance_order oid OrderActive now
       (update_project (pID p) (\<lambda>x. x\<lparr>pStatus := ProjectActive, pActivatedAt := Some now, pUpdatedAt := now\<rparr>) s)"

definition unprovisioned :: "time \<Rightarrow> projectRow \<Rightarrow> nat \<Rightarrow> cloud_db \<Rightarrow> cloud_db" where
  "unprovisioned now p oid s =
     (let s1 = advance_order oid OrderFailed now
                 (update_project (pID p) (\<lambda>x. x\<lparr>pStatus := ProjectFailed, pUpdatedAt := now\<rparr>) s) in
      s1\<lparr>usage := delete_where (\<lambda>r. rProject r = pID p \<and> rInvoice r = None) (usage s1)\<rparr>)"

definition transitionTx_cloud :: "Service \<Rightarrow> time \<Rightarrow> bool \<Rightarrow> string \<Rightarrow> unit ctx" where
  "transitionTx_cloud sv now succeeded cid s =
     (case project_of_command cid s of
        None \<Rightarrow> Inr ((), s)
      | Some (p, oid) \<Rightarrow>
          if pStatus p \<noteq> ProjectProvisioning then Inr ((), s)
          else if succeeded then Inr ((), activated now p oid s)
          else let s1 = unprovisioned now p oid s in
            case scan_int64 (order_charged (pUser p) oid s1) of
              Inl e \<Rightarrow> Inl e
            | Inr charged \<Rightarrow>
                if charged \<le> 0 then Inr ((), s1)
                else case applyTx sv now (refund_entry (pUser p) oid charged) s1 of
                  Inl e \<Rightarrow> Inl e
                | Inr (_, s2) \<Rightarrow> Inr ((), s2))"

definition OnCommandTransition :: "Service \<Rightarrow> tx_event list \<Rightarrow> time \<Rightarrow> Command \<Rightarrow> cloud_db \<Rightarrow> unit cop" where
  "OnCommandTransition sv evs now command s =
     (if action command \<noteq> DeployAction \<or> \<not> HasPrefix (target command) ''application/'' then (Inr (), s)
      else let succeeded = (state command = CommandSucceeded) in
        if \<not> succeeded \<and> \<not> failed_outcome (state command) then (Inr (), s)
        else WithTx evs (transitionTx_cloud sv now succeeded (commandID command)) s)"

end
