(* ===== verification/Cloud_Billing.thy ===== *)
theory Cloud_Billing
  imports Cloud_Confirm
begin

text \<open>
  Hourly billing of \<^verbatim>\<open>internal/cloud/billing.go\<close>, with the top-up of \<^verbatim>\<open>wallet.go\<close> that resumes
  suspended projects. The provisioner is an argument: \<open>None\<close> is a service without one, otherwise
  a call either succeeds or fails; the calls made are part of every result. The schedule and the
  clock of each hour's transaction are given per project and hour.
\<close>

section \<open>Charging an hour\<close>

definition maxHoursPerRun :: nat where "maxHoursPerRun = 72"

datatype provisioner_call = SuspendCall projectRow | ResumeCall projectRow

type_synonym provisioner = "(provisioner_call \<Rightarrow> bool) option"

record billableProject =
  bpProject :: projectRow
  bpLastBilled :: "time option"

definition last_billed :: "nat \<Rightarrow> cloud_db \<Rightarrow> time option" where
  "last_billed pid s =
     (case filter (\<lambda>r. rProject r = pid) (rows (usage s)) of
        [] \<Rightarrow> None
      | r # rs \<Rightarrow> Some (fold max (map rPeriod rs) (rPeriod r)))"

definition billableProjects :: "tx_event \<Rightarrow> cloud_db \<Rightarrow> cloud_error store_error + billableProject list" where
  "billableProjects ev =
     query ev (\<lambda>s. Inr (map (\<lambda>p. \<lparr>bpProject = p, bpLastBilled = last_billed (pID p) s\<rparr>)
       (sort_key pID (filter (\<lambda>p. pStatus p = ProjectActive) (rows (projects s))))))"

definition usage_key :: "nat \<Rightarrow> time \<Rightarrow> string" where
  "usage_key pid hour = ''usage-'' @ show_nat pid @ ''-'' @ Format_2006010215 hour"

definition usage_entry :: "projectRow \<Rightarrow> time \<Rightarrow> int \<Rightarrow> ledgerEntry" where
  "usage_entry p hour amount =
     \<lparr>leAmount = - amount, leCreatedBy = 0,
      leDescription = pAppName p @ '', '' @ Format_hour_of_day hour @ '' UTC'', leKey = usage_key (pID p) hour,
      leKind = KindUsage, leReferenceID = pID p, leReferenceType = ''project'', leUser = pUser p\<rparr>"

definition month_to_date :: "nat \<Rightarrow> time \<Rightarrow> cloud_db \<Rightarrow> int" where
  "month_to_date pid hour s =
     (let monthStart = month_start hour in
      usage_sum (\<lambda>r. rProject r = pid \<and> monthStart \<le> rPeriod r \<and> rPeriod r < AddMonths 1 monthStart) s)"

definition hour_price :: "projectRow \<Rightarrow> int \<Rightarrow> int" where
  "hour_price p monthToDate = min (pHourly p) (max 0 (wrap64 (pMonthly p - monthToDate)))"

definition chargeHourTx :: "Service \<Rightarrow> time \<Rightarrow> projectRow \<Rightarrow> time \<Rightarrow> (int \<times> bool) ctx" where
  "chargeHourTx sv now p hour s =
     (case row_by pID (pID p) (projects s) of
        None \<Rightarrow> Inl Driver
      | Some current \<Rightarrow>
          if pStatus current \<noteq> ProjectActive then Inr ((0, False), s)
          else case scan_int64 (month_to_date (pID p) hour s) of
            Inl e \<Rightarrow> Inl e
          | Inr monthToDate \<Rightarrow>
              (let amount = hour_price p monthToDate in
               case insert_usage (new_usage (pID p) hour amount None now) s of
                 Inl e \<Rightarrow> if IsDuplicate e then Inr ((0, False), s) else Inl e
               | Inr (uid, s1) \<Rightarrow>
                   if amount > 0 then
                     (case applyTx sv now (usage_entry p hour amount) s1 of
                        Inl e \<Rightarrow> Inl (if e = Domain ErrInsufficientFunds then Domain ErrCannotPay else e)
                      | Inr (t, s2) \<Rightarrow>
                          Inr ((amount, True), s2\<lparr>usage := update_where (\<lambda>r. rID r = uid)
                                 (\<lambda>r. r\<lparr>rTransaction := Some (tID t)\<rparr>) (usage s2)\<rparr>))
                   else Inr ((amount, True), s1)))"

definition chargeHour :: "Service \<Rightarrow> tx_event list \<Rightarrow> time \<Rightarrow> projectRow \<Rightarrow> time \<Rightarrow> cloud_db \<Rightarrow> (int \<times> bool) cop" where
  "chargeHour sv evs now p hour s = WithTx evs (chargeHourTx sv now p hour) s"

section \<open>Suspending and resuming\<close>

text \<open>The result of a call on the provisioner, with the calls made.\<close>

definition provision :: "provisioner \<Rightarrow> provisioner_call \<Rightarrow> cloud_error store_error option \<times> provisioner_call list" where
  "provision prov call =
     (case prov of
        None \<Rightarrow> (None, [])
      | Some accepts \<Rightarrow> (if accepts call then None else Some (Domain ProvisionerFailed), [call]))"

definition suspend_row :: "time \<Rightarrow> projectRow \<Rightarrow> projectRow" where
  "suspend_row now p = p\<lparr>pStatus := ProjectSuspended, pSuspendedAt := Some now, pUpdatedAt := now\<rparr>"

definition resume_row :: "time \<Rightarrow> projectRow \<Rightarrow> projectRow" where
  "resume_row now p = p\<lparr>pStatus := ProjectActive, pSuspendedAt := None, pResumedAt := Some now, pUpdatedAt := now\<rparr>"

text \<open>\<^verbatim>\<open>UPDATE projects SET .. WHERE id = ? AND status = ?\<close>, with the number of rows it changed.\<close>

definition switch_project ::
  "ProjectStatus \<Rightarrow> (projectRow \<Rightarrow> projectRow) \<Rightarrow> nat \<Rightarrow> bool ctx"
where
  "switch_project status f pid s =
     Inr (list_ex (\<lambda>p. pID p = pid \<and> pStatus p = status) (rows (projects s)),
       s\<lparr>projects := update_where (\<lambda>p. pID p = pid \<and> pStatus p = status) f (projects s)\<rparr>)"

definition suspend ::
  "provisioner \<Rightarrow> tx_event \<Rightarrow> time \<Rightarrow> projectRow \<Rightarrow> cloud_db
   \<Rightarrow> cloud_error store_error option \<times> provisioner_call list \<times> cloud_db"
where
  "suspend prov ev now p s =
     (case runTx ev (switch_project ProjectActive (suspend_row now) (pID p)) s of
        (Inl e, s') \<Rightarrow> (Some e, [], s')
      | (Inr False, s') \<Rightarrow> (None, [], s')
      | (Inr True, s') \<Rightarrow>
          (case provision prov (SuspendCall (p\<lparr>pStatus := ProjectSuspended\<rparr>)) of (err, calls) \<Rightarrow> (err, calls, s')))"

definition resume_one ::
  "provisioner \<Rightarrow> tx_event \<Rightarrow> time \<Rightarrow> projectRow \<Rightarrow> cloud_db
   \<Rightarrow> cloud_error store_error option \<times> bool \<times> provisioner_call list \<times> cloud_db"
where
  "resume_one prov ev now p s =
     (case runTx ev (switch_project ProjectSuspended (resume_row now) (pID p)) s of
        (Inl e, s') \<Rightarrow> (Some e, False, [], s')
      | (Inr False, s') \<Rightarrow> (None, False, [], s')
      | (Inr True, s') \<Rightarrow>
          (case provision prov (ResumeCall (p\<lparr>pStatus := ProjectActive\<rparr>)) of (err, calls) \<Rightarrow> (err, True, calls, s')))"

definition reserve :: "Service \<Rightarrow> projectRow \<Rightarrow> int" where
  "reserve sv p = wrap64 (pHourly p * ReserveHours sv)"

record resume_result =
  Resumed :: nat
  resumeError :: "cloud_error store_error option"
  resumeCalls :: "provisioner_call list"

fun resume_from ::
  "Service \<Rightarrow> provisioner \<Rightarrow> (nat \<Rightarrow> tx_event \<times> time) \<Rightarrow> int \<Rightarrow> projectRow list \<Rightarrow> resume_result \<Rightarrow> cloud_db
   \<Rightarrow> resume_result \<times> cloud_db"
where
  "resume_from sv prov env balance [] acc s = (acc, s)"
| "resume_from sv prov env balance (p # ps) acc s =
     (if balance < reserve sv p then resume_from sv prov env balance ps acc s
      else case env (pID p) of
        (ev, now) \<Rightarrow>
          (case resume_one prov ev now p s of
             (err, done', calls, s') \<Rightarrow>
               (let acc' = acc\<lparr>Resumed := Resumed acc + (if done' then 1 else 0), resumeError := err,
                              resumeCalls := resumeCalls acc @ calls\<rparr> in
                if err \<noteq> None then (acc', s') else resume_from sv prov env balance ps acc' s')))"

definition ResumeFundedProjects ::
  "Service \<Rightarrow> provisioner \<Rightarrow> tx_event \<Rightarrow> tx_event \<Rightarrow> (nat \<Rightarrow> tx_event \<times> time) \<Rightarrow> time \<Rightarrow> nat \<Rightarrow> cloud_db
   \<Rightarrow> resume_result \<times> cloud_db"
where
  "ResumeFundedProjects sv prov ev1 ev2 env now uid s =
     (let none = \<lparr>Resumed = 0, resumeError = None, resumeCalls = []\<rparr> in
      case loadProjects ev1 now (\<lambda>ps. sort_key pID (filter (\<lambda>p. pUser p = uid \<and> pStatus p = ProjectSuspended) ps)) None s of
        Inl e \<Rightarrow> (none\<lparr>resumeError := Some e\<rparr>, s)
      | Inr [] \<Rightarrow> (none, s)
      | Inr found \<Rightarrow>
          (case WalletOf ev2 uid s of
             Inl e \<Rightarrow> (none\<lparr>resumeError := Some e\<rparr>, s)
           | Inr w \<Rightarrow> resume_from sv prov env (wBalance w) (map project found) none s))"

definition TopUp ::
  "Service \<Rightarrow> provisioner \<Rightarrow> tx_event list \<Rightarrow> tx_event \<Rightarrow> tx_event \<Rightarrow> (nat \<Rightarrow> tx_event \<times> time) \<Rightarrow> time
   \<Rightarrow> nat \<Rightarrow> int \<Rightarrow> string \<Rightarrow> cloud_db \<Rightarrow> (Transaction \<times> resume_result) cop"
where
  "TopUp sv prov evs ev1 ev2 env now uid amount key s =
     (case TopUp_credit sv evs now uid amount key s of
        (Inl e, s') \<Rightarrow> (Inl e, s')
      | (Inr t, s') \<Rightarrow>
          (case ResumeFundedProjects sv prov ev1 ev2 env now uid s' of (r, s'') \<Rightarrow> (Inr (t, r), s'')))"

section \<open>A billing run\<close>

record BillingResult =
  ChargedHours :: int
  ChargedRial :: int
  Suspended :: int
  firstErr :: "cloud_error store_error option"
  billingCalls :: "provisioner_call list"

definition note_error :: "cloud_error store_error option \<Rightarrow> BillingResult \<Rightarrow> BillingResult" where
  "note_error err acc = acc\<lparr>firstErr := (case firstErr acc of None \<Rightarrow> err | Some e \<Rightarrow> Some e)\<rparr>"

type_synonym billing_env = "nat \<Rightarrow> time \<Rightarrow> tx_event list \<times> tx_event \<times> time"

text \<open>The hours of one project: at most \<open>left\<close> of them, from \<open>hour\<close> to the current one.\<close>

fun bill_hours ::
  "Service \<Rightarrow> provisioner \<Rightarrow> billing_env \<Rightarrow> time \<Rightarrow> projectRow \<Rightarrow> nat \<Rightarrow> time \<Rightarrow> BillingResult \<Rightarrow> cloud_db
   \<Rightarrow> BillingResult \<times> cloud_db"
where
  "bill_hours sv prov env currentHour p 0 hour acc s = (acc, s)"
| "bill_hours sv prov env currentHour p (Suc left) hour acc s =
     (if hour > currentHour then (acc, s)
      else case env (pID p) hour of
        (evs, ev, now) \<Rightarrow>
          (case chargeHour sv evs now p hour s of
             (Inl e, s') \<Rightarrow>
               if e = Domain ErrCannotPay then
                 (case suspend prov ev now p s' of
                    (err, calls, s'') \<Rightarrow>
                      ((note_error err acc)\<lparr>Suspended := Suspended acc + 1, billingCalls := billingCalls acc @ calls\<rparr>, s''))
               else (note_error (Some e) acc, s')
           | (Inr (charged, billed), s') \<Rightarrow>
               bill_hours sv prov env currentHour p left (hour + Hour)
                 (if billed then acc\<lparr>ChargedHours := ChargedHours acc + 1, ChargedRial := wrap64 (ChargedRial acc + charged)\<rparr>
                  else acc) s'))"

definition first_hour :: "billableProject \<Rightarrow> time" where
  "first_hour bp =
     (let p = bpProject bp;
          start = (case bpLastBilled bp of None \<Rightarrow> truncate_hour (pCreatedAt p) | Some t \<Rightarrow> t + Hour) in
      case pResumedAt p of
        None \<Rightarrow> start
      | Some r \<Rightarrow> if truncate_hour r > start then truncate_hour r else start)"

definition bill_project ::
  "Service \<Rightarrow> provisioner \<Rightarrow> billing_env \<Rightarrow> time \<Rightarrow> billableProject \<Rightarrow> BillingResult \<times> cloud_db \<Rightarrow> BillingResult \<times> cloud_db"
where
  "bill_project sv prov env currentHour bp acc =
     bill_hours sv prov env currentHour (bpProject bp) maxHoursPerRun (first_hour bp) (fst acc) (snd acc)"

definition no_billing :: BillingResult where
  "no_billing = \<lparr>ChargedHours = 0, ChargedRial = 0, Suspended = 0, firstErr = None, billingCalls = []\<rparr>"

definition RunBilling ::
  "Service \<Rightarrow> provisioner \<Rightarrow> tx_event \<Rightarrow> billing_env \<Rightarrow> time \<Rightarrow> cloud_db \<Rightarrow> BillingResult \<times> cloud_db"
where
  "RunBilling sv prov ev env now s =
     (case billableProjects ev s of
        Inl e \<Rightarrow> (note_error (Some e) no_billing, s)
      | Inr bps \<Rightarrow> fold (bill_project sv prov env (truncate_hour now)) bps (no_billing, s))"

end
