(* ===== verification/Cloud_Invoices.thy ===== *)
theory Cloud_Invoices
  imports Cloud_Billing
begin

text \<open>
  Monthly invoices of \<^verbatim>\<open>internal/cloud/invoices.go\<close>, the reports of \<^verbatim>\<open>reports.go\<close> with the views
  they read, and the controller's billing pass of \<^verbatim>\<open>cmd/api/cloud_billing.go\<close>.
\<close>

section \<open>Issuing\<close>


record invoice_line =
  ilProject :: nat
  ilDescription :: string
  ilHours :: nat
  ilAmount :: int

definition claims :: "nat \<Rightarrow> time \<Rightarrow> time \<Rightarrow> cloud_db \<Rightarrow> usageRow \<Rightarrow> bool" where
  "claims uid from until s r \<longleftrightarrow>
     (case row_by pID (rProject r) (projects s) of None \<Rightarrow> False | Some p \<Rightarrow> pUser p = uid) \<and>
     rInvoice r = None \<and> from \<le> rPeriod r \<and> rPeriod r < until"

definition claimed :: "nat \<Rightarrow> time \<Rightarrow> time \<Rightarrow> cloud_db \<Rightarrow> usageRow list" where
  "claimed uid from until s = filter (claims uid from until s) (rows (usage s))"

text \<open>One line per project: the GROUP BY of the claimed rows, ordered by project.\<close>

definition line_of :: "time \<Rightarrow> cloud_db \<Rightarrow> usageRow list \<Rightarrow> nat \<Rightarrow> invoice_line option" where
  "line_of from s rs pid =
     (case row_by pID pid (projects s) of
        None \<Rightarrow> None
      | Some p \<Rightarrow>
          map_option (\<lambda>pl. \<lparr>ilProject = pid,
             ilDescription = pAppName p @ '' on the '' @ plName pl @ '' plan, '' @ Format_January_2006 from,
             ilHours = length (filter (\<lambda>r. rProject r = pid) rs),
             ilAmount = sum_list (map rAmount (filter (\<lambda>r. rProject r = pid) rs))\<rparr>) (row_by plID (pPlan p) (plans s)))"

definition invoice_lines :: "time \<Rightarrow> cloud_db \<Rightarrow> usageRow list \<Rightarrow> invoice_line list" where
  "invoice_lines from s rs = List.map_filter (line_of from s rs) (sort (remdups (map rProject rs)))"

text \<open>The running total of the scan loop; \<open>None\<close> when a sum does not fit an \<^verbatim>\<open>int64\<close>.\<close>

fun line_total :: "invoice_line list \<Rightarrow> int \<Rightarrow> int option" where
  "line_total [] acc = Some acc"
| "line_total (l # ls) acc =
     (if int64 (ilAmount l) then line_total ls (wrap64 (acc + ilAmount l)) else None)"

definition contained_tax :: "Service \<Rightarrow> int \<Rightarrow> int" where
  "contained_tax sv amount = quot (wrap64 (amount * TaxRateBP sv)) (wrap64 (10000 + TaxRateBP sv))"

definition invoice_row :: "Service \<Rightarrow> time \<Rightarrow> nat \<Rightarrow> time \<Rightarrow> time \<Rightarrow> int \<Rightarrow> string \<Rightarrow> nat \<Rightarrow> Invoice" where
  "invoice_row sv now uid from periodEnd amount number n =
     \<lparr>vID = n, vNumber = number, vUser = uid, vPeriodStart = from, vPeriodEnd = periodEnd,
      vSubtotal = wrap64 (amount - contained_tax sv amount), vTaxRateBP = TaxRateBP sv, vTax = contained_tax sv amount,
      vTotal = amount, vIssuedAt = now\<rparr>"

definition insert_invoice :: "Service \<Rightarrow> (nat \<Rightarrow> Invoice) \<Rightarrow> nat ctx" where
  "insert_invoice sv mk s =
     (let v = mk (nextID (invoices s)) in
      if RuneCount (vNumber v) > 24 then Inl (Server ErrDataTooLong)
      else if \<not> (0 \<le> vTaxRateBP v \<and> vTaxRateBP v < 65536) \<or> vSubtotal v < 0 \<or> vTax v < 0 \<or> vTotal v < 0
      then Inl (Server ErrOutOfRange)
      else if vTotal v \<noteq> vSubtotal v + vTax v \<or> vPeriodEnd v < vPeriodStart v then Inl (Server ErrCheckViolation)
      else if list_ex (\<lambda>w. collate sv (vNumber w) = collate sv (vNumber v) \<or>
                (vUser w = vUser v \<and> vPeriodStart w = vPeriodStart v \<and> vPeriodEnd w = vPeriodEnd v)) (rows (invoices s))
      then Inl (Server ErrDuplicateEntry)
      else Inr (vID v, s\<lparr>invoices := insert_row mk (invoices s)\<rparr>))"

definition insert_lines :: "nat \<Rightarrow> invoice_line list \<Rightarrow> cloud_db \<Rightarrow> cloud_db" where
  "insert_lines vid ls s =
     s\<lparr>lines := fold (\<lambda>l. insert_row (\<lambda>i. \<lparr>lID = i, lInvoice = vid, lProject = ilProject l,
        lDescription = ilDescription l, lQuantityHours = ilHours l, lAmount = ilAmount l\<rparr>)) ls (lines s)\<rparr>"

definition issueInvoiceTx :: "Service \<Rightarrow> time \<Rightarrow> nat \<Rightarrow> time \<Rightarrow> time \<Rightarrow> time \<Rightarrow> bool ctx" where
  "issueInvoiceTx sv now uid from until periodEnd s =
     (if list_ex (\<lambda>v. vUser v = uid \<and> vPeriodStart v = from \<and> vPeriodEnd v = periodEnd) (rows (invoices s))
      then Inr (False, s)
      else let rs = claimed uid from until s in
        if rs = [] then Inr (False, s)
        else let ls = invoice_lines from s rs in
          case line_total ls 0 of
            None \<Rightarrow> Inl Driver
          | Some amount \<Rightarrow>
              (case insert_invoice sv (invoice_row sv now uid from periodEnd amount
                       (''PENDING-'' @ show_nat uid @ ''-'' @ Format_200601 from)) s of
                 Inl e \<Rightarrow> Inl e
               | Inr (vid, s1) \<Rightarrow>
                   (let s2 = s1\<lparr>invoices := update_where (\<lambda>v. vID v = vid)
                               (\<lambda>v. v\<lparr>vNumber := ''INV-'' @ Format_200601 from @ ''-'' @ pad 6 vid\<rparr>) (invoices s1)\<rparr>;
                        s3 = insert_lines vid ls s2 in
                    Inr (True, s3\<lparr>usage := update_where (\<lambda>r. List.member (map rID rs) (rID r))
                                    (\<lambda>r. r\<lparr>rInvoice := Some vid\<rparr>) (usage s3)\<rparr>))))"

definition issueInvoice ::
  "Service \<Rightarrow> tx_event list \<Rightarrow> time \<Rightarrow> nat \<Rightarrow> time \<Rightarrow> time \<Rightarrow> time \<Rightarrow> cloud_db \<Rightarrow> bool cop"
where
  "issueInvoice sv evs now uid from until periodEnd s = WithTx evs (issueInvoiceTx sv now uid from until periodEnd) s"

definition uninvoiced_users :: "time \<Rightarrow> time \<Rightarrow> cloud_db \<Rightarrow> nat list" where
  "uninvoiced_users from until s =
     sort (remdups (List.map_filter (\<lambda>r. if rInvoice r = None \<and> from \<le> rPeriod r \<and> rPeriod r < until
        then map_option pUser (row_by pID (rProject r) (projects s)) else None) (rows (usage s))))"

fun issue_from ::
  "Service \<Rightarrow> (nat \<Rightarrow> tx_event list \<times> time) \<Rightarrow> time \<Rightarrow> time \<Rightarrow> time \<Rightarrow> nat list \<Rightarrow> nat \<Rightarrow> cloud_db
   \<Rightarrow> (nat \<times> cloud_error store_error option) \<times> cloud_db"
where
  "issue_from sv env from until periodEnd [] issued s = ((issued, None), s)"
| "issue_from sv env from until periodEnd (uid # uids) issued s =
     (case env uid of
        (evs, now) \<Rightarrow>
          (case issueInvoice sv evs now uid from until periodEnd s of
             (Inl e, s') \<Rightarrow> ((issued, Some e), s')
           | (Inr created, s') \<Rightarrow>
               issue_from sv env from until periodEnd uids (issued + (if created then 1 else 0)) s'))"

definition IssueInvoices ::
  "Service \<Rightarrow> tx_event \<Rightarrow> (nat \<Rightarrow> tx_event list \<times> time) \<Rightarrow> time \<Rightarrow> cloud_db
   \<Rightarrow> (nat \<times> cloud_error store_error option) \<times> cloud_db"
where
  "IssueInvoices sv ev env month s =
     (let from = month_start month; until = AddMonths 1 from; periodEnd = AddDays (-1) until in
      case query ev (\<lambda>s. Inr (uninvoiced_users from until s)) s of
        Inl e \<Rightarrow> ((0, Some e), s)
      | Inr uids \<Rightarrow> issue_from sv env from until periodEnd uids 0 s)"

section \<open>Reading invoices\<close>

definition Invoices :: "tx_event \<Rightarrow> nat \<Rightarrow> int \<Rightarrow> cloud_db \<Rightarrow> cloud_error store_error + Invoice list" where
  "Invoices ev uid limit =
     query ev (\<lambda>s. Inr (take (boundedLimit limit) (rev (sort_key (\<lambda>v. (vPeriodStart v, vID v))
       (filter (\<lambda>v. uid = 0 \<or> vUser v = uid) (rows (invoices s)))))))"

definition read_invoice :: "nat \<Rightarrow> nat \<Rightarrow> cloud_db \<Rightarrow> cloud_error store_error + Invoice \<times> lineRow list" where
  "read_invoice uid vid s =
     (case row_by vID vid (invoices s) of
        None \<Rightarrow> Inl (Domain ErrNotFound)
      | Some v \<Rightarrow>
          if uid \<noteq> 0 \<and> vUser v \<noteq> uid then Inl (Domain ErrNotFound)
          else Inr (v, sort_key lID (filter (\<lambda>l. lInvoice l = vid) (rows (lines s)))))"

definition InvoiceOf :: "tx_event \<Rightarrow> nat \<Rightarrow> nat \<Rightarrow> cloud_db \<Rightarrow> cloud_error store_error + Invoice \<times> lineRow list" where
  "InvoiceOf ev uid vid = query ev (read_invoice uid vid)"

section \<open>Reports\<close>

record CustomerAccount =
  caBalance :: int
  caUser :: User
  caLiveProjects :: nat
  caPendingOrders :: nat

definition account_of :: "cloud_db \<Rightarrow> userRow \<Rightarrow> CustomerAccount" where
  "account_of s u =
     \<lparr>caBalance = (case row_find wUser (uID u) (wallets s) of None \<Rightarrow> 0 | Some w \<Rightarrow> wBalance w),
      caUser = User.truncate u,
      caLiveProjects = length (filter (\<lambda>p. pUser p = uID u \<and>
         (pStatus p = ProjectProvisioning \<or> pStatus p = ProjectActive \<or> pStatus p = ProjectSuspended)) (rows (projects s))),
      caPendingOrders = length (filter (\<lambda>o'. oUser o' = uID u \<and> oStatus o' = OrderPending) (rows (orders s)))\<rparr>"

definition Customers :: "tx_event \<Rightarrow> int \<Rightarrow> cloud_db \<Rightarrow> cloud_error store_error + CustomerAccount list" where
  "Customers ev limit =
     query ev (\<lambda>s. Inr (take (boundedLimit limit) (map (account_of s) (rev (sort_key (\<lambda>u. (uCreatedAt u, uID u))
       (filter (\<lambda>u. uRole u = RoleCustomer) (rows (users s))))))))"

record RevenueMonth =
  rmMonth :: int
  rmCharged :: int
  rmRefunded :: int
  rmToppedUp :: int
  rmPayingCustomers :: nat

definition sum_kind :: "TransactionKind list \<Rightarrow> transactionRow list \<Rightarrow> int" where
  "sum_kind kinds ts = sum_list (map tAmount (filter (\<lambda>t. List.member kinds (tKind t)) ts))"

definition revenue_month :: "cloud_db \<Rightarrow> int \<Rightarrow> RevenueMonth" where
  "revenue_month s m =
     (let ts = filter (\<lambda>t. month_of (tCreatedAt t) = m) (rows (transactions s)) in
      \<lparr>rmMonth = m, rmCharged = - sum_kind [KindOrderCharge, KindUsage] ts, rmRefunded = sum_kind [KindRefund] ts,
       rmToppedUp = sum_kind [KindTopUp] ts, rmPayingCustomers = length (remdups (map tUser ts))\<rparr>)"

definition Revenue :: "tx_event \<Rightarrow> int \<Rightarrow> cloud_db \<Rightarrow> cloud_error store_error + RevenueMonth list" where
  "Revenue ev months =
     (let n = (if months < 1 \<or> months > 60 then 12 else nat months) in
      query ev (\<lambda>s. Inr (map (revenue_month s)
        (take n (rev (sort (remdups (map (\<lambda>t. month_of (tCreatedAt t)) (rows (transactions s))))))))))"

record Overview =
  ovActiveProjects :: nat
  ovCustomers :: nat
  ovOpenTickets :: nat
  ovPendingOrders :: nat
  ovRevenueMonth :: int
  ovSuspendedProjects :: nat
  ovWalletFloat :: int

definition AdminOverview :: "tx_event \<Rightarrow> time \<Rightarrow> cloud_db \<Rightarrow> cloud_error store_error + Overview" where
  "AdminOverview ev now =
     query ev (\<lambda>s.
       let float = sum_list (map wBalance (wallets s));
           revenue = - sum_kind [KindOrderCharge, KindUsage, KindRefund]
             (filter (\<lambda>t. month_start now \<le> tCreatedAt t) (rows (transactions s))) in
       if \<not> int64 float \<or> \<not> int64 revenue then Inl Driver
       else Inr \<lparr>ovActiveProjects = length (filter (\<lambda>p. pStatus p = ProjectActive) (rows (projects s))),
         ovCustomers = length (filter (\<lambda>u. uRole u = RoleCustomer) (rows (users s))),
         ovOpenTickets = length (filter (\<lambda>k. kStatus k = TicketOpen) (rows (tickets s))),
         ovPendingOrders = length (filter (\<lambda>o'. oStatus o' = OrderPending) (rows (orders s))),
         ovRevenueMonth = revenue,
         ovSuspendedProjects = length (filter (\<lambda>p. pStatus p = ProjectSuspended) (rows (projects s))),
         ovWalletFloat = float\<rparr>)"

section \<open>The controller's pass\<close>

text \<open>One pass of \<^verbatim>\<open>runCloudBilling\<close>: the active controller bills and then issues the invoices of
  \<^verbatim>\<open>time.Now().UTC().AddDate(0, -1, 0)\<close>.\<close>

definition billing_pass ::
  "Service \<Rightarrow> provisioner \<Rightarrow> bool \<Rightarrow> tx_event \<Rightarrow> billing_env \<Rightarrow> tx_event \<Rightarrow> (nat \<Rightarrow> tx_event list \<times> time) \<Rightarrow> time
   \<Rightarrow> cloud_db \<Rightarrow> cloud_db"
where
  "billing_pass sv prov active ev1 env1 ev2 env2 now s =
     (if active then snd (IssueInvoices sv ev2 env2 (AddMonths (-1) now) (snd (RunBilling sv prov ev1 env1 now s)))
      else s)"

end
