(* ===== verification/Cloud_Invariant.thy ===== *)
theory Cloud_Invariant
  imports Cloud_Invoices
begin

text \<open>
  The invariant of the commerce tables and the abstract steps that keep it. \<open>commerce_step\<close>
  lists everything a transaction of the service may do to the tables; \<open>Cloud_Refinement\<close> shows
  that every operation is a sequence of such steps, and here each step is shown to keep
  \<open>commerce_wf\<close>: consistent wallets, prices with a monthly cap, every hour billed once and within
  the cap, and invoices that add up to the usage they claim.
\<close>

section \<open>The invariant\<close>

definition prices_ok :: "int \<Rightarrow> int \<Rightarrow> bool" where
  "prices_ok hourly monthly \<longleftrightarrow> 0 < hourly \<and> hourly \<le> monthly \<and> monthly < 2 ^ 63"

definition month_usage :: "nat \<Rightarrow> int \<Rightarrow> cloud_db \<Rightarrow> int" where
  "month_usage pid k s = usage_sum (\<lambda>r. rProject r = pid \<and> month_of (rPeriod r) = k) s"

definition line_sum :: "nat \<Rightarrow> cloud_db \<Rightarrow> int" where
  "line_sum vid s = sum_list (map lAmount (filter (\<lambda>l. lInvoice l = vid) (rows (lines s))))"

text \<open>Accounts: unique addresses and token hashes, and sessions of users that exist.\<close>

definition accounts_ok :: "Service \<Rightarrow> userRow tbl \<Rightarrow> sessionRow list \<Rightarrow> bool" where
  "accounts_ok sv us xs \<longleftrightarrow> tbl_wf uID us \<and> distinct (map (\<lambda>u. collate sv (uEmail u)) (rows us)) \<and>
     distinct (map (\<lambda>x. collate sv (sTokenHash x)) xs) \<and> (\<forall>x\<in>set xs. sUser x \<in> uID ` set (rows us))"

definition accounts_wf :: "Service \<Rightarrow> cloud_db \<Rightarrow> bool" where
  "accounts_wf sv s \<longleftrightarrow> accounts_ok sv (users s) (sessions s)"

text \<open>Every reference between the tables leads to a row.\<close>

definition refs_wf :: "cloud_db \<Rightarrow> bool" where
  "refs_wf s \<longleftrightarrow>
     (\<forall>w\<in>set (wallets s). wUser w \<in> uID ` set (rows (users s))) \<and>
     (\<forall>o'\<in>set (rows (orders s)). oUser o' \<in> uID ` set (rows (users s))) \<and>
     (\<forall>i\<in>set (rows (items s)). iOrder i \<in> oID ` set (rows (orders s))) \<and>
     (\<forall>p\<in>set (rows (projects s)). pUser p \<in> uID ` set (rows (users s)) \<and> pItem p \<in> iID ` set (rows (items s)))"

definition catalog_wf :: "cloud_db \<Rightarrow> bool" where
  "catalog_wf s \<longleftrightarrow> tbl_wf plID (plans s) \<and> (\<forall>p\<in>set (rows (plans s)). prices_ok (plHourly p) (plMonthly p))"

definition sales_wf :: "cloud_db \<Rightarrow> bool" where
  "sales_wf s \<longleftrightarrow> tbl_wf oID (orders s) \<and> tbl_wf iID (items s) \<and> tbl_wf pID (projects s) \<and>
     (\<forall>i\<in>set (rows (items s)). prices_ok (iHourly i) (iMonthly i) \<and> iPlan i \<in> plID ` set (rows (plans s))) \<and>
     (\<forall>p\<in>set (rows (projects s)). prices_ok (pHourly p) (pMonthly p) \<and> pPlan p \<in> plID ` set (rows (plans s)))"

definition usage_wf :: "cloud_db \<Rightarrow> bool" where
  "usage_wf s \<longleftrightarrow> tbl_wf rID (usage s) \<and> distinct (map (\<lambda>r. (rProject r, rPeriod r)) (rows (usage s))) \<and>
     (\<forall>r\<in>set (rows (usage s)). \<exists>p\<in>set (rows (projects s)). pID p = rProject r \<and> 0 \<le> rAmount r \<and> rAmount r \<le> pHourly p) \<and>
     (\<forall>p\<in>set (rows (projects s)). \<forall>k. month_usage (pID p) k s \<le> pMonthly p)"

definition invoice_ok :: "cloud_db \<Rightarrow> Invoice \<Rightarrow> bool" where
  "invoice_ok s v \<longleftrightarrow> vTotal v = vSubtotal v + vTax v \<and> 0 \<le> vSubtotal v \<and> 0 \<le> vTax v \<and>
     vTotal v = wrap64 (usage_sum (\<lambda>r. rInvoice r = Some (vID v)) s) \<and> vTotal v = wrap64 (line_sum (vID v) s)"

definition invoices_wf :: "cloud_db \<Rightarrow> bool" where
  "invoices_wf s \<longleftrightarrow> tbl_wf vID (invoices s) \<and>
     distinct (map (\<lambda>v. (vUser v, vPeriodStart v, vPeriodEnd v)) (rows (invoices s))) \<and>
     (\<forall>v\<in>set (rows (invoices s)). invoice_ok s v) \<and>
     (\<forall>r\<in>set (rows (usage s)). \<forall>v. rInvoice r = Some v \<longrightarrow> v < nextID (invoices s)) \<and>
     (\<forall>l\<in>set (rows (lines s)). lInvoice l < nextID (invoices s))"

definition commerce_wf :: "Service \<Rightarrow> cloud_db \<Rightarrow> bool" where
  "commerce_wf sv s \<longleftrightarrow> accounts_wf sv s \<and> refs_wf s \<and> ledger_wf sv s \<and> catalog_wf s \<and> sales_wf s \<and> usage_wf s \<and> invoices_wf s"

lemmas commerce_defs = commerce_wf_def accounts_wf_def accounts_ok_def refs_wf_def catalog_wf_def sales_wf_def usage_wf_def invoices_wf_def invoice_ok_def

section \<open>Steps\<close>

definition keeps_project :: "(projectRow \<Rightarrow> projectRow) \<Rightarrow> bool" where
  "keeps_project f \<longleftrightarrow> (\<forall>p. pID (f p) = pID p \<and> pUser (f p) = pUser p \<and> pItem (f p) = pItem p \<and> pPlan (f p) = pPlan p \<and>
     pAppName (f p) = pAppName p \<and> pHourly (f p) = pHourly p \<and> pMonthly (f p) = pMonthly p)"

definition keeps_order :: "(orderRow \<Rightarrow> orderRow) \<Rightarrow> bool" where
  "keeps_order f \<longleftrightarrow> (\<forall>o'. oID (f o') = oID o' \<and> oUser (f o') = oUser o')"

inductive commerce_step :: "Service \<Rightarrow> cloud_db \<Rightarrow> cloud_db \<Rightarrow> bool" for sv :: Service where
  accounts: "accounts_ok sv us xs \<Longrightarrow> uID ` set (rows (users s)) \<subseteq> uID ` set (rows us) \<Longrightarrow> commerce_step sv s (s\<lparr>users := us, sessions := xs\<rparr>)"
| catalog: "tbl_wf plID ps \<Longrightarrow> \<forall>p\<in>set (rows ps). prices_ok (plHourly p) (plMonthly p) \<Longrightarrow>
    plID ` set (rows (plans s)) \<subseteq> plID ` set (rows ps) \<Longrightarrow> commerce_step sv s (s\<lparr>plans := ps, features := fs\<rparr>)"
| support: "commerce_step sv s (s\<lparr>tickets := ks, messages := ms\<rparr>)"
| open_wallet: "row_find wUser uid (wallets s) = None \<Longrightarrow> uid \<in> uID ` set (rows (users s)) \<Longrightarrow>
    commerce_step sv s (s\<lparr>wallets := wallets s @ [\<lparr>wUser = uid, wBalance = 0, wUpdatedAt = now\<rparr>]\<rparr>)"
| apply_entry: "applyTx sv now e s = Inr (t, s') \<Longrightarrow> int64 (leAmount e) \<Longrightarrow> commerce_step sv s s'"
| place: "(\<And>n. oID (mko n) = n) \<Longrightarrow> (\<And>n. iID (mki n) = n) \<Longrightarrow>
    (\<And>n. oUser (mko n) \<in> uID ` set (rows (users s)) \<and> iOrder (mki n) = nextID (orders s)) \<Longrightarrow>
    (\<And>n. prices_ok (iHourly (mki n)) (iMonthly (mki n)) \<and> iPlan (mki n) \<in> plID ` set (rows (plans s))) \<Longrightarrow>
    commerce_step sv s (s\<lparr>orders := insert_row mko (orders s), items := insert_row mki (items s)\<rparr>)"
| review: "keeps_order f \<Longrightarrow> commerce_step sv s (s\<lparr>orders := update_where P f (orders s)\<rparr>)"
| create: "i \<in> set (rows (items s)) \<Longrightarrow> uid \<in> uID ` set (rows (users s)) \<Longrightarrow> insert_project sv (new_project uid i server now) s = Inr (pid, s') \<Longrightarrow>
    commerce_step sv s s'"
| manage: "keeps_project f \<Longrightarrow> commerce_step sv s (s\<lparr>projects := update_where P f (projects s)\<rparr>)"
| bill: "p \<in> set (rows (projects s)) \<Longrightarrow> 0 \<le> amount \<Longrightarrow> amount \<le> pHourly p \<Longrightarrow>
    month_usage (pID p) (month_of hour) s + amount \<le> pMonthly p \<Longrightarrow>
    insert_usage (new_usage (pID p) hour amount tx now) s = Inr (uid, s') \<Longrightarrow> commerce_step sv s s'"
| link: "commerce_step sv s (s\<lparr>usage := update_where P (\<lambda>r. r\<lparr>rTransaction := t\<rparr>) (usage s)\<rparr>)"
| void: "commerce_step sv s (s\<lparr>usage := delete_where (\<lambda>r. rProject r = pid \<and> rInvoice r = None) (usage s)\<rparr>)"
| invoice: "issueInvoiceTx sv now uid from until periodEnd s = Inr (True, s') \<Longrightarrow> commerce_step sv s s'"

section \<open>Every step keeps the invariant\<close>

lemma usage_sum_cong_rows: "usage s' = usage s \<Longrightarrow> usage_sum P s' = usage_sum P s"
  by (simp add: usage_sum_def)

lemma month_usage_cong: "usage s' = usage s \<Longrightarrow> month_usage pid k s' = month_usage pid k s"
  by (simp add: month_usage_def usage_sum_def)

lemma line_sum_cong: "lines s' = lines s \<Longrightarrow> line_sum v s' = line_sum v s"
  by (simp add: line_sum_def)

text \<open>The invariant reads each table in few places: a step that leaves the tables of a part alone
  keeps that part.\<close>

lemma accounts_wf_cong: "users s' = users s \<Longrightarrow> sessions s' = sessions s \<Longrightarrow> accounts_wf sv s' = accounts_wf sv s"
  by (simp add: accounts_wf_def)

lemma refs_wf_cong:
  "users s' = users s \<Longrightarrow> wallets s' = wallets s \<Longrightarrow> orders s' = orders s \<Longrightarrow> items s' = items s \<Longrightarrow> projects s' = projects s \<Longrightarrow>
   refs_wf s' = refs_wf s"
  by (simp add: refs_wf_def)

lemma refs_wf_keys:
  assumes "refs_wf s" and "uID ` set (rows (users s)) \<subseteq> uID ` set (rows (users s'))"
    and "wUser ` set (wallets s') \<subseteq> wUser ` set (wallets s)"
    and "(\<lambda>o'. (oID o', oUser o')) ` set (rows (orders s')) = (\<lambda>o'. (oID o', oUser o')) ` set (rows (orders s))"
    and "items s' = items s"
    and "(\<lambda>p. (pUser p, pItem p)) ` set (rows (projects s')) = (\<lambda>p. (pUser p, pItem p)) ` set (rows (projects s))"
  shows "refs_wf s'"
proof -
  have o1: "oID ` set (rows (orders s')) = oID ` set (rows (orders s))" "oUser ` set (rows (orders s')) = oUser ` set (rows (orders s))"
    using arg_cong [OF assms(4), of "image fst"] arg_cong [OF assms(4), of "image snd"] by (simp_all add: image_image)
  have p1: "pUser ` set (rows (projects s')) = pUser ` set (rows (projects s))" "pItem ` set (rows (projects s')) = pItem ` set (rows (projects s))"
    using arg_cong [OF assms(6), of "image fst"] arg_cong [OF assms(6), of "image snd"] by (simp_all add: image_image)
  have im: "refs_wf x \<longleftrightarrow> wUser ` set (wallets x) \<subseteq> uID ` set (rows (users x)) \<and> oUser ` set (rows (orders x)) \<subseteq> uID ` set (rows (users x)) \<and>
      iOrder ` set (rows (items x)) \<subseteq> oID ` set (rows (orders x)) \<and> pUser ` set (rows (projects x)) \<subseteq> uID ` set (rows (users x)) \<and>
      pItem ` set (rows (projects x)) \<subseteq> iID ` set (rows (items x))" for x
    unfolding refs_wf_def by (simp add: image_subset_iff ball_conj_distrib)
  show ?thesis using assms(1-3) unfolding im o1 p1 assms(5) by (meson order_trans)
qed

lemma ledger_wf_cong: "wallets s' = wallets s \<Longrightarrow> transactions s' = transactions s \<Longrightarrow> ledger_wf sv s' = ledger_wf sv s"
  by (simp add: ledger_wf_def)

lemma catalog_wf_cong: "plans s' = plans s \<Longrightarrow> catalog_wf s' = catalog_wf s"
  by (simp add: catalog_wf_def)

lemma sales_wf_cong:
  "orders s' = orders s \<Longrightarrow> items s' = items s \<Longrightarrow> projects s' = projects s \<Longrightarrow> plans s' = plans s \<Longrightarrow> sales_wf s' = sales_wf s"
  by (simp add: sales_wf_def)

lemma usage_wf_cong: "usage s' = usage s \<Longrightarrow> projects s' = projects s \<Longrightarrow> usage_wf s' = usage_wf s"
  by (simp add: usage_wf_def month_usage_cong [of s' s])

lemma invoices_wf_cong:
  "invoices s' = invoices s \<Longrightarrow> lines s' = lines s \<Longrightarrow> usage s' = usage s \<Longrightarrow> invoices_wf s' = invoices_wf s"
  by (simp add: invoices_wf_def invoice_ok_def usage_sum_cong_rows [of s' s] line_sum_cong [of s' s])

lemmas part_congs = accounts_wf_cong refs_wf_cong ledger_wf_cong catalog_wf_cong sales_wf_cong usage_wf_cong invoices_wf_cong

lemma commerce_wfI:
  assumes "commerce_wf sv s"
    and "users s' = users s \<and> sessions s' = sessions s \<or> accounts_wf sv s'"
    and "users s' = users s \<and> wallets s' = wallets s \<and> orders s' = orders s \<and> items s' = items s \<and> projects s' = projects s \<or> refs_wf s'"
    and "wallets s' = wallets s \<and> transactions s' = transactions s \<or> ledger_wf sv s'"
    and "plans s' = plans s \<or> catalog_wf s'"
    and "orders s' = orders s \<and> items s' = items s \<and> projects s' = projects s \<and> plans s' = plans s \<or> sales_wf s'"
    and "usage s' = usage s \<and> projects s' = projects s \<or> usage_wf s'"
    and "invoices s' = invoices s \<and> lines s' = lines s \<and> usage s' = usage s \<or> invoices_wf s'"
  shows "commerce_wf sv s'"
  using assms part_congs [of s' s] unfolding commerce_wf_def by blast

lemma open_wallet_wf:
  assumes "ledger_wf sv s" and "row_find wUser uid (wallets s) = None"
  shows "ledger_wf sv (s\<lparr>wallets := wallets s @ [\<lparr>wUser = uid, wBalance = 0, wUpdatedAt = now\<rparr>]\<rparr>)"
proof -
  have new: "uid \<notin> wUser ` set (wallets s)" using assms(2) by (simp add: row_find_None)
  with assms(1) have "\<forall>t\<in>set (rows (transactions s)). tUser t \<noteq> uid" unfolding ledger_wf_def by fastforce
  then have "ledger_sum uid (rows (transactions s)) = 0" unfolding ledger_sum_def by (simp add: filter_empty_conv)
  with new assms(1) show ?thesis unfolding ledger_wf_def by auto
qed

lemma catalog_step:
  assumes "sales_wf s" and "plID ` set (rows (plans s)) \<subseteq> plID ` set (rows ps)"
  shows "sales_wf (s\<lparr>plans := ps, features := fs\<rparr>)"
  using assms unfolding sales_wf_def by (simp add: subset_iff)

lemma place_step:
  assumes "sales_wf s" "\<And>n. oID (mko n) = n" "\<And>n. iID (mki n) = n"
    "\<And>n. prices_ok (iHourly (mki n)) (iMonthly (mki n)) \<and> iPlan (mki n) \<in> plID ` set (rows (plans s))"
  shows "sales_wf (s\<lparr>orders := insert_row mko (orders s), items := insert_row mki (items s)\<rparr>)"
  using assms unfolding sales_wf_def by auto

lemma review_step: "sales_wf s \<Longrightarrow> keeps_order f \<Longrightarrow> sales_wf (s\<lparr>orders := update_where P f (orders s)\<rparr>)"
  unfolding sales_wf_def keeps_order_def by simp

lemma update_where_ball:
  "\<forall>r\<in>set (rows t). Q r \<Longrightarrow> (\<And>r. r \<in> set (rows t) \<Longrightarrow> Q r \<Longrightarrow> Q (f r)) \<Longrightarrow> \<forall>r\<in>set (rows (update_where P f t)). Q r"
  by auto

lemma manage_sales: "sales_wf s \<Longrightarrow> keeps_project f \<Longrightarrow> sales_wf (s\<lparr>projects := update_where P f (projects s)\<rparr>)"
  unfolding sales_wf_def keeps_project_def
  by (simp del: rows_update_where(1)) (intro update_where_ball; simp)

lemma manage_usage:
  assumes "usage_wf s" and f: "keeps_project f"
  shows "usage_wf (s\<lparr>projects := update_where P f (projects s)\<rparr>)"
proof -
  let ?s = "s\<lparr>projects := update_where P f (projects s)\<rparr>"
  have rows: "\<exists>q\<in>set (rows (projects ?s)). pID q = pID p \<and> pHourly q = pHourly p" if "p \<in> set (rows (projects s))" for p
    using that f unfolding keeps_project_def by (intro bexI [of _ "if P p then f p else p"]) auto
  have "\<forall>r\<in>set (rows (usage s)). \<exists>p\<in>set (rows (projects ?s)). pID p = rProject r \<and> 0 \<le> rAmount r \<and> rAmount r \<le> pHourly p"
    using assms(1) rows unfolding usage_wf_def by metis
  moreover have "\<forall>p\<in>set (rows (projects ?s)). \<forall>k. month_usage (pID p) k s \<le> pMonthly p"
    using assms unfolding usage_wf_def keeps_project_def by (auto simp: update_where_def)
  ultimately show ?thesis using assms(1) unfolding usage_wf_def month_usage_def usage_sum_def by simp
qed

lemma insert_project_cases:
  assumes "insert_project sv mk s = Inr (pid, s')"
  shows "s' = s\<lparr>projects := insert_row mk (projects s)\<rparr>" and "pid = pID (mk (nextID (projects s)))"
    and "\<forall>q\<in>set (rows (projects s)). collate sv (pAppName q) \<noteq> collate sv (pAppName (mk (nextID (projects s))))"
    and "\<forall>q\<in>set (rows (projects s)). pItem q \<noteq> pItem (mk (nextID (projects s)))"
  using assms by (auto simp: insert_project_def Let_def list_ex_iff split: if_splits)

lemma fresh_usage:
  assumes "sales_wf s" "usage_wf s"
  shows "month_usage (nextID (projects s)) k s = 0"
proof -
  have "\<forall>r\<in>set (rows (usage s)). rProject r \<noteq> nextID (projects s)"
    using assms unfolding usage_wf_def sales_wf_def tbl_wf_def by fastforce
  then show ?thesis
    by (auto simp: month_usage_def usage_sum_def filter_empty_conv intro!: arg_cong [where f = sum_list])
qed

lemma create_step:
  assumes wf: "sales_wf s" "usage_wf s" and i: "i \<in> set (rows (items s))"
  shows "sales_wf (s\<lparr>projects := insert_row (new_project uid i server now) (projects s)\<rparr>)"
    and "usage_wf (s\<lparr>projects := insert_row (new_project uid i server now) (projects s)\<rparr>)"
proof -
  let ?s = "s\<lparr>projects := insert_row (new_project uid i server now) (projects s)\<rparr>"
  show "sales_wf ?s" using wf(1) i unfolding sales_wf_def by (auto simp: new_project_def)
  let ?n = "nextID (projects s)"
  have "month_usage ?n k s = 0" for k using wf by (rule fresh_usage)
  moreover have "0 \<le> iMonthly i" using wf(1) i unfolding sales_wf_def prices_ok_def by fastforce
  ultimately show "usage_wf ?s"
    using wf(2) unfolding usage_wf_def by (auto simp: new_project_def month_usage_cong [of ?s s])
qed

lemma insert_usage_cases:
  assumes "insert_usage mk s = Inr (uid, s')"
  shows "s' = s\<lparr>usage := insert_row mk (usage s)\<rparr>" and "uid = rID (mk (nextID (usage s)))"
    and "\<forall>q\<in>set (rows (usage s)). rProject q = rProject (mk (nextID (usage s))) \<longrightarrow> rPeriod q \<noteq> rPeriod (mk (nextID (usage s)))"
  using assms by (auto simp: insert_usage_def Let_def list_ex_iff split: if_splits)

lemma usage_sum_insert:
  "usage_sum P (s\<lparr>usage := insert_row mk (usage s)\<rparr>) =
    usage_sum P s + (if P (mk (nextID (usage s))) then rAmount (mk (nextID (usage s))) else 0)"
  by (simp add: usage_sum_def)

lemma bill_usage:
  assumes wf: "usage_wf s" "sales_wf s" and p: "p \<in> set (rows (projects s))" and amount: "0 \<le> amount" "amount \<le> pHourly p"
    and cap: "month_usage (pID p) (month_of hour) s + amount \<le> pMonthly p"
    and ins: "insert_usage (new_usage (pID p) hour amount tx now) s = Inr (uid, s')"
  shows "usage_wf s'"
proof -
  note s' = insert_usage_cases [OF ins]
  have same: "q = p" if "q \<in> set (rows (projects s))" "pID q = pID p" for q
    using wf(2) p that unfolding sales_wf_def by (blast intro: tbl_wf_unique)
  have "month_usage pid k s' = month_usage pid k s + (if pid = pID p \<and> k = month_of hour then amount else 0)" for pid k
    unfolding s'(1) month_usage_def usage_sum_insert by (auto simp: new_usage_def)
  then have "\<forall>q\<in>set (rows (projects s)). \<forall>k. month_usage (pID q) k s' \<le> pMonthly q"
    using cap same wf(1) unfolding usage_wf_def by auto
  moreover have "distinct (map (\<lambda>r. (rProject r, rPeriod r)) (rows (usage s')))"
    using wf(1) s'(3) unfolding usage_wf_def s'(1) by (auto simp: new_usage_def)
  ultimately show ?thesis
    using wf(1) p amount unfolding usage_wf_def s'(1) by (auto simp: new_usage_def)
qed

lemma usage_sum_update:
  assumes "\<And>r. P (f r) = P r \<and> rAmount (f r) = rAmount r"
  shows "usage_sum P (s\<lparr>usage := update_where Q f (usage s)\<rparr>) = usage_sum P s"
  unfolding usage_sum_def using assms by (simp add: filter_map comp_def if_distrib [of P] if_distrib [of rAmount] cong: if_cong)

text \<open>Rewriting the columns that neither bill nor date a row.\<close>

lemma usage_wf_update:
  assumes wf: "usage_wf s" and f: "\<And>r. rID (f r) = rID r \<and> rProject (f r) = rProject r \<and> rPeriod (f r) = rPeriod r \<and> rAmount (f r) = rAmount r"
  shows "usage_wf (s\<lparr>usage := update_where P f (usage s)\<rparr>)"
proof -
  let ?s = "s\<lparr>usage := update_where P f (usage s)\<rparr>"
  have sums: "month_usage pid k ?s = month_usage pid k s" for pid k
    unfolding month_usage_def by (rule usage_sum_update) (simp add: f)
  have hours: "map (\<lambda>r. (rProject r, rPeriod r)) (rows (usage ?s)) = map (\<lambda>r. (rProject r, rPeriod r)) (rows (usage s))"
    by (simp add: f)
  have "tbl_wf rID (usage ?s)" using wf by (simp add: usage_wf_def f)
  moreover have "\<forall>r\<in>set (rows (usage ?s)). \<exists>p\<in>set (rows (projects s)). pID p = rProject r \<and> 0 \<le> rAmount r \<and> rAmount r \<le> pHourly p"
    using wf unfolding usage_wf_def by (auto simp: f)
  ultimately show ?thesis
    using wf unfolding usage_wf_def sums hours by simp
qed

lemma link_step:
  defines "f t r \<equiv> r\<lparr>rTransaction := t\<rparr>"
  assumes "invoices_wf s"
  shows "invoices_wf (s\<lparr>usage := update_where P (f t) (usage s)\<rparr>)"
proof -
  let ?s = "s\<lparr>usage := update_where P (f t) (usage s)\<rparr>"
  have sums: "usage_sum (\<lambda>r. rInvoice r = v) ?s = usage_sum (\<lambda>r. rInvoice r = v) s" for v
    by (rule usage_sum_update) (simp add: f_def)
  show ?thesis using assms(2)
    unfolding invoices_wf_def invoice_ok_def sums line_sum_def by (auto simp: f_def)
qed

lemma sum_filter_le:
  assumes "\<forall>r\<in>set xs. 0 \<le> (a r :: int)"
  shows "sum_list (map a (filter P (filter Q xs))) \<le> sum_list (map a (filter P xs))"
  using assms by (induction xs) auto

lemma void_step:
  defines "void pid s \<equiv> s\<lparr>usage := delete_where (\<lambda>r. rProject r = pid \<and> rInvoice r = None) (usage s)\<rparr>"
  shows "usage_wf s \<Longrightarrow> usage_wf (void pid s)" and "invoices_wf s \<Longrightarrow> invoices_wf (void pid s)"
proof -
  assume wf: "usage_wf s"
  then have "month_usage q k (void pid s) \<le> month_usage q k s" for q k
    unfolding month_usage_def usage_sum_def void_def usage_wf_def by (simp del: filter_filter) (rule sum_filter_le, auto)
  with wf have "\<forall>p\<in>set (rows (projects s)). \<forall>k. month_usage (pID p) k (void pid s) \<le> pMonthly p"
    unfolding usage_wf_def by (meson order_trans)
  with wf show "usage_wf (void pid s)"
    unfolding usage_wf_def void_def by (auto intro: distinct_map_filter)
next
  assume "invoices_wf s"
  moreover have "usage_sum (\<lambda>r. rInvoice r = Some v) (void pid s) = usage_sum (\<lambda>r. rInvoice r = Some v) s" for v
    unfolding usage_sum_def void_def by (simp, rule arg_cong [where f = "\<lambda>xs. sum_list (map rAmount xs)"], rule filter_cong) auto
  ultimately show "invoices_wf (void pid s)"
    unfolding invoices_wf_def invoice_ok_def line_sum_def by (auto simp: void_def)
qed

subsection \<open>Issuing an invoice\<close>

lemma line_total_wrap: "line_total ls acc = Some a \<Longrightarrow> int64 acc \<Longrightarrow> a = wrap64 (acc + sum_list (map ilAmount ls))"
proof (induction ls arbitrary: acc)
  case (Cons l ls)
  then have "line_total ls (wrap64 (acc + ilAmount l)) = Some a" by (simp split: if_splits)
  from Cons.IH [OF this wrap64_range] show ?case by (simp add: add.assoc)
qed simp

lemma sum_by_group:
  fixes f :: "'a \<Rightarrow> int"
  shows "distinct ps \<Longrightarrow>
    (\<Sum>p\<leftarrow>ps. sum_list (map f (filter (\<lambda>r. g r = p) rs))) = sum_list (map f (filter (\<lambda>r. g r \<in> set ps) rs))"
proof (induction ps)
  case (Cons p ps)
  have "sum_list (map f (filter (\<lambda>r. g r = p) rs)) + sum_list (map f (filter (\<lambda>r. g r \<in> set ps) rs)) =
      sum_list (map f (filter (\<lambda>r. g r \<in> set (p # ps)) rs))"
    using Cons.prems by (induction rs) auto
  with Cons show ?case by simp
qed simp

lemma map_filter_all: "\<forall>x\<in>set xs. f x = Some (g x) \<Longrightarrow> List.map_filter f xs = map g xs"
  by (induction xs) (auto simp: List.map_filter_def)

text \<open>The lines of an invoice add up to the usage it claims: every claimed row belongs to a
  project with a plan.\<close>

lemma invoice_lines_sum:
  assumes "sales_wf s" and rs: "rs = claimed uid from until s"
  shows "sum_list (map ilAmount (invoice_lines from s rs)) = sum_list (map rAmount rs)"
proof -
  have line: "\<exists>l. line_of from s rs pid = Some l \<and> ilAmount l = sum_list (map rAmount (filter (\<lambda>r. rProject r = pid) rs))"
    if "pid \<in> rProject ` set rs" for pid
  proof -
    from that rs obtain p where p: "row_by pID pid (projects s) = Some p"
      by (auto simp: claimed_def claims_def split: option.splits)
    then have "pPlan p \<in> plID ` set (rows (plans s))"
      using row_by_SomeD [OF p] assms(1) unfolding sales_wf_def by blast
    then obtain pl where "row_by plID (pPlan p) (plans s) = Some pl"
      using row_by_None [of plID "pPlan p" "plans s"] by (cases "row_by plID (pPlan p) (plans s)") auto
    with p show ?thesis by (simp add: line_of_def)
  qed
  let ?ps = "sort (remdups (map rProject rs))"
  have "\<forall>pid\<in>set ?ps. line_of from s rs pid = Some (the (line_of from s rs pid))" using line by fastforce
  then have "map ilAmount (invoice_lines from s rs) = map (\<lambda>pid. ilAmount (the (line_of from s rs pid))) ?ps"
    unfolding invoice_lines_def by (subst map_filter_all) auto
  also have "\<dots> = map (\<lambda>pid. sum_list (map rAmount (filter (\<lambda>r. rProject r = pid) rs))) ?ps"
    using line by (intro map_cong) fastforce+
  finally show ?thesis
    using sum_by_group [of ?ps rAmount rProject rs] by simp
qed

definition issued_db :: "Service \<Rightarrow> time \<Rightarrow> nat \<Rightarrow> time \<Rightarrow> time \<Rightarrow> time \<Rightarrow> int \<Rightarrow> cloud_db \<Rightarrow> cloud_db" where
  "issued_db sv now uid from until periodEnd amount s =
     (let vid = nextID (invoices s); rs = claimed uid from until s;
          final = invoice_row sv now uid from periodEnd amount (''INV-'' @ Format_200601 from @ ''-'' @ pad 6 vid) in
      (insert_lines vid (invoice_lines from s rs) s)\<lparr>invoices := insert_row final (invoices s),
        usage := update_where (\<lambda>r. List.member (map rID rs) (rID r)) (\<lambda>r. r\<lparr>rInvoice := Some vid\<rparr>) (usage s)\<rparr>)"

lemma issueInvoiceTx_cases:
  assumes "issueInvoiceTx sv now uid from until periodEnd s = Inr (True, s')" and "tbl_wf vID (invoices s)"
  obtains amount where "line_total (invoice_lines from s (claimed uid from until s)) 0 = Some amount"
    and "s' = issued_db sv now uid from until periodEnd amount s" and "claimed uid from until s \<noteq> []"
    and "\<forall>v\<in>set (rows (invoices s)). \<not> (vUser v = uid \<and> vPeriodStart v = from \<and> vPeriodEnd v = periodEnd)"
    and "amount = wrap64 (amount - contained_tax sv amount) + contained_tax sv amount"
    and "0 \<le> wrap64 (amount - contained_tax sv amount)" and "0 \<le> contained_tax sv amount"
proof -
  let ?rs = "claimed uid from until s" and ?vid = "nextID (invoices s)"
  let ?pending = "\<lambda>a. invoice_row sv now uid from periodEnd a (''PENDING-'' @ show_nat uid @ ''-'' @ Format_200601 from)"
  from assms(1) obtain amount s1 where a: "line_total (invoice_lines from s ?rs) 0 = Some amount" "?rs \<noteq> []"
    "\<forall>v\<in>set (rows (invoices s)). \<not> (vUser v = uid \<and> vPeriodStart v = from \<and> vPeriodEnd v = periodEnd)"
    and ins: "insert_invoice sv (?pending amount) s = Inr (?vid, s1)"
    and s': "s' = (insert_lines ?vid (invoice_lines from s ?rs) (s1\<lparr>invoices := update_where (\<lambda>v. vID v = ?vid)
        (\<lambda>v. v\<lparr>vNumber := ''INV-'' @ Format_200601 from @ ''-'' @ pad 6 ?vid\<rparr>) (invoices s1)\<rparr>))
      \<lparr>usage := update_where (\<lambda>r. List.member (map rID ?rs) (rID r)) (\<lambda>r. r\<lparr>rInvoice := Some ?vid\<rparr>) (usage s1)\<rparr>"
    unfolding issueInvoiceTx_def
    by (auto simp: Let_def list_ex_iff insert_lines_def insert_invoice_def invoice_row_def split: if_splits option.splits sum.splits)
  from ins have s1: "s1 = s\<lparr>invoices := insert_row (?pending amount) (invoices s)\<rparr>"
    and checks: "amount = wrap64 (amount - contained_tax sv amount) + contained_tax sv amount"
      "0 \<le> wrap64 (amount - contained_tax sv amount)" "0 \<le> contained_tax sv amount"
    by (auto simp: insert_invoice_def Let_def invoice_row_def split: if_splits)
  have "\<forall>v\<in>set (rows (invoices s)). vID v \<noteq> ?vid" using assms(2) by (auto simp: tbl_wf_def)
  then have "map (\<lambda>v. if vID v = ?vid then g v else v) (rows (invoices s)) = rows (invoices s)" for g
    by (simp add: map_idI)
  then have "s' = issued_db sv now uid from until periodEnd amount s"
    unfolding s' s1 issued_db_def by (simp add: insert_lines_def insert_row_def update_where_def invoice_row_def Let_def)
  with that a checks show thesis by blast
qed

lemma issued_simps [simp]:
  "invoices (issued_db sv now uid from until periodEnd amount s) = insert_row (invoice_row sv now uid from periodEnd amount
     (''INV-'' @ Format_200601 from @ ''-'' @ pad 6 (nextID (invoices s)))) (invoices s)"
  "usage (issued_db sv now uid from until periodEnd amount s) =
     update_where (\<lambda>r. List.member (map rID (claimed uid from until s)) (rID r)) (\<lambda>r. r\<lparr>rInvoice := Some (nextID (invoices s))\<rparr>) (usage s)"
  "lines (issued_db sv now uid from until periodEnd amount s) =
     lines (insert_lines (nextID (invoices s)) (invoice_lines from s (claimed uid from until s)) s)"
  "users (issued_db sv now uid from until periodEnd amount s) = users s"
  "sessions (issued_db sv now uid from until periodEnd amount s) = sessions s"
  "wallets (issued_db sv now uid from until periodEnd amount s) = wallets s"
  "transactions (issued_db sv now uid from until periodEnd amount s) = transactions s"
  "plans (issued_db sv now uid from until periodEnd amount s) = plans s"
  "orders (issued_db sv now uid from until periodEnd amount s) = orders s"
  "items (issued_db sv now uid from until periodEnd amount s) = items s"
  "projects (issued_db sv now uid from until periodEnd amount s) = projects s"
  by (simp_all add: issued_db_def insert_lines_def Let_def)

lemma line_sum_insert:
  "line_sum v (insert_lines vid ls s) = line_sum v s + (if v = vid then sum_list (map ilAmount ls) else 0)"
  "\<forall>l\<in>set (rows (lines s)). lInvoice l < n \<Longrightarrow> vid < n \<Longrightarrow> \<forall>l\<in>set (rows (lines (insert_lines vid ls s))). lInvoice l < n"
proof -
  let ?mk = "\<lambda>l i. \<lparr>lID = i, lInvoice = vid, lProject = ilProject l, lDescription = ilDescription l,
    lQuantityHours = ilHours l, lAmount = ilAmount l\<rparr>"
  have "sum_list (map lAmount (filter (\<lambda>l. lInvoice l = v) (rows (fold (\<lambda>l. insert_row (?mk l)) ls t)))) =
      sum_list (map lAmount (filter (\<lambda>l. lInvoice l = v) (rows t))) + (if v = vid then sum_list (map ilAmount ls) else 0)" for t
    by (induction ls arbitrary: t) auto
  then show "line_sum v (insert_lines vid ls s) = line_sum v s + (if v = vid then sum_list (map ilAmount ls) else 0)"
    by (simp add: line_sum_def insert_lines_def)
  have "lInvoice ` set (rows (fold (\<lambda>l. insert_row (?mk l)) ls t)) \<subseteq> insert vid (lInvoice ` set (rows t))" for t
  proof (induction ls arbitrary: t)
    case (Cons l ls)
    from Cons [of "insert_row (?mk l) t"] show ?case by simp
  qed auto
  then have sub: "lInvoice ` set (rows (lines (insert_lines vid ls s))) \<subseteq> insert vid (lInvoice ` set (rows (lines s)))"
    by (simp add: insert_lines_def)
  show "\<forall>l\<in>set (rows (lines (insert_lines vid ls s))). lInvoice l < n"
    if "\<forall>l\<in>set (rows (lines s)). lInvoice l < n" "vid < n"
  proof
    fix l assume "l \<in> set (rows (lines (insert_lines vid ls s)))"
    then have "lInvoice l \<in> insert vid (lInvoice ` set (rows (lines s)))" using sub by (meson imageI subsetD)
    with that show "lInvoice l < n" by auto
  qed
qed

text \<open>Exactly the claimed rows end up on the new invoice; rows on earlier invoices stay there.\<close>

lemma claimed_member:
  assumes "tbl_wf rID (usage s)" and "r \<in> set (rows (usage s))"
  shows "rID r \<in> rID ` set (claimed uid from until s) \<longleftrightarrow> claims uid from until s r"
proof
  assume "rID r \<in> rID ` set (claimed uid from until s)"
  then obtain q where "q \<in> set (rows (usage s))" "claims uid from until s q" "rID r = rID q"
    by (auto simp: claimed_def)
  with tbl_wf_unique [OF assms(1,2)] show "claims uid from until s r" by blast
qed (use assms(2) in \<open>auto simp: claimed_def\<close>)

lemma issued_sums:
  assumes wf: "invoices_wf s" "tbl_wf rID (usage s)"
  shows "v \<noteq> nextID (invoices s) \<Longrightarrow>
      usage_sum (\<lambda>r. rInvoice r = Some v) (issued_db sv now uid from until periodEnd amount s) = usage_sum (\<lambda>r. rInvoice r = Some v) s"
    and "usage_sum (\<lambda>r. rInvoice r = Some (nextID (invoices s))) (issued_db sv now uid from until periodEnd amount s) =
      sum_list (map rAmount (claimed uid from until s))"
proof -
  let ?n = "nextID (invoices s)" and ?f = "\<lambda>r. r\<lparr>rInvoice := Some (nextID (invoices s))\<rparr>"
  have rows: "rows (usage (issued_db sv now uid from until periodEnd amount s)) =
      map (\<lambda>r. if claims uid from until s r then ?f r else r) (rows (usage s))"
    using claimed_member [OF wf(2)] by (auto simp: List.member_iff)
  have bound: "\<forall>r\<in>set (rows (usage s)). rInvoice r \<noteq> Some ?n"
    using wf(1) unfolding invoices_wf_def by fastforce
  have sum: "sum_list (map rAmount (filter P (map (\<lambda>r. if C r then ?f r else r) xs))) =
      sum_list (map rAmount (filter (\<lambda>r. P (if C r then ?f r else r)) xs))" for P C xs
    by (induction xs) auto
  show "usage_sum (\<lambda>r. rInvoice r = Some v) (issued_db sv now uid from until periodEnd amount s) = usage_sum (\<lambda>r. rInvoice r = Some v) s"
    if "v \<noteq> ?n"
    unfolding usage_sum_def rows sum
    by (rule arg_cong [where f = "\<lambda>xs. sum_list (map rAmount xs)"], rule filter_cong) (use that in \<open>auto simp: claims_def\<close>)
  show "usage_sum (\<lambda>r. rInvoice r = Some ?n) (issued_db sv now uid from until periodEnd amount s) =
      sum_list (map rAmount (claimed uid from until s))"
    unfolding usage_sum_def rows sum claimed_def
    by (rule arg_cong [where f = "\<lambda>xs. sum_list (map rAmount xs)"], rule filter_cong) (use bound in auto)
qed

lemma issue_step:
  assumes wf: "sales_wf s" "usage_wf s" "invoices_wf s"
    and tx: "issueInvoiceTx sv now uid from until periodEnd s = Inr (True, s')"
  shows "usage_wf s'" and "invoices_wf s'"
proof -
  have tw: "tbl_wf vID (invoices s)" "tbl_wf rID (usage s)" using wf by (simp_all add: invoices_wf_def usage_wf_def)
  obtain amount where a: "line_total (invoice_lines from s (claimed uid from until s)) 0 = Some amount"
    and s': "s' = issued_db sv now uid from until periodEnd amount s"
    and new: "\<forall>v\<in>set (rows (invoices s)). \<not> (vUser v = uid \<and> vPeriodStart v = from \<and> vPeriodEnd v = periodEnd)"
    and checks: "amount = wrap64 (amount - contained_tax sv amount) + contained_tax sv amount"
      "0 \<le> wrap64 (amount - contained_tax sv amount)" "0 \<le> contained_tax sv amount"
    using tx tw(1) by (rule issueInvoiceTx_cases)
  have "usage_wf (s\<lparr>usage := usage s'\<rparr>)" unfolding s' issued_simps by (rule usage_wf_update [OF wf(2)]) simp
  then show "usage_wf s'" using usage_wf_cong [of s' "s\<lparr>usage := usage s'\<rparr>"] by (simp add: s')
  let ?n = "nextID (invoices s)"
  have amount: "amount = wrap64 (sum_list (map rAmount (claimed uid from until s)))"
    using line_total_wrap [OF a] invoice_lines_sum [OF wf(1) refl] by simp
  have no_lines: "line_sum ?n s = 0"
    using wf(3) unfolding invoices_wf_def line_sum_def by (subst filter_False) auto
  have lines: "line_sum v s' = line_sum v s + (if v = ?n then sum_list (map rAmount (claimed uid from until s)) else 0)" for v
    using line_sum_insert(1) [of v ?n "invoice_lines from s (claimed uid from until s)" s]
      invoice_lines_sum [OF wf(1) refl, of "from" uid until]
    by (simp add: s' line_sum_cong [of "issued_db sv now uid from until periodEnd amount s" "insert_lines ?n _ s"])
  have "invoice_ok s' v" if "v \<in> set (rows (invoices s))" for v
  proof -
    have old: "vID v \<noteq> ?n" using tw(1) that by (auto simp: tbl_wf_def)
    have "usage_sum (\<lambda>r. rInvoice r = Some (vID v)) s' = usage_sum (\<lambda>r. rInvoice r = Some (vID v)) s"
      unfolding s' by (rule issued_sums(1) [OF wf(3) tw(2) old])
    moreover have "line_sum (vID v) s' = line_sum (vID v) s" using old lines by simp
    moreover have "invoice_ok s v" using wf(3) that by (simp add: invoices_wf_def)
    ultimately show ?thesis unfolding invoice_ok_def by metis
  qed
  moreover have "invoice_ok s' (invoice_row sv now uid from periodEnd amount number ?n)" for number
    using checks amount unfolding invoice_ok_def lines
    by (simp add: s' invoice_row_def issued_sums(2) [OF wf(3) tw(2)] no_lines)
  moreover have "\<forall>r\<in>set (rows (usage s')). \<forall>v. rInvoice r = Some v \<longrightarrow> v < nextID (invoices s')"
    using wf(3) unfolding invoices_wf_def by (auto simp: s' less_Suc_eq)
  moreover have "\<forall>l\<in>set (rows (lines s')). lInvoice l < nextID (invoices s')"
    using wf(3) unfolding invoices_wf_def s' issued_simps by (intro line_sum_insert(2)) (auto simp: less_Suc_eq)
  moreover have "tbl_wf vID (invoices s')" using tw(1) by (simp add: s' invoice_row_def)
  moreover have "distinct (map (\<lambda>v. (vUser v, vPeriodStart v, vPeriodEnd v)) (rows (invoices s')))"
    using wf(3) new unfolding invoices_wf_def by (auto simp: s' invoice_row_def)
  ultimately show "invoices_wf s'" unfolding invoices_wf_def by (auto simp: s')
qed

lemma bill_invoices:
  assumes "invoices_wf s" and ins: "insert_usage (new_usage pid hour amount tx now) s = Inr (uid, s')"
  shows "invoices_wf s'"
  using assms(1) unfolding insert_usage_cases(1) [OF ins] invoices_wf_def invoice_ok_def usage_sum_insert line_sum_def
  by (auto simp: new_usage_def)

section \<open>The invariant is kept\<close>

lemma image_update_where:
  assumes "\<And>r. g (f r) = g r"
  shows "g ` set (rows (update_where P f t)) = g ` set (rows t)"
proof -
  have "map g (rows (update_where P f t)) = map g (rows t)" by (simp add: assms)
  then show ?thesis by (metis set_map)
qed

lemma refs_steps:
  assumes "refs_wf s"
  shows "uID ` set (rows (users s)) \<subseteq> uID ` set (rows us) \<Longrightarrow> refs_wf (s\<lparr>users := us, sessions := xs\<rparr>)"
    and "uid \<in> uID ` set (rows (users s)) \<Longrightarrow> refs_wf (s\<lparr>wallets := wallets s @ [\<lparr>wUser = uid, wBalance = 0, wUpdatedAt = now\<rparr>]\<rparr>)"
    and "keeps_order f \<Longrightarrow> refs_wf (s\<lparr>orders := update_where P f (orders s)\<rparr>)"
    and "keeps_project g \<Longrightarrow> refs_wf (s\<lparr>projects := update_where Q g (projects s)\<rparr>)"
    and "i \<in> set (rows (items s)) \<Longrightarrow> uid \<in> uID ` set (rows (users s)) \<Longrightarrow>
      refs_wf (s\<lparr>projects := insert_row (new_project uid i server now) (projects s)\<rparr>)"
    and "applyTx sv now e s = Inr (t, s') \<Longrightarrow> refs_wf s'"
proof -
  note keys = refs_wf_keys [OF assms]
  show "refs_wf (s\<lparr>users := us, sessions := xs\<rparr>)" if "uID ` set (rows (users s)) \<subseteq> uID ` set (rows us)"
    by (rule keys) (use that in simp_all)
  show "refs_wf (s\<lparr>wallets := wallets s @ [\<lparr>wUser = uid, wBalance = 0, wUpdatedAt = now\<rparr>]\<rparr>)"
    if "uid \<in> uID ` set (rows (users s))" using assms that by (auto simp: refs_wf_def)
  show "refs_wf (s\<lparr>orders := update_where P f (orders s)\<rparr>)" if f: "keeps_order f"
    by (rule keys) (use f in \<open>simp_all add: image_update_where keeps_order_def del: rows_update_where\<close>)
  show "refs_wf (s\<lparr>projects := update_where Q g (projects s)\<rparr>)" if g: "keeps_project g"
    by (rule keys) (use g in \<open>simp_all add: image_update_where keeps_project_def del: rows_update_where\<close>)
  show "refs_wf (s\<lparr>projects := insert_row (new_project uid i server now) (projects s)\<rparr>)"
    if "i \<in> set (rows (items s))" "uid \<in> uID ` set (rows (users s))" using assms that by (auto simp: refs_wf_def new_project_def)
  show "refs_wf s'" if "applyTx sv now e s = Inr (t, s')"
    using that
  proof (rule applyTx_cases)
    fix w assume s': "s' = applied now e (wrap64 (wBalance w + leAmount e)) s"
    show ?thesis
      by (rule keys) (simp_all add: s' applied_def row_update_keys flip: set_map)
  qed (use assms in simp)
qed

lemma refs_place:
  assumes "refs_wf s" "\<And>n. oID (mko n) = n" "\<And>n. oUser (mko n) \<in> uID ` set (rows (users s)) \<and> iOrder (mki n) = nextID (orders s)"
    "\<And>n. iID (mki n) = n"
  shows "refs_wf (s\<lparr>orders := insert_row mko (orders s), items := insert_row mki (items s)\<rparr>)"
  using assms unfolding refs_wf_def by auto

lemma insert_project_wf:
  assumes "commerce_wf sv s" "i \<in> set (rows (items s))" "uid \<in> uID ` set (rows (users s))"
    and ins: "insert_project sv (new_project uid i server now) s = Inr (pid, s')"
  shows "commerce_wf sv s'"
  using assms(1) unfolding insert_project_cases(1) [OF ins]
  by (rule commerce_wfI) (use assms create_step [of s i] refs_steps(5) [of s i] in \<open>simp_all add: commerce_wf_def\<close>)

lemma applyTx_outside:
  assumes "applyTx sv now e s = Inr (t, s')"
  shows "users s' = users s" "plans s' = plans s" "orders s' = orders s" "items s' = items s" "projects s' = projects s"
    "usage s' = usage s" "invoices s' = invoices s" "lines s' = lines s" "sessions s' = sessions s"
  by (rule applyTx_cases [OF assms]; simp add: applied_def)+

theorem commerce_step_wf: "commerce_step sv s s' \<Longrightarrow> commerce_wf sv s \<Longrightarrow> commerce_wf sv s'"
proof (induction rule: commerce_step.induct)
  case (accounts us xs s)
  show ?case
    by (rule commerce_wfI [OF accounts(3)]) (use accounts refs_steps(1) [of s us] in \<open>simp_all add: commerce_wf_def accounts_wf_def\<close>)
next
  case (catalog ps s fs)
  show ?case
    by (rule commerce_wfI [OF catalog(4)]) (use catalog catalog_step [of s ps] in \<open>simp_all add: commerce_wf_def catalog_wf_def\<close>)
next
  case (support s ks ms)
  then show ?case by (rule commerce_wfI) simp_all
next
  case (open_wallet uid s now)
  show ?case
    by (rule commerce_wfI [OF open_wallet(3)])
      (use open_wallet open_wallet_wf refs_steps(2) [of s uid] in \<open>simp_all add: commerce_wf_def\<close>)
next
  case (apply_entry now e s t s')
  have "ledger_wf sv s" using apply_entry(3) by (simp add: commerce_wf_def)
  then have "ledger_wf sv s'" using apply_entry(2,1) by (rule applyTx_wf)
  moreover have "refs_wf s'" by (rule refs_steps(6) [OF _ apply_entry(1)]) (use apply_entry(3) in \<open>simp add: commerce_wf_def\<close>)
  ultimately show ?case using apply_entry(3) by (elim commerce_wfI) (simp_all add: applyTx_outside [OF apply_entry(1)])
next
  case (place mko mki s)
  have "sales_wf s" "refs_wf s" using place(5) by (simp_all add: commerce_wf_def)
  then have "sales_wf (s\<lparr>orders := insert_row mko (orders s), items := insert_row mki (items s)\<rparr>)"
    and "refs_wf (s\<lparr>orders := insert_row mko (orders s), items := insert_row mki (items s)\<rparr>)"
    using place(1,2,4) place_step [of s mko mki] refs_place [of s mko mki, OF _ place(1,3,2)] by blast+
  with place(5) show ?case by (elim commerce_wfI) simp_all
next
  case (review f s P)
  show ?case
    by (rule commerce_wfI [OF review(2)]) (use review in \<open>simp_all add: commerce_wf_def review_step refs_steps(3)\<close>)
next
  case (create i s uid server now pid s')
  then show ?case using insert_project_wf by blast
next
  case (manage f s P)
  show ?case
    by (rule commerce_wfI [OF manage(2)]) (use manage in \<open>simp_all add: commerce_wf_def manage_sales manage_usage refs_steps(4)\<close>)
next
  case (bill p s amount hour tx now uid s')
  have "usage_wf s'" "invoices_wf s'"
    using bill bill_usage [of s p] bill_invoices [OF _ bill(5)] by (simp_all add: commerce_wf_def)
  with bill(6) show ?case by (elim commerce_wfI) (simp_all add: insert_usage_cases(1) [OF bill(5)])
next
  case (link s P t)
  have u: "usage_wf (s\<lparr>usage := update_where P (\<lambda>r. r\<lparr>rTransaction := t\<rparr>) (usage s)\<rparr>)"
    by (rule usage_wf_update) (use link in \<open>simp_all add: commerce_wf_def\<close>)
  show ?case
    by (rule commerce_wfI [OF link]) (use u link link_step [of s P t] in \<open>simp_all add: commerce_wf_def\<close>)
next
  case (void s pid)
  show ?case
    by (rule commerce_wfI [OF void]) (use void void_step [of s pid] in \<open>simp_all add: commerce_wf_def\<close>)
next
  case (invoice now uid "from" until periodEnd s s')
  have parts: "sales_wf s" "usage_wf s" "invoices_wf s" "tbl_wf vID (invoices s)"
    using invoice(2) by (simp_all add: commerce_wf_def invoices_wf_def)
  obtain amount where s': "s' = issued_db sv now uid from until periodEnd amount s"
    using invoice(1) parts(4) by (rule issueInvoiceTx_cases)
  from invoice(2) issue_step [OF parts(1-3) invoice(1)] show ?case
    by (elim commerce_wfI) (simp_all add: s')
qed

lemma commerce_steps_wf: "(commerce_step sv)\<^sup>*\<^sup>* s s' \<Longrightarrow> commerce_wf sv s \<Longrightarrow> commerce_wf sv s'"
  by (induction rule: rtranclp_induct) (auto intro: commerce_step_wf)

end
