(* ===== verification/Cloud_Refinement.thy ===== *)
theory Cloud_Refinement
  imports Cloud_Invariant Queue_Wf
begin

text \<open>
  Every operation of the commerce service, whatever faults it meets, is a sequence of the abstract
  steps of \<open>Cloud_Invariant\<close>; so every reachable database is well formed. The whole controller, commerce
  tables and command ledger together, follows in \<open>Cloud_System\<close>.
\<close>

abbreviation commerce_steps :: "Service \<Rightarrow> cloud_db \<Rightarrow> cloud_db \<Rightarrow> bool" where
  "commerce_steps sv \<equiv> (commerce_step sv)\<^sup>*\<^sup>*"

lemma two_steps: "commerce_step sv a b \<Longrightarrow> commerce_step sv b c \<Longrightarrow> commerce_steps sv a c"
  by (meson converse_rtranclp_into_rtranclp r_into_rtranclp)

lemma WithTx_commerce:
  "(\<And>a s'. fn s = Inr (a, s') \<Longrightarrow> commerce_steps sv s s') \<Longrightarrow> commerce_steps sv s (snd (WithTx evs fn s))"
  by (rule WithTx_cases [of evs fn s]) auto

lemma runTx_commerce:
  "(\<And>a s'. fn s = Inr (a, s') \<Longrightarrow> commerce_steps sv s s') \<Longrightarrow> commerce_steps sv s (snd (runTx ev fn s))"
  by (auto simp: runTx_def split: tx_event.splits sum.splits)

section \<open>Accounts, catalogue and support\<close>

lemma accounts_step:
  "s' = s\<lparr>users := users s', sessions := sessions s'\<rparr> \<Longrightarrow> accounts_wf sv s' \<Longrightarrow>
   uID ` set (rows (users s)) \<subseteq> uID ` set (rows (users s')) \<Longrightarrow> commerce_step sv s s'"
  using commerce_step.accounts [where s = s and us = "users s'" and xs = "sessions s'" and sv = sv] by (simp add: accounts_wf_def)

lemma support_step: "s' = s\<lparr>tickets := tickets s', messages := messages s'\<rparr> \<Longrightarrow> commerce_step sv s s'"
  using commerce_step.support [where s = s and ks = "tickets s'" and ms = "messages s'" and sv = sv] by simp

lemma insert_user_step:
  assumes wf: "accounts_wf sv s" and mk: "\<And>n. uID (mk n) = n" and run: "insert_user sv mk s = Inr (uid, s')"
  shows "commerce_step sv s s'" and "uid \<in> uID ` set (rows (users s'))" and "wallets s' = wallets s"
proof -
  from run have s': "s' = s\<lparr>users := insert_row mk (users s)\<rparr>" and uid: "uid = nextID (users s)"
    and new: "\<forall>u\<in>set (rows (users s)). collate sv (uEmail u) \<noteq> collate sv (uEmail (mk (nextID (users s))))"
    by (auto simp: insert_user_def Let_def list_ex_iff same_email_def mk split: if_splits)
  have "accounts_wf sv s'" using wf new unfolding accounts_wf_def accounts_ok_def s' by (auto simp: mk)
  then show "commerce_step sv s s'" by (intro accounts_step) (auto simp: s')
  show "uid \<in> uID ` set (rows (users s'))" "wallets s' = wallets s" by (simp_all add: s' uid mk)
qed

lemma uID_new_user [simp]: "uID (new_user email fullName hash r now n) = n" by (simp add: new_user_def)

lemma registerTx_steps:
  assumes wf: "accounts_wf sv s" and run: "registerTx sv now email fullName hash s = Inr (u, s')"
  shows "commerce_steps sv s s'"
proof -
  from run obtain uid s1 where u: "insert_user sv (new_user email fullName hash RoleCustomer now) s = Inr (uid, s1)"
    and w: "row_find wUser uid (wallets s1) = None"
    and s': "s' = s1\<lparr>wallets := wallets s1 @ [\<lparr>wUser = uid, wBalance = 0, wUpdatedAt = now\<rparr>]\<rparr>"
    by (auto simp: registerTx_def insert_wallet_def split: sum.splits if_splits)
  note i = insert_user_step [OF wf uID_new_user u]
  have "commerce_step sv s1 s'" unfolding s' using w i(2) by (rule commerce_step.open_wallet)
  with i(1) show ?thesis by (rule two_steps)
qed

lemma Register_steps:
  assumes "accounts_wf sv s"
  shows "commerce_steps sv s (snd (Register sv parse evs now hashed email fullName password s))"
proof -
  have "commerce_steps sv s (snd (WithTx evs (registerTx sv now email' name hash) s))" for email' name hash
    using registerTx_steps [OF assms] by (rule WithTx_commerce)
  then show ?thesis by (auto simp: Register_def Let_def split: sum.splits option.splits)
qed

text \<open>Updates that leave the keys of the accounts alone.\<close>

lemma accounts_wf_update:
  assumes "accounts_wf sv s" and "\<And>u. uID (f u) = uID u \<and> uEmail (f u) = uEmail u"
    and "map sTokenHash xs = map sTokenHash (sessions s)" "map sUser xs = map sUser (sessions s)"
  shows "accounts_wf sv (s\<lparr>users := update_where P f (users s), sessions := xs\<rparr>)"
proof -
  have "map (\<lambda>u. collate sv (uEmail u)) (rows (update_where P f (users s))) = map (\<lambda>u. collate sv (uEmail u)) (rows (users s))"
    by (simp add: assms(2))
  moreover have "map (\<lambda>x. collate sv (sTokenHash x)) xs = map (\<lambda>x. collate sv (sTokenHash x)) (sessions s)"
    using arg_cong [OF assms(3), of "map (collate sv)"] by (simp add: comp_def)
  moreover have "uID ` set (rows (update_where P f (users s))) = uID ` set (rows (users s))"
    by (rule image_update_where) (simp add: assms(2))
  moreover have "sUser ` set xs = sUser ` set (sessions s)" using assms(4) by (metis set_map)
  moreover have "tbl_wf uID (update_where P f (users s))" using assms(1,2) by (simp add: accounts_wf_def accounts_ok_def)
  ultimately show ?thesis
    using assms(1) unfolding accounts_wf_def accounts_ok_def by (simp add: image_subset_iff [symmetric] del: rows_update_where)
qed

lemma update_accounts_step:
  assumes "accounts_wf sv s" and "\<And>u. uID (f u) = uID u \<and> uEmail (f u) = uEmail u"
    and "map sTokenHash xs = map sTokenHash (sessions s)" "map sUser xs = map sUser (sessions s)"
  shows "commerce_step sv s (s\<lparr>users := update_where P f (users s), sessions := xs\<rparr>)"
  using accounts_wf_update [OF assms] assms(2)
  by (intro accounts_step) (simp_all add: image_update_where del: rows_update_where)

lemma revoke_step:
  assumes "accounts_wf sv s"
  shows "commerce_step sv s (revoke P now s)"
proof -
  have "users (revoke P now s) = users s" "map sTokenHash (sessions (revoke P now s)) = map sTokenHash (sessions s)"
    "map sUser (sessions (revoke P now s)) = map sUser (sessions s)" by (simp_all add: revoke_def)
  with update_accounts_step [OF assms, of "\<lambda>u. u" "sessions (revoke P now s)" "\<lambda>_. False"] show ?thesis
    by (simp add: revoke_def update_where_def)
qed

lemma loginTx_steps:
  assumes wf: "accounts_wf sv s" and run: "loginTx sv x s = Inr (u, s')"
  shows "commerce_steps sv s s'"
proof -
  define s1 where "s1 = s\<lparr>sessions := sessions s @ [x]\<rparr>"
  from run have new: "\<forall>y\<in>set (sessions s). collate sv (sTokenHash y) \<noteq> collate sv (sTokenHash x)"
    and user: "sUser x \<in> uID ` set (rows (users s))"
    by (auto simp: loginTx_def list_ex_iff same_token_def user_exists_def row_by_None split: if_splits)
  have w1: "accounts_wf sv s1" using wf new user by (auto simp: accounts_wf_def accounts_ok_def s1_def)
  then have 1: "commerce_step sv s s1" by (intro accounts_step) (simp_all add: s1_def)
  have s': "s' = s1\<lparr>users := update_where (\<lambda>u. uID u = sUser x) (\<lambda>u. u\<lparr>uLastLoginAt := Some (sCreatedAt x)\<rparr>) (users s1),
      sessions := sessions s1\<rparr>"
    using run by (auto simp: loginTx_def s1_def split: if_splits)
  have "commerce_step sv s1 s'" unfolding s' by (rule update_accounts_step [OF w1]) simp_all
  with 1 show ?thesis by (rule two_steps)
qed

lemma Login_steps:
  assumes "accounts_wf sv s"
  shows "commerce_steps sv s (snd (Login sv verify sha256 ev evs now d1 d2 email password s))"
proof -
  have "commerce_steps sv s (snd (WithTx evs (loginTx sv x) s))" for x
    using loginTx_steps [OF assms] by (rule WithTx_commerce)
  then show ?thesis
    unfolding Login_def by (auto split: sum.splits option.splits prod.splits) (metis snd_conv)+
qed

lemma Logout_steps:
  assumes "accounts_wf sv s"
  shows "commerce_steps sv s (snd (Logout sv sha256 ev now token s))"
  unfolding Logout_def by (rule runTx_commerce) (use revoke_step [OF assms] in auto)

lemma EnsureOperator_steps:
  assumes "accounts_wf sv s"
  shows "commerce_steps sv s (snd (EnsureOperator sv ev1 ev2 now username s))"
proof -
  have "commerce_steps sv s (snd (runTx ev1 (ensure_operator sv now email name) s))" for email name
    by (rule runTx_commerce)
      (auto simp: ensure_operator_def split: sum.splits if_splits dest: insert_user_step(1) [OF assms uID_new_user])
  then show ?thesis
    unfolding EnsureOperator_def Let_def by (auto split: sum.splits option.splits prod.splits) (metis snd_conv)+
qed

lemma setStatusTx_steps:
  assumes wf: "accounts_wf sv s" and run: "setStatusTx now uid st s = Inr (u, s')"
  shows "commerce_steps sv s s'"
proof -
  let ?f = "\<lambda>u. u\<lparr>uStatus := st, uUpdatedAt := now\<rparr>"
  define s1 where "s1 = s\<lparr>users := update_where (\<lambda>u. uID u = uid \<and> uRole u = RoleCustomer) ?f (users s), sessions := sessions s\<rparr>"
  have 1: "commerce_step sv s s1" unfolding s1_def by (rule update_accounts_step [OF wf]) simp_all
  have w1: "accounts_wf sv s1" unfolding s1_def by (rule accounts_wf_update [OF wf]) simp_all
  have "s' = s1 \<or> s' = revoke (\<lambda>x. sUser x = uid) now s1"
    using run by (auto simp: setStatusTx_def s1_def Let_def split: if_splits)
  with 1 two_steps [OF 1 revoke_step [OF w1]] show ?thesis by auto
qed

lemma SetCustomerStatus_steps:
  assumes "accounts_wf sv s"
  shows "commerce_steps sv s (snd (SetCustomerStatus evs now uid status s))"
proof -
  have "commerce_steps sv s (snd (WithTx evs (setStatusTx now uid st) s))" for st
    using setStatusTx_steps [OF assms] by (rule WithTx_commerce)
  then show ?thesis by (auto simp: SetCustomerStatus_def split: option.splits)
qed

lemma plan_values_simps [simp]:
  "plID (plan_values i now p) = plID p" "plHourly (plan_values i now p) = inHourlyPriceRial i"
  "plMonthly (plan_values i now p) = inMonthlyPriceRial i"
  "plID (new_plan i now n) = n" "plHourly (new_plan i now n) = inHourlyPriceRial i"
  "plMonthly (new_plan i now n) = inMonthlyPriceRial i"
  by (simp_all add: plan_values_def new_plan_def)

lemma upsert_plan_step:
  assumes wf: "catalog_wf s" and prices: "prices_ok (inHourlyPriceRial i) (inMonthlyPriceRial i)"
  shows "commerce_step sv s ((upsert_plan sv now i s)\<lparr>features := fs\<rparr>)"
proof -
  define ps where "ps = plans (upsert_plan sv now i s)"
  have "tbl_wf plID ps" using wf unfolding catalog_wf_def ps_def upsert_plan_def by simp
  moreover have "\<forall>p\<in>set (rows ps). prices_ok (plHourly p) (plMonthly p)"
    using wf prices unfolding catalog_wf_def ps_def upsert_plan_def by auto
  moreover have "plID ` set (rows (plans s)) \<subseteq> plID ` set (rows ps)"
    unfolding ps_def upsert_plan_def by (auto simp: image_update_where simp del: rows_update_where)
  ultimately have "commerce_step sv s (s\<lparr>plans := ps, features := fs\<rparr>)" by (rule commerce_step.catalog)
  then show ?thesis by (simp add: ps_def upsert_plan_def)
qed

lemma insert_features_only:
  "insert_features_from pid locale field n fs s = Inr (u, s') \<Longrightarrow> \<exists>gs. s' = s\<lparr>features := gs\<rparr>"
proof (induction fs arbitrary: n s)
  case Nil
  then have "s' = s\<lparr>features := features s\<rparr>" by simp
  then show ?case ..
next
  case (Cons f fs)
  then show ?case by (fastforce simp: Let_def split: if_splits)
qed

lemma plan_field_error_prices:
  "plan_field_error i = None \<Longrightarrow> inMonthlyPriceRial i < 2 ^ 63 \<Longrightarrow> prices_ok (inHourlyPriceRial i) (inMonthlyPriceRial i)"
  unfolding plan_field_error_def first_error_None by (simp add: prices_ok_def refuse_None)

lemma SavePlan_steps:
  assumes "catalog_wf s" and "inMonthlyPriceRial inp < 2 ^ 63"
  shows "commerce_steps sv s (snd (SavePlan sv evs ev now inp s))"
proof -
  let ?i = "normalize_plan inp"
  have "commerce_steps sv s (snd (WithTx evs (savePlanTx sv now ?i) s))" if "plan_field_error ?i = None"
  proof (rule WithTx_commerce)
    fix a s' assume run: "savePlanTx sv now ?i s = Inr (a, s')"
    then obtain fs where "s' = (upsert_plan sv now ?i s)\<lparr>features := fs\<rparr>"
      by (fastforce simp: savePlanTx_def insertFeatures_def Let_def split: option.splits sum.splits dest: insert_features_only)
    moreover have "prices_ok (inHourlyPriceRial ?i) (inMonthlyPriceRial ?i)"
      using plan_field_error_prices [OF that] assms(2) by (simp add: normalize_plan_def)
    ultimately show "commerce_steps sv s s'" using upsert_plan_step [OF assms(1)] by blast
  qed
  then show ?thesis by (auto simp: SavePlan_def Let_def split: option.splits sum.splits prod.splits)
qed

lemma insert_message_step: "insert_message kid author body now s = Inr (u, s') \<Longrightarrow> s' = s\<lparr>messages := messages s'\<rparr>"
  by (auto simp: insert_message_def split: if_splits)

lemma OpenTicket_steps: "commerce_steps sv s (snd (OpenTicket evs ev now customer subject body priority pid s))"
proof -
  have "commerce_steps sv s (snd (WithTx evs (openTicketTx now c sub b p pid) s))" for c sub b p
    by (rule WithTx_commerce)
      (auto simp: openTicketTx_def insert_message_def Let_def split: if_splits sum.splits intro!: r_into_rtranclp support_step)
  then show ?thesis by (auto simp: OpenTicket_def Let_def split: option.splits sum.splits prod.splits) (metis snd_conv)+
qed

lemma ReplyTicket_steps: "commerce_steps sv s (snd (ReplyTicket evs ev now author kid body s))"
proof -
  have "commerce_steps sv s (snd (WithTx evs (replyTx now author kid b) s))" for b
    by (rule WithTx_commerce)
      (auto simp: replyTx_def insert_message_def set_ticket_def Let_def split: if_splits sum.splits
        intro!: r_into_rtranclp support_step)
  then show ?thesis by (auto simp: ReplyTicket_def Let_def split: sum.splits prod.splits) (metis snd_conv)+
qed

lemma CloseTicket_steps: "commerce_steps sv s (snd (CloseTicket evs ev now user kid s))"
proof -
  have "commerce_steps sv s (snd (WithTx evs (closeTx now user kid) s))"
    by (rule WithTx_commerce)
      (auto simp: closeTx_def set_ticket_def split: sum.splits intro!: r_into_rtranclp support_step)
  then show ?thesis by (auto simp: CloseTicket_def split: sum.splits prod.splits)
qed

section \<open>Wallets and orders\<close>

lemma applyTx_steps: "applyTx sv now e s = Inr (t, s') \<Longrightarrow> int64 (leAmount e) \<Longrightarrow> commerce_steps sv s s'"
  by (rule r_into_rtranclp) (rule commerce_step.apply_entry)

lemma Adjust_steps:
  assumes "int64 amount"
  shows "commerce_steps sv s (snd (Adjust sv evs now admin uid amount reason key s))"
proof -
  have "commerce_steps sv s (snd (WithTx evs (applyTx sv now e) s))" if "leAmount e = amount" for e
    by (rule WithTx_commerce) (use assms that in \<open>auto intro: applyTx_steps\<close>)
  then show ?thesis by (simp add: Adjust_def Let_def)
qed

lemma TopUp_credit_steps:
  assumes "int64 amount"
  shows "commerce_steps sv s (snd (TopUp_credit sv evs now uid amount key s))"
proof -
  have "commerce_steps sv s (snd (WithTx evs (applyTx sv now (topup_entry uid amount k)) s))" for k
    by (rule WithTx_commerce) (use assms in \<open>auto simp: topup_entry_def intro: applyTx_steps\<close>)
  then show ?thesis by (simp add: TopUp_credit_def Let_def)
qed

lemma placeOrderTx_steps:
  assumes "prices_ok (plHourly p) (plMonthly p)" and run: "placeOrderTx sv now uid p spec note s = Inr (oid, s')"
  shows "commerce_steps sv s s'"
proof -
  define mko where "mko i = \<lparr>oID = i, oUser = uid, oStatus = OrderPending, oNote = note, oUpfront = 0, oReviewer = None,
    oReason = '''', oPlacedAt = now, oReviewedAt = None, oUpdatedAt = now\<rparr>" for i
  define mki where "mki i = \<lparr>iID = i, iOrder = nextID (orders s), iPlan = plID p, iAppName = Name spec,
    iImage = Image spec, iPort = Port spec, iHourly = plHourly p, iMonthly = plMonthly p\<rparr>" for i
  from run have s': "s' = s\<lparr>orders := insert_row mko (orders s), items := insert_row mki (items s)\<rparr>"
    and "plID p \<in> plID ` set (rows (plans s))" "uid \<in> uID ` set (rows (users s))"
    by (auto simp: placeOrderTx_def Let_def row_by_None user_exists_def mko_def mki_def split: sum.splits if_splits)
  with assms(1) have "commerce_step sv s s'"
    unfolding s' by (intro commerce_step.place) (simp_all add: mko_def mki_def)
  then show ?thesis ..
qed

lemma query_valueD: "query ev q s = Inr a \<Longrightarrow> q s = Inr a"
  by (auto simp: query_def runTx_def split: tx_event.splits sum.splits)

lemma PlanByCode_row:
  assumes "PlanByCode ev code s = Inr p"
  shows "plan p \<in> set (rows (plans s))"
proof -
  from assms obtain ps where "Plans ev True s = Inr ps" "List.find (\<lambda>p. plCode (plan p) = TrimSpace code) ps = Some p"
    by (auto simp: PlanByCode_def split: sum.splits option.splits)
  then have "p \<in> set (list_plans True s)"
    by (auto simp: Plans_def find_Some_iff dest!: query_valueD)
  then show ?thesis by (auto simp: list_plans_def)
qed

lemma PlaceOrder_steps:
  assumes "catalog_wf s"
  shows "commerce_steps sv s (snd (PlaceOrder sv ev1 evs ev2 now uid input s))"
proof -
  have "commerce_steps sv s (snd (WithTx evs (placeOrderTx sv now uid (plan p) spec n) s))"
    if "PlanByCode ev1 (inPlanCode input) s = Inr p" for p spec n
  proof (rule WithTx_commerce)
    have "prices_ok (plHourly (plan p)) (plMonthly (plan p))"
      using PlanByCode_row [OF that] assms by (simp add: catalog_wf_def)
    then show "commerce_steps sv s s'" if "placeOrderTx sv now uid (plan p) spec n s = Inr (a, s')" for a s'
      using that by (rule placeOrderTx_steps)
  qed
  then show ?thesis
    by (auto simp: PlaceOrder_def Let_def split: sum.splits prod.splits) (metis snd_conv)+
qed

lemma update_order_step: "keeps_order f \<Longrightarrow> commerce_step sv s (update_order oid f s)"
  unfolding update_order_def by (rule commerce_step.review)

lemma update_project_step: "keeps_project f \<Longrightarrow> commerce_step sv s (update_project pid f s)"
  unfolding update_project_def by (rule commerce_step.manage)

lemma CancelOrder_steps: "commerce_steps sv s (snd (CancelOrder evs ev now uid oid s))"
proof -
  have "commerce_steps sv s (snd (WithTx evs (cancelTx now uid oid) s))"
    by (rule WithTx_commerce)
      (auto simp: cancelTx_def keeps_order_def split: option.splits if_splits intro!: r_into_rtranclp update_order_step)
  then show ?thesis by (auto simp: CancelOrder_def split: sum.splits prod.splits)
qed

lemma RejectOrder_steps: "commerce_steps sv s (snd (RejectOrder evs ev now reviewer oid reason s))"
proof -
  have "commerce_steps sv s (snd (WithTx evs (rejectTx now (uID reviewer) oid r) s))" for r
    by (rule WithTx_commerce)
      (auto simp: rejectTx_def keeps_order_def split: sum.splits if_splits intro!: r_into_rtranclp update_order_step)
  then show ?thesis by (auto simp: RejectOrder_def Let_def split: sum.splits prod.splits) (metis snd_conv)+
qed

section \<open>Confirming and following a deployment\<close>

lemma order_items_row: "(i, p) \<in> set (order_items oid s) \<Longrightarrow> i \<in> set (rows (items s)) \<and> iOrder i = oid"
  by (auto simp: order_items_def List.map_filter_def split: option.splits)

text \<open>What a successful \<open>confirm_charge\<close> did, step by step.\<close>

lemma confirm_charge_cases:
  assumes "confirm_charge sv now oid target' s = Inr ((pid, hourly, spec), s')"
  obtains uid i p charge s1 s2 r where "lockPendingOrder oid s = Inr uid" and "(i, p) \<in> set (order_items oid s)"
    and "hourly = iHourly i"
    and "ApplicationSpec_for (plCPUMillicores p) (plMemoryMiB p) (iAppName i) (iImage i) (iPort i) = Inr spec"
    and "applyTx sv now (charge_entry uid oid (iAppName i) (iHourly i)) s = Inr (charge, s1)"
    and "insert_project sv (new_project uid i (tgServerID target') now) s1 = Inr (pid, s2)"
    and "insert_usage (new_usage pid (truncate_hour now) (iHourly i) (Some (tID charge)) now) s2 = Inr (r, s')"
proof -
  obtain uid where u: "lockPendingOrder oid s = Inr uid" using assms by (auto simp: confirm_charge_def split: sum.splits)
  obtain i p rest where o: "order_items oid s = (i, p) # rest"
    using assms u by (cases "order_items oid s") (auto simp: confirm_charge_def)
  have i: "(i, p) \<in> set (order_items oid s)" by (simp add: o)
  from assms u o obtain charge s1 s2 r where "hourly = iHourly i"
    "ApplicationSpec_for (plCPUMillicores p) (plMemoryMiB p) (iAppName i) (iImage i) (iPort i) = Inr spec"
    "applyTx sv now (charge_entry uid oid (iAppName i) (iHourly i)) s = Inr (charge, s1)"
    "insert_project sv (new_project uid i (tgServerID target') now) s1 = Inr (pid, s2)"
    "insert_usage (new_usage pid (truncate_hour now) (iHourly i) (Some (tID charge)) now) s2 = Inr (r, s')"
    by (auto simp: confirm_charge_def Let_def split: sum.splits option.splits if_splits)
  then show thesis by (rule that [OF u i])
qed

lemma confirm_charge_steps:
  assumes wf: "commerce_wf sv s" and run: "confirm_charge sv now oid target' s = Inr ((pid, hourly, spec), s')"
  shows "commerce_steps sv s s'"
  using run
proof (rule confirm_charge_cases)
  fix uid i p charge s1 s2 r
  assume lock: "lockPendingOrder oid s = Inr uid" and i: "(i, p) \<in> set (order_items oid s)"
    and c: "applyTx sv now (charge_entry uid oid (iAppName i) (iHourly i)) s = Inr (charge, s1)"
    and pr: "insert_project sv (new_project uid i (tgServerID target') now) s1 = Inr (pid, s2)"
    and us: "insert_usage (new_usage pid (truncate_hour now) (iHourly i) (Some (tID charge)) now) s2 = Inr (r, s')"
  have item: "i \<in> set (rows (items s))" using order_items_row [OF i] by simp
  have prices: "prices_ok (iHourly i) (iMonthly i)" using wf item by (auto simp: commerce_wf_def sales_wf_def)
  have 1: "commerce_step sv s s1"
    using c prices by (intro commerce_step.apply_entry) (auto simp: charge_entry_def prices_ok_def)
  then have w1: "commerce_wf sv s1" using wf by (rule commerce_step_wf)
  have "uid \<in> uID ` set (rows (users s))"
    using lock wf by (auto simp: lockPendingOrder_def commerce_wf_def refs_wf_def dest!: row_by_SomeD split: option.splits if_splits)
  then have 2: "commerce_step sv s1 s2"
    using pr item by (intro commerce_step.create) (simp_all add: applyTx_outside [OF c])
  let ?p = "new_project uid i (tgServerID target') now (nextID (projects s1))"
  note s2 = insert_project_cases(1) [OF pr]
  have pid: "pid = pID ?p" "pID ?p = nextID (projects s1)" using insert_project_cases(2) [OF pr] by (simp_all add: new_project_def)
  have row: "?p \<in> set (rows (projects s2))" by (simp add: s2)
  have "month_usage (pID ?p) k s2 = 0" for k
    using w1 fresh_usage [of s1 k] month_usage_cong [of s2 s1] by (simp add: s2 pid commerce_wf_def)
  then have 3: "commerce_step sv s2 s'"
    using row us prices unfolding pid(1)
    by (intro commerce_step.bill [where p = ?p and hour = "truncate_hour now" and amount = "iHourly i"])
      (simp_all add: new_project_def prices_ok_def)
  from two_steps [OF 1 2] 3 show ?thesis by (rule rtranclp.rtrancl_into_rtrancl)
qed

lemma confirm_record_steps: "commerce_steps sv s (confirm_record now reviewer oid pid hourly cid s)"
  unfolding confirm_record_def
  by (rule two_steps [OF update_project_step update_order_step]) (simp_all add: keeps_project_def keeps_order_def)

lemma confirmTx_steps:
  assumes "commerce_wf sv (cloud s)" and "confirmTx sv enqueue now reviewer oid target' s = Inr (a, s')"
  shows "commerce_steps sv (cloud s) (cloud s')"
proof -
  from assms(2) obtain pid hourly spec c1 cid where "confirm_charge sv now oid target' (cloud s) = Inr ((pid, hourly, spec), c1)"
    "cloud s' = confirm_record now (uID reviewer) oid pid hourly cid c1"
    by (auto simp: confirmTx_def Let_def split: sum.splits if_splits)
  with confirm_charge_steps [OF assms(1)] confirm_record_steps show ?thesis by (metis rtranclp_trans)
qed

lemma advance_order_step: "commerce_step sv s (advance_order oid status now s)"
  unfolding advance_order_def by (rule commerce_step.review) (simp add: keeps_order_def)

lemma activated_steps: "commerce_steps sv s (activated now p oid s)"
  unfolding activated_def by (rule two_steps [OF update_project_step advance_order_step]) (simp add: keeps_project_def)

lemma unprovisioned_steps: "commerce_steps sv s (unprovisioned now p oid s)"
  unfolding unprovisioned_def Let_def
  by (rule rtranclp.rtrancl_into_rtrancl [OF two_steps [OF update_project_step advance_order_step] commerce_step.void])
    (simp add: keeps_project_def)

lemma transitionTx_cloud_steps:
  assumes "transitionTx_cloud sv now succeeded cid s = Inr (u, s')"
  shows "commerce_steps sv s s'"
proof (cases "project_of_command cid s")
  case (Some po)
  obtain p oid where po: "po = (p, oid)" by fastforce
  let ?s1 = "unprovisioned now p oid s"
  consider "s' = s" | "s' = activated now p oid s" | "s' = ?s1"
    | charged t where "applyTx sv now (refund_entry (pUser p) oid charged) ?s1 = Inr (t, s')" "int64 charged"
    using assms Some po
    by (auto simp: transitionTx_cloud_def Let_def scan_int64_def split: if_splits sum.splits)
  then show ?thesis
  proof cases
    case (4 charged t)
    then have "commerce_steps sv ?s1 s'" by (intro applyTx_steps) (auto simp: refund_entry_def)
    with unprovisioned_steps show ?thesis by (rule rtranclp_trans)
  qed (use activated_steps unprovisioned_steps in auto)
qed (use assms in \<open>simp add: transitionTx_cloud_def\<close>)

lemma OnCommandTransition_steps: "commerce_steps sv s (snd (OnCommandTransition sv evs now command s))"
proof -
  have "commerce_steps sv s (snd (WithTx evs (transitionTx_cloud sv now b cid) s))" for b cid
    using transitionTx_cloud_steps by (rule WithTx_commerce)
  then show ?thesis by (simp add: OnCommandTransition_def Let_def)
qed

section \<open>Billing\<close>

text \<open>A billing run reads the projects first and charges their hours later: what it read of a
  project still holds of the columns no statement changes, and no statement deletes a project.\<close>

definition same_project :: "projectRow \<Rightarrow> projectRow \<Rightarrow> bool" where
  "same_project p q \<longleftrightarrow> pID q = pID p \<and> pUser q = pUser p \<and> pAppName q = pAppName p \<and>
     pHourly q = pHourly p \<and> pMonthly q = pMonthly p"

definition snapshot :: "projectRow \<Rightarrow> cloud_db \<Rightarrow> bool" where
  "snapshot p s \<longleftrightarrow> (\<exists>q\<in>set (rows (projects s)). same_project p q)"

lemma snapshot_row: "p \<in> set (rows (projects s)) \<Longrightarrow> snapshot p s"
  by (auto simp: snapshot_def same_project_def)

lemma snapshot_cong: "projects s' = projects s \<Longrightarrow> snapshot p s' = snapshot p s"
  by (simp add: snapshot_def)

lemma snapshot_insert: "snapshot p s \<Longrightarrow> snapshot p (s\<lparr>projects := insert_row mk (projects s)\<rparr>)"
  by (auto simp: snapshot_def)

lemma snapshot_update:
  assumes "snapshot p s" "keeps_project f"
  shows "snapshot p (s\<lparr>projects := update_where P f (projects s)\<rparr>)"
proof -
  obtain q where "q \<in> set (rows (projects s))" "same_project p q" using assms(1) by (auto simp: snapshot_def)
  with assms(2) show ?thesis
    unfolding snapshot_def by (intro bexI [of _ "if P q then f q else q"]) (auto simp: same_project_def keeps_project_def)
qed

lemma snapshot_step: "commerce_step sv s s' \<Longrightarrow> snapshot p s \<Longrightarrow> snapshot p s'"
proof (induction rule: commerce_step.induct)
  case (apply_entry now e s t s')
  then show ?case using applyTx_outside(5) [of sv now e s t s'] snapshot_cong [of s' s] by simp
next
  case (create i s uid server now pid s')
  then show ?case using insert_project_cases(1) [OF create(3)] snapshot_insert by simp
next
  case (bill p' s amount hour tx now uid s')
  then show ?case using insert_usage_cases(1) [OF bill(5)] snapshot_cong [of s' s] by simp
next
  case (invoice now uid "from" until periodEnd s s')
  then have "projects s' = projects s"
    by (auto simp: issueInvoiceTx_def insert_invoice_def insert_lines_def Let_def split: if_splits option.splits sum.splits)
  with invoice show ?case using snapshot_cong [of s' s] by simp
next
  case (manage f s P)
  then show ?case by (simp add: snapshot_update)
qed (simp_all add: snapshot_def)

lemma snapshot_steps: "commerce_steps sv s s' \<Longrightarrow> snapshot p s \<Longrightarrow> snapshot p s'"
  by (induction rule: rtranclp_induct) (auto intro: snapshot_step)

lemma month_to_date_usage: "month_to_date pid hour s = month_usage pid (month_of hour) s"
  unfolding month_to_date_def month_usage_def usage_sum_def month_start_def Let_def AddMonths_month_time
  by (simp add: in_month_iff)

lemma month_usage_nonneg: "usage_wf s \<Longrightarrow> 0 \<le> month_usage pid k s"
  unfolding month_usage_def usage_sum_def usage_wf_def by (rule sum_list_nonneg) auto

lemma hour_price_bounds:
  assumes "prices_ok (pHourly p) (pMonthly p)" "0 \<le> m" "m \<le> pMonthly p"
  shows "0 \<le> hour_price p m" "hour_price p m \<le> pHourly p" "m + hour_price p m \<le> pMonthly p"
    "hour_price p m = min (pHourly p) (pMonthly p - m)"
proof -
  have "wrap64 (pMonthly p - m) = pMonthly p - m" using assms by (intro wrap64_id) (auto simp: prices_ok_def)
  with assms show "0 \<le> hour_price p m" "hour_price p m \<le> pHourly p" "m + hour_price p m \<le> pMonthly p"
    "hour_price p m = min (pHourly p) (pMonthly p - m)" by (auto simp: hour_price_def prices_ok_def)
qed

text \<open>The price of the next hour of a project that exists, from what the database holds.\<close>

lemma hour_price_row:
  assumes wf: "commerce_wf sv s" and snap: "snapshot p s" and row: "row_by pID (pID p) (projects s) = Some q"
  shows "0 \<le> hour_price p (month_to_date (pID p) hour s)" "hour_price p (month_to_date (pID p) hour s) \<le> pHourly q"
    and "month_usage (pID p) (month_of hour) s + hour_price p (month_to_date (pID p) hour s) \<le> pMonthly q"
    and "hour_price p (month_to_date (pID p) hour s) = min (pHourly q) (pMonthly q - month_usage (pID p) (month_of hour) s)"
    and "q \<in> set (rows (projects s))" "pID q = pID p" "pUser q = pUser p" "pHourly q < 2 ^ 63"
proof -
  note q = row_by_SomeD [OF row]
  obtain q' where q': "q' \<in> set (rows (projects s))" "same_project p q'" using snap by (auto simp: snapshot_def)
  moreover have "tbl_wf pID (projects s)" using wf by (simp add: commerce_wf_def sales_wf_def)
  ultimately have "q' = q" using q by (auto simp: same_project_def intro: tbl_wf_unique)
  with q'(2) have same: "pUser q = pUser p" "pHourly q = pHourly p" "pMonthly q = pMonthly p" by (simp_all add: same_project_def)
  have prices: "prices_ok (pHourly q) (pMonthly q)" using wf q by (simp add: commerce_wf_def sales_wf_def)
  have use: "usage_wf s" using wf by (simp add: commerce_wf_def)
  then have "month_usage (pID q) (month_of hour) s \<le> pMonthly q" using q unfolding usage_wf_def by blast
  with q have "month_usage (pID p) (month_of hour) s \<le> pMonthly p" using same by simp
  note b = hour_price_bounds [OF prices [unfolded same] month_usage_nonneg [OF use] this]
  show "0 \<le> hour_price p (month_to_date (pID p) hour s)" "hour_price p (month_to_date (pID p) hour s) \<le> pHourly q"
    "month_usage (pID p) (month_of hour) s + hour_price p (month_to_date (pID p) hour s) \<le> pMonthly q"
    "hour_price p (month_to_date (pID p) hour s) = min (pHourly q) (pMonthly q - month_usage (pID p) (month_of hour) s)"
    unfolding month_to_date_usage same using b by simp_all
  show "q \<in> set (rows (projects s))" "pID q = pID p" "pUser q = pUser p" "pHourly q < 2 ^ 63"
    using q same prices by (auto simp: prices_ok_def)
qed

lemma chargeHourTx_cases:
  assumes "chargeHourTx sv now p hour s = Inr (a, s')"
  obtains "s' = s" and "a = (0, False)"
  | q uid s1 where "row_by pID (pID p) (projects s) = Some q" and "pStatus q = ProjectActive"
      and "insert_usage (new_usage (pID p) hour (hour_price p (month_to_date (pID p) hour s)) None now) s = Inr (uid, s1)"
      and "hour_price p (month_to_date (pID p) hour s) \<le> 0" and "s' = s1"
      and "a = (hour_price p (month_to_date (pID p) hour s), True)"
  | q uid s1 t s2 where "row_by pID (pID p) (projects s) = Some q" and "pStatus q = ProjectActive"
      and "insert_usage (new_usage (pID p) hour (hour_price p (month_to_date (pID p) hour s)) None now) s = Inr (uid, s1)"
      and "0 < hour_price p (month_to_date (pID p) hour s)"
      and "applyTx sv now (usage_entry p hour (hour_price p (month_to_date (pID p) hour s))) s1 = Inr (t, s2)"
      and "s' = s2\<lparr>usage := update_where (\<lambda>r. rID r = uid) (\<lambda>r. r\<lparr>rTransaction := Some (tID t)\<rparr>) (usage s2)\<rparr>"
      and "a = (hour_price p (month_to_date (pID p) hour s), True)"
  using assms
  by (fastforce simp: chargeHourTx_def scan_int64_def Let_def split: option.splits if_splits sum.splits)

lemma chargeHourTx_steps:
  assumes wf: "commerce_wf sv s" and snap: "snapshot p s" and run: "chargeHourTx sv now p hour s = Inr (a, s')"
  shows "commerce_steps sv s s'"
proof -
  have bill: "commerce_step sv s s1" if "row_by pID (pID p) (projects s) = Some q"
    "insert_usage (new_usage (pID p) hour (hour_price p (month_to_date (pID p) hour s)) None now) s = Inr (uid, s1)" for q uid s1
    using hour_price_row(1-4) [OF wf snap that(1), of hour] hour_price_row(5-8) [OF wf snap that(1)] that(2)
    by (intro commerce_step.bill [where p = q and s = s and hour = hour and tx = None and now = now and uid = uid]) simp_all
  show ?thesis using run
  proof (rule chargeHourTx_cases)
    fix q uid s1 t s2
    assume row: "row_by pID (pID p) (projects s) = Some q"
      and ins: "insert_usage (new_usage (pID p) hour (hour_price p (month_to_date (pID p) hour s)) None now) s = Inr (uid, s1)"
      and app: "applyTx sv now (usage_entry p hour (hour_price p (month_to_date (pID p) hour s))) s1 = Inr (t, s2)"
      and s': "s' = s2\<lparr>usage := update_where (\<lambda>r. rID r = uid) (\<lambda>r. r\<lparr>rTransaction := Some (tID t)\<rparr>) (usage s2)\<rparr>"
    have "commerce_step sv s1 s2"
      using app hour_price_row(1-4) [OF wf snap row, of hour] hour_price_row(5-8) [OF wf snap row] by (intro commerce_step.apply_entry) (auto simp: usage_entry_def)
    moreover have "commerce_step sv s2 s'" unfolding s' by (rule commerce_step.link)
    ultimately show ?thesis using two_steps [OF bill [OF row ins]] by (blast intro: rtranclp.rtrancl_into_rtrancl)
  qed (use bill in auto)
qed

lemma chargeHour_steps:
  "commerce_wf sv s \<Longrightarrow> snapshot p s \<Longrightarrow> commerce_steps sv s (snd (chargeHour sv evs now p hour s))"
  unfolding chargeHour_def by (rule WithTx_commerce) (rule chargeHourTx_steps)

lemma switch_steps:
  "keeps_project f \<Longrightarrow> commerce_steps sv s (snd (runTx ev (switch_project status f pid) s))"
  by (rule runTx_commerce) (auto simp: switch_project_def intro: commerce_step.manage)

lemma keeps_switches: "keeps_project (suspend_row now)" "keeps_project (resume_row now)"
  by (simp_all add: keeps_project_def suspend_row_def resume_row_def)

lemma suspend_steps: "commerce_steps sv s (snd (snd (suspend prov ev now p s)))"
  using switch_steps [OF keeps_switches(1), of sv s ev ProjectActive now "pID p"]
  by (auto simp: suspend_def split: sum.splits prod.splits bool.splits)

lemma resume_one_steps: "commerce_steps sv s (snd (snd (snd (resume_one prov ev now p s))))"
  using switch_steps [OF keeps_switches(2), of sv s ev ProjectSuspended now "pID p"]
  by (auto simp: resume_one_def split: sum.splits prod.splits bool.splits)

text \<open>The runs are sequences of these transactions.\<close>

lemma bill_hours_steps:
  "commerce_wf sv s \<Longrightarrow> snapshot p s \<Longrightarrow> commerce_steps sv s (snd (bill_hours sv prov env currentHour p n hour acc s))"
proof (induction n arbitrary: hour acc s)
  case (Suc n)
  obtain evs ev now where env: "env (pID p) hour = (evs, ev, now)" by (cases "env (pID p) hour") auto
  obtain r s1 where c: "chargeHour sv evs now p hour s = (r, s1)" by fastforce
  have 1: "commerce_steps sv s s1" using chargeHour_steps [OF Suc.prems, of evs now hour] by (simp add: c)
  have 2: "commerce_wf sv s1" "snapshot p s1"
    using commerce_steps_wf [OF 1 Suc.prems(1)] snapshot_steps [OF 1 Suc.prems(2)] by simp_all
  have 3: "commerce_steps sv s (snd (snd (suspend prov ev now p s1)))"
    by (rule rtranclp_trans [OF 1 suspend_steps])
  have 4: "commerce_steps sv s (snd (bill_hours sv prov env currentHour p n (hour + Hour) acc' s1))" for acc'
    by (rule rtranclp_trans [OF 1 Suc.IH [OF 2]])
  show ?case using 1 3 4 by (auto simp: env c split: sum.splits prod.splits)
qed simp

lemma bill_projects_steps:
  assumes "commerce_wf sv s" and "\<And>bp. bp \<in> set bps \<Longrightarrow> snapshot (bpProject bp) s"
  shows "commerce_steps sv s (snd (fold (bill_project sv prov env currentHour) bps (acc, s)))"
  using assms
proof (induction bps arbitrary: acc s)
  case (Cons bp bps)
  obtain acc1 s1 where b: "bill_project sv prov env currentHour bp (acc, s) = (acc1, s1)" by fastforce
  then have 1: "commerce_steps sv s s1"
    using bill_hours_steps [OF Cons.prems(1), of "bpProject bp" prov env currentHour maxHoursPerRun "first_hour bp" acc] Cons.prems(2)
    by (simp add: bill_project_def)
  have "commerce_steps sv s1 (snd (fold (bill_project sv prov env currentHour) bps (acc1, s1)))"
    by (rule Cons.IH) (use Cons.prems commerce_steps_wf [OF 1] snapshot_steps [OF 1] in auto)
  with 1 show ?case by (simp add: b)
qed simp

lemma billableProjects_rows:
  "billableProjects ev s = Inr bps \<Longrightarrow> bp \<in> set bps \<Longrightarrow> bpProject bp \<in> set (rows (projects s)) \<and> pStatus (bpProject bp) = ProjectActive"
  unfolding billableProjects_def by (drule query_valueD) auto

lemma RunBilling_steps:
  assumes "commerce_wf sv s"
  shows "commerce_steps sv s (snd (RunBilling sv prov ev env now s))"
proof (cases "billableProjects ev s")
  case (Inr bps)
  then have "snapshot (bpProject bp) s" if "bp \<in> set bps" for bp
    using that billableProjects_rows [OF Inr that] by (blast intro: snapshot_row)
  from bill_projects_steps [OF assms this] show ?thesis by (simp add: RunBilling_def Inr)
qed (simp add: RunBilling_def)

lemma resume_from_steps: "commerce_steps sv s (snd (resume_from sv prov env balance ps acc s))"
proof (induction ps arbitrary: acc s)
  case (Cons p ps)
  obtain ev now where env: "env (pID p) = (ev, now)" by fastforce
  obtain err d calls s1 where r: "resume_one prov ev now p s = (err, d, calls, s1)" by (metis prod_cases4)
  have 1: "commerce_steps sv s s1" using resume_one_steps [of sv s prov ev now p] by (simp add: r)
  have "commerce_steps sv s (snd (resume_from sv prov env balance ps acc' s1))" for acc'
    by (rule rtranclp_trans [OF 1 Cons])
  with 1 Cons show ?case by (simp add: env r Let_def)
qed simp

lemma ResumeFundedProjects_steps: "commerce_steps sv s (snd (ResumeFundedProjects sv prov ev1 ev2 env now uid s))"
  by (auto simp: ResumeFundedProjects_def Let_def resume_from_steps simp del: resume_from.simps split: sum.splits list.splits)

lemma TopUp_steps:
  assumes "int64 amount"
  shows "commerce_steps sv s (snd (TopUp sv prov evs ev1 ev2 env now uid amount key s))"
proof -
  obtain r s1 where c: "TopUp_credit sv evs now uid amount key s = (r, s1)" by fastforce
  have 1: "commerce_steps sv s s1" using TopUp_credit_steps [OF assms, of sv s evs now uid key] by (simp add: c)
  have "commerce_steps sv s (snd (ResumeFundedProjects sv prov ev1 ev2 env now uid s1))"
    by (rule rtranclp_trans [OF 1 ResumeFundedProjects_steps])
  with 1 show ?thesis by (auto simp: TopUp_def c split: sum.splits prod.splits)
qed

lemma issueInvoice_steps: "commerce_steps sv s (snd (issueInvoice sv evs now uid from until periodEnd s))"
  unfolding issueInvoice_def
proof (rule WithTx_commerce)
  fix a s' assume run: "issueInvoiceTx sv now uid from until periodEnd s = Inr (a, s')"
  show "commerce_steps sv s s'"
  proof (cases a)
    case False
    with run have "s' = s" by (auto simp: issueInvoiceTx_def Let_def split: if_splits option.splits sum.splits)
    then show ?thesis by simp
  qed (use run in \<open>auto intro: commerce_step.invoice\<close>)
qed

lemma issue_from_steps: "commerce_steps sv s (snd (issue_from sv env from until periodEnd uids n s))"
proof (induction uids arbitrary: n s)
  case (Cons uid uids)
  obtain evs now where env: "env uid = (evs, now)" by fastforce
  obtain r s1 where i: "issueInvoice sv evs now uid from until periodEnd s = (r, s1)" by fastforce
  have 1: "commerce_steps sv s s1"
    using issueInvoice_steps [of sv s evs now uid "from" until periodEnd] by (simp add: i)
  have "commerce_steps sv s (snd (issue_from sv env from until periodEnd uids k s1))" for k
    by (rule rtranclp_trans [OF 1 Cons])
  with 1 show ?case by (auto simp: env i split: sum.splits)
qed simp

lemma IssueInvoices_steps: "commerce_steps sv s (snd (IssueInvoices sv ev env month s))"
  by (auto simp: IssueInvoices_def Let_def issue_from_steps split: sum.splits)

lemma billing_pass_steps:
  assumes "commerce_wf sv s"
  shows "commerce_steps sv s (billing_pass sv prov active ev1 env1 ev2 env2 now s)"
  using rtranclp_trans [OF RunBilling_steps [OF assms] IssueInvoices_steps] by (simp add: billing_pass_def)

end
