(* ===== verification/Cloud_System.thy ===== *)
theory Cloud_System
  imports Cloud_Refinement Queue_Props
begin

text \<open>
  The controller's store as one state machine: the operations of the commerce service and of the
  command ledger on the database they share. The locale \<open>command_queue\<close> is the interface
  \<^verbatim>\<open>CommandQueue\<close> of \<^verbatim>\<open>internal/cloud/service.go\<close>, through which confirming an order queues its
  deployment inside the same transaction; it is interpreted on \<open>SubmitInTx\<close> and \<open>ForgetInputs\<close>.
\<close>

section \<open>The commerce operations\<close>

text \<open>What the service calls outside the database.\<close>

record outside =
  mailAddress :: "string \<Rightarrow> string option"
  passwordMatches :: "string \<Rightarrow> string \<Rightarrow> bool"
  sha256 :: "string \<Rightarrow> string"
  provisionerOf :: provisioner

datatype cloud_op =
    OpRegister "tx_event list" time "string option" string string string
  | OpLogin tx_event "tx_event list" time "string option" "string option" string string
  | OpLogout tx_event time string
  | OpEnsureOperator tx_event tx_event time string
  | OpSetCustomerStatus "tx_event list" time nat string
  | OpSavePlan "tx_event list" tx_event time PlanInput
  | OpOpenTicket "tx_event list" tx_event time User string string string nat
  | OpReplyTicket "tx_event list" tx_event time User nat string
  | OpCloseTicket "tx_event list" tx_event time User nat
  | OpAdjust "tx_event list" time User nat int string string
  | OpTopUp "tx_event list" tx_event tx_event "nat \<Rightarrow> tx_event \<times> time" time nat int string
  | OpPlaceOrder tx_event "tx_event list" tx_event time nat OrderInput
  | OpCancelOrder "tx_event list" tx_event time nat nat
  | OpRejectOrder "tx_event list" tx_event time User nat string
  | OpCommandTransition "tx_event list" time Command
  | OpChargeHour "tx_event list" time projectRow time
  | OpSuspend tx_event time projectRow
  | OpResume tx_event time projectRow
  | OpIssueInvoice "tx_event list" time nat time time time
  | OpBillingPass bool tx_event billing_env tx_event "nat \<Rightarrow> tx_event list \<times> time" time

text \<open>The transactions of a billing run are operations of their own, since others may run between
  them; \<open>OpBillingPass\<close> is a pass that nothing interrupts.\<close>

primrec cloud_exec :: "Service \<Rightarrow> outside \<Rightarrow> cloud_op \<Rightarrow> cloud_db \<Rightarrow> cloud_db" where
  "cloud_exec sv w (OpRegister evs now hashed email name password) s =
     snd (Register sv (mailAddress w) evs now hashed email name password s)"
| "cloud_exec sv w (OpLogin ev evs now d1 d2 email password) s =
     snd (Login sv (passwordMatches w) (sha256 w) ev evs now d1 d2 email password s)"
| "cloud_exec sv w (OpLogout ev now token) s = snd (Logout sv (sha256 w) ev now token s)"
| "cloud_exec sv w (OpEnsureOperator ev1 ev2 now username) s = snd (EnsureOperator sv ev1 ev2 now username s)"
| "cloud_exec sv w (OpSetCustomerStatus evs now uid status) s = snd (SetCustomerStatus evs now uid status s)"
| "cloud_exec sv w (OpSavePlan evs ev now input) s = snd (SavePlan sv evs ev now input s)"
| "cloud_exec sv w (OpOpenTicket evs ev now customer subject body priority pid) s =
     snd (OpenTicket evs ev now customer subject body priority pid s)"
| "cloud_exec sv w (OpReplyTicket evs ev now author kid body) s = snd (ReplyTicket evs ev now author kid body s)"
| "cloud_exec sv w (OpCloseTicket evs ev now user kid) s = snd (CloseTicket evs ev now user kid s)"
| "cloud_exec sv w (OpAdjust evs now admin uid amount reason key) s = snd (Adjust sv evs now admin uid amount reason key s)"
| "cloud_exec sv w (OpTopUp evs ev1 ev2 env now uid amount key) s =
     snd (TopUp sv (provisionerOf w) evs ev1 ev2 env now uid amount key s)"
| "cloud_exec sv w (OpPlaceOrder ev1 evs ev2 now uid input) s = snd (PlaceOrder sv ev1 evs ev2 now uid input s)"
| "cloud_exec sv w (OpCancelOrder evs ev now uid oid) s = snd (CancelOrder evs ev now uid oid s)"
| "cloud_exec sv w (OpRejectOrder evs ev now reviewer oid reason) s = snd (RejectOrder evs ev now reviewer oid reason s)"
| "cloud_exec sv w (OpCommandTransition evs now command) s = snd (OnCommandTransition sv evs now command s)"
| "cloud_exec sv w (OpChargeHour evs now p hour) s = snd (chargeHour sv evs now p hour s)"
| "cloud_exec sv w (OpSuspend ev now p) s = snd (snd (suspend (provisionerOf w) ev now p s))"
| "cloud_exec sv w (OpResume ev now p) s = snd (snd (snd (resume_one (provisionerOf w) ev now p s)))"
| "cloud_exec sv w (OpIssueInvoice evs now uid start until stop) s = snd (issueInvoice sv evs now uid start until stop s)"
| "cloud_exec sv w (OpBillingPass active ev1 env1 ev2 env2 now) s =
     billing_pass sv (provisionerOf w) active ev1 env1 ev2 env2 now s"

text \<open>Amounts and prices are \<^verbatim>\<open>int64\<close> values; an hour is charged to a project read earlier.\<close>

definition cloud_enabled :: "cloud_op \<Rightarrow> cloud_db \<Rightarrow> bool" where
  "cloud_enabled op s \<longleftrightarrow>
     (case op of
        OpAdjust evs now admin uid amount reason key \<Rightarrow> int64 amount
      | OpTopUp evs ev1 ev2 env now uid amount key \<Rightarrow> int64 amount
      | OpSavePlan evs ev now input \<Rightarrow> inMonthlyPriceRial input < 2 ^ 63
      | OpChargeHour evs now p hour \<Rightarrow> snapshot p s
      | _ \<Rightarrow> True)"

lemma commerce_wf_parts: "commerce_wf sv s \<Longrightarrow> catalog_wf s \<and> accounts_wf sv s" by (simp add: commerce_wf_def)

lemma cloud_exec_steps:
  assumes "commerce_wf sv s" and "cloud_enabled op s"
  shows "commerce_steps sv s (cloud_exec sv w op s)"
  using assms commerce_wf_parts [OF assms(1)]
  by (cases op)
    (simp_all add: cloud_enabled_def Register_steps Login_steps Logout_steps EnsureOperator_steps SetCustomerStatus_steps
      SavePlan_steps OpenTicket_steps ReplyTicket_steps CloseTicket_steps Adjust_steps TopUp_steps PlaceOrder_steps
      CancelOrder_steps RejectOrder_steps OnCommandTransition_steps chargeHour_steps suspend_steps resume_one_steps
      issueInvoice_steps billing_pass_steps)

interpretation commerce: op_system cloud_enabled "cloud_exec sv w" "commerce_wf sv" for sv w
  by unfold_locales (rule commerce_steps_wf [OF cloud_exec_steps])

definition empty_cloud :: cloud_db where
  "empty_cloud =
     \<lparr>users = empty_tbl, sessions = [], plans = empty_tbl, features = [], wallets = [], transactions = empty_tbl,
      orders = empty_tbl, items = empty_tbl, projects = empty_tbl, usage = empty_tbl, invoices = empty_tbl,
      lines = empty_tbl, tickets = empty_tbl, messages = empty_tbl, applications = []\<rparr>"

text \<open>The database the migrations leave behind: the seeded catalogue, for any Persian and feature
  texts.\<close>

definition seed_plan :: "time \<Rightarrow> (string \<Rightarrow> string) \<Rightarrow> nat \<Rightarrow> string \<Rightarrow> string \<Rightarrow> string \<Rightarrow> nat \<Rightarrow> nat \<Rightarrow> nat \<Rightarrow> int \<Rightarrow> int \<Rightarrow> planRow" where
  "seed_plan now fa n code name description cpu memory disk hourly monthly =
     \<lparr>plID = n, plCode = code, plName = name, plDescription = description, plDescriptionFa = fa code,
      plCPUMillicores = cpu, plMemoryMiB = memory, plDiskGiB = disk, plHourly = hourly, plMonthly = monthly,
      plActive = True, plSortOrder = 10 * n, plUpdatedAt = now\<rparr>"

definition installed_cloud :: "time \<Rightarrow> (string \<Rightarrow> string) \<Rightarrow> featureRow list \<Rightarrow> cloud_db" where
  "installed_cloud now fa fs = empty_cloud\<lparr>features := fs, plans := \<lparr>rows =
     [seed_plan now fa 1 ''starter'' ''Starter'' ''A small API, a bot, or a personal site.'' 250 256 5 4000 2700000,
      seed_plan now fa 2 ''basic'' ''Basic'' ''A typical web service with steady traffic.'' 500 512 10 7500 5000000,
      seed_plan now fa 3 ''standard'' ''Standard'' ''A production service doing real work per request.'' 1000 1024 20 13000 9000000,
      seed_plan now fa 4 ''plus'' ''Plus'' ''A heavier runtime or a larger working set.'' 2000 2048 40 24000 16500000,
      seed_plan now fa 5 ''pro'' ''Pro'' ''The largest self-service size.'' 4000 4096 80 45000 30000000],
     nextID = 6\<rparr>\<rparr>"

lemma installed_cloud_wf: "commerce_wf sv (installed_cloud now fa fs)"
  by (simp add: commerce_defs ledger_wf_def keys_once_def installed_cloud_def empty_cloud_def tbl_wf_def seed_plan_def prices_ok_def)
    (simp add: empty_tbl_def)

section \<open>The command queue the service relies on\<close>

text \<open>
  \<open>enqueue\<close> and \<open>forget\<close> are the methods of the interface; \<open>holds cid input q\<close> says that the
  command \<open>cid\<close> of the ledger carries out \<open>input\<close>.
\<close>

locale command_queue =
  fixes inv :: "'q \<Rightarrow> bool"
    and enqueue :: "'q submit_in_tx"
    and forget :: "string list \<Rightarrow> 'q \<Rightarrow> 'q"
    and holds :: "string \<Rightarrow> SubmitInput \<Rightarrow> 'q \<Rightarrow> bool"
  assumes enqueue_inv: "inv q \<Longrightarrow> enqueue input q = Inr (r, q') \<Longrightarrow> inv q'"
    and forget_inv: "inv q \<Longrightarrow> inv (forget gone q)"
    and enqueue_holds: "inv q \<Longrightarrow> enqueue input q = Inr ((sub, gone), q') \<Longrightarrow> holds (commandID (subCommand sub)) input q'"
    and forget_holds: "holds cid input (forget gone q) = holds cid input q"
begin

text \<open>Confirming an order either changes nothing or commits its transaction as a whole.\<close>

lemma ConfirmOrder_atomic:
  assumes "ConfirmOrder sv enqueue forget evs ev1 ev2 now reviewer oid target' s = (r, s')"
  shows "s' = s \<and> (\<exists>e. r = Inl e) \<or>
    (\<exists>command pid gone s1. confirmTx sv enqueue now reviewer oid (target'\<lparr>tgServerID := TrimSpace (tgServerID target')\<rparr>) s
        = Inr ((command, pid, gone), s1) \<and> uRole reviewer = RoleAdmin \<and>
      s' = s1\<lparr>ledger := forget gone (ledger s1)\<rparr> \<and> (\<forall>v. r = Inr v \<longrightarrow> snd (snd v) = command))"
proof -
  let ?t = "target'\<lparr>tgServerID := TrimSpace (tgServerID target')\<rparr>"
  show ?thesis
  proof (cases "uRole reviewer = RoleAdmin \<and> tgServerID ?t \<noteq> ''''")
    case True
    show ?thesis
    proof (rule WithTx_cases [of evs "confirmTx sv enqueue now reviewer oid ?t" s])
      fix e assume "WithTx evs (confirmTx sv enqueue now reviewer oid ?t) s = (Inl e, s)"
      with assms True show ?thesis by (auto simp: ConfirmOrder_def Let_def)
    next
      fix a s1 assume run: "WithTx evs (confirmTx sv enqueue now reviewer oid ?t) s = (Inr a, s1)"
        and tx: "confirmTx sv enqueue now reviewer oid ?t s = Inr (a, s1)"
      obtain command pid gone where "a = (command, pid, gone)" by (metis prod_cases3)
      with assms True run tx show ?thesis by (auto simp: ConfirmOrder_def Let_def split: sum.splits)
    qed
  next
    case False
    then have "s' = s \<and> (\<exists>e. r = Inl e)" using assms unfolding ConfirmOrder_def Let_def by (auto split: if_splits)
    then show ?thesis by blast
  qed
qed

lemma confirmTx_queue:
  assumes "inv (ledger s)" and "confirmTx sv enqueue now reviewer oid target' s = Inr ((command, pid, gone), s1)"
  obtains hourly spec c1 where "confirm_charge sv now oid target' (cloud s) = Inr ((pid, hourly, spec), c1)"
    and "cloud s1 = confirm_record now (uID reviewer) oid pid hourly (commandID command) c1"
    and "inv (ledger s1)" and "holds (commandID command) (deploy_input reviewer oid target' spec) (ledger s1)"
proof -
  obtain pid' hourly spec c1 where c: "confirm_charge sv now oid target' (cloud s) = Inr ((pid', hourly, spec), c1)"
    using assms(2) by (cases "confirm_charge sv now oid target' (cloud s)") (auto simp: confirmTx_def)
  obtain sub gone' q1 where q: "enqueue (deploy_input reviewer oid target' spec) (ledger s) = Inr ((sub, gone'), q1)"
    using assms(2) c by (cases "enqueue (deploy_input reviewer oid target' spec) (ledger s)") (auto simp: confirmTx_def)
  from assms(2) c q have r: "pid' = pid" "command = subCommand sub" "ledger s1 = q1"
    "cloud s1 = confirm_record now (uID reviewer) oid pid hourly (commandID command) c1"
    by (auto simp: confirmTx_def Let_def split: if_splits)
  show thesis
    by (rule that [OF c [unfolded r(1)] r(4)])
      (use enqueue_inv [OF assms(1) q] enqueue_holds [OF assms(1) q] r in simp_all)
qed

lemma ConfirmOrder_inv:
  assumes "commerce_wf sv (cloud s)" "inv (ledger s)"
    and "ConfirmOrder sv enqueue forget evs ev1 ev2 now reviewer oid target' s = (r, s')"
  shows "commerce_wf sv (cloud s') \<and> inv (ledger s')"
  using ConfirmOrder_atomic [OF assms(3)]
proof (elim disjE exE conjE)
  fix command pid gone s1
  let ?t = "target'\<lparr>tgServerID := TrimSpace (tgServerID target')\<rparr>"
  assume tx: "confirmTx sv enqueue now reviewer oid ?t s = Inr ((command, pid, gone), s1)"
    and s': "s' = s1\<lparr>ledger := forget gone (ledger s1)\<rparr>"
  have "inv (ledger s1)" using assms(2) tx by (rule confirmTx_queue)
  moreover have "commerce_wf sv (cloud s1)"
    using confirmTx_steps [OF assms(1) tx] assms(1) by (rule commerce_steps_wf)
  ultimately show ?thesis by (simp add: s' forget_inv)
qed (use assms in simp)

end

text \<open>A random identifier is sixteen bytes or a failed read.\<close>

definition read_id :: "string \<Rightarrow> string option" where
  "read_id bytes = (if length bytes = 16 then Some bytes else None)"

definition carries_out :: "string \<Rightarrow> SubmitInput \<Rightarrow> queue_store \<Rightarrow> bool" where
  "carries_out cid input s \<longleftrightarrow> (\<exists>r\<in>set (commands s). commandID r = cid \<and> same_intent input r \<and>
     actor r = TrimSpace (inActor input) \<and> idempotencyKey r = TrimSpace (inIdempotencyKey input))"

lemma submitTx_carries_out:
  assumes wf: "keys_wf s" and run: "submitTx sha rid now input s = Inr ((sub, gone), s')"
  shows "carries_out (commandID (subCommand sub)) input s'"
proof (cases "subCreated sub")
  case True
  obtain r s2 where new: "newRecord sha rid now input False = Inr r"
    and ins: "insertTx r (inPayload input) (snd (supersedeTx input s)) = Inr ((), s2)"
    and s': "s' = snd (pruneTx s2)" and sub: "subCommand sub = public r"
    using run True by (rule submitTx_created)
  let ?r = "r\<lparr>seq := nextSeq (snd (supersedeTx input s))\<rparr>"
  have k2: "keys_wf s2" using ins keys_wf_supersede [OF wf] by (rule keys_wf_insert)
  have fields: "same_intent input ?r" "actor ?r = TrimSpace (inActor input)" "commandID ?r = commandID (subCommand sub)"
    "idempotencyKey ?r = TrimSpace (inIdempotencyKey input)" "state ?r \<noteq> CommandSucceeded"
    using new by (auto simp: newRecord_def same_intent_def sub Command.truncate_def split: sum.splits)
  have "?r \<in> set (commands s2)" by (simp add: insertTx_frame(1) [OF ins])
  then have "?r \<in> set (commands s')" unfolding s' using fields(5) by (rule prune_keeps [OF k2])
  with fields show ?thesis unfolding carries_out_def by blast
next
  case False
  have s': "s' = s" using submitTx_found [OF run False] by simp
  from run False obtain row where "List.find (\<lambda>r. actor r = TrimSpace (inActor input) \<and>
      idempotencyKey r = TrimSpace (inIdempotencyKey input)) (commands s) = Some row"
    and "same_intent input row" "subCommand sub = public row"
    by (auto simp: submitTx_def idempotentTx_def same_intent_def Let_def split: sum.splits option.splits prod.splits if_splits)
  then show ?thesis unfolding s' carries_out_def
    by (intro bexI [of _ row]) (auto simp: find_Some_iff Command.truncate_def)
qed

lemma SubmitInTx_steps:
  assumes "keys_wf q" and "SubmitInTx sha (read_id bytes) now input q = Inr (r, q')"
  shows "ledger_steps F sha q q'"
proof -
  from assms(2) have "validateInput input False = None" "submitTx sha (read_id bytes) now input q = Inr (r, q')"
    by (auto simp: SubmitInTx_def split: option.splits)
  moreover have "drawn (read_id bytes)" by (simp add: drawn_def read_id_def)
  ultimately show ?thesis using submitTx_steps [OF assms(1)] by blast
qed

interpretation deployments: command_queue "store_wf sha" "SubmitInTx sha (read_id bytes) now" ForgetInputs carries_out
  for sha bytes now
proof
  fix q :: queue_store and input r q'
  assume wf: "store_wf sha q" and run: "SubmitInTx sha (read_id bytes) now input q = Inr (r, q')"
  have "keys_wf q" using wf by (simp add: store_wf_def)
  from store_wf_steps [OF SubmitInTx_steps [OF this run] wf] show "store_wf sha q'" .
next
  fix q :: queue_store and gone
  assume "store_wf sha q"
  with ForgetInputs_steps show "store_wf sha (ForgetInputs gone q)" by (rule store_wf_steps)
next
  fix q input sub gone q'
  assume "store_wf sha q" and "SubmitInTx sha (read_id bytes) now input q = Inr ((sub, gone), q')"
  then show "carries_out (commandID (subCommand sub)) input q'"
    by (auto simp: SubmitInTx_def store_wf_def split: option.splits intro: submitTx_carries_out)
qed (simp add: carries_out_def ForgetInputs_def)

section \<open>The whole store\<close>

datatype core_op =
    Commerce cloud_op
  | Commands queue_op
  | Confirm "tx_event list" tx_event tx_event time string time User nat ProvisionTarget

primrec core_exec ::
  "Service \<Rightarrow> outside \<Rightarrow> (string \<Rightarrow> string) \<Rightarrow> core_op \<Rightarrow> queue_store core_db \<Rightarrow> queue_store core_db"
where
  "core_exec sv w sha (Commerce op) s = s\<lparr>cloud := cloud_exec sv w op (cloud s)\<rparr>"
| "core_exec sv w sha (Commands op) s = s\<lparr>ledger := queue_exec sha op (ledger s)\<rparr>"
| "core_exec sv w sha (Confirm evs ev1 ev2 now bytes qnow reviewer oid target') s =
     snd (ConfirmOrder sv (SubmitInTx sha (read_id bytes) qnow) ForgetInputs evs ev1 ev2 now reviewer oid target' s)"

definition core_enabled :: "core_op \<Rightarrow> queue_store core_db \<Rightarrow> bool" where
  "core_enabled op s \<longleftrightarrow>
     (case op of
        Commerce c \<Rightarrow> cloud_enabled c (cloud s)
      | Commands q \<Rightarrow> queue_enabled (\<lambda>_. True) q (ledger s)
      | Confirm _ _ _ _ _ _ _ _ _ \<Rightarrow> True)"

definition core_wf :: "Service \<Rightarrow> (string \<Rightarrow> string) \<Rightarrow> queue_store core_db \<Rightarrow> bool" where
  "core_wf sv sha s \<longleftrightarrow> commerce_wf sv (cloud s) \<and> store_wf sha (ledger s)"

definition installed :: "time \<Rightarrow> (string \<Rightarrow> string) \<Rightarrow> featureRow list \<Rightarrow> nat \<Rightarrow> queue_store core_db" where
  "installed now fa fs limit = \<lparr>cloud = installed_cloud now fa fs, ledger = empty_store limit\<rparr>"

lemma core_exec_wf:
  assumes "core_wf sv sha s" and "core_enabled op s"
  shows "core_wf sv sha (core_exec sv w sha op s)"
proof (cases op)
  case (Commerce c)
  with assms commerce.exec_inv show ?thesis by (simp add: core_wf_def core_enabled_def)
next
  case (Commands q)
  with assms wf_ledger.exec_inv show ?thesis by (simp add: core_wf_def core_enabled_def)
next
  case (Confirm evs ev1 ev2 now bytes qnow reviewer oid target')
  let ?r = "ConfirmOrder sv (SubmitInTx sha (read_id bytes) qnow) ForgetInputs evs ev1 ev2 now reviewer oid target' s"
  have "?r = (fst ?r, snd ?r)" by simp
  from deployments.ConfirmOrder_inv [OF _ _ this] assms(1) show ?thesis by (simp add: core_wf_def Confirm)
qed

interpretation core: op_system core_enabled "core_exec sv w sha" "core_wf sv sha" for sv w sha
  by unfold_locales (rule core_exec_wf)

lemma installed_wf: "core_wf sv sha (installed now fa fs limit)"
  by (simp add: core_wf_def installed_def installed_cloud_wf empty_store_wf)

end
