(* ===== verification/Cloud_Sample.thy ===== *)
theory Cloud_Sample
  imports Cloud_System
begin

text \<open>
  A concrete shop for the witnesses of \<open>Cloud_Props\<close> and \<open>Cloud_Access\<close>: the states a customer's
  first order passes through, each reached by the operations of the model from a fresh
  installation.
\<close>

section \<open>A sample shop\<close>

text \<open>One customer with a topped-up wallet and a pending order for the smallest plan, and one
  operator; later the same order confirmed and running.\<close>

definition sample_service :: Service where
  "sample_service = New id \<lparr>SessionTTL = 0, ReserveHours = 0, TaxRateBP = 0, MinTopUpRial = 0, MaxTopUpRial = 0\<rparr>"

definition sample_outside :: outside where
  "sample_outside = \<lparr>mailAddress = Some, passwordMatches = (\<lambda>_ _. True), sha256 = (\<lambda>_. replicate 32 CHR ''x''),
     provisionerOf = None\<rparr>"

definition sample_customer :: userRow where
  "sample_customer = new_user ''sam@example.com'' ''Sam Doe'' ''hash'' RoleCustomer 0 1"

definition sample_operator :: userRow where
  "sample_operator = new_user ''op@operators.swarmops.invalid'' ''op'' ''!'' RoleAdmin 0 2"

definition sample_topup :: transactionRow where
  "sample_topup = entry_row 0 (topup_entry 1 1000000 ''k1'') 1000000 1"

definition sample_charge :: transactionRow where
  "sample_charge = entry_row 0 (charge_entry 1 1 ''shop'' 4000) 996000 2"

definition sample_order :: "OrderStatus \<Rightarrow> orderRow" where
  "sample_order st =
     \<lparr>oID = 1, oUser = 1, oStatus = st, oNote = '''', oUpfront = 0, oReviewer = None, oReason = '''', oPlacedAt = 0,
      oReviewedAt = None, oUpdatedAt = 0\<rparr>"

definition sample_item :: itemRow where
  "sample_item =
     \<lparr>iID = 1, iOrder = 1, iPlan = 1, iAppName = ''shop'', iImage = ''nginx:1.27'', iPort = 80, iHourly = 4000, iMonthly = 2700000\<rparr>"

definition sample_project :: "ProjectStatus \<Rightarrow> projectRow" where
  "sample_project st = (new_project 1 sample_item ''srv-1'' 0 1)\<lparr>pStatus := st, pCommand := Some sample_id\<rparr>"

definition sample_pending :: cloud_db where
  "sample_pending = (installed_cloud 0 (\<lambda>_. '''') [])
     \<lparr>users := \<lparr>rows = [sample_customer, sample_operator], nextID = 3\<rparr>,
      wallets := [\<lparr>wUser = 1, wBalance = 1000000, wUpdatedAt = 0\<rparr>],
      transactions := \<lparr>rows = [sample_topup], nextID = 2\<rparr>,
      orders := \<lparr>rows = [sample_order OrderPending], nextID = 2\<rparr>, items := \<lparr>rows = [sample_item], nextID = 2\<rparr>\<rparr>"

definition sample_shop :: "OrderStatus \<Rightarrow> ProjectStatus \<Rightarrow> cloud_db" where
  "sample_shop ost pst = sample_pending
     \<lparr>wallets := [\<lparr>wUser = 1, wBalance = 996000, wUpdatedAt = 0\<rparr>],
      transactions := \<lparr>rows = [sample_topup, sample_charge], nextID = 3\<rparr>,
      orders := \<lparr>rows = [sample_order ost], nextID = 2\<rparr>,
      projects := \<lparr>rows = [sample_project pst], nextID = 2\<rparr>,
      usage := \<lparr>rows = [new_usage 1 0 4000 (Some 2) 0 1], nextID = 2\<rparr>\<rparr>"

named_theorems sample_defs \<open>the sample shop\<close>
declare sample_service_def [sample_defs] new_user_def [sample_defs] sample_customer_def [sample_defs]
  sample_operator_def [sample_defs] sample_topup_def [sample_defs] sample_charge_def [sample_defs]
  sample_order_def [sample_defs] sample_item_def [sample_defs] sample_project_def [sample_defs]
  sample_pending_def [sample_defs] sample_shop_def [sample_defs] installed_cloud_def [sample_defs]
  empty_cloud_def [sample_defs] new_project_def [sample_defs] new_usage_def [sample_defs] New_def [sample_defs]
  entry_row_def [sample_defs] topup_entry_def [sample_defs] charge_entry_def [sample_defs] seed_plan_def [sample_defs]

lemma sample_service_simps [simp]:
  "collate sample_service = id" "ReserveHours sample_service = 24" "TaxRateBP sample_service = 1000"
  "MinTopUpRial sample_service = 100000" "MaxTopUpRial sample_service = 2000000000" "SessionTTL sample_service = 12 * Hour"
  by (simp_all add: sample_service_def New_def)

lemma sample_pending_wf: "commerce_wf sample_service sample_pending"
  by (simp add: commerce_defs ledger_wf_def keys_once_def tbl_wf_def sample_defs prices_ok_def order_charge_key_def)
    (simp add: empty_tbl_def)

lemma sample_month: "month_usage 1 k (sample_shop ost pst) \<le> 2700000"
  by (simp add: month_usage_def usage_sum_def sample_defs)

lemma sample_shop_wf: "commerce_wf sample_service (sample_shop ost pst)"
  unfolding commerce_wf_def
proof (intro conjI)
  show "accounts_wf sample_service (sample_shop ost pst)" "refs_wf (sample_shop ost pst)"
    by (simp_all add: accounts_wf_def accounts_ok_def refs_wf_def tbl_wf_def sample_defs)
  show "ledger_wf sample_service (sample_shop ost pst)"
    by (simp add: ledger_wf_def keys_once_def tbl_wf_def sample_defs order_charge_key_def)
  show "catalog_wf (sample_shop ost pst)" "sales_wf (sample_shop ost pst)"
    by (simp_all add: catalog_wf_def sales_wf_def tbl_wf_def sample_defs prices_ok_def)
  have p: "rows (projects (sample_shop ost pst)) = [sample_project pst]"
    and u: "usage (sample_shop ost pst) = \<lparr>rows = [new_usage 1 0 4000 (Some 2) 0 1], nextID = 2\<rparr>"
    by (simp_all add: sample_shop_def)
  show "usage_wf (sample_shop ost pst)"
    unfolding usage_wf_def p u using sample_month by (simp add: tbl_wf_def sample_project_def sample_item_def new_project_def new_usage_def)
  show "invoices_wf (sample_shop ost pst)"
    by (simp add: invoices_wf_def u) (simp add: sample_defs empty_tbl_def tbl_wf_def)
qed

text \<open>The pending order is what registering, topping up and ordering leave behind.\<close>

definition sample_registered :: cloud_db where
  "sample_registered = (installed_cloud 0 (\<lambda>_. []) [])
     \<lparr>users := \<lparr>rows = [sample_customer], nextID = 2\<rparr>, wallets := [\<lparr>wUser = 1, wBalance = 0, wUpdatedAt = 0\<rparr>]\<rparr>"

definition sample_funded :: cloud_db where
  "sample_funded = sample_registered
     \<lparr>users := \<lparr>rows = [sample_customer, sample_operator], nextID = 3\<rparr>,
      wallets := [\<lparr>wUser = 1, wBalance = 1000000, wUpdatedAt = 0\<rparr>],
      transactions := \<lparr>rows = [sample_topup], nextID = 2\<rparr>\<rparr>"

lemma sample_register:
  "cloud_exec sample_service sample_outside
     (OpRegister [] 0 (Some ''hash'') ''sam@example.com'' ''Sam Doe'' ''correct horse'') (installed_cloud 0 (\<lambda>_. []) []) = sample_registered"
  by code_simp

lemma sample_fund:
  "cloud_exec sample_service sample_outside (OpTopUp [] Runs Runs (\<lambda>_. (Runs, 0)) 0 1 1000000 ''k1'')
    (cloud_exec sample_service sample_outside (OpEnsureOperator Runs Runs 0 ''op'') sample_registered) = sample_funded"
  by code_simp

definition sample_order_input :: OrderInput where
  "sample_order_input = \<lparr>inAppName = ''shop'', inImage = ''nginx:1.27'', inNote = [], inPlanCode = ''starter'', inPort = 80\<rparr>"

lemma sample_place:
  "cloud_exec sample_service sample_outside (OpPlaceOrder Runs [] Runs 0 1 sample_order_input) sample_funded = sample_pending"
  by code_simp

text \<open>Confirming it queues the deployment.\<close>

definition sample_target :: ProvisionTarget where
  "sample_target = \<lparr>tgAuthorityEpoch = 1, tgRequestID = ''req-1'', tgServerID = ''srv-1''\<rparr>"

definition sample_spec :: ApplicationSpec where
  "sample_spec = Normalize (zero_spec\<lparr>CPUs := 250, Image := ''nginx:1.27'', MemoryMiB := 256, Name := ''shop'',
     Port := 80, Replicas := 1\<rparr>)"

definition sample_digest :: "string \<Rightarrow> string" where "sample_digest p = ''digest''"

definition sample_deploy :: SubmitInput where
  "sample_deploy = deploy_input (User.truncate sample_operator) 1 sample_target sample_spec"

definition sample_deploy_row :: commandRow where
  "sample_deploy_row = sample_row\<lparr>action := DeployAction, actor := ''op'', createdAt := 0, maxAttempts := 3, target := ''application/shop'',
     updatedAt := 0, idempotencyKey := ''cloud-order-1'', payloadDigest := ''digest''\<rparr>"

definition sample_deployed :: queue_store where
  "sample_deployed = (empty_store 2)\<lparr>commands := [sample_deploy_row], nextSeq := 2,
     payloads := [sample_id \<mapsto> deploy_payload sample_spec]\<rparr>"

definition sample_charged :: cloud_db where
  "sample_charged = (sample_shop OrderPending ProjectProvisioning)
     \<lparr>projects := \<lparr>rows = [(sample_project ProjectProvisioning)\<lparr>pCommand := None\<rparr>], nextID = 2\<rparr>\<rparr>"

lemma sample_confirm_charge:
  "confirm_charge sample_service 0 1 sample_target sample_pending = Inr ((1, 4000, sample_spec), sample_charged)"
  by code_simp

lemma sample_deploy_fields:
  "sample_deploy = \<lparr>inAction = ''application.deploy'', inActor = ''op'', inAuthorityEpoch = 1, inAutoRetry = True,
     inClusterID = ''default'', inIdempotencyKey = ''cloud-order-1'', inMaxArtifactBytes = 0, inMaxAttempts = 3,
     inPayload = deploy_payload sample_spec, inRequestID = ''req-1'', inServerID = ''srv-1'', inTarget = ''application/shop''\<rparr>"
proof -
  have "''cloud-order-'' @ show_nat 1 = ''cloud-order-1''" "''application/'' @ Name sample_spec = ''application/shop''" by code_simp+
  then show ?thesis
    by (simp add: sample_deploy_def deploy_input_def sample_target_def sample_operator_def new_user_def DeployAction_def User.truncate_def)
qed

lemma sample_deploy_trim [simp]:
  "TrimSpace ''application.deploy'' = ''application.deploy''" "TrimSpace ''op'' = ''op''" "TrimSpace ''default'' = ''default''"
  "TrimSpace ''cloud-order-1'' = ''cloud-order-1''" "TrimSpace ''application/shop'' = ''application/shop''"
  by code_simp+

lemma sample_payload: "length (deploy_payload sample_spec) \<le> maxPayloadBytes" "deploy_payload sample_spec \<noteq> []"
proof -
  have "length (deploy_payload sample_spec) \<le> 400" by code_simp
  then show "length (deploy_payload sample_spec) \<le> maxPayloadBytes" by (simp add: maxPayloadBytes_def)
  show "deploy_payload sample_spec \<noteq> []" by code_simp
qed

lemma sample_deploy_valid: "validateInput sample_deploy False = None"
  using deploy_payload_Valid [of sample_spec] sample_payload(1)
  by (simp add: validateInput_def sample_deploy_fields invalid_field_def ContainsAny_def control_chars_def maxAttemptsLimit_def Let_def)

lemma sample_deploy_submit:
  "SubmitInTx sample_digest (read_id sample_bytes) 0 sample_deploy (empty_store 2) =
     Inr ((\<lparr>subCommand = public sample_deploy_row, subCreated = True, subSuperseded = []\<rparr>, []), sample_deployed)"
  using sample_id_hex sample_id_runes sample_payload(2)
  unfolding SubmitInTx_def sample_deploy_valid
  by (simp add: submitTx_def idempotentTx_def newRecord_def newID_def supersedeTx_def supersede_candidates_def read_id_def
      lockRows_def insertTx_def pruneTx_def Let_def sample_deploy_fields empty_store_def sample_row_def sample_bytes_def
      sample_deploy_row_def sample_deployed_def valueOrDefault_def digest_def sample_digest_def insert_fits_def update_fits_def
      RuneCount_def rune_start_def Command.truncate_def DeployAction_def)

definition sample_admin :: User where "sample_admin = User.truncate sample_operator"

definition sample_confirmed :: cloud_db where
  "sample_confirmed = confirm_record 0 2 1 1 4000 sample_id sample_charged"

definition sample_confirm :: core_op where
  "sample_confirm = Confirm [] Runs Runs 0 sample_bytes 0 sample_admin 1 sample_target"

definition sample_exec :: "core_op \<Rightarrow> queue_store core_db \<Rightarrow> queue_store core_db" where
  "sample_exec = core_exec sample_service sample_outside sample_digest"

abbreviation fresh :: "queue_store core_db" where "fresh \<equiv> installed 0 (\<lambda>_. []) [] 2"

lemma sample_confirmTx:
  "confirmTx sample_service (SubmitInTx sample_digest (read_id sample_bytes) 0) 0 sample_admin 1 sample_target
      \<lparr>cloud = sample_pending, ledger = empty_store 2\<rparr> =
    Inr ((public sample_deploy_row, 1, []), \<lparr>cloud = sample_confirmed, ledger = sample_deployed\<rparr>)"
proof -
  have "deploy_input sample_admin 1 sample_target sample_spec = sample_deploy" by (simp add: sample_deploy_def sample_admin_def)
  moreover have "commandID (public sample_deploy_row) = sample_id"
    by (simp add: sample_deploy_row_def sample_row_def Command.truncate_def)
  moreover have "uID sample_admin = 2" by (simp add: sample_admin_def sample_operator_def new_user_def User.truncate_def)
  moreover have "user_exists 2 sample_charged" by code_simp
  ultimately show ?thesis
    using sample_id_runes by (simp add: confirmTx_def sample_confirm_charge sample_deploy_submit sample_confirmed_def RuneCount_def del: One_nat_def)
qed

lemma sample_confirm_exec:
  "sample_exec sample_confirm \<lparr>cloud = sample_pending, ledger = empty_store 2\<rparr> =
    \<lparr>cloud = sample_confirmed, ledger = sample_deployed\<rparr>"
proof -
  have "sample_target\<lparr>tgServerID := TrimSpace (tgServerID sample_target)\<rparr> = sample_target" by (simp add: sample_target_def)
  moreover have "uRole sample_admin = RoleAdmin" "tgServerID sample_target \<noteq> []"
    by (simp_all add: sample_admin_def sample_operator_def new_user_def User.truncate_def sample_target_def)
  ultimately show ?thesis
    unfolding sample_exec_def sample_confirm_def core_exec.simps ConfirmOrder_def Let_def
    by (simp add: WithTx_runs [where fn = "confirmTx sample_service (SubmitInTx sample_digest (read_id sample_bytes) 0) 0 sample_admin 1 sample_target"
          and s = "\<lparr>cloud = sample_pending, ledger = empty_store 2\<rparr>", OF sample_confirmTx]
        ForgetInputs_def del: One_nat_def split: sum.splits)
qed

lemma sample_pending_reach: "reach core_enabled sample_exec fresh \<lparr>cloud = sample_pending, ledger = empty_store 2\<rparr>"
proof -
  have step: "reach core_enabled sample_exec fresh \<lparr>cloud = cloud_exec sample_service sample_outside op c, ledger = q\<rparr>"
    if "reach core_enabled sample_exec fresh \<lparr>cloud = c, ledger = q\<rparr>" "\<And>c. cloud_enabled op c" for op c q
    using reach.step [OF that(1), of "Commerce op"] that(2) by (simp add: sample_exec_def core_enabled_def)
  have "reach core_enabled sample_exec fresh \<lparr>cloud = installed_cloud 0 (\<lambda>_. []) [], ledger = empty_store 2\<rparr>"
    using reach.start [of core_enabled sample_exec fresh] by (simp add: installed_def)
  then have "reach core_enabled sample_exec fresh \<lparr>cloud = sample_registered, ledger = empty_store 2\<rparr>"
    unfolding sample_register [symmetric] by (rule step) (simp add: cloud_enabled_def)
  then have "reach core_enabled sample_exec fresh \<lparr>cloud = cloud_exec sample_service sample_outside
      (OpEnsureOperator Runs Runs 0 ''op'') sample_registered, ledger = empty_store 2\<rparr>"
    by (rule step) (simp add: cloud_enabled_def)
  then have "reach core_enabled sample_exec fresh \<lparr>cloud = sample_funded, ledger = empty_store 2\<rparr>"
    unfolding sample_fund [symmetric] by (rule step) (simp add: cloud_enabled_def)
  then show ?thesis unfolding sample_place [symmetric] by (rule step) (simp add: cloud_enabled_def)
qed

lemma sample_confirmed_reach: "reach core_enabled sample_exec fresh \<lparr>cloud = sample_confirmed, ledger = sample_deployed\<rparr>"
  unfolding sample_confirm_exec [symmetric]
  by (rule reach.step [OF sample_pending_reach]) (simp add: core_enabled_def sample_confirm_def)

end
