(* ===== verification/Cloud_Props.thy ===== *)
theory Cloud_Props
  imports Cloud_Sample
begin

text \<open>
  What the commerce service guarantees: ledgers that add up, hours billed once and within the
  monthly cap, invoices that reconcile, an order confirmed with its deployment or not at all,
  refunds, and charges that are safe to repeat.
\<close>

lemma find_snoc: "List.find P xs = None \<Longrightarrow> P x \<Longrightarrow> List.find P (xs @ [x]) = Some x"
  by (induction xs) (auto split: if_splits)

section \<open>Money\<close>

lemma LedgerConsistent_wf:
  assumes "ledger_wf sv s" and "row_find wUser uid (wallets s) = Some w"
  shows "LedgerConsistent Runs uid s = Inr True" and "0 \<le> wBalance w"
  using ledger_wf_wallet [OF assms] assms(2)
  by (simp_all add: LedgerConsistent_def query_def runTx_def scan_int64_def)

text \<open>C19: In every state the controller can reach from a fresh installation, whatever operations
  ran and whatever database faults of \<open>Sql_Tx\<close> they met, each wallet's balance is the sum of its ledger and
  not negative, so the consistency check the service offers always reports true.\<close>

theorem wallets_always_consistent:
  assumes "reach core_enabled (core_exec sv w sha) (installed now fa fs limit) s"
    and "row_find wUser uid (wallets (cloud s)) = Some wallet'"
  shows "LedgerConsistent Runs uid (cloud s) = Inr True \<and> 0 \<le> wBalance wallet'"
proof -
  have "core_wf sv sha s" using core.reach_inv [OF assms(1) installed_wf] .
  then have "ledger_wf sv (cloud s)" by (simp add: core_wf_def commerce_wf_def)
  from LedgerConsistent_wf [OF this assms(2)] show ?thesis by simp
qed

theorem wallets_always_consistent_witness: "LedgerConsistent Runs 1 sample_confirmed = Inr True"
proof -
  have "row_find wUser 1 (wallets sample_confirmed) = Some \<lparr>wUser = 1, wBalance = 996000, wUpdatedAt = 0\<rparr>"
    by (simp add: sample_confirmed_def confirm_record_def update_order_def update_project_def sample_charged_def sample_shop_def row_find_def)
  with wallets_always_consistent [OF sample_confirmed_reach [unfolded sample_exec_def], of 1] show ?thesis by simp
qed

text \<open>C20: In every reachable state no project has been billed twice for the same hour, no hour
  costs more than the project's hourly price, and the hours of any calendar month add up to at
  most its monthly price.\<close>

theorem hours_billed_once_and_capped:
  assumes "reach core_enabled (core_exec sv w sha) (installed now fa fs limit) s" and "p \<in> set (rows (projects (cloud s)))"
  shows "distinct (map rPeriod (filter (\<lambda>r. rProject r = pID p) (rows (usage (cloud s))))) \<and>
    list_all (\<lambda>r. 0 \<le> rAmount r \<and> rAmount r \<le> pHourly p) (filter (\<lambda>r. rProject r = pID p) (rows (usage (cloud s)))) \<and>
    usage_sum (\<lambda>r. rProject r = pID p \<and> month_of (rPeriod r) = k) (cloud s) \<le> pMonthly p"
proof -
  let ?s = "cloud s" and ?rs = "filter (\<lambda>r. rProject r = pID p) (rows (usage (cloud s)))"
  have wf: "usage_wf ?s" "tbl_wf pID (projects ?s)"
    using core.reach_inv [OF assms(1) installed_wf] by (simp_all add: core_wf_def commerce_wf_def sales_wf_def)
  have "distinct (map (\<lambda>r. (rProject r, rPeriod r)) ?rs)"
    using wf(1) unfolding usage_wf_def by (blast intro: distinct_map_filter)
  then have "distinct (map rPeriod ?rs)" by (auto simp: distinct_map inj_on_def)
  moreover have "0 \<le> rAmount r \<and> rAmount r \<le> pHourly p" if r: "r \<in> set ?rs" for r
  proof -
    obtain q where "q \<in> set (rows (projects ?s))" "pID q = rProject r" "0 \<le> rAmount r" "rAmount r \<le> pHourly q"
      using wf(1) r unfolding usage_wf_def by auto
    moreover from this have "q = p" using r assms(2) wf(2) by (auto intro: tbl_wf_unique)
    ultimately show ?thesis by simp
  qed
  moreover have "month_usage (pID p) k ?s \<le> pMonthly p" using wf(1) assms(2) by (simp add: usage_wf_def)
  ultimately show ?thesis by (simp add: list_all_iff month_usage_def)
qed

theorem hours_billed_once_and_capped_witness:
  "\<exists>p. rows (projects sample_confirmed) = [p] \<and> usage_sum (\<lambda>r. rProject r = pID p \<and> month_of (rPeriod r) = 0) sample_confirmed \<le> pMonthly p"
proof -
  obtain p where p: "rows (projects sample_confirmed) = [p]"
    by (simp add: sample_confirmed_def confirm_record_def update_order_def update_project_def sample_charged_def)
  with hours_billed_once_and_capped [OF sample_confirmed_reach [unfolded sample_exec_def], of p 0] show ?thesis by simp
qed

lemma sum_list_sort: "sum_list (map f (sort_key k xs)) = sum_list (map (f :: 'a \<Rightarrow> int) xs)"
proof (induction xs)
  case (Cons x xs)
  have "sum_list (map f (insort_key k x ys)) = f x + sum_list (map f ys)" for ys by (induction ys) auto
  with Cons show ?case by simp
qed simp

text \<open>C21: In every reachable state an invoice reconciles three ways: its total is its subtotal
  plus its tax, the sum of the lines the service shows with it, and the sum of the usage rows it
  has claimed (both as 64-bit integers).\<close>

theorem invoices_reconcile:
  assumes "reach core_enabled (core_exec sv w sha) (installed now fa fs limit) s"
    and "InvoiceOf ev uid vid (cloud s) = Inr (v, ls)"
  shows "vTotal v = vSubtotal v + vTax v \<and> 0 \<le> vSubtotal v \<and> 0 \<le> vTax v \<and>
    vTotal v = wrap64 (sum_list (map lAmount ls)) \<and>
    vTotal v = wrap64 (usage_sum (\<lambda>r. rInvoice r = Some vid) (cloud s))"
proof -
  have wf: "invoices_wf (cloud s)" using core.reach_inv [OF assms(1) installed_wf] by (simp add: core_wf_def commerce_wf_def)
  have "read_invoice uid vid (cloud s) = Inr (v, ls)" using assms(2) unfolding InvoiceOf_def by (rule query_valueD)
  then have v: "row_by vID vid (invoices (cloud s)) = Some v"
    and ls: "ls = sort_key lID (filter (\<lambda>l. lInvoice l = vid) (rows (lines (cloud s))))"
    by (auto simp: read_invoice_def split: option.splits if_splits)
  have "invoice_ok (cloud s) v" "vID v = vid" using row_by_SomeD [OF v] wf by (simp_all add: invoices_wf_def)
  moreover have "sum_list (map lAmount ls) = line_sum vid (cloud s)"
    unfolding ls line_sum_def by (simp add: sum_list_sort)
  ultimately show ?thesis by (simp add: invoice_ok_def)
qed

definition sample_invoiced :: cloud_db where
  "sample_invoiced = cloud_exec sample_service sample_outside (OpIssueInvoice [] 0 1 0 (31 * Day) (30 * Day)) sample_confirmed"

lemma sample_invoiced_reach: "reach core_enabled sample_exec fresh \<lparr>cloud = sample_invoiced, ledger = sample_deployed\<rparr>"
  using reach.step [OF sample_confirmed_reach, of "Commerce (OpIssueInvoice [] 0 1 0 (31 * Day) (30 * Day))"]
  by (simp add: sample_invoiced_def core_enabled_def cloud_enabled_def sample_exec_def)

theorem invoices_reconcile_witness:
  "\<exists>v ls. InvoiceOf Runs 1 1 sample_invoiced = Inr (v, ls) \<and> vTotal v = 4000 \<and> vTotal v = vSubtotal v + vTax v"
proof -
  have "case InvoiceOf Runs 1 1 sample_invoiced of Inl e \<Rightarrow> False | Inr (v, ls) \<Rightarrow> vTotal v = 4000" by code_simp
  then obtain v ls where v: "InvoiceOf Runs 1 1 sample_invoiced = Inr (v, ls)" "vTotal v = 4000"
    by (auto split: sum.splits)
  with invoices_reconcile [OF sample_invoiced_reach [unfolded sample_exec_def], of Runs 1 1 v ls] show ?thesis by simp
qed

section \<open>Refinement\<close>



section \<open>Confirming an order\<close>

lemma balance_cong: "wallets s' = wallets s \<Longrightarrow> balance_of uid s' = balance_of uid s"
  by (simp add: balance_of_def)

lemma confirm_charge_effect:
  assumes wf: "commerce_wf sv s" and pending: "lockPendingOrder oid s = Inr uid"
    and key: "unused_key sv uid (order_charge_key oid) s"
    and run: "confirm_charge sv now oid target' s = Inr ((pid, hourly, spec), s')"
  shows "\<exists>i b. i \<in> set (rows (items s)) \<and> iOrder i = oid \<and> hourly = iHourly i \<and> 0 < hourly \<and>
    balance_of uid s = Some b \<and> balance_of uid s' = Some (b - hourly) \<and> hourly \<le> b \<and>
    new_project uid i (tgServerID target') now pid \<in> set (rows (projects s')) \<and>
    (\<exists>r\<in>set (rows (usage s')). rProject r = pid \<and> rPeriod r = truncate_hour now \<and> rAmount r = hourly) \<and> orders s' = orders s"
  using run
proof (rule confirm_charge_cases)
  fix uid' i p charge s1 s2 r
  assume u: "lockPendingOrder oid s = Inr uid'" and i: "(i, p) \<in> set (order_items oid s)" and h: "hourly = iHourly i"
    and c: "applyTx sv now (charge_entry uid' oid (iAppName i) (iHourly i)) s = Inr (charge, s1)"
    and pr: "insert_project sv (new_project uid' i (tgServerID target') now) s1 = Inr (pid, s2)"
    and us: "insert_usage (new_usage pid (truncate_hour now) (iHourly i) (Some (tID charge)) now) s2 = Inr (r, s')"
  let ?e = "charge_entry uid oid (iAppName i) (iHourly i)"
  have item: "i \<in> set (rows (items s))" "iOrder i = oid" using order_items_row [OF i] by simp_all
  have prices: "prices_ok (iHourly i) (iMonthly i)" using wf item by (auto simp: commerce_wf_def sales_wf_def)
  have [simp]: "uid' = uid" using u pending by simp
  have e: "leUser ?e = uid" "leAmount ?e = - iHourly i" "\<not> key_used sv ?e s"
    using key by (simp_all add: charge_entry_def key_used_def)
  have "ledger_wf sv s" using wf by (simp add: commerce_wf_def)
  from wallet.moves [OF this _ c [simplified] e(3)] prices
  obtain b where b: "balance_of uid s = Some b" "balance_of uid s1 = Some (b - iHourly i)" "iHourly i \<le> b"
    by (auto simp: e prices_ok_def)
  note s2 = insert_project_cases [OF pr] and s' = insert_usage_cases [OF us]
  have "balance_of uid s' = balance_of uid s1" by (rule balance_cong) (simp add: s'(1) s2(1))
  moreover have "orders s' = orders s" by (simp add: s'(1) s2(1) applyTx_outside [OF c])
  moreover have "new_project uid i (tgServerID target') now pid \<in> set (rows (projects s'))"
    using s2(2) by (simp add: s'(1) s2(1) new_project_def)
  moreover have "\<exists>r\<in>set (rows (usage s')). rProject r = pid \<and> rPeriod r = truncate_hour now \<and> rAmount r = hourly"
    by (simp add: s'(1) new_usage_def h)
  ultimately show ?thesis using item b h prices by (auto simp: prices_ok_def)
qed

lemma row_by_update:
  assumes "\<And>r. key (f r) = key r"
  shows "row_by key k (update_where (\<lambda>r. key r = k) f t) = map_option f (row_by key k t)"
proof -
  have "row_find key k (map (\<lambda>r. if key r = k then f r else r) rs) = map_option f (row_find key k rs)" for rs
    by (induction rs) (auto simp: row_find_def assms)
  then show ?thesis by (simp add: row_by_def)
qed

lemma confirm_record_effect:
  assumes "orders c1 = orders s" and "lockPendingOrder oid s = Inr uid" and "p \<in> set (rows (projects c1))" "pID p = pid"
  shows "\<exists>o'. row_by oID oid (orders (confirm_record now rv oid pid hourly cid c1)) = Some o' \<and> oUser o' = uid \<and>
      oStatus o' = OrderProvisioning \<and> oUpfront o' = hourly"
    and "p\<lparr>pCommand := Some cid\<rparr> \<in> set (rows (projects (confirm_record now rv oid pid hourly cid c1)))"
    and "balance_of u (confirm_record now rv oid pid hourly cid c1) = balance_of u c1"
    and "usage (confirm_record now rv oid pid hourly cid c1) = usage c1"
proof -
  let ?f = "\<lambda>x. x\<lparr>oStatus := OrderProvisioning, oUpfront := hourly, oReviewer := Some rv, oReviewedAt := Some now, oUpdatedAt := now\<rparr>"
  from assms(2) obtain o' where "row_by oID oid (orders s) = Some o'" "oUser o' = uid"
    by (auto simp: lockPendingOrder_def split: option.splits if_splits)
  moreover have "row_by oID oid (orders (confirm_record now rv oid pid hourly cid c1)) = map_option ?f (row_by oID oid (orders s))"
    using row_by_update [of oID ?f oid "orders s"]
    by (simp add: confirm_record_def update_order_def update_project_def assms(1))
  ultimately show "\<exists>o'. row_by oID oid (orders (confirm_record now rv oid pid hourly cid c1)) = Some o' \<and> oUser o' = uid \<and>
      oStatus o' = OrderProvisioning \<and> oUpfront o' = hourly" by simp
  show "p\<lparr>pCommand := Some cid\<rparr> \<in> set (rows (projects (confirm_record now rv oid pid hourly cid c1)))"
    using assms(3,4) by (auto simp: confirm_record_def update_order_def update_project_def)
  show "balance_of u (confirm_record now rv oid pid hourly cid c1) = balance_of u c1"
    "usage (confirm_record now rv oid pid hourly cid c1) = usage c1"
    by (simp_all add: balance_of_def confirm_record_def update_order_def update_project_def)
qed

text \<open>C23: Confirming a pending order is all or nothing across the commerce tables and the command
  ledger. Either nothing changes and an error is returned, or the order is provisioning, the
  wallet is debited by exactly the first hour, which it could afford, a provisioning project with
  its first usage row exists, and the ledger holds the deployment command the project waits for.\<close>

theorem ConfirmOrder_all_or_nothing:
  assumes wf: "core_wf sv sha s" and pending: "lockPendingOrder oid (cloud s) = Inr uid"
    and key: "unused_key sv uid (order_charge_key oid) (cloud s)"
    and run: "ConfirmOrder sv (SubmitInTx sha (read_id bytes) qnow) ForgetInputs evs ev1 ev2 now reviewer oid target' s = (r, s')"
  shows "s' = s \<and> (\<exists>e. r = Inl e) \<or>
    (\<exists>i b cid o' p spec. i \<in> set (rows (items (cloud s))) \<and> iOrder i = oid \<and> 0 < iHourly i \<and> iHourly i \<le> b \<and>
       balance_of uid (cloud s) = Some b \<and> balance_of uid (cloud s') = Some (b - iHourly i) \<and>
       row_by oID oid (orders (cloud s')) = Some o' \<and> oUser o' = uid \<and> oStatus o' = OrderProvisioning \<and>
       p \<in> set (rows (projects (cloud s'))) \<and> pUser p = uid \<and> pItem p = iID i \<and> pStatus p = ProjectProvisioning \<and>
       pCommand p = Some cid \<and>
       (\<exists>u\<in>set (rows (usage (cloud s'))). rProject u = pID p \<and> rPeriod u = truncate_hour now \<and> rAmount u = iHourly i) \<and>
       carries_out cid (deploy_input reviewer oid (target'\<lparr>tgServerID := TrimSpace (tgServerID target')\<rparr>) spec) (ledger s'))"
  using deployments.ConfirmOrder_atomic [OF run]
proof (elim disjE exE conjE)
  fix command pid gone s1
  let ?t = "target'\<lparr>tgServerID := TrimSpace (tgServerID target')\<rparr>"
  assume tx: "confirmTx sv (SubmitInTx sha (read_id bytes) qnow) now reviewer oid ?t s = Inr ((command, pid, gone), s1)"
    and s': "s' = s1\<lparr>ledger := ForgetInputs gone (ledger s1)\<rparr>"
  have w: "commerce_wf sv (cloud s)" "store_wf sha (ledger s)" using wf by (simp_all add: core_wf_def)
  obtain hourly spec c1 where ch: "confirm_charge sv now oid ?t (cloud s) = Inr ((pid, hourly, spec), c1)"
    and rec: "cloud s1 = confirm_record now (uID reviewer) oid pid hourly (commandID command) c1"
    and held: "carries_out (commandID command) (deploy_input reviewer oid ?t spec) (ledger s1)"
    using w(2) tx by (rule deployments.confirmTx_queue)
  obtain i b where i: "i \<in> set (rows (items (cloud s)))" "iOrder i = oid" "hourly = iHourly i" "0 < hourly" "hourly \<le> b"
    "balance_of uid (cloud s) = Some b" "balance_of uid c1 = Some (b - hourly)" "orders c1 = orders (cloud s)"
    and p: "new_project uid i (tgServerID ?t) now pid \<in> set (rows (projects c1))"
    and u: "\<exists>r\<in>set (rows (usage c1)). rProject r = pid \<and> rPeriod r = truncate_hour now \<and> rAmount r = hourly"
    using confirm_charge_effect [OF w(1) pending key ch] by blast
  note e = confirm_record_effect [OF i(8) pending p, where pid = pid and now = now and rv = "uID reviewer" and hourly = hourly
      and cid = "commandID command", folded rec]
  have [simp]: "cloud s' = cloud s1" by (simp add: s')
  have cmd: "carries_out (commandID command) (deploy_input reviewer oid ?t spec) (ledger s')"
    using held deployments.forget_holds by (simp add: s')
  let ?p = "(new_project uid i (tgServerID ?t) now pid)\<lparr>pCommand := Some (commandID command)\<rparr>"
  obtain o' where o: "row_by oID oid (orders (cloud s1)) = Some o'" "oUser o' = uid" "oStatus o' = OrderProvisioning"
    using e(1) by (auto simp: new_project_def)
  have "?p \<in> set (rows (projects (cloud s1)))" "balance_of uid (cloud s1) = Some (b - hourly)" "usage (cloud s1) = usage c1"
    using e(2-4) i(7) by (simp_all add: new_project_def)
  with i o u cmd show ?thesis
    by (intro disjI2 exI [of _ i] exI [of _ b] exI [of _ "commandID command"] exI [of _ o'] exI [of _ ?p] exI [of _ spec])
      (simp add: new_project_def)
qed simp

theorem ConfirmOrder_all_or_nothing_witness:
  "\<exists>p spec. p \<in> set (rows (projects sample_confirmed)) \<and> pStatus p = ProjectProvisioning \<and>
     balance_of 1 sample_confirmed = Some 996000 \<and> pCommand p = Some sample_id \<and>
     carries_out sample_id (deploy_input sample_admin 1 sample_target spec) sample_deployed"
proof -
  let ?s = "\<lparr>cloud = sample_pending, ledger = empty_store 2\<rparr>"
  let ?s' = "\<lparr>cloud = sample_confirmed, ledger = sample_deployed\<rparr>"
  obtain r where run: "ConfirmOrder sample_service (SubmitInTx sample_digest (read_id sample_bytes) 0) ForgetInputs [] Runs Runs 0
      sample_admin 1 sample_target ?s = (r, ?s')"
    using sample_confirm_exec by (auto simp: sample_exec_def sample_confirm_def prod_eq_iff)
  have wf: "core_wf sample_service sample_digest ?s" by (simp add: core_wf_def sample_pending_wf empty_store_wf)
  have order: "lockPendingOrder 1 (cloud ?s) = Inr 1" "unused_key sample_service 1 (order_charge_key 1) (cloud ?s)"
    by (simp_all del: One_nat_def) code_simp+
  have t: "sample_target\<lparr>tgServerID := TrimSpace (tgServerID sample_target)\<rparr> = sample_target" by (simp add: sample_target_def)
  have changed: "?s' \<noteq> ?s" by (simp add: sample_deployed_def empty_store_def)
  have one: "rows (items sample_pending) = [sample_item]" "balance_of 1 sample_pending = Some 1000000"
    by (simp_all add: sample_pending_def balance_of_def row_find_def)
  have p: "rows (projects sample_confirmed) = [(sample_project ProjectProvisioning)\<lparr>pCommand := Some sample_id\<rparr>]"
    by (simp add: sample_confirmed_def confirm_record_def update_order_def update_project_def sample_charged_def
        sample_project_def new_project_def)
  from ConfirmOrder_all_or_nothing [OF wf order run] changed show ?thesis
    by (auto simp: t one p sample_item_def simp del: One_nat_def)
qed

end
