(* ===== verification/Cloud_Charges.thy ===== *)
theory Cloud_Charges
  imports Cloud_Props
begin

text \<open>
  Charges one by one: what an attempt to bill an hour does, that repeating one changes nothing, how
  a failed deployment is refunded, and that a top-up is safe to repeat. The last section proves the
  weaknesses the model shows in the key namespace of the ledger and in the choice of the month to
  invoice.
\<close>

section \<open>Billing an hour\<close>

definition billed :: "nat \<Rightarrow> time \<Rightarrow> cloud_db \<Rightarrow> bool" where
  "billed pid hour s \<longleftrightarrow> (\<exists>r\<in>set (rows (usage s)). rProject r = pid \<and> rPeriod r = hour)"

text \<open>What the next hour of a project row costs.\<close>

definition price_due :: "projectRow \<Rightarrow> time \<Rightarrow> cloud_db \<Rightarrow> int" where
  "price_due q hour s = min (pHourly q) (pMonthly q - month_usage (pID q) (month_of hour) s)"

lemma insert_usage_new: "insert_usage (new_usage pid hour amount tx now) s = Inr (uid, s') \<Longrightarrow> \<not> billed pid hour s"
  using insert_usage_cases(3) [of "new_usage pid hour amount tx now" s uid s'] by (auto simp: new_usage_def billed_def)

lemma insert_usage_dup:
  "billed pid hour s \<Longrightarrow> insert_usage (new_usage pid hour amount tx now) s = Inl (Server ErrDuplicateEntry)"
  by (auto simp: insert_usage_def billed_def new_usage_def list_ex_iff Let_def)

lemma insert_usage_ok:
  "\<not> billed pid hour s \<Longrightarrow> \<exists>uid s'. insert_usage (new_usage pid hour amount tx now) s = Inr (uid, s')"
  by (auto simp: insert_usage_def billed_def new_usage_def list_ex_iff Let_def)

lemma price_due_row:
  assumes "commerce_wf sv s" "snapshot p s" "row_by pID (pID p) (projects s) = Some q"
  shows "hour_price p (month_to_date (pID p) hour s) = price_due q hour s" "0 \<le> price_due q hour s" "price_due q hour s \<le> pHourly q"
    "int64 (- price_due q hour s)"
  using hour_price_row(1-4) [OF assms, of hour] hour_price_row(6,8) [OF assms] by (auto simp: price_due_def)

lemma chargeHourTx_billed:
  assumes "billed (pID p) hour s" "chargeHourTx sv now p hour s = Inr (a, s')"
  shows "s' = s \<and> a = (0, False)"
  using assms(2)
  by (rule chargeHourTx_cases) (use insert_usage_dup [OF assms(1)] in auto)

lemma applyTx_funds:
  assumes wf: "ledger_wf sv s" and amount: "int64 (leAmount e)" and "applyTx sv now e s = Inl (Domain ErrInsufficientFunds)"
  shows "\<exists>b. balance_of (leUser e) s = Some b \<and> b + leAmount e < 0 \<or>
    balance_of (leUser e) s = Some b \<and> 2 ^ 63 \<le> b + leAmount e"
proof -
  from assms(3) obtain w where w: "row_find wUser (leUser e) (wallets s) = Some w" "wrap64 (wBalance w + leAmount e) < 0"
    by (auto simp: applyTx_def insert_transaction_def update_wallet_def funds_error_def IsCheckViolation_def ErrDataTooLong_def
        ErrCheckViolation_def ErrMariaDBCheck_def ErrDuplicateEntry_def ErrForeignKey_def Let_def
        split: if_splits option.splits sum.splits)
  have "\<not> (0 \<le> wBalance w + leAmount e \<and> wBalance w + leAmount e < 2 ^ 63)"
    using w(2) wrap64_id [of "wBalance w + leAmount e"] by auto
  with w(1) show ?thesis by (auto simp: balance_of_def)
qed

lemma chargeHourTx_cannot_pay:
  assumes wf: "commerce_wf sv s" "snapshot p s" and run: "chargeHourTx sv now p hour s = Inl (Domain ErrCannotPay)"
  shows "\<exists>q b. row_by pID (pID p) (projects s) = Some q \<and> balance_of (pUser p) s = Some b \<and> b < price_due q hour s"
proof -
  from run obtain q uid s1 where row: "row_by pID (pID p) (projects s) = Some q"
    and ins: "insert_usage (new_usage (pID p) hour (hour_price p (month_to_date (pID p) hour s)) None now) s = Inr (uid, s1)"
    and app: "applyTx sv now (usage_entry p hour (hour_price p (month_to_date (pID p) hour s))) s1 = Inl (Domain ErrInsufficientFunds) \<or>
      applyTx sv now (usage_entry p hour (hour_price p (month_to_date (pID p) hour s))) s1 = Inl (Domain ErrCannotPay)"
    by (auto simp: chargeHourTx_def scan_int64_def insert_usage_def Let_def split: option.splits if_splits sum.splits)
  have "applyTx sv now e s1 \<noteq> Inl (Domain ErrCannotPay)" for e
    by (auto simp: applyTx_def insert_transaction_def update_wallet_def funds_error_def Let_def split: option.splits if_splits sum.splits)
  with app have app: "applyTx sv now (usage_entry p hour (price_due q hour s)) s1 = Inl (Domain ErrInsufficientFunds)"
    by (simp add: price_due_row(1) [OF wf row])
  have s1: "wallets s1 = wallets s" "transactions s1 = transactions s" by (simp_all add: insert_usage_cases(1) [OF ins])
  then have "ledger_wf sv s1" using wf(1) ledger_wf_cong [of s1 s sv] by (simp add: commerce_wf_def)
  from applyTx_funds [OF this _ app] price_due_row(2,4) [OF wf row, of hour]
  obtain b where b: "balance_of (pUser p) s1 = Some b" "b < price_due q hour s \<or> 2 ^ 63 \<le> b - price_due q hour s"
    by (auto simp: usage_entry_def)
  have bal: "balance_of (pUser p) s = Some b" using b(1) balance_cong [of s1 s] s1(1) by simp
  then have "b < 2 ^ 63" using wf(1) ledger_wf_wallet [of sv s] by (auto simp: balance_of_def commerce_wf_def)
  with b(2) price_due_row(2) [OF wf row, of hour] bal row show ?thesis by fastforce
qed

lemma chargeHourTx_charged:
  assumes wf: "commerce_wf sv s" "snapshot p s" and key: "unused_key sv (pUser p) (usage_key (pID p) hour) s"
    and run: "chargeHourTx sv now p hour s = Inr ((a, True), s')"
  shows "\<exists>q. row_by pID (pID p) (projects s) = Some q \<and> pStatus q = ProjectActive \<and> a = price_due q hour s \<and>
    \<not> billed (pID p) hour s \<and> billed (pID p) hour s' \<and>
    (\<forall>b. balance_of (pUser p) s = Some b \<and> 0 < a \<longrightarrow> balance_of (pUser p) s' = Some (b - a) \<and> a \<le> b)"
  using run
proof (rule chargeHourTx_cases, goal_cases)
  case (2 q uid s1)
  have "billed (pID p) hour s1" using insert_usage_cases(1) [OF 2(3)] by (auto simp: billed_def new_usage_def)
  with 2 insert_usage_new [OF 2(3)] show ?case by (auto simp: price_due_row(1) [OF wf 2(1)])
next
  case (3 q uid s1 t s2)
  let ?e = "usage_entry p hour (price_due q hour s)"
  note price = price_due_row [OF wf 3(1), of hour]
  note s1 = insert_usage_cases(1) [OF 3(3)]
  have same: "wallets s1 = wallets s" "transactions s1 = transactions s" by (simp_all add: s1)
  have l1: "ledger_wf sv s1" using wf(1) ledger_wf_cong [of s1 s sv] same by (simp add: commerce_wf_def)
  have app: "applyTx sv now ?e s1 = Inr (t, s2)" using 3(5) by (simp add: price(1))
  have unused: "\<not> key_used sv ?e s1"
    using key same by (simp add: key_used_def unused_key_def usage_entry_def transactionByKey_def)
  have e: "leUser ?e = pUser p" "leAmount ?e = - price_due q hour s" by (simp_all add: usage_entry_def)
  from wallet.moves [OF l1 _ app unused] price(4)
  obtain b where "balance_of (pUser p) s1 = Some b" "balance_of (pUser p) s2 = Some (b - price_due q hour s)" "price_due q hour s \<le> b"
    by (auto simp: e)
  then have "balance_of (pUser p) s = Some b" "balance_of (pUser p) s' = Some (b - price_due q hour s)" "price_due q hour s \<le> b"
    using balance_cong [of s1 s] balance_cong [of s' s2] same 3(6) by simp_all
  moreover have "billed (pID p) hour s'"
    unfolding 3(6) billed_def applyTx_outside [OF app] s1 by (auto simp: new_usage_def)
  ultimately show ?case using 3 insert_usage_new [OF 3(3)] price(1) by auto
qed simp

lemma chargeHourTx_idle:
  assumes "chargeHourTx sv now p hour s = Inr ((a, False), s')"
  shows "s' = s \<and> a = 0 \<and> (billed (pID p) hour s \<or> (\<exists>q. row_by pID (pID p) (projects s) = Some q \<and> pStatus q \<noteq> ProjectActive))"
proof (cases "row_by pID (pID p) (projects s)")
  case (Some q)
  show ?thesis
  proof (cases "billed (pID p) hour s")
    case False
    from insert_usage_ok [OF this] obtain uid s1 where
      "insert_usage (new_usage (pID p) hour (hour_price p (month_to_date (pID p) hour s)) None now) s = Inr (uid, s1)" by blast
    with assms Some show ?thesis
      by (auto simp: chargeHourTx_def scan_int64_def Let_def split: if_splits sum.splits)
  qed (use chargeHourTx_billed [OF _ assms] in simp)
qed (use assms in \<open>simp add: chargeHourTx_def\<close>)


abbreviation sample_live :: cloud_db where "sample_live \<equiv> sample_shop OrderActive ProjectActive"

lemma sample_live_row: "row_by pID 1 (projects sample_live) = Some (sample_project ProjectActive)"
  "snapshot (sample_project ProjectActive) sample_live"
  by (simp_all add: sample_shop_def row_by_def row_find_def sample_project_def new_project_def snapshot_def same_project_def)

lemma sample_charge_run:
  "\<exists>s'. chargeHour sample_service [] 0 (sample_project ProjectActive) Hour sample_live = (Inr (4000, True), s')"
proof -
  have "fst (chargeHour sample_service [] 0 (sample_project ProjectActive) Hour sample_live) = Inr (4000, True)" by code_simp
  then show ?thesis by (metis prod.collapse)
qed




section \<open>Refunds\<close>

lemma order_charged_cong: "transactions s' = transactions s \<Longrightarrow> order_charged uid oid s' = order_charged uid oid s"
  by (simp add: order_charged_def)

lemma unprovisioned_frame:
  "wallets (unprovisioned now p oid s) = wallets s" "transactions (unprovisioned now p oid s) = transactions s"
  "items (unprovisioned now p oid s) = items s"
  "projects (unprovisioned now p oid s) =
     update_where (\<lambda>q. pID q = pID p) (\<lambda>x. x\<lparr>pStatus := ProjectFailed, pUpdatedAt := now\<rparr>) (projects s)"
  "usage (unprovisioned now p oid s) = delete_where (\<lambda>r. rProject r = pID p \<and> rInvoice r = None) (usage s)"
  by (simp_all add: unprovisioned_def advance_order_def update_project_def Let_def)

lemma find_map_keeps:
  assumes "\<And>x. P (f x) = P x"
  shows "List.find P (map f xs) = map_option f (List.find P xs)"
  using assms by (induction xs) auto

text \<open>The command still leads to the same project, whose status the update changed.\<close>

lemma project_of_command_failed:
  assumes "project_of_command cid s = Some (p, oid)" "items s' = items s"
    and "projects s' = update_where (\<lambda>q. pID q = pID p) (\<lambda>x. x\<lparr>pStatus := st, pUpdatedAt := now\<rparr>) (projects s)"
  shows "project_of_command cid s' = Some (p\<lparr>pStatus := st, pUpdatedAt := now\<rparr>, oid)"
proof -
  let ?f = "\<lambda>q. if pID q = pID p then q\<lparr>pStatus := st, pUpdatedAt := now\<rparr> else q"
  let ?P = "\<lambda>p. pCommand p = Some cid \<and> row_by iID (pItem p) (items s) \<noteq> None"
  have find: "List.find ?P (rows (projects s)) = Some p" and item: "map_option iOrder (row_by iID (pItem p) (items s)) = Some oid"
    using assms(1) by (auto simp: project_of_command_def split: option.splits)
  have "List.find ?P (rows (projects s')) = Some (?f p)"
    unfolding assms(3) rows_update_where using find by (subst find_map_keeps) auto
  with item show ?thesis by (auto simp: project_of_command_def assms(2))
qed

lemma transitionTx_cloud_failed:
  assumes wf: "ledger_wf sv s" and p: "project_of_command cid s = Some (p, oid)" "pStatus p = ProjectProvisioning"
    and key: "unused_key sv (pUser p) (order_refund_key oid) s"
    and run: "transitionTx_cloud sv now False cid s = Inr (u, s')"
  shows "balance_of uid s' = (if uid = pUser p then map_option (\<lambda>b. b + max 0 (order_charged uid oid s)) (balance_of uid s)
      else balance_of uid s)"
    and "items s' = items s"
    and "projects s' = update_where (\<lambda>q. pID q = pID p) (\<lambda>x. x\<lparr>pStatus := ProjectFailed, pUpdatedAt := now\<rparr>) (projects s)"
    and "usage s' = delete_where (\<lambda>r. rProject r = pID p \<and> rInvoice r = None) (usage s)"
proof -
  let ?s1 = "unprovisioned now p oid s" and ?c = "order_charged (pUser p) oid s"
  note frame = unprovisioned_frame [of now p oid s]
  have c: "order_charged (pUser p) oid ?s1 = ?c" by (rule order_charged_cong) (rule frame(2))
  have cases: "s' = ?s1 \<and> ?c \<le> 0 \<or> 0 < ?c \<and> int64 ?c \<and> (\<exists>t. applyTx sv now (refund_entry (pUser p) oid ?c) ?s1 = Inr (t, s'))"
    using run p c by (auto simp: transitionTx_cloud_def scan_int64_def Let_def split: if_splits sum.splits)
  have b1: "balance_of uid ?s1 = balance_of uid s" for uid by (rule balance_cong) (rule frame(1))
  have out: "balance_of uid s' = (if uid = pUser p then map_option (\<lambda>b. b + max 0 ?c) (balance_of uid s) else balance_of uid s) \<and>
    items s' = items ?s1 \<and> projects s' = projects ?s1 \<and> usage s' = usage ?s1" for uid
    using cases
  proof (elim disjE exE conjE)
    assume "s' = ?s1" "?c \<le> 0"
    then show ?thesis using b1 by (simp add: max_def option.map_ident)
  next
    fix t assume pos: "0 < ?c" "- (2 ^ 63) \<le> ?c" "?c < 2 ^ 63" and app: "applyTx sv now (refund_entry (pUser p) oid ?c) ?s1 = Inr (t, s')"
    let ?e = "refund_entry (pUser p) oid ?c"
    have l1: "ledger_wf sv ?s1" using wf ledger_wf_cong [of ?s1 s sv] frame by simp
    have e: "leUser ?e = pUser p" "leAmount ?e = ?c" "\<not> key_used sv ?e ?s1"
      using key by (simp_all add: refund_entry_def key_used_def unused_key_def transactionByKey_def frame)
    from wallet.moves [OF l1 _ app e(3)] wallet.others [OF l1 _ app, of uid] pos b1 show ?thesis
      by (auto simp: e applyTx_outside [OF app])
  qed
  show "balance_of uid s' = (if uid = pUser p then map_option (\<lambda>b. b + max 0 (order_charged uid oid s)) (balance_of uid s)
      else balance_of uid s)" using out [of uid] by simp
  show "items s' = items s"
    "projects s' = update_where (\<lambda>q. pID q = pID p) (\<lambda>x. x\<lparr>pStatus := ProjectFailed, pUpdatedAt := now\<rparr>) (projects s)"
    "usage s' = delete_where (\<lambda>r. rProject r = pID p \<and> rInvoice r = None) (usage s)"
    using out by (simp_all add: frame)
qed


definition sample_failed :: Command where
  "sample_failed = (public sample_deploy_row)\<lparr>state := CommandFailed\<rparr>"


section \<open>Top-ups\<close>

lemma replayed:
  assumes "ledger_wf sv s" "applyTx sv now e s = Inr (t, s')" "leKey e \<noteq> []"
  shows "\<exists>r. transactionByKey sv (leUser e) (leKey e) s' = Some r \<and> Transaction.truncate r = t \<and> tKind r = leKind e \<and>
    tAmount r = leAmount e \<and> (\<exists>w. row_find wUser (leUser e) (wallets s') = Some w) \<and> leAmount e \<noteq> 0"
  using assms(2)
proof (rule applyTx_cases, goal_cases)
  case (1 r)
  from assms(2) 1(1) have "leAmount e \<noteq> 0" "\<exists>w. row_find wUser (leUser e) (wallets s) = Some w"
    by (auto simp: applyTx_def split: if_splits option.splits)
  with 1 show ?case by (auto simp: replays_def)
next
  case (2 w)
  let ?r = "entry_row now e (wrap64 (wBalance w + leAmount e)) (nextID (transactions s))"
  have "List.find (same_key sv (leUser e) (leKey e)) (rows (transactions s) @ [?r]) = Some ?r"
    using 2(2) assms(3) by (intro find_snoc) (auto simp: unused_key_def transactionByKey_def same_key_def)
  then have "transactionByKey sv (leUser e) (leKey e) s' = Some ?r" by (simp add: transactionByKey_def 2(5) applied_def)
  moreover have "\<exists>w. row_find wUser (leUser e) (wallets s') = Some w"
    using 2(1) by (simp add: 2(5) applied_def row_find_update)
  ultimately show ?case using 2 by auto
qed

lemma resume_one_ledger:
  assumes "resume_one prov ev now p s = (err, d, calls, s')"
  shows "wallets s' = wallets s \<and> transactions s' = transactions s"
  using assms by (auto simp: resume_one_def runTx_def switch_project_def provision_def split: tx_event.splits bool.splits prod.splits)

lemma resume_from_ledger:
  "resume_from sv prov env balance ps acc s = (acc', s') \<Longrightarrow> wallets s' = wallets s \<and> transactions s' = transactions s"
proof (induction ps arbitrary: acc s)
  case (Cons p ps)
  obtain ev now where env: "env (pID p) = (ev, now)" by fastforce
  obtain err d calls s1 where r: "resume_one prov ev now p s = (err, d, calls, s1)" by (metis prod_cases4)
  from Cons.prems Cons.IH resume_one_ledger [OF r] show ?case
    by (fastforce simp: env r Let_def split: if_splits)
qed simp

lemma Resume_ledger:
  assumes "ResumeFundedProjects sv prov ev1 ev2 env now uid s = (r, s')"
  shows "wallets s' = wallets s" "transactions s' = transactions s"
  using assms unfolding ResumeFundedProjects_def Let_def
  by (auto split: sum.splits list.splits simp del: resume_from.simps dest!: resume_from_ledger)

lemma TopUp_credit_repeat:
  assumes "ledger_wf sv s" and credit: "TopUp_credit sv evs now uid amount key s = (Inr t, s1)"
    and same: "wallets s2 = wallets s1" "transactions s2 = transactions s1"
  shows "TopUp_credit sv [] now' uid amount key s2 = (Inr t, s2)"
    and "amount' \<noteq> amount \<Longrightarrow> amount' \<noteq> 0 \<Longrightarrow> MinTopUpRial sv \<le> amount' \<Longrightarrow> amount' \<le> MaxTopUpRial sv \<Longrightarrow>
      TopUp_credit sv [] now' uid amount' key s2 = (Inl (Domain ErrConflict), s2)"
proof -
  let ?e = "topup_entry uid amount (TrimSpace key)"
  from credit have ok: "MinTopUpRial sv \<le> amount" "amount \<le> MaxTopUpRial sv" "TrimSpace key \<noteq> []" "length (TrimSpace key) \<le> 128"
    and app: "applyTx sv now ?e s = Inr (t, s1)"
    by (auto simp: TopUp_credit_def Let_def dest: WithTx_valueD split: if_splits)
  have e: "leUser ?e = uid" "leKey ?e = TrimSpace key" "leKind ?e = KindTopUp" "leAmount ?e = amount" by (simp_all add: topup_entry_def)
  obtain r w where r: "transactionByKey sv uid (TrimSpace key) s2 = Some r" "Transaction.truncate r = t" "tKind r = KindTopUp"
    "tAmount r = amount" and w: "row_find wUser uid (wallets s2) = Some w" and "amount \<noteq> 0"
    using replayed [OF assms(1) app] ok(3) unfolding e transactionByKey_def same by blast
  have again: "applyTx sv now' (topup_entry uid a (TrimSpace key)) s2 =
      (if a = 0 then Inl (Domain (ValidationError ''amount'')) else if a = amount then Inr (t, s2) else Inl (Domain ErrConflict))" for a
    using r w ok(3) by (simp add: applyTx_def topup_entry_def)
  show "TopUp_credit sv [] now' uid amount key s2 = (Inr t, s2)"
    using ok \<open>amount \<noteq> 0\<close> again [of amount]
    by (simp add: TopUp_credit_def Let_def WithTx_runs [where fn = "applyTx sv now' (topup_entry uid amount (TrimSpace key))"])
  show "TopUp_credit sv [] now' uid amount' key s2 = (Inl (Domain ErrConflict), s2)"
    if "amount' \<noteq> amount" "amount' \<noteq> 0" "MinTopUpRial sv \<le> amount'" "amount' \<le> MaxTopUpRial sv"
    using that ok again [of amount']
    by (simp add: TopUp_credit_def Let_def WithTx_domain_error [where fn = "applyTx sv now' (topup_entry uid amount' (TrimSpace key))"])
qed

text \<open>C27: A top-up is credited once per idempotency key. After a top-up of an \<^verbatim>\<open>int64\<close> amount was
  accepted, repeating the request with the same key and amount returns the same transaction and
  leaves every balance as it was, and the same key with another amount is refused as a conflict.\<close>

theorem TopUp_once_per_key:
  assumes wf: "commerce_wf sv s" and run: "TopUp sv prov evs ev1 ev2 env now uid amount key s = (Inr (t, r), s')"
  shows "(\<exists>r' s''. TopUp sv prov [] ev1' ev2' env' now' uid amount key s' = (Inr (t, r'), s'') \<and>
      (\<forall>u. balance_of u s'' = balance_of u s')) \<and>
    (amount' \<noteq> amount \<and> amount' \<noteq> 0 \<and> MinTopUpRial sv \<le> amount' \<and> amount' \<le> MaxTopUpRial sv \<longrightarrow>
      TopUp sv prov [] ev1' ev2' env' now' uid amount' key s' = (Inl (Domain ErrConflict), s'))"
proof -
  obtain s1 where credit: "TopUp_credit sv evs now uid amount key s = (Inr t, s1)"
    and resume: "ResumeFundedProjects sv prov ev1 ev2 env now uid s1 = (r, s')"
    using run by (auto simp: TopUp_def split: sum.splits prod.splits)
  have l: "ledger_wf sv s" using wf by (simp add: commerce_wf_def)
  note again = TopUp_credit_repeat(1) [OF l credit Resume_ledger [OF resume], where now' = now']
    TopUp_credit_repeat(2) [OF l credit Resume_ledger [OF resume], where now' = now' and amount' = amount']
  obtain r' s'' where r': "ResumeFundedProjects sv prov ev1' ev2' env' now' uid s' = (r', s'')" by fastforce
  have "balance_of u s'' = balance_of u s'" for u by (rule balance_cong) (rule Resume_ledger(1) [OF r'])
  with again r' show ?thesis by (auto simp: TopUp_def)
qed

theorem TopUp_once_per_key_witness:
  "\<exists>t r s' r' s''. TopUp sample_service None [] Runs Runs (\<lambda>_. (Runs, 0)) 0 1 500000 ''k2'' sample_live = (Inr (t, r), s') \<and>
     TopUp sample_service None [] Runs Runs (\<lambda>_. (Runs, 0)) 9 1 500000 ''k2'' s' = (Inr (t, r'), s'') \<and>
     balance_of 1 s'' = balance_of 1 s'"
proof -
  have "case fst (TopUp sample_service None [] Runs Runs (\<lambda>_. (Runs, 0)) 0 1 500000 ''k2'' sample_live) of Inl e \<Rightarrow> False | Inr x \<Rightarrow> True"
    by code_simp
  then obtain t r s' where run: "TopUp sample_service None [] Runs Runs (\<lambda>_. (Runs, 0)) 0 1 500000 ''k2'' sample_live = (Inr (t, r), s')"
    by (auto split: sum.splits) (metis prod.collapse)
  from TopUp_once_per_key [OF sample_shop_wf run, of Runs Runs "\<lambda>_. (Runs, 0)" 9] run show ?thesis by blast
qed

section \<open>Weaknesses\<close>

text \<open>The key of an hour's charge is predictable and shares its namespace with the keys customers
  choose for their top-ups. A top-up stored under the key of a coming hour makes the charge of that
  hour fail as a conflict: it is neither billed nor is the project suspended, and the run stops at
  that hour every time.\<close>

lemma usage_key_squatting:
  assumes wf: "commerce_wf sv s" "snapshot p s" and row: "row_by pID (pID p) (projects s) = Some q" "pStatus q = ProjectActive"
    and hour: "\<not> billed (pID p) hour s" "0 < price_due q hour s" "hour \<le> currentHour"
    and squat: "transactionByKey sv (pUser p) (usage_key (pID p) hour) s = Some t" "tKind t = KindTopUp"
    and env: "env (pID p) hour = ([], ev, now)"
  shows "chargeHour sv [] now p hour s = (Inl (Domain ErrConflict), s)"
    and "snd (bill_hours sv prov env currentHour p n hour acc s) = s"
    and "billingCalls (fst (bill_hours sv prov env currentHour p n hour acc s)) = billingCalls acc"
proof -
  obtain uid s1 where ins: "insert_usage (new_usage (pID p) hour (price_due q hour s) None now) s = Inr (uid, s1)"
    using insert_usage_ok [OF hour(1)] by blast
  have same: "transactions s1 = transactions s" "wallets s1 = wallets s" by (simp_all add: insert_usage_cases(1) [OF ins])
  have t: "t \<in> set (rows (transactions s))" "tUser t = pUser p"
    using squat(1) by (auto simp: transactionByKey_def find_Some_iff same_key_def)
  have "ledger_wf sv s" using wf(1) by (simp add: commerce_wf_def)
  with t have "pUser p \<in> wUser ` set (wallets s)" unfolding ledger_wf_def by metis
  then obtain w where "row_find wUser (pUser p) (wallets s1) = Some w"
    unfolding same(2) using row_find_None [of wUser "pUser p" "wallets s"] by (cases "row_find wUser (pUser p) (wallets s)") auto
  moreover have "usage_key (pID p) hour \<noteq> []" by (simp add: usage_key_def)
  ultimately have "applyTx sv now (usage_entry p hour (price_due q hour s)) s1 = Inl (Domain ErrConflict)"
    using squat hour(2) same(1) by (auto simp: applyTx_def usage_entry_def transactionByKey_def)
  moreover have "int64 (month_to_date (pID p) hour s)"
  proof -
    have q: "q \<in> set (rows (projects s))" "pID q = pID p" using row_by_SomeD [OF row(1)] by simp_all
    have u: "usage_wf s" and "prices_ok (pHourly q) (pMonthly q)" using wf(1) q by (simp_all add: commerce_wf_def sales_wf_def)
    moreover have "month_usage (pID q) (month_of hour) s \<le> pMonthly q" using u q(1) unfolding usage_wf_def by blast
    ultimately show ?thesis
      using month_usage_nonneg [OF u, of "pID q" "month_of hour"] q(2) by (simp add: month_to_date_usage prices_ok_def)
  qed
  ultimately have "chargeHourTx sv now p hour s = Inl (Domain ErrConflict)"
    using row ins hour(2) price_due_row(1) [OF wf row(1), of hour] by (simp add: chargeHourTx_def scan_int64_def Let_def)
  then show c: "chargeHour sv [] now p hour s = (Inl (Domain ErrConflict), s)"
    unfolding chargeHour_def by (rule WithTx_domain_error)
  show "snd (bill_hours sv prov env currentHour p n hour acc s) = s"
    by (cases n) (use c hour(3) env in simp_all)
  show "billingCalls (fst (bill_hours sv prov env currentHour p n hour acc s)) = billingCalls acc"
    by (cases n) (use c hour(3) env in \<open>simp_all add: note_error_def\<close>)
qed

text \<open>The month to invoice is a month before now by day number. On a day the previous month does not
  have, that is still the current month, which is then invoiced before it is over; the hours that
  follow are left out for good, since the period has its invoice.\<close>

lemma month_before_short_month:
  assumes "month_day (month_of t) \<le> month_day (month_of t - 1) + (Day_of_month t - 1)"
  shows "month_of (AddMonths (-1) t) = month_of t"
proof -
  let ?k = "month_of t"
  have "day_of (AddMonths (-1) t) = month_day (?k - 1) + (Day_of_month t - 1)"
    by (simp add: AddMonths_def day_of_def)
  moreover have "month_day (?k - 1) + (Day_of_month t - 1) < month_day (?k + 1)"
    using month_day_strict [of "?k - 1" ?k] month_of_day [of "day_of t"] by (simp add: Day_of_month_def month_of_def)
  ultimately show ?thesis using assms unfolding month_of_def [of "AddMonths (-1) t"] by (intro month_of_day_unique) simp_all
qed

lemma may_31_invoices_may: "month_of (AddMonths (-1) (150 * Day)) = month_of (150 * Day)"
  by (rule month_before_short_month) code_simp

lemma invoiced_period_is_closed:
  "v \<in> set (rows (invoices s)) \<Longrightarrow> vUser v = uid \<Longrightarrow> vPeriodStart v = start \<Longrightarrow> vPeriodEnd v = stop \<Longrightarrow>
   issueInvoiceTx sv now uid start until stop s = Inr (False, s)"
  by (auto simp: issueInvoiceTx_def list_ex_iff)

text \<open>The reserve an order needs is computed with wrap-around: a plan priced at \<open>2 ^ 62\<close> an hour,
  which \<open>SavePlan\<close> accepts, needs none.\<close>

lemma reserve_overflow: "pHourly p = 2 ^ 62 \<Longrightarrow> reserve sample_service p = 0"
  by (simp add: reserve_def wrap64_def)

text \<open>An adjustment with the longest reason the check admits does not fit the description column.\<close>

lemma long_reason_fails:
  assumes "row_find wUser uid (wallets s) = Some w" "0 \<le> wrap64 (wBalance w + amount)" "amount \<noteq> 0" "uRole admin = RoleAdmin"
    and "TrimSpace reason = reason" "length reason = 255" "RuneCount reason = 255"
  shows "\<exists>r. Adjust sv [] now admin uid amount reason [] s = (r, s) \<and> r = Inl (Server ErrDataTooLong)"
proof -
  let ?e = "\<lparr>leAmount = amount, leCreatedBy = uID admin, leDescription = ''Adjustment: '' @ reason, leKey = [],
    leKind = KindAdjustment, leReferenceID = 0, leReferenceType = [], leUser = uid\<rparr>"
  have "RuneCount (''Adjustment: '' @ reason) = 267" using assms(7) by (simp add: RuneCount_def rune_start_def)
  then have "applyTx sv now ?e s = Inl (Server ErrDataTooLong)"
    using assms(1-3) by (simp add: applyTx_def insert_transaction_def entry_row_def funds_error_def IsCheckViolation_def
        ErrDataTooLong_def ErrCheckViolation_def ErrMariaDBCheck_def Let_def)
  then have "WithTx [] (applyTx sv now ?e) s = (Inl (Server ErrDataTooLong), s)"
    by (simp add: WithTx_def maxTransactionAttempts_def runTx_def numeral_eq_Suc retryable_def ErrDataTooLong_def ErrDeadlock_def
        ErrLockWaitTimeout_def)
  moreover have "TrimSpace [] = []" by code_simp
  ultimately show ?thesis using assms(4-6) by (simp add: Adjust_def Let_def)
qed

end
