(* ===== verification/Cloud_Access.thy ===== *)
theory Cloud_Access
  imports Cloud_Props
begin

text \<open>
  Who may see and do what in the storefront: sessions of customers from login to logout or
  suspension, and the separation of one customer's orders, projects, invoices, tickets and wallet
  from everybody else's. The first property is the typing of the tables: every reference leads to
  a row.
\<close>

section \<open>References\<close>

lemma row_by_some_iff: "(\<exists>r. row_by key k t = Some r) \<longleftrightarrow> k \<in> key ` set (rows t)"
  using row_by_None [of key k t] by (cases "row_by key k t") auto

text \<open>C28: In every reachable state the tables are well typed: addresses and session hashes are
  unique, and the user of a wallet, order, project or session, the order of an item, the item and
  the plan of a project and the project of a usage row all exist.\<close>

theorem reachable_references_resolve:
  assumes "reach core_enabled (core_exec sv w sha) (installed now fa fs limit) s"
  shows "distinct (map (\<lambda>u. collate sv (uEmail u)) (rows (users (cloud s)))) \<and>
    distinct (map (\<lambda>x. collate sv (sTokenHash x)) (sessions (cloud s))) \<and>
    list_all (\<lambda>x. row_by uID (sUser x) (users (cloud s)) \<noteq> None) (sessions (cloud s)) \<and>
    list_all (\<lambda>x. row_by uID (wUser x) (users (cloud s)) \<noteq> None) (wallets (cloud s)) \<and>
    list_all (\<lambda>x. row_by uID (oUser x) (users (cloud s)) \<noteq> None) (rows (orders (cloud s))) \<and>
    list_all (\<lambda>x. row_by oID (iOrder x) (orders (cloud s)) \<noteq> None) (rows (items (cloud s))) \<and>
    list_all (\<lambda>x. row_by uID (pUser x) (users (cloud s)) \<noteq> None \<and> row_by iID (pItem x) (items (cloud s)) \<noteq> None \<and>
      row_by plID (pPlan x) (plans (cloud s)) \<noteq> None) (rows (projects (cloud s))) \<and>
    list_all (\<lambda>x. row_by pID (rProject x) (projects (cloud s)) \<noteq> None) (rows (usage (cloud s)))"
proof -
  have wf: "accounts_wf sv (cloud s)" "refs_wf (cloud s)" "sales_wf (cloud s)" "usage_wf (cloud s)"
    using core.reach_inv [OF assms installed_wf] by (simp_all add: core_wf_def commerce_wf_def)
  have u: "\<forall>x\<in>set (rows (usage (cloud s))). rProject x \<in> pID ` set (rows (projects (cloud s)))"
    using wf(4) unfolding usage_wf_def by (metis imageI)
  show ?thesis
    using wf(1-3) u unfolding accounts_wf_def accounts_ok_def refs_wf_def sales_wf_def
    by (simp add: list_all_iff row_by_some_iff)
qed

theorem reachable_references_resolve_witness:
  "list_all (\<lambda>x. row_by uID (pUser x) (users sample_confirmed) \<noteq> None) (rows (projects sample_confirmed))"
  using reachable_references_resolve [OF sample_confirmed_reach [unfolded sample_exec_def]]
  by (simp add: list_all_iff)

section \<open>Sessions\<close>

lemma length_base64: "length (base64_url s) = (4 * length s + 2) div 3"
  by (induction s rule: base64_url.induct) (simp_all add: Let_def)

lemma randomToken_length: "randomToken (Some bytes) = Inr token \<Longrightarrow> length bytes = 32 \<Longrightarrow> length token = 43"
  by (auto simp: randomToken_def length_base64)

lemma open_session_new:
  assumes "accounts_wf sv s" and run: "loginTx sv x s = Inr (u, s')" and user: "r \<in> set (rows (users s))" "uID r = sUser x"
    and live: "sRevokedAt x = None" "t < sExpiresAt x"
  shows "open_session sv t (sTokenHash x) s' = Some (x, r\<lparr>uLastLoginAt := Some (sCreatedAt x)\<rparr>)"
proof -
  let ?f = "\<lambda>u. u\<lparr>uLastLoginAt := Some (sCreatedAt x)\<rparr>"
  from run have s': "sessions s' = sessions s @ [x]" "users s' = update_where (\<lambda>u. uID u = sUser x) ?f (users s)"
    and new: "\<forall>y\<in>set (sessions s). \<not> same_token sv (sTokenHash x) y"
    by (auto simp: loginTx_def list_ex_iff split: if_splits)
  have "List.find (\<lambda>y. same_token sv (sTokenHash x) y \<and> sRevokedAt y = None \<and> sExpiresAt y > t) (sessions s @ [x]) = Some x"
    using new live by (intro find_snoc) (auto simp: find_None_iff same_token_def)
  moreover have "row_by uID (sUser x) (users s) = Some r"
    using row_by_wf [of uID "users s" r] assms(1) user by (simp add: accounts_wf_def accounts_ok_def)
  then have "row_by uID (sUser x) (users s') = Some (?f r)"
    unfolding s'(2) using row_by_update [of uID ?f "sUser x" "users s"] by simp
  ultimately show ?thesis by (simp add: open_session_def s'(1))
qed

lemma Login_cases:
  assumes "Login sv verify sha ev evs now d1 d2 email password s = (Inr se, s')"
  obtains u token csrf where "u \<in> set (rows (users s))" and "uRole u = RoleCustomer" and "uStatus u = AccountActive"
    and "verify (uPasswordHash u) password" and "randomToken d1 = Inr token"
    and "loginTx sv \<lparr>sTokenHash = hashToken sha token, sUser = uID u, sCSRFToken = csrf, sCreatedAt = now,
        sExpiresAt = now + SessionTTL sv, sRevokedAt = None\<rparr> s = Inr ((), s')"
    and "se = \<lparr>seCSRFToken = csrf, seExpiresAt = now + SessionTTL sv, seToken = token, seUser = User.truncate u\<lparr>uLastLoginAt := Some now\<rparr>\<rparr>"
proof -
  let ?q = "query ev (\<lambda>s. Inr (customer_by_email sv (ToLower (TrimSpace email)) s)) s :: cloud_error store_error + userRow option"
  obtain u where q: "?q = Inr (Some u)"
    using assms by (cases ?q) (auto simp: Login_def split: option.splits)
  then have u: "u \<in> set (rows (users s))" "uRole u = RoleCustomer"
    by (auto simp: customer_by_email_def find_Some_iff dest!: query_valueD)
  from assms q obtain token csrf where "verify (uPasswordHash u) password" "uStatus u = AccountActive" "randomToken d1 = Inr token"
    "WithTx evs (loginTx sv \<lparr>sTokenHash = hashToken sha token, sUser = uID u, sCSRFToken = csrf, sCreatedAt = now,
        sExpiresAt = now + SessionTTL sv, sRevokedAt = None\<rparr>) s = (Inr (), s')"
    "se = \<lparr>seCSRFToken = csrf, seExpiresAt = now + SessionTTL sv, seToken = token, seUser = User.truncate u\<lparr>uLastLoginAt := Some now\<rparr>\<rparr>"
    by (auto simp: Login_def split: sum.splits if_splits prod.splits)
  with that [OF u] show thesis by (blast dest: WithTx_valueD)
qed

text \<open>C29: A session works as issued. After a login with a 32-byte random token, the token
  authenticates to exactly the session that was returned until it expires, and not at or after
  its expiry.\<close>

theorem login_session_authenticates:
  assumes wf: "commerce_wf sv s" and run: "Login sv verify sha ev evs now (Some bytes) d2 email password s = (Inr se, s')"
    and bytes: "length bytes = 32"
  shows "(t < now + SessionTTL sv \<longrightarrow> Authenticate sv sha Runs t (seToken se) s' = Inr se) \<and>
    (now + SessionTTL sv \<le> t \<longrightarrow> Authenticate sv sha Runs t (seToken se) s' = Inl (Domain ErrSessionExpired))"
proof -
  obtain u token csrf where u: "u \<in> set (rows (users s))" "uStatus u = AccountActive"
    and tok: "randomToken (Some bytes) = Inr token"
    and tx: "loginTx sv \<lparr>sTokenHash = hashToken sha token, sUser = uID u, sCSRFToken = csrf, sCreatedAt = now,
        sExpiresAt = now + SessionTTL sv, sRevokedAt = None\<rparr> s = Inr ((), s')"
    and se: "se = \<lparr>seCSRFToken = csrf, seExpiresAt = now + SessionTTL sv, seToken = token, seUser = User.truncate u\<lparr>uLastLoginAt := Some now\<rparr>\<rparr>"
    using run by (rule Login_cases)
  have len: "\<not> length token < 20" "\<not> 128 < length token" using randomToken_length [OF tok bytes] by simp_all
  have acc: "accounts_wf sv s" using wf by (simp add: commerce_wf_def)
  have "Authenticate sv sha Runs t token s' = Inr se" if "t < now + SessionTTL sv"
    using open_session_new [OF acc tx u(1)] that u(2) len
    by (simp add: Authenticate_def query_def runTx_def se User.truncate_def)
  moreover have "Authenticate sv sha Runs t token s' = Inl (Domain ErrSessionExpired)" if "now + SessionTTL sv \<le> t"
  proof -
    have "List.find (\<lambda>y. same_token sv (hashToken sha token) y \<and> sRevokedAt y = None \<and> t < sExpiresAt y) (sessions s') = None"
      using tx that by (auto simp: loginTx_def find_None_iff list_ex_iff split: if_splits)
    then show ?thesis using len by (simp add: Authenticate_def open_session_def query_def runTx_def)
  qed
  ultimately show ?thesis by (simp add: se)
qed

definition sample_sha256 :: "string \<Rightarrow> string" where "sample_sha256 _ = replicate 32 CHR ''x''"

theorem login_session_authenticates_witness:
  "\<exists>se s'. Login sample_service (\<lambda>_ _. True) sample_sha256 Runs [] 5 (Some (replicate 32 CHR ''a'')) (Some (replicate 32 CHR ''b''))
      ''Sam@example.com'' ''correct horse'' sample_pending = (Inr se, s') \<and>
    Authenticate sample_service sample_sha256 Runs 9 (seToken se) s' = Inr se"
proof -
  let ?run = "Login sample_service (\<lambda>_ _. True) sample_sha256 Runs [] 5 (Some (replicate 32 CHR ''a'')) (Some (replicate 32 CHR ''b''))
      ''Sam@example.com'' ''correct horse'' sample_pending"
  let ?u = sample_customer and ?x = "\<lparr>sTokenHash = hashToken sample_sha256 (base64_url (replicate 32 CHR ''a'')), sUser = 1,
      sCSRFToken = base64_url (replicate 32 CHR ''b''), sCreatedAt = 5, sExpiresAt = 5 + SessionTTL sample_service, sRevokedAt = None\<rparr>"
  have mail: "ToLower (TrimSpace ''Sam@example.com'') = ''sam@example.com''" by code_simp
  have u: "customer_by_email sample_service ''sam@example.com'' sample_pending = Some ?u" "uStatus ?u = AccountActive" "uID ?u = 1"
    by (simp_all add: customer_by_email_def same_email_def sample_pending_def sample_customer_def new_user_def)
  have runes: "RuneCount x \<le> length x" for x by (simp add: RuneCount_def)
  have fits: "RuneCount (sTokenHash ?x) \<le> 64" "RuneCount (sCSRFToken ?x) \<le> 64"
    using runes [of "sTokenHash ?x"] runes [of "sCSRFToken ?x"] by (simp_all add: hashToken_def sample_sha256_def length_base64)
  have "user_exists 1 sample_pending" "sessions sample_pending = []"
    by (simp_all add: user_exists_def row_by_None sample_pending_def sample_customer_def new_user_def installed_cloud_def empty_cloud_def)
  with fits obtain s' where "loginTx sample_service ?x sample_pending = Inr ((), s')" by (simp add: loginTx_def)
  from WithTx_runs [where fn = "loginTx sample_service ?x" and s = sample_pending, OF this]
  obtain se s' where run: "?run = (Inr se, s')"
    using u by (simp add: Login_def mail query_def runTx_def randomToken_def)
  from login_session_authenticates [OF sample_pending_wf run, of 9] run show ?thesis by simp
qed

lemma Authenticate_Some:
  assumes "Authenticate sv sha ev t token s = Inr se"
  shows "\<exists>x\<in>set (sessions s). same_token sv (hashToken sha token) x \<and> sRevokedAt x = None \<and> t < sExpiresAt x \<and> uID (seUser se) = sUser x \<and>
    uStatus (seUser se) = AccountActive"
proof -
  let ?q = "query ev (\<lambda>s. Inr (open_session sv t (hashToken sha token) s)) s :: cloud_error store_error + _"
  obtain x u where q: "?q = Inr (Some (x, u))" and "uStatus u = AccountActive" "seUser se = User.truncate u"
    using assms by (cases ?q) (auto simp: Authenticate_def split: if_splits option.splits)
  then have "open_session sv t (hashToken sha token) s = Some (x, u)" by (auto dest!: query_valueD)
  then have "x \<in> set (sessions s)" "same_token sv (hashToken sha token) x" "sRevokedAt x = None" "t < sExpiresAt x" "uID u = sUser x"
    by (auto simp: open_session_def find_Some_iff split: option.splits dest!: row_by_SomeD)
  with \<open>uStatus u = AccountActive\<close> \<open>seUser se = User.truncate u\<close> show ?thesis by (auto simp: User.truncate_def)
qed

lemma suspended_sessions:
  assumes "SetCustomerStatus evs now uid ''suspended'' s = (Inr (), s')"
  shows "\<forall>x\<in>set (sessions s'). sUser x = uid \<longrightarrow> sRevokedAt x \<noteq> None"
proof -
  have "WithTx evs (setStatusTx now uid AccountSuspended) s = (Inr (), s')"
    using assms by (simp add: SetCustomerStatus_def account_status_def)
  then have "setStatusTx now uid AccountSuspended s = Inr ((), s')" by (rule WithTx_valueD)
  then have "sessions s' = map (\<lambda>x. if sUser x = uid \<and> sRevokedAt x = None then x\<lparr>sRevokedAt := Some now\<rparr> else x) (sessions s)"
    by (cases "list_ex (\<lambda>u. uID u = uid \<and> uRole u = RoleCustomer) (rows (users s))") (auto simp: setStatusTx_def Let_def revoke_def)
  then have "set (sessions s') = (\<lambda>x. if sUser x = uid \<and> sRevokedAt x = None then x\<lparr>sRevokedAt := Some now\<rparr> else x) ` set (sessions s)"
    by (simp only: set_map)
  then show ?thesis by (simp only: ball_simps(9)) (simp split: if_split)
qed

lemma active_sessions: "sessions (snd (SetCustomerStatus evs now uid ''active'' s)) = sessions s"
  by (cases rule: WithTx_cases [of evs "setStatusTx now uid AccountActive" s])
    (auto simp: SetCustomerStatus_def account_status_def setStatusTx_def Let_def split: if_splits)

text \<open>C30: A revoked session is dead. After a logout the token authenticates at no time; after a
  customer is suspended no token authenticates as that customer, and reactivating the account
  does not bring the old sessions back.\<close>

theorem revoked_sessions_are_refused:
  "(Logout sv sha ev now token s = (Inr (), s') \<longrightarrow> (\<forall>ev t se. Authenticate sv sha ev t token s' \<noteq> Inr se)) \<and>
   (SetCustomerStatus evs now uid ''suspended'' s = (Inr (), s1) \<and> SetCustomerStatus evs' now' uid ''active'' s1 = (r, s2) \<longrightarrow>
     (\<forall>sha ev t token se. (Authenticate sv sha ev t token s1 = Inr se \<longrightarrow> uID (seUser se) \<noteq> uid) \<and>
        (Authenticate sv sha ev t token s2 = Inr se \<longrightarrow> uID (seUser se) \<noteq> uid)))" (is "?L \<and> ?S")
proof
  have "\<forall>x\<in>set (sessions s'). \<not> (same_token sv (hashToken sha token) x \<and> sRevokedAt x = None)"
    if "Logout sv sha ev now token s = (Inr (), s')"
    using that by (auto simp: Logout_def runTx_def revoke_def split: tx_event.splits if_splits)
  then show ?L by (blast dest: Authenticate_Some)
next
  have "sessions s2 = sessions s1" if "SetCustomerStatus evs' now' uid ''active'' s1 = (r, s2)"
    using active_sessions [of evs' now' uid s1] that by simp
  then show ?S using suspended_sessions [of evs now uid s s1] by (metis Authenticate_Some)
qed

definition sample_session_shop :: cloud_db where
  "sample_session_shop = sample_pending\<lparr>sessions := [\<lparr>sTokenHash = hashToken sample_sha256 ''token-of-sam-0123456789'', sUser = 1,
     sCSRFToken = ''csrf'', sCreatedAt = 1, sExpiresAt = 100, sRevokedAt = None\<rparr>]\<rparr>"

theorem revoked_sessions_are_refused_witness:
  "\<exists>s' s1 r s2. Logout sample_service sample_sha256 Runs 5 ''token-of-sam-0123456789'' sample_session_shop = (Inr (), s') \<and>
    SetCustomerStatus [] 5 1 ''suspended'' sample_session_shop = (Inr (), s1) \<and> SetCustomerStatus [] 6 1 ''active'' s1 = (r, s2) \<and>
    isl (Authenticate sample_service sample_sha256 Runs 9 ''token-of-sam-0123456789'' s') \<and>
    (case Authenticate sample_service sample_sha256 Runs 9 ''token-of-sam-0123456789'' s2 of Inl _ \<Rightarrow> True | Inr se \<Rightarrow> uID (seUser se) \<noteq> 1)"
proof -
  obtain s' where out: "Logout sample_service sample_sha256 Runs 5 ''token-of-sam-0123456789'' sample_session_shop = (Inr (), s')"
    by (simp add: Logout_def runTx_def)
  have "\<exists>s1. setStatusTx 5 1 AccountSuspended sample_session_shop = Inr ((), s1)"
    by (simp add: setStatusTx_def Let_def sample_session_shop_def sample_pending_def sample_customer_def new_user_def)
  then obtain s1 where "setStatusTx 5 1 AccountSuspended sample_session_shop = Inr ((), s1)" by blast
  from WithTx_runs [where fn = "setStatusTx 5 1 AccountSuspended" and s = sample_session_shop, OF this]
  have susp: "SetCustomerStatus [] 5 1 ''suspended'' sample_session_shop = (Inr (), s1)" by (simp add: SetCustomerStatus_def account_status_def)
  obtain r s2 where act: "SetCustomerStatus [] 6 1 ''active'' s1 = (r, s2)" by fastforce
  have ref: "(\<forall>ev t se. Authenticate sample_service sample_sha256 ev t ''token-of-sam-0123456789'' s' \<noteq> Inr se) \<and>
      (\<forall>sha ev t token se. Authenticate sample_service sha ev t token s2 = Inr se \<longrightarrow> uID (seUser se) \<noteq> 1)"
    using out susp act revoked_sessions_are_refused [of sample_service sample_sha256 Runs 5 "''token-of-sam-0123456789''" sample_session_shop s' "[]" 1 s1 "[]" 6 r s2] by blast
  then have "isl (Authenticate sample_service sample_sha256 Runs 9 ''token-of-sam-0123456789'' s')"
    by (metis isl_def sum.exhaust)
  moreover have "case Authenticate sample_service sample_sha256 Runs 9 ''token-of-sam-0123456789'' s2 of Inl _ \<Rightarrow> True | Inr se \<Rightarrow> uID (seUser se) \<noteq> 1"
    using ref by (simp split: sum.split)
  ultimately show ?thesis using out susp act by blast
qed

end
