(* ===== verification/Cloud_Isolation.thy ===== *)
theory Cloud_Isolation
  imports Cloud_Props
begin

text \<open>
  Tenant isolation. \<open>own v s\<close> is the part of the tables that belongs to customer \<open>v\<close>: their
  wallet, ledger entries, orders with items, projects with usage, invoices with lines and tickets
  with messages, next to the shared catalogue and user table. The read operations of a customer
  see only \<open>own\<close>, and what another customer does leaves \<open>own\<close> as it was.
\<close>

section \<open>The part of one customer\<close>

definition keep :: "('r \<Rightarrow> bool) \<Rightarrow> 'r tbl \<Rightarrow> 'r tbl" where
  "keep P t = \<lparr>rows = filter P (rows t), nextID = 0\<rparr>"

definition own :: "nat \<Rightarrow> cloud_db \<Rightarrow> cloud_db" where
  "own v s = s\<lparr>sessions := [], applications := [],
     wallets := filter (\<lambda>w. wUser w = v) (wallets s),
     transactions := keep (\<lambda>t. tUser t = v) (transactions s),
     orders := keep (\<lambda>o'. oUser o' = v) (orders s),
     items := keep (\<lambda>i. iOrder i \<in> oID ` set (filter (\<lambda>o'. oUser o' = v) (rows (orders s)))) (items s),
     projects := keep (\<lambda>p. pUser p = v) (projects s),
     usage := keep (\<lambda>r. rProject r \<in> pID ` set (filter (\<lambda>p. pUser p = v) (rows (projects s)))) (usage s),
     invoices := keep (\<lambda>x. vUser x = v) (invoices s),
     lines := keep (\<lambda>l. lInvoice l \<in> vID ` set (filter (\<lambda>x. vUser x = v) (rows (invoices s)))) (lines s),
     tickets := keep (\<lambda>k. kUser k = v) (tickets s),
     messages := keep (\<lambda>m. mTicket m \<in> kID ` set (filter (\<lambda>k. kUser k = v) (rows (tickets s)))) (messages s)\<rparr>"

lemma rows_keep [simp]: "rows (keep P t) = filter P (rows t)" by (simp add: keep_def)

lemma own_simps [simp]:
  "users (own v s) = users s" "plans (own v s) = plans s" "features (own v s) = features s"
  "wallets (own v s) = filter (\<lambda>w. wUser w = v) (wallets s)"
  "transactions (own v s) = keep (\<lambda>t. tUser t = v) (transactions s)"
  "orders (own v s) = keep (\<lambda>o'. oUser o' = v) (orders s)"
  "projects (own v s) = keep (\<lambda>p. pUser p = v) (projects s)"
  "invoices (own v s) = keep (\<lambda>x. vUser x = v) (invoices s)"
  "tickets (own v s) = keep (\<lambda>k. kUser k = v) (tickets s)"
  by (simp_all add: own_def)

lemma own_rows:
  "rows (items (own v s)) = filter (\<lambda>i. iOrder i \<in> oID ` set (filter (\<lambda>o'. oUser o' = v) (rows (orders s)))) (rows (items s))"
  "rows (usage (own v s)) = filter (\<lambda>r. rProject r \<in> pID ` set (filter (\<lambda>p. pUser p = v) (rows (projects s)))) (rows (usage s))"
  "rows (lines (own v s)) = filter (\<lambda>l. lInvoice l \<in> vID ` set (filter (\<lambda>x. vUser x = v) (rows (invoices s)))) (rows (lines s))"
  "rows (messages (own v s)) = filter (\<lambda>m. mTicket m \<in> kID ` set (filter (\<lambda>k. kUser k = v) (rows (tickets s)))) (rows (messages s))"
  by (simp_all add: own_def)

lemma own_details:
  "o' \<in> set (rows (orders s)) \<Longrightarrow> oUser o' = v \<Longrightarrow> filter (\<lambda>i. iOrder i = oID o') (rows (items (own v s))) = filter (\<lambda>i. iOrder i = oID o') (rows (items s))"
  "p \<in> set (rows (projects s)) \<Longrightarrow> pUser p = v \<Longrightarrow>
   filter (\<lambda>r. rProject r = pID p \<and> P r) (rows (usage (own v s))) = filter (\<lambda>r. rProject r = pID p \<and> P r) (rows (usage s))"
  "x \<in> set (rows (invoices s)) \<Longrightarrow> vUser x = v \<Longrightarrow> filter (\<lambda>l. lInvoice l = vID x) (rows (lines (own v s))) = filter (\<lambda>l. lInvoice l = vID x) (rows (lines s))"
  "k \<in> set (rows (tickets s)) \<Longrightarrow> kUser k = v \<Longrightarrow> filter (\<lambda>m. mTicket m = kID k) (rows (messages (own v s))) = filter (\<lambda>m. mTicket m = kID k) (rows (messages s))"
  by (auto simp: own_rows intro!: filter_cong)

lemma map_filter_cong': "(\<And>x. x \<in> set xs \<Longrightarrow> f x = g x) \<Longrightarrow> List.map_filter f xs = List.map_filter g xs"
  by (induction xs) (auto simp: List.map_filter_simps split: option.split)

section \<open>Reads see only the own part\<close>

lemma order_view_own: "o' \<in> set (rows (orders s)) \<Longrightarrow> oUser o' = v \<Longrightarrow> order_view (own v s) o' = order_view s o'"
  by (simp add: order_view_def order_items_def own_details)

lemma project_view_own: "p \<in> set (rows (projects s)) \<Longrightarrow> pUser p = v \<Longrightarrow> project_view t (own v s) p = project_view t s p"
  by (simp add: project_view_def usage_sum_def own_details)

lemma ticket_messages_own: "k \<in> set (rows (tickets s)) \<Longrightarrow> kUser k = v \<Longrightarrow> ticket_messages (kID k) (own v s) = ticket_messages (kID k) s"
  by (simp add: ticket_messages_def own_details)

lemma query_own: "q (own v s) = q s \<Longrightarrow> query ev q (own v s) = query ev q s"
  by (cases ev) (auto simp: query_def runTx_def split: sum.split)

lemma Orders_own: "Orders ev v limit (own v s) = Orders ev v limit s"
proof -
  have "List.map_filter (order_view (own v s)) (newest_first (filter (\<lambda>o'. oUser o' = v) (rows (orders s)))) =
      List.map_filter (order_view s) (newest_first (filter (\<lambda>o'. oUser o' = v) (rows (orders s))))"
    by (rule map_filter_cong') (auto simp: newest_first_def intro: order_view_own)
  then show ?thesis unfolding Orders_def loadOrders_def by (intro query_own) simp
qed

lemma Projects_own: "Projects ev now v (own v s) = Projects ev now v s"
proof -
  let ?ps = "newest_projects (filter (\<lambda>p. pUser p = v \<and> pStatus p \<noteq> ProjectDeleted) (rows (projects s)))"
  have "List.map_filter (project_view (month_start now) (own v s)) ?ps = List.map_filter (project_view (month_start now) s) ?ps"
    by (rule map_filter_cong') (auto simp: newest_projects_def intro: project_view_own)
  then show ?thesis unfolding Projects_def loadProjects_def by (intro query_own) (simp add: conj_ac conj_absorb)
qed

lemma Transactions_own: "Transactions ev v limit (own v s) = Transactions ev v limit s"
  unfolding Transactions_def by (intro query_own) simp

lemma WalletOf_own: "WalletOf ev v (own v s) = WalletOf ev v s"
proof -
  have "row_find wUser v (filter (\<lambda>w. wUser w = v) ws) = row_find wUser v ws" for ws :: "Wallet list"
    by (induction ws) (auto simp: row_find_def)
  then show ?thesis unfolding WalletOf_def by (intro query_own) simp
qed

lemma Invoices_own: "v \<noteq> 0 \<Longrightarrow> Invoices ev v limit (own v s) = Invoices ev v limit s"
  unfolding Invoices_def by (intro query_own) simp

lemma Tickets_own: "uRole u \<noteq> RoleAdmin \<Longrightarrow> Tickets sv ev u status limit (own (uID u) s) = Tickets sv ev u status limit s"
  unfolding Tickets_def by (intro query_own) (simp add: conj_ac)

lemma row_by_keep:
  assumes "tbl_wf key t"
  shows "row_by key k (keep P t) = (case row_by key k t of Some r \<Rightarrow> if P r then Some r else None | None \<Rightarrow> None)"
proof (cases "row_by key k t")
  case None
  then have "row_by key k (keep P t) = None" by (auto simp: row_by_None)
  with None show ?thesis by simp
next
  case (Some r)
  then have r: "r \<in> set (rows t)" "key r = k" by (auto dest!: row_by_SomeD)
  have wf: "distinct (map key (filter P (rows t)))" using assms by (auto simp: tbl_wf_def intro: distinct_map_filter)
  show ?thesis
  proof (cases "P r")
    case True
    then show ?thesis using Some r row_find_distinct [OF wf, of r] by (simp add: row_by_def)
  next
    case False
    with tbl_wf_unique [OF assms _ r(1)] r(2) have "k \<notin> key ` {q \<in> set (rows t). P q}"
      by (metis (mono_tags, lifting) image_iff mem_Collect_eq)
    then have "row_by key k (keep P t) = None" by (simp add: row_by_None)
    with False Some show ?thesis by simp
  qed
qed

lemma InvoiceOf_own: "v \<noteq> 0 \<Longrightarrow> tbl_wf vID (invoices s) \<Longrightarrow> InvoiceOf ev v i (own v s) = InvoiceOf ev v i s"
  unfolding InvoiceOf_def
  by (intro query_own)
    (auto simp: read_invoice_def row_by_keep own_details split: option.split dest!: row_by_SomeD)

lemma TicketOf_own:
  assumes "uRole u \<noteq> RoleAdmin" and "tbl_wf kID (tickets s)"
  shows "TicketOf ev u kid (own (uID u) s) = TicketOf ev u kid s"
  unfolding TicketOf_def using assms ticket_messages_own [of _ s "uID u"]
  by (intro query_own) (auto simp: read_ticket_def row_by_keep split: option.split dest!: row_by_SomeD)

lemma filter_key_wf: "tbl_wf key t \<Longrightarrow> filter (\<lambda>r. key r = k) (rows t) = (case row_by key k t of None \<Rightarrow> [] | Some r \<Rightarrow> [r])"
proof -
  have "distinct (map key rs) \<Longrightarrow> filter (\<lambda>r. key r = k) rs = (case row_find key k rs of None \<Rightarrow> [] | Some r \<Rightarrow> [r])" for rs
    by (induction rs) (force simp: row_find_def filter_empty_conv find_Some_iff image_iff split: option.split)+
  then show "tbl_wf key t \<Longrightarrow> ?thesis" by (simp add: tbl_wf_def row_by_def)
qed

lemma order_view_order: "order_view s o' = Some x \<Longrightarrow> order x = o'" by (auto simp: order_view_def)

lemma CustomerOrder_eq:
  assumes "tbl_wf oID (orders s)"
  shows "CustomerOrder ev v oid s = query ev (\<lambda>s. case row_by oID oid (orders s) of None \<Rightarrow> Inl (Domain ErrNotFound)
    | Some o' \<Rightarrow> (case order_view s o' of None \<Rightarrow> Inl (Domain ErrNotFound)
       | Some x \<Rightarrow> if oUser o' = v then Inr x else Inl (Domain ErrNotFound))) s"
  using assms
  by (cases ev)
    (auto simp: CustomerOrder_def OrderOf_def loadOrders_def query_def runTx_def filter_key_wf List.map_filter_simps order_view_def
       split: option.splits)

lemma CustomerOrder_own:
  assumes "tbl_wf oID (orders s)"
  shows "CustomerOrder ev v oid (own v s) = CustomerOrder ev v oid s"
proof -
  have "filter (\<lambda>o'. oID o' = oid) (filter (\<lambda>o'. oUser o' = v) (rows (orders s))) =
      filter (\<lambda>o'. oUser o' = v) (filter (\<lambda>o'. oID o' = oid) (rows (orders s)))"
    by (simp add: conj_commute)
  then have "filter (\<lambda>o'. oID o' = oid) (filter (\<lambda>o'. oUser o' = v) (rows (orders s))) =
      (case row_by oID oid (orders s) of Some o' \<Rightarrow> if oUser o' = v then [o'] else [] | None \<Rightarrow> [])"
    unfolding filter_key_wf [OF assms] by (simp split: option.split)
  then have sel: "filter (\<lambda>o'. oID o' = oid) (rows (orders (own v s))) =
      (case row_by oID oid (orders s) of Some o' \<Rightarrow> if oUser o' = v then [o'] else [] | None \<Rightarrow> [])" by simp
  show ?thesis
  proof (cases "\<exists>o'. row_by oID oid (orders s) = Some o' \<and> oUser o' = v")
    case True
    then obtain o' where o': "row_by oID oid (orders s) = Some o'" "oUser o' = v" by blast
    then have "order_view (own v s) o' = order_view s o'" by (blast dest: row_by_SomeD intro: order_view_own)
    then have "OrderOf ev oid (own v s) = OrderOf ev oid s" unfolding OrderOf_def loadOrders_def
      using sel o' filter_key_wf [OF assms, of oid]
      by (subst query_own) (simp_all add: List.map_filter_def del: own_simps)
    then show ?thesis by (simp add: CustomerOrder_def)
  next
    case False
    then have "CustomerOrder Runs v oid s = Inl (Domain ErrNotFound)"
      unfolding CustomerOrder_eq [OF assms] by (auto simp: query_def runTx_def split: option.split)
    moreover have "filter (\<lambda>o'. oID o' = oid) (rows (orders (own v s))) = []"
      unfolding sel using False by (auto split: option.split)
    then have "CustomerOrder Runs v oid (own v s) = Inl (Domain ErrNotFound)"
      by (simp add: CustomerOrder_def OrderOf_def loadOrders_def query_def runTx_def List.map_filter_def del: own_simps filter_filter)
    ultimately show ?thesis
      by (cases ev) (simp_all add: CustomerOrder_def OrderOf_def loadOrders_def query_def runTx_def)
  qed
qed

text \<open>C31: A customer's reads are a function of that customer's own rows. The wallet, the ledger, the
  orders, the projects, the invoices and the tickets that the service returns to a customer are
  the same on the full tables as on tables from which every other customer's rows are removed.\<close>

theorem reads_see_own_rows:
  assumes "commerce_wf sv s" and "tbl_wf kID (tickets s)" and "uID u \<noteq> 0" and "uRole u \<noteq> RoleAdmin"
  shows "WalletOf ev (uID u) s = WalletOf ev (uID u) (own (uID u) s) \<and>
    Transactions ev (uID u) limit s = Transactions ev (uID u) limit (own (uID u) s) \<and>
    Orders ev (uID u) limit s = Orders ev (uID u) limit (own (uID u) s) \<and>
    CustomerOrder ev (uID u) oid s = CustomerOrder ev (uID u) oid (own (uID u) s) \<and>
    Projects ev now (uID u) s = Projects ev now (uID u) (own (uID u) s) \<and>
    Invoices ev (uID u) limit s = Invoices ev (uID u) limit (own (uID u) s) \<and>
    InvoiceOf ev (uID u) vid s = InvoiceOf ev (uID u) vid (own (uID u) s) \<and>
    Tickets sv ev u status limit s = Tickets sv ev u status limit (own (uID u) s) \<and>
    TicketOf ev u kid s = TicketOf ev u kid (own (uID u) s)"
  using assms
  by (simp add: WalletOf_own Transactions_own Orders_own CustomerOrder_own Projects_own Invoices_own InvoiceOf_own Tickets_own TicketOf_own
      commerce_wf_def sales_wf_def invoices_wf_def del: own_simps)

theorem reads_see_own_rows_witness:
  "CustomerOrder Runs 1 1 (sample_shop OrderActive ProjectActive) = CustomerOrder Runs 1 1 (own 1 (sample_shop OrderActive ProjectActive)) \<and>
   CustomerOrder Runs 3 1 (sample_shop OrderActive ProjectActive) = CustomerOrder Runs 3 1 (own 3 (sample_shop OrderActive ProjectActive)) \<and>
   rows (orders (own 1 (sample_shop OrderActive ProjectActive))) \<noteq> [] \<and> rows (orders (own 3 (sample_shop OrderActive ProjectActive))) = []"
proof -
  let ?s = "sample_shop OrderActive ProjectActive" and ?u = "User.truncate sample_customer"
  have k: "tbl_wf kID (tickets ?s)" by (simp add: sample_defs)
  have "CustomerOrder Runs 1 1 ?s = CustomerOrder Runs 1 1 (own 1 ?s)"
    using reads_see_own_rows [OF sample_shop_wf k, where u = ?u and ev = Runs and oid = 1]
    by (simp add: sample_customer_def new_user_def User.truncate_def)
  moreover have "CustomerOrder Runs 3 1 ?s = CustomerOrder Runs 3 1 (own 3 ?s)"
    using reads_see_own_rows [OF sample_shop_wf k, where u = "?u\<lparr>uID := 3\<rparr>" and ev = Runs and oid = 1]
    by (simp add: sample_customer_def new_user_def User.truncate_def)
  ultimately show ?thesis by (simp add: sample_defs)
qed

section \<open>Other customers leave the own part alone\<close>

lemma own_cong:
  assumes "users s' = users s" "plans s' = plans s" "features s' = features s"
    and "filter (\<lambda>w. wUser w = v) (wallets s') = filter (\<lambda>w. wUser w = v) (wallets s)"
    and "keep (\<lambda>t. tUser t = v) (transactions s') = keep (\<lambda>t. tUser t = v) (transactions s)"
    and "keep (\<lambda>o'. oUser o' = v) (orders s') = keep (\<lambda>o'. oUser o' = v) (orders s)"
    and "keep (\<lambda>p. pUser p = v) (projects s') = keep (\<lambda>p. pUser p = v) (projects s)"
    and "keep (\<lambda>x. vUser x = v) (invoices s') = keep (\<lambda>x. vUser x = v) (invoices s)"
    and "keep (\<lambda>k. kUser k = v) (tickets s') = keep (\<lambda>k. kUser k = v) (tickets s)"
    and "keep (\<lambda>i. iOrder i \<in> oID ` set (filter (\<lambda>o'. oUser o' = v) (rows (orders s)))) (items s') =
      keep (\<lambda>i. iOrder i \<in> oID ` set (filter (\<lambda>o'. oUser o' = v) (rows (orders s)))) (items s)"
    and "keep (\<lambda>r. rProject r \<in> pID ` set (filter (\<lambda>p. pUser p = v) (rows (projects s)))) (usage s') =
      keep (\<lambda>r. rProject r \<in> pID ` set (filter (\<lambda>p. pUser p = v) (rows (projects s)))) (usage s)"
    and "lines s' = lines s"
    and "keep (\<lambda>m. mTicket m \<in> kID ` set (filter (\<lambda>k. kUser k = v) (rows (tickets s)))) (messages s') =
      keep (\<lambda>m. mTicket m \<in> kID ` set (filter (\<lambda>k. kUser k = v) (rows (tickets s)))) (messages s)"
  shows "own v s' = own v s"
proof -
  have eq: "filter P (rows t) = filter P (rows t')" if "keep P t = keep P t'" for P :: "'r \<Rightarrow> bool" and t t'
    using arg_cong [OF that, of rows] by simp
  show ?thesis unfolding own_def using assms eq [OF assms(6)] eq [OF assms(7)] eq [OF assms(8)] eq [OF assms(9)] by simp
qed

lemma keep_insert: "\<not> P (mk (nextID t)) \<Longrightarrow> keep P (insert_row mk t) = keep P t"
  by (simp add: keep_def insert_row_def)

lemma filter_update_other:
  "(\<And>r. r \<in> set rs \<Longrightarrow> Q r \<Longrightarrow> \<not> P r \<and> \<not> P (f r)) \<Longrightarrow> filter P (map (\<lambda>r. if Q r then f r else r) rs) = filter P rs"
  by (induction rs) auto

lemma keep_update: "(\<And>r. r \<in> set (rows t) \<Longrightarrow> Q r \<Longrightarrow> \<not> P r \<and> \<not> P (f r)) \<Longrightarrow> keep P (update_where Q f t) = keep P t"
  by (simp add: keep_def update_where_def filter_update_other)

lemma applyTx_own:
  assumes "applyTx sv now e s = Inr (t, s')" and "leUser e \<noteq> v"
  shows "own v s' = own v s"
  using assms(1)
proof (rule applyTx_cases)
  fix w assume s': "s' = applied now e (wrap64 (wBalance w + leAmount e)) s"
  show ?thesis unfolding s' applied_def row_update_def
    using assms(2) by (intro own_cong) (simp_all add: keep_insert entry_row_def, auto intro!: filter_update_other)
qed simp

lemma placeOrderTx_own:
  assumes "tbl_wf oID (orders s)" and "placeOrderTx sv now u p spec memo s = Inr (oid, s')" and "u \<noteq> v"
  shows "own v s' = own v s"
proof -
  obtain mko mki where s': "s' = s\<lparr>orders := insert_row mko (orders s), items := insert_row mki (items s)\<rparr>"
    and mk: "oUser (mko (nextID (orders s))) = u" "iOrder (mki (nextID (items s))) = nextID (orders s)"
    using assms(2) by (auto simp: placeOrderTx_def Let_def split: sum.splits if_splits)
  have "nextID (orders s) \<notin> oID ` set (filter (\<lambda>o'. oUser o' = v) (rows (orders s)))"
    using assms(1) by (auto simp: tbl_wf_def)
  then show ?thesis unfolding s' by (intro own_cong) (simp_all add: keep_insert mk assms(3))
qed

lemma cancelTx_own:
  assumes "tbl_wf oID (orders s)" and "cancelTx now u oid s = Inr (r, s')" and "u \<noteq> v"
  shows "own v s' = own v s"
proof -
  obtain o' where o': "row_by oID oid (orders s) = Some o'" "oUser o' = u"
    and s': "s' = update_order oid (\<lambda>x. x\<lparr>oStatus := OrderCancelled, oUpdatedAt := now\<rparr>) s"
    using assms(2) by (auto simp: cancelTx_def split: option.splits if_splits)
  have "oUser x = u" if "x \<in> set (rows (orders s))" "oID x = oid" for x
    using row_by_wf [OF assms(1) that(1)] that(2) o' by simp
  with assms(3) show ?thesis unfolding s' update_order_def by (intro own_cong) (auto intro: keep_update)
qed

lemma openTicketTx_own:
  assumes "tbl_wf kID (tickets s)" and "openTicketTx now u subject body priority pid s = Inr (kid, s')" and "u \<noteq> v"
  shows "own v s' = own v s"
proof -
  obtain mkk mkm where s': "s' = s\<lparr>tickets := insert_row mkk (tickets s), messages := insert_row mkm (messages s)\<rparr>"
    and mk: "kUser (mkk (nextID (tickets s))) = u" "mTicket (mkm (nextID (messages s))) = nextID (tickets s)"
    using assms(2) by (auto simp: openTicketTx_def insert_message_def Let_def split: sum.splits if_splits)
  have "nextID (tickets s) \<notin> kID ` set (filter (\<lambda>k. kUser k = v) (rows (tickets s)))"
    using assms(1) by (auto simp: tbl_wf_def)
  then show ?thesis unfolding s' by (intro own_cong) (simp_all add: keep_insert mk assms(3))
qed

lemma lockTicket_owner:
  assumes "tbl_wf kID (tickets s)" and "lockTicket a kid s = Inr st" and "uRole a \<noteq> RoleAdmin"
  shows "\<forall>k\<in>set (rows (tickets s)). kID k = kid \<longrightarrow> kUser k = uID a"
proof -
  obtain k where "row_by kID kid (tickets s) = Some k" "kUser k = uID a"
    using assms(2,3) by (auto simp: lockTicket_def split: option.splits if_splits)
  then show ?thesis using row_by_wf [OF assms(1)] by fastforce
qed

lemma set_ticket_own:
  assumes "\<forall>k\<in>set (rows (tickets s)). kID k = kid \<longrightarrow> kUser k \<noteq> v"
  shows "own v (set_ticket kid st now s) = own v s"
proof -
  have "keep (\<lambda>k. kUser k = v) (tickets (set_ticket kid st now s)) = keep (\<lambda>k. kUser k = v) (tickets s)"
    unfolding set_ticket_def by (simp, rule keep_update) (use assms in auto)
  then show ?thesis by (intro own_cong) (simp_all add: set_ticket_def)
qed

lemma closeTx_own:
  assumes "tbl_wf kID (tickets s)" and "uRole a \<noteq> RoleAdmin" and "closeTx now a kid s = Inr (r, s')" and "uID a \<noteq> v"
  shows "own v s' = own v s"
  using assms lockTicket_owner [OF assms(1) _ assms(2), of kid] by (auto simp: closeTx_def split: sum.splits intro!: set_ticket_own)

lemma replyTx_own:
  assumes "tbl_wf kID (tickets s)" and "uRole a \<noteq> RoleAdmin" and "replyTx now a kid body s = Inr (r, s')" and "uID a \<noteq> v"
  shows "own v s' = own v s"
proof -
  obtain st s1 where lock: "lockTicket a kid s = Inr st" and ins: "insert_message kid (uID a) body now s = Inr ((), s1)"
    and s': "s' = set_ticket kid TicketOpen now s1"
    using assms(2,3) by (auto simp: replyTx_def Let_def split: sum.splits if_splits)
  note owner = lockTicket_owner [OF assms(1) lock assms(2)]
  obtain mk where s1: "s1 = s\<lparr>messages := insert_row mk (messages s)\<rparr>" "mTicket (mk (nextID (messages s))) = kid"
    using ins by (auto simp: insert_message_def split: if_splits)
  have "kid \<notin> kID ` set (filter (\<lambda>k. kUser k = v) (rows (tickets s)))" using owner assms(4) by auto
  then have "own v s1 = own v s" unfolding s1(1) by (intro own_cong) (simp_all add: keep_insert s1(2))
  moreover have "own v s' = own v s1" unfolding s' using owner assms(4) s1 by (intro set_ticket_own) auto
  ultimately show ?thesis by simp
qed

lemma WithTx_own: "(\<And>a s'. fn s = Inr (a, s') \<Longrightarrow> own v s' = own v s) \<Longrightarrow> own v (snd (WithTx evs fn s)) = own v s"
  by (rule WithTx_cases [of evs fn s]) auto

definition owned_by :: "nat \<Rightarrow> nat \<Rightarrow> cloud_db \<Rightarrow> bool" where
  "owned_by u pid s \<longleftrightarrow> (\<forall>q\<in>set (rows (projects s)). pID q = pid \<longrightarrow> pUser q = u)"

lemma switch_own:
  assumes "owned_by u pid s" and "u \<noteq> v" and "keeps_project f"
  shows "own v (snd (runTx ev (switch_project status f pid) s)) = own v s"
proof -
  have "keep (\<lambda>p. pUser p = v) (update_where (\<lambda>p. pID p = pid \<and> pStatus p = status) f (projects s)) = keep (\<lambda>p. pUser p = v) (projects s)"
    by (rule keep_update) (use assms in \<open>auto simp: owned_by_def keeps_project_def\<close>)
  then have "own v (s\<lparr>projects := update_where (\<lambda>p. pID p = pid \<and> pStatus p = status) f (projects s)\<rparr>) = own v s"
    by (intro own_cong) simp_all
  then show ?thesis by (auto simp: runTx_def switch_project_def split: tx_event.split)
qed

lemma switch_owned:
  assumes "owned_by u q s" and "keeps_project f"
  shows "owned_by u q (snd (runTx ev (switch_project status f pid) s))"
  using assms by (auto simp: owned_by_def runTx_def switch_project_def keeps_project_def split: tx_event.split)

lemma resume_one_state: "snd (snd (snd (resume_one prov ev now p s))) = snd (runTx ev (switch_project ProjectSuspended (resume_row now) (pID p)) s)"
  by (auto simp: resume_one_def split: sum.splits prod.splits bool.splits)

lemma resume_from_own:
  "\<forall>p\<in>set ps. owned_by u (pID p) s \<Longrightarrow> u \<noteq> v \<Longrightarrow> own v (snd (resume_from sv prov env balance ps acc s)) = own v s"
proof (induction ps arbitrary: acc s)
  case (Cons p ps)
  obtain ev now where env: "env (pID p) = (ev, now)" by fastforce
  obtain err d calls s1 where r: "resume_one prov ev now p s = (err, d, calls, s1)" by (metis prod_cases4)
  have s1: "s1 = snd (runTx ev (switch_project ProjectSuspended (resume_row now) (pID p)) s)"
    using resume_one_state [of prov ev now p s] by (simp add: r)
  have 1: "own v s1 = own v s" "\<forall>q\<in>set ps. owned_by u (pID q) s1"
    unfolding s1 using Cons.prems keeps_switches(2) by (auto intro: switch_own switch_owned)
  have "own v (snd (resume_from sv prov env balance ps acc' s1)) = own v s" for acc'
    using Cons.IH [OF 1(2) Cons.prems(2)] 1(1) by simp
  with 1 Cons show ?case by (simp add: env r Let_def)
qed simp

lemma ResumeFundedProjects_own:
  assumes "tbl_wf pID (projects s)" and "u \<noteq> v"
  shows "own v (snd (ResumeFundedProjects sv prov ev1 ev2 env now u s)) = own v s"
proof (cases "loadProjects ev1 now (\<lambda>ps. sort_key pID (filter (\<lambda>p. pUser p = u \<and> pStatus p = ProjectSuspended) ps)) None s")
  case (Inr found)
  have "\<forall>p\<in>set (map project found). p \<in> set (rows (projects s)) \<and> pUser p = u"
    using query_valueD [OF Inr [unfolded loadProjects_def]] by (auto simp: List.map_filter_def project_view_def)
  then have "\<forall>p\<in>set (map project found). owned_by u (pID p) s"
    using tbl_wf_unique [OF assms(1)] unfolding owned_by_def by metis
  then show ?thesis using resume_from_own [OF _ assms(2)]
    by (simp add: ResumeFundedProjects_def Inr Let_def split: sum.split list.split del: resume_from.simps)
qed (simp add: ResumeFundedProjects_def Let_def)

lemma TopUp_own:
  assumes "tbl_wf pID (projects s)" and "u \<noteq> v"
  shows "own v (snd (TopUp sv prov evs ev1 ev2 env now u amount key s)) = own v s"
proof -
  obtain r s1 where c: "TopUp_credit sv evs now u amount key s = (r, s1)" by fastforce
  have "own v s1 = own v s \<and> projects s1 = projects s"
    using c assms(2)
    by (cases rule: WithTx_cases [of evs "applyTx sv now (topup_entry u amount (TrimSpace key))" s])
      (auto simp: TopUp_credit_def Let_def topup_entry_def applyTx_own applyTx_outside split: if_splits)
  then have "own v (snd (ResumeFundedProjects sv prov ev1 ev2 env now u s1)) = own v s" "own v s1 = own v s"
    using ResumeFundedProjects_own [of s1 u v] assms by simp_all
  then show ?thesis
    by (cases "ResumeFundedProjects sv prov ev1 ev2 env now u s1") (simp add: TopUp_def c split: sum.split)
qed

lemma chargeHourTx_own:
  assumes wf: "commerce_wf sv s" and snap: "snapshot p s" and run: "chargeHourTx sv now p hour s = Inr (a, s')" and "pUser p \<noteq> v"
  shows "own v s' = own v s"
proof -
  have tw: "tbl_wf pID (projects s)" "tbl_wf rID (usage s)" using wf by (simp_all add: commerce_wf_def sales_wf_def usage_wf_def)
  have "pUser q = pUser p" if "q \<in> set (rows (projects s))" "pID q = pID p" for q
    using snap tbl_wf_unique [OF tw(1) that(1)] that(2) by (auto simp: snapshot_def same_project_def)
  then have other: "pID p \<notin> pID ` set (filter (\<lambda>q. pUser q = v) (rows (projects s)))" using assms(4) by auto
  have bill: "own v s1 = own v s \<and> uid = nextID (usage s) \<and> usage s1 = insert_row (new_usage (pID p) hour amount None now) (usage s) \<and> projects s1 = projects s"
    if "insert_usage (new_usage (pID p) hour amount None now) s = Inr (uid, s1)" for amount uid s1
  proof -
    have s1: "s1 = s\<lparr>usage := insert_row (new_usage (pID p) hour amount None now) (usage s)\<rparr>" "uid = nextID (usage s)"
      using that by (auto simp: insert_usage_def new_usage_def Let_def split: if_splits)
    have "own v s1 = own v s"
      unfolding s1(1) using other by (intro own_cong) (simp_all add: keep_insert new_usage_def)
    then show ?thesis by (simp add: s1)
  qed
  show ?thesis using run
  proof (rule chargeHourTx_cases)
    fix q uid s1 t s2
    assume ins: "insert_usage (new_usage (pID p) hour (hour_price p (month_to_date (pID p) hour s)) None now) s = Inr (uid, s1)"
      and app: "applyTx sv now (usage_entry p hour (hour_price p (month_to_date (pID p) hour s))) s1 = Inr (t, s2)"
      and s': "s' = s2\<lparr>usage := update_where (\<lambda>r. rID r = uid) (\<lambda>r. r\<lparr>rTransaction := Some (tID t)\<rparr>) (usage s2)\<rparr>"
    have s2: "own v s2 = own v s1" "usage s2 = usage s1" "projects s2 = projects s1"
      using applyTx_own [OF app] applyTx_outside [OF app] assms(4) by (simp_all add: usage_entry_def)
    let ?own = "pID ` set (filter (\<lambda>p. pUser p = v) (rows (projects s2)))"
    have pr: "rProject r = pID p" if "r \<in> set (rows (usage s2))" "rID r = uid" for r
      using that bill [OF ins] tw(2) unfolding s2 by (auto simp: new_usage_def tbl_wf_def)
    have o2: "pID p \<notin> ?own" using other bill [OF ins] s2(3) by simp
    have "keep (\<lambda>r. rProject r \<in> ?own) (update_where (\<lambda>r. rID r = uid) (\<lambda>r. r\<lparr>rTransaction := Some (tID t)\<rparr>) (usage s2)) =
        keep (\<lambda>r. rProject r \<in> ?own) (usage s2)"
    proof (rule keep_update)
      fix r assume "r \<in> set (rows (usage s2))" "rID r = uid"
      from pr [OF this] o2 show "\<not> rProject r \<in> ?own \<and> \<not> rProject (r\<lparr>rTransaction := Some (tID t)\<rparr>) \<in> ?own" by simp
    qed
    then have "own v s' = own v s2" unfolding s' by (intro own_cong) simp_all
    with s2 bill [OF ins] show ?thesis by simp
  qed (use bill in auto)
qed

section \<open>Isolation\<close>

text \<open>The customer on whose behalf an operation runs: the one who sends the request, or the one
  whose project an hour is charged for.\<close>

fun acts_for :: "cloud_op \<Rightarrow> nat option" where
  "acts_for (OpTopUp evs ev1 ev2 env now uid amount key) = Some uid"
| "acts_for (OpPlaceOrder ev1 evs ev2 now uid input) = Some uid"
| "acts_for (OpCancelOrder evs ev now uid oid) = Some uid"
| "acts_for (OpOpenTicket evs ev now u subject body priority pid) = Some (uID u)"
| "acts_for (OpReplyTicket evs ev now u kid body) = (if uRole u = RoleAdmin then None else Some (uID u))"
| "acts_for (OpCloseTicket evs ev now u kid) = (if uRole u = RoleAdmin then None else Some (uID u))"
| "acts_for (OpChargeHour evs now p hour) = Some (pUser p)"
| "acts_for _ = None"

text \<open>C32: Customers do not affect one another. Ordering, cancelling, topping up, writing to support
  and being charged, on behalf of one customer, leave every row of every other customer as it was,
  whatever identifiers the request names.\<close>

theorem customers_are_isolated:
  assumes "commerce_wf sv s" and "tbl_wf kID (tickets s)" and "cloud_enabled op s" and "acts_for op = Some u" and "u \<noteq> v"
  shows "own v (cloud_exec sv w op s) = own v s"
proof -
  have wf: "tbl_wf oID (orders s)" "tbl_wf pID (projects s)" using assms(1) by (simp_all add: commerce_wf_def sales_wf_def)
  show ?thesis
  proof (cases op)
    case (OpTopUp evs ev1 ev2 env now uid amount key)
    then show ?thesis using TopUp_own [OF wf(2)] assms(4,5) by simp
  next
    case (OpPlaceOrder ev1 evs ev2 now uid input)
    have "own v (snd (WithTx evs (placeOrderTx sv now uid p spec memo) s)) = own v s" for p spec memo
      by (rule WithTx_own) (use placeOrderTx_own [OF wf(1)] OpPlaceOrder assms(4,5) in auto)
    then show ?thesis by (auto simp: OpPlaceOrder PlaceOrder_def Let_def split: sum.split prod.split) (metis snd_conv)+
  next
    case (OpCancelOrder evs ev now uid oid)
    have "own v (snd (WithTx evs (cancelTx now uid oid) s)) = own v s"
      by (rule WithTx_own) (use cancelTx_own [OF wf(1)] OpCancelOrder assms(4,5) in auto)
    then show ?thesis by (auto simp: OpCancelOrder CancelOrder_def split: sum.split prod.split)
  next
    case (OpOpenTicket evs ev now c subject body priority pid)
    have "own v (snd (WithTx evs (openTicketTx now (uID c) sub bod p pid) s)) = own v s" for sub bod p
      by (rule WithTx_own) (use openTicketTx_own [OF assms(2)] OpOpenTicket assms(4,5) in auto)
    then show ?thesis by (auto simp: OpOpenTicket OpenTicket_def Let_def split: sum.split prod.split option.split) (metis snd_conv)+
  next
    case (OpReplyTicket evs ev now c kid body)
    have "own v (snd (WithTx evs (replyTx now c kid bod) s)) = own v s" for bod
      by (rule WithTx_own) (use replyTx_own [OF assms(2)] OpReplyTicket assms(4,5) in \<open>auto split: if_splits\<close>)
    then show ?thesis by (auto simp: OpReplyTicket ReplyTicket_def Let_def split: sum.split prod.split) (metis snd_conv)+
  next
    case (OpCloseTicket evs ev now c kid)
    have "own v (snd (WithTx evs (closeTx now c kid) s)) = own v s"
      by (rule WithTx_own) (use closeTx_own [OF assms(2)] OpCloseTicket assms(4,5) in \<open>auto split: if_splits\<close>)
    then show ?thesis by (auto simp: OpCloseTicket CloseTicket_def split: sum.split prod.split)
  next
    case (OpChargeHour evs now p hour)
    have "own v (snd (WithTx evs (chargeHourTx sv now p hour) s)) = own v s"
      by (rule WithTx_own) (use chargeHourTx_own [OF assms(1)] OpChargeHour assms(3-5) in \<open>auto simp: cloud_enabled_def\<close>)
    then show ?thesis by (simp add: OpChargeHour chargeHour_def)
  qed (use assms(4) in auto)
qed

theorem customers_are_isolated_witness:
  "own 1 (cloud_exec sample_service sample_outside (OpCancelOrder [] Runs 5 3 1) sample_pending) = own 1 sample_pending \<and>
   own 2 (cloud_exec sample_service sample_outside (OpCancelOrder [] Runs 5 1 1) sample_pending) = own 2 sample_pending \<and>
   cloud_exec sample_service sample_outside (OpCancelOrder [] Runs 5 1 1) sample_pending \<noteq> sample_pending"
proof -
  have k: "tbl_wf kID (tickets sample_pending)" by (simp add: sample_defs)
  have "own 1 (cloud_exec sample_service sample_outside (OpCancelOrder [] Runs 5 3 1) sample_pending) = own 1 sample_pending"
    using customers_are_isolated [OF sample_pending_wf k, of "OpCancelOrder [] Runs 5 3 1" 3 1] by (simp add: cloud_enabled_def)
  moreover have "own 2 (cloud_exec sample_service sample_outside (OpCancelOrder [] Runs 5 1 1) sample_pending) = own 2 sample_pending"
    using customers_are_isolated [OF sample_pending_wf k, of "OpCancelOrder [] Runs 5 1 1" 1 2] by (simp add: cloud_enabled_def)
  moreover have "map oStatus (rows (orders (cloud_exec sample_service sample_outside (OpCancelOrder [] Runs 5 1 1) sample_pending))) = [OrderCancelled]"
    "map oStatus (rows (orders sample_pending)) = [OrderPending]"
    by code_simp+
  ultimately show ?thesis by force
qed

end
