(* ===== verification/Core_Topology.thy ===== *)
theory Core_Topology
  imports Sql_Tx Domain App_Spec
begin

text \<open>
  Control-plane placement, \<^verbatim>\<open>internal/coretopology/store.go\<close>: which core is active, under which
  authority epoch, and how authority is handed over. The tables \<^verbatim>\<open>core_authority\<close>,
  \<^verbatim>\<open>core_members\<close> and \<^verbatim>\<open>core_handoffs\<close> are a \<open>core_db\<close>; every core process has a \<open>Config\<close> and the
  \<open>stateFile\<close> it read last. URL and address parsing of the standard library and the collation of
  the database are the arguments \<open>net_lib\<close> and \<open>coll\<close>.
\<close>

section \<open>Data\<close>

datatype core_error =
    ErrStandby | MemberExists | StandbyNotFound | ChooseVerifiedStandby | HandoffInProgress
  | NoPreparedHandoff | LocalMemberNotFound | NotStandbyMember | FencedHandoffRequired | NotInitialised
  | InvalidIdentifier | InvalidName | InvalidMode | InvalidAgentServer
  | EndpointNotOrigin | EndpointNotHTTPS | EndpointPort
  | UnsupportedVersion | InvalidMember | InvalidMemberEndpoint | ActiveMismatch | ActiveNotFound
  | ActiveWithoutID | NotOneActive | InvalidHandoff | InvalidHandoffTiming

record Config =
  cfgEndpoint :: string
  cfgID :: string
  cfgMode :: string
  cfgName :: string

record ReplicaInput =
  riAgentServerID :: string
  riEndpoint :: string
  riID :: string
  riName :: string

record stateFile =
  activeID :: string
  epoch :: nat
  handoff :: "CoreHandoff option"
  members :: "CoreMember list"
  version :: int

definition storeVersion :: int where "storeVersion = 1"

record authorityRow =
  aActive :: "string option"
  aEpoch :: nat
  aUpdatedAt :: time

record core_db =
  authority :: "authorityRow option"
  memberRows :: "CoreMember list"
  handoffRow :: "CoreHandoff option"

record CoreTopology =
  tActiveID :: string
  tEpoch :: nat
  tControlEnabled :: bool
  tHandoff :: "CoreHandoff option"
  tLocalID :: string
  tLocalRole :: CoreRole
  tMembers :: "CoreMember list"

text \<open>What the code uses of a parsed URL, and the library functions it calls.\<close>

record url =
  uScheme :: string
  uHost :: string
  uHostname :: string
  uPort :: string
  uHasUser :: bool
  uRawQuery :: string
  uFragment :: string
  uPath :: string

record net_lib =
  urlParse :: "string \<Rightarrow> url option"
  lookupPort :: "string \<Rightarrow> bool"
  loopbackAddr :: "string \<Rightarrow> bool"

section \<open>Validation\<close>

definition validCoreID :: "string \<Rightarrow> bool" where
  "validCoreID s \<longleftrightarrow> HasPrefix s ''core-'' \<and>
     (let r = drop 5 s in r \<noteq> [] \<and> length r \<le> 63 \<and> lower_alnum (hd r) \<and> lower_alnum (last r) \<and>
        list_all (\<lambda>c. lower_alnum c \<or> c = CHR ''-'') r)"

text \<open>Simple case folding for \<^verbatim>\<open>EqualFold\<close> with an ASCII word: besides the upper-case letters,
  U+017F folds to \<open>s\<close> and U+212A to \<open>k\<close>.\<close>

fun fold_ascii :: "string \<Rightarrow> string" where
  "fold_ascii (a # b # c # cs) =
     (if a = CHR 0xC5 \<and> b = CHR 0xBF then CHR ''s'' # fold_ascii (c # cs)
      else if a = CHR 0xE2 \<and> b = CHR 0x84 \<and> c = CHR 0xAA then CHR ''k'' # fold_ascii cs
      else lower_char a # fold_ascii (b # c # cs))"
| "fold_ascii [a, b] = (if a = CHR 0xC5 \<and> b = CHR 0xBF then [CHR ''s''] else [lower_char a, lower_char b])"
| "fold_ascii [a] = [lower_char a]"
| "fold_ascii [] = []"

definition trim_brackets :: "string \<Rightarrow> string" where
  "trim_brackets s = rev (dropWhile (\<lambda>c. c = CHR ''['' \<or> c = CHR '']'') (rev (dropWhile (\<lambda>c. c = CHR ''['' \<or> c = CHR '']'') s)))"

definition loopbackHost :: "net_lib \<Rightarrow> string \<Rightarrow> bool" where
  "loopbackHost net host =
     (let host = trim_brackets (TrimSpace host) in fold_ascii host = ''localhost'' \<or> loopbackAddr net host)"

definition normalizeEndpoint :: "net_lib \<Rightarrow> string \<Rightarrow> bool \<Rightarrow> core_error + string" where
  "normalizeEndpoint net value optional =
     (let value = TrimSpace value in
      if value = '''' \<and> optional then Inr ''''
      else case urlParse net value of
        None \<Rightarrow> Inl EndpointNotOrigin
      | Some u \<Rightarrow>
          if uScheme u = '''' \<or> uHostname u = '''' \<or> uHasUser u \<or> uRawQuery u \<noteq> '''' \<or> uFragment u \<noteq> '''' \<or>
             (uPath u \<noteq> '''' \<and> uPath u \<noteq> ''/'')
          then Inl EndpointNotOrigin
          else if uScheme u \<noteq> ''https'' \<and> \<not> (uScheme u = ''http'' \<and> loopbackHost net (uHostname u))
          then Inl EndpointNotHTTPS
          else if uPort u \<noteq> '''' \<and> \<not> lookupPort net (uPort u) then Inl EndpointPort
          else Inr (uScheme u @ ''://'' @ uHost u))"

definition line_breaks :: string where "line_breaks = [CHR 0x0D, CHR 0x0A, CHR 0x00]"

definition normalizeConfig :: "net_lib \<Rightarrow> Config \<Rightarrow> core_error + Config" where
  "normalizeConfig net input =
     (let i = TrimSpace (cfgID input);
          i = (if i = '''' then ''core-local'' else i);
          n = TrimSpace (cfgName input);
          n = (if n = '''' then ''SwarmOps control plane'' else n);
          m = (if cfgMode input = '''' then ''active'' else cfgMode input) in
      if \<not> validCoreID i then Inl InvalidIdentifier
      else if length n > 96 \<or> ContainsAny n line_breaks then Inl InvalidName
      else if m \<noteq> ''active'' \<and> m \<noteq> ''standby'' then Inl InvalidMode
      else case normalizeEndpoint net (cfgEndpoint input) True of
        Inl e \<Rightarrow> Inl e
      | Inr e \<Rightarrow> Inr \<lparr>cfgEndpoint = e, cfgID = i, cfgMode = m, cfgName = n\<rparr>)"

definition normalizeReplica :: "net_lib \<Rightarrow> ReplicaInput \<Rightarrow> core_error + CoreMember" where
  "normalizeReplica net input =
     (let i = TrimSpace (riID input); n = TrimSpace (riName input) in
      if \<not> validCoreID i then Inl InvalidIdentifier
      else if length n = 0 \<or> length n > 96 \<or> ContainsAny n line_breaks then Inl InvalidName
      else case normalizeEndpoint net (riEndpoint input) False of
        Inl e \<Rightarrow> Inl e
      | Inr e \<Rightarrow>
          (let a = TrimSpace (riAgentServerID input) in
           if length a > 64 \<or> ContainsAny a line_breaks then Inl InvalidAgentServer
           else Inr \<lparr>agentServerID = a, endpoint = e, memberID = i, lastCheckpointAt = None, memberName = n,
                     replicaState = CoreReplicaAwaitingRestore, role = CoreRoleStandby\<rparr>))"

definition newLocalMember :: "Config \<Rightarrow> CoreMember" where
  "newLocalMember cfg =
     \<lparr>agentServerID = '''', endpoint = cfgEndpoint cfg, memberID = cfgID cfg, lastCheckpointAt = None, memberName = cfgName cfg,
      replicaState = (if cfgMode cfg = ''active'' then CoreReplicaVerified else CoreReplicaAwaitingRestore),
      role = (if cfgMode cfg = ''active'' then CoreRoleActive else CoreRoleStandby)\<rparr>"

text \<open>The checks on role and replica state hold by the types. The zero time of the language is
  1 January of year 1.\<close>

definition IsZero :: "time \<Rightarrow> bool" where "IsZero t \<longleftrightarrow> t = - 62135596800000000"

fun validate_members :: "net_lib \<Rightarrow> string \<Rightarrow> string list \<Rightarrow> nat \<Rightarrow> CoreMember list \<Rightarrow> core_error + string list \<times> nat" where
  "validate_members net active seen activeCount [] = Inr (seen, activeCount)"
| "validate_members net active seen activeCount (m # ms) =
     (if \<not> validCoreID (memberID m) \<or> memberID m \<in> set seen then Inl InvalidMember
      else case normalizeEndpoint net (endpoint m) True of
        Inl _ \<Rightarrow> Inl InvalidMemberEndpoint
      | Inr _ \<Rightarrow>
          if role m = CoreRoleActive
          then if active \<noteq> memberID m then Inl ActiveMismatch
               else validate_members net active (memberID m # seen) (activeCount + 1) ms
          else validate_members net active (memberID m # seen) activeCount ms)"

definition validateState :: "net_lib \<Rightarrow> stateFile \<Rightarrow> core_error option" where
  "validateState net st =
     (if version st \<noteq> storeVersion \<or> members st = [] then Some UnsupportedVersion
      else case validate_members net (activeID st) [] 0 (members st) of
        Inl e \<Rightarrow> Some e
      | Inr (seen, activeCount) \<Rightarrow>
          if activeID st \<noteq> '''' \<and> activeID st \<notin> set seen then Some ActiveNotFound
          else if activeID st = '''' \<and> activeCount \<noteq> 0 then Some ActiveWithoutID
          else if activeID st \<noteq> '''' \<and> activeCount \<noteq> 1 then Some NotOneActive
          else case handoff st of
            None \<Rightarrow> None
          | Some h \<Rightarrow>
              if fromID h \<notin> set seen \<or> toID h \<notin> set seen \<or> fromID h = toID h then Some InvalidHandoff
              else if IsZero (preparedAt h) \<or> (handoffState h = CoreHandoffFenced \<and> fencedAt h = None)
              then Some InvalidHandoffTiming
              else None)"

section \<open>Rows\<close>

definition loadState :: "core_db \<Rightarrow> stateFile option" where
  "loadState db = map_option (\<lambda>a. \<lparr>activeID = (case aActive a of None \<Rightarrow> '''' | Some x \<Rightarrow> x), epoch = aEpoch a,
      handoff = handoffRow db, members = memberRows db, version = storeVersion\<rparr>) (authority db)"

definition member_fits :: "CoreMember \<Rightarrow> bool" where
  "member_fits m \<longleftrightarrow> RuneCount (memberID m) \<le> 64 \<and> RuneCount (memberName m) \<le> 96 \<and> RuneCount (endpoint m) \<le> 512 \<and>
     RuneCount (agentServerID m) \<le> 64"

fun insert_members ::
  "(string \<Rightarrow> string) \<Rightarrow> nat \<Rightarrow> CoreMember list \<Rightarrow> CoreMember list \<Rightarrow> core_error store_error + CoreMember list"
where
  "insert_members coll position rs [] = Inr rs"
| "insert_members coll position rs (m # ms) =
     (if \<not> member_fits m then Inl (Server ErrDataTooLong)
      else if position \<ge> 2 ^ 16 then Inl (Server ErrOutOfRange)
      else if list_ex (\<lambda>r. coll (memberID r) = coll (memberID m)) rs then Inl (Server ErrDuplicateEntry)
      else insert_members coll (position + 1) (rs @ [m]) ms)"

definition insert_handoff :: "(string \<Rightarrow> string) \<Rightarrow> CoreHandoff \<Rightarrow> core_db \<Rightarrow> core_error store_error + core_db" where
  "insert_handoff coll h db =
     (if RuneCount (fromID h) > 64 \<or> RuneCount (toID h) > 64 then Inl (Server ErrDataTooLong)
      else if coll (fromID h) = coll (toID h) \<or> (handoffState h = CoreHandoffFenced \<and> fencedAt h = None)
      then Inl (Server ErrCheckViolation)
      else if \<not> list_ex (\<lambda>r. coll (memberID r) = coll (fromID h)) (memberRows db) \<or>
              \<not> list_ex (\<lambda>r. coll (memberID r) = coll (toID h)) (memberRows db)
      then Inl (Server ErrForeignKey)
      else Inr (db\<lparr>handoffRow := Some h\<rparr>))"

definition writeState :: "(string \<Rightarrow> string) \<Rightarrow> time \<Rightarrow> stateFile \<Rightarrow> bool \<Rightarrow> core_db \<Rightarrow> core_error store_error + core_db" where
  "writeState coll now st create db =
     (let row = \<lparr>aActive = (if activeID st = '''' then None else Some (activeID st)), aEpoch = epoch st, aUpdatedAt = now\<rparr> in
      if RuneCount (activeID st) > 64 then Inl (Server ErrDataTooLong)
      else if epoch st < 1 then Inl (Server ErrCheckViolation)
      else if create \<and> authority db \<noteq> None then Inl (Server ErrDuplicateEntry)
      else let authority' = (if create then Some row else map_option (\<lambda>_. row) (authority db)) in
        case insert_members coll 0 [] (members st) of
          Inl e \<Rightarrow> Inl e
        | Inr ms \<Rightarrow>
            (let db' = \<lparr>authority = authority', memberRows = ms, handoffRow = None\<rparr> in
             case handoff st of None \<Rightarrow> Inr db' | Some h \<Rightarrow> insert_handoff coll h db'))"

section \<open>Deciding on a state\<close>

fun memberIndex_from :: "nat \<Rightarrow> string \<Rightarrow> CoreMember list \<Rightarrow> nat option" where
  "memberIndex_from i x [] = None"
| "memberIndex_from i x (m # ms) = (if memberID m = x then Some i else memberIndex_from (i + 1) x ms)"

definition memberIndexLocked :: "string \<Rightarrow> stateFile \<Rightarrow> nat option" where
  "memberIndexLocked x st = memberIndex_from 0 x (members st)"

definition hasMemberLocked :: "string \<Rightarrow> stateFile \<Rightarrow> bool" where
  "hasMemberLocked x st \<longleftrightarrow> memberIndexLocked x st \<noteq> None"

definition localRoleLocked :: "Config \<Rightarrow> stateFile \<Rightarrow> CoreRole" where
  "localRoleLocked cfg st =
     (case memberIndexLocked (cfgID cfg) st of Some i \<Rightarrow> role (members st ! i) | None \<Rightarrow> CoreRoleStandby)"

definition canManageLocked :: "Config \<Rightarrow> stateFile \<Rightarrow> bool" where
  "canManageLocked cfg st \<longleftrightarrow> activeID st = cfgID cfg \<and> localRoleLocked cfg st = CoreRoleActive"

text \<open>The active member comes first, the others by name; the order of members that agree in both
  is the recorded one.\<close>

definition statusLocked :: "Config \<Rightarrow> stateFile \<Rightarrow> CoreTopology" where
  "statusLocked cfg st =
     \<lparr>tActiveID = activeID st, tEpoch = epoch st, tControlEnabled = canManageLocked cfg st, tHandoff = handoff st,
      tLocalID = cfgID cfg, tLocalRole = localRoleLocked cfg st,
      tMembers = sort_key (\<lambda>m. (role m \<noteq> CoreRoleActive, memberName m)) (members st)\<rparr>"

section \<open>Changing a state\<close>

definition add_member :: "CoreMember \<Rightarrow> Config \<Rightarrow> stateFile \<Rightarrow> core_error + stateFile" where
  "add_member m cfg st =
     (if \<not> canManageLocked cfg st then Inl ErrStandby
      else if hasMemberLocked (memberID m) st then Inl MemberExists
      else Inr (st\<lparr>members := members st @ [m]\<rparr>))"

definition update_member :: "nat \<Rightarrow> (CoreMember \<Rightarrow> CoreMember) \<Rightarrow> stateFile \<Rightarrow> stateFile" where
  "update_member i f st = st\<lparr>members := (members st)[i := f (members st ! i)]\<rparr>"

definition verify_member :: "time \<Rightarrow> string \<Rightarrow> Config \<Rightarrow> stateFile \<Rightarrow> core_error + stateFile" where
  "verify_member now x cfg st =
     (if \<not> canManageLocked cfg st then Inl ErrStandby
      else case memberIndexLocked x st of
        None \<Rightarrow> Inl StandbyNotFound
      | Some i \<Rightarrow>
          if role (members st ! i) \<noteq> CoreRoleStandby then Inl StandbyNotFound
          else Inr (update_member i (\<lambda>m. m\<lparr>replicaState := CoreReplicaVerified, lastCheckpointAt := Some now\<rparr>) st))"

definition prepare_handoff :: "time \<Rightarrow> string \<Rightarrow> Config \<Rightarrow> stateFile \<Rightarrow> core_error + stateFile" where
  "prepare_handoff now targetID cfg st =
     (if \<not> canManageLocked cfg st then Inl ErrStandby
      else case memberIndexLocked targetID st of
        None \<Rightarrow> Inl ChooseVerifiedStandby
      | Some i \<Rightarrow>
          if role (members st ! i) \<noteq> CoreRoleStandby \<or> replicaState (members st ! i) \<noteq> CoreReplicaVerified
          then Inl ChooseVerifiedStandby
          else if handoff st \<noteq> None then Inl HandoffInProgress
          else Inr (st\<lparr>handoff := Some \<lparr>fencedAt = None, fromID = cfgID cfg, preparedAt = now,
                 handoffState = CoreHandoffPrepared, toID = targetID\<rparr>\<rparr>))"

definition fence_handoff :: "time \<Rightarrow> string \<Rightarrow> Config \<Rightarrow> stateFile \<Rightarrow> core_error + stateFile" where
  "fence_handoff now targetID cfg st =
     (if \<not> canManageLocked cfg st then Inl ErrStandby
      else case handoff st of
        None \<Rightarrow> Inl NoPreparedHandoff
      | Some h \<Rightarrow>
          if handoffState h \<noteq> CoreHandoffPrepared \<or> fromID h \<noteq> cfgID cfg \<or> toID h \<noteq> targetID then Inl NoPreparedHandoff
          else case memberIndexLocked (cfgID cfg) st of
            None \<Rightarrow> Inl LocalMemberNotFound
          | Some i \<Rightarrow>
              Inr ((update_member i (\<lambda>m. m\<lparr>role := CoreRoleStandby\<rparr>) st)
                \<lparr>activeID := '''', handoff := Some (h\<lparr>handoffState := CoreHandoffFenced, fencedAt := Some now\<rparr>)\<rparr>))"

definition promote :: "bool \<Rightarrow> Config \<Rightarrow> stateFile \<Rightarrow> core_error + stateFile" where
  "promote emergency cfg st =
     (case memberIndexLocked (cfgID cfg) st of
        None \<Rightarrow> Inl NotStandbyMember
      | Some i \<Rightarrow>
          if role (members st ! i) \<noteq> CoreRoleStandby then Inl NotStandbyMember
          else let planned = (case handoff st of None \<Rightarrow> False
                              | Some h \<Rightarrow> handoffState h = CoreHandoffFenced \<and> toID h = cfgID cfg) in
            if \<not> planned \<and> \<not> emergency then Inl FencedHandoffRequired
            else let st1 = (case memberIndexLocked (activeID st) st of
                              Some a \<Rightarrow> update_member a (\<lambda>m. m\<lparr>role := CoreRoleStandby\<rparr>) st | None \<Rightarrow> st) in
              Inr ((update_member i (\<lambda>m. m\<lparr>role := CoreRoleActive, replicaState := CoreReplicaVerified\<rparr>) st1)
                \<lparr>activeID := cfgID cfg, epoch := (epoch st + 1) mod 2 ^ 64, handoff := None\<rparr>))"

section \<open>The store\<close>

text \<open>
  A transaction works on the process's copy of the state, so the copy also changes where the
  transaction fails after its body ran. \<open>reached\<close> tells whether an attempt that the database
  aborted had got that far.
\<close>

definition transactTx ::
  "net_lib \<Rightarrow> (string \<Rightarrow> string) \<Rightarrow> time \<Rightarrow> (stateFile \<Rightarrow> core_error + stateFile) \<Rightarrow> (core_db, core_error, stateFile) tx"
where
  "transactTx net coll now fn db =
     (case loadState db of
        None \<Rightarrow> Inl (Domain NotInitialised)
      | Some st \<Rightarrow>
          (case fn st of
             Inl e \<Rightarrow> Inl (Domain e)
           | Inr st' \<Rightarrow>
               (case validateState net st' of
                  Some e \<Rightarrow> Inl (Domain e)
                | None \<Rightarrow> (case writeState coll now st' False db of Inl e \<Rightarrow> Inl e | Inr db' \<Rightarrow> Inr (st', db')))))"

definition body_state :: "(stateFile \<Rightarrow> core_error + stateFile) \<Rightarrow> core_db \<Rightarrow> stateFile \<Rightarrow> stateFile" where
  "body_state fn db cache =
     (case loadState db of None \<Rightarrow> cache | Some st \<Rightarrow> (case fn st of Inl _ \<Rightarrow> st | Inr st' \<Rightarrow> st'))"

record Store =
  config :: Config
  state' :: stateFile

definition transact ::
  "net_lib \<Rightarrow> (string \<Rightarrow> string) \<Rightarrow> tx_event list \<Rightarrow> bool \<Rightarrow> time \<Rightarrow> (Config \<Rightarrow> stateFile \<Rightarrow> core_error + stateFile)
   \<Rightarrow> Store \<Rightarrow> core_db \<Rightarrow> (core_error store_error + CoreTopology) \<times> Store \<times> core_db"
where
  "transact net coll evs reached now fn c db =
     (case WithTx evs (transactTx net coll now (fn (config c))) db of
        (Inr st', db') \<Rightarrow> (Inr (statusLocked (config c) st'), c\<lparr>state' := st'\<rparr>, db')
      | (Inl e, db') \<Rightarrow>
          (let ran = (case e of Domain _ \<Rightarrow> True | _ \<Rightarrow> reached) in
           (Inl e, (if ran then c\<lparr>state' := body_state (fn (config c)) db (state' c)\<rparr> else c), db')))"

definition AddReplica ::
  "net_lib \<Rightarrow> (string \<Rightarrow> string) \<Rightarrow> tx_event list \<Rightarrow> bool \<Rightarrow> time \<Rightarrow> ReplicaInput
   \<Rightarrow> Store \<Rightarrow> core_db \<Rightarrow> (core_error store_error + CoreTopology) \<times> Store \<times> core_db"
where
  "AddReplica net coll evs reached now input c db =
     (case normalizeReplica net input of
        Inl e \<Rightarrow> (Inl (Domain e), c, db)
      | Inr m \<Rightarrow> transact net coll evs reached now (add_member m) c db)"

definition VerifyReplica where
  "VerifyReplica net coll evs reached now x = transact net coll evs reached now (verify_member now x)"

definition PrepareHandoff where
  "PrepareHandoff net coll evs reached now targetID = transact net coll evs reached now (prepare_handoff now targetID)"

definition FenceForHandoff where
  "FenceForHandoff net coll evs reached now targetID = transact net coll evs reached now (fence_handoff now targetID)"

definition PromoteLocal where
  "PromoteLocal net coll evs reached now emergency = transact net coll evs reached now (promote emergency)"

definition refresh :: "tx_event \<Rightarrow> Store \<Rightarrow> core_db \<Rightarrow> core_error store_error option \<times> Store" where
  "refresh ev c db =
     (case fst (runTx ev (\<lambda>db. case loadState db of None \<Rightarrow> Inl (Domain NotInitialised) | Some st \<Rightarrow> Inr (st, db)) db) of
        Inl e \<Rightarrow> (Some e, c)
      | Inr st \<Rightarrow> (None, c\<lparr>state' := st\<rparr>))"

definition Status :: "tx_event \<Rightarrow> Store \<Rightarrow> core_db \<Rightarrow> CoreTopology \<times> Store" where
  "Status ev c db =
     (case refresh ev c db of
        (Some _, c') \<Rightarrow> ((statusLocked (config c') (state' c'))\<lparr>tControlEnabled := False\<rparr>, c')
      | (None, c') \<Rightarrow> (statusLocked (config c') (state' c'), c'))"

definition CanManage :: "tx_event \<Rightarrow> Store \<Rightarrow> core_db \<Rightarrow> bool \<times> Store" where
  "CanManage ev c db =
     (case refresh ev c db of
        (Some _, c') \<Rightarrow> (False, c')
      | (None, c') \<Rightarrow> (canManageLocked (config c') (state' c'), c'))"

definition AuthorityEpoch :: "tx_event \<Rightarrow> Store \<Rightarrow> core_db \<Rightarrow> nat \<times> Store" where
  "AuthorityEpoch ev c db =
     (case refresh ev c db of (_, c') \<Rightarrow> (if epoch (state' c') = 0 then 1 else epoch (state' c'), c'))"

definition joining_member :: "Config \<Rightarrow> CoreMember" where
  "joining_member cfg =
     \<lparr>agentServerID = '''', endpoint = cfgEndpoint cfg, memberID = cfgID cfg, lastCheckpointAt = None, memberName = cfgName cfg,
      replicaState = CoreReplicaAwaitingRestore, role = CoreRoleStandby\<rparr>"

definition openTx :: "net_lib \<Rightarrow> (string \<Rightarrow> string) \<Rightarrow> time \<Rightarrow> Config \<Rightarrow> (core_db, core_error, stateFile) tx" where
  "openTx net coll now cfg db =
     (case loadState db of
        None \<Rightarrow>
          (let st = \<lparr>activeID = (if cfgMode cfg = ''active'' then cfgID cfg else ''''), epoch = 1, handoff = None,
                     members = [newLocalMember cfg], version = storeVersion\<rparr> in
           case writeState coll now st True db of Inl e \<Rightarrow> Inl e | Inr db' \<Rightarrow> Inr (st, db'))
      | Some st \<Rightarrow>
          (case validateState net st of
             Some e \<Rightarrow> Inl (Domain e)
           | None \<Rightarrow>
               if hasMemberLocked (cfgID cfg) st then Inr (st, db)
               else let st' = st\<lparr>members := members st @ [joining_member cfg]\<rparr> in
                 case writeState coll now st' False db of Inl e \<Rightarrow> Inl e | Inr db' \<Rightarrow> Inr (st', db')))"

text \<open>Opening starts over, with a new transaction, when another core initialised the tables in
  between; the schedules of the attempts are the first argument.\<close>

fun Open ::
  "net_lib \<Rightarrow> (string \<Rightarrow> string) \<Rightarrow> tx_event list list \<Rightarrow> time \<Rightarrow> Config \<Rightarrow> core_db \<Rightarrow> (core_error store_error + Store) \<times> core_db"
where
  "Open net coll evss now input db =
     (case normalizeConfig net input of
        Inl e \<Rightarrow> (Inl (Domain e), db)
      | Inr cfg \<Rightarrow>
          (case WithTx (case evss of [] \<Rightarrow> [] | evs # _ \<Rightarrow> evs) (openTx net coll now cfg) db of
             (Inr st, db') \<Rightarrow> (Inr \<lparr>config = cfg, state' = st\<rparr>, db')
           | (Inl e, db') \<Rightarrow>
               if IsDuplicate e then (case evss of [] \<Rightarrow> (Inl e, db') | _ # rest \<Rightarrow> Open net coll rest now cfg db')
               else (Inl e, db')))"

end
