(* ===== verification/Core_Authority.thy ===== *)
theory Core_Authority
  imports Core_Topology
begin

text \<open>
  Core processes sharing one database. \<open>topo_exec\<close> runs any operation of any process; \<open>db_ok\<close> is the
  invariant of the tables and \<open>authority_order\<close> how a change may move authority. The properties:
  an epoch has at most one active core, a planned promotion follows a fence, and the rows
  represent the topology.
\<close>

section \<open>What validation establishes\<close>

lemma validate_members_Inr:
  "validate_members net a seen n ms = Inr (seen', n') \<Longrightarrow>
   distinct (map memberID ms) \<and> set seen \<inter> memberID ` set ms = {} \<and> (\<forall>m\<in>set ms. validCoreID (memberID m)) \<and>
   set seen' = set seen \<union> memberID ` set ms \<and> n' = n + length (filter (\<lambda>m. role m = CoreRoleActive) ms) \<and>
   (\<forall>m\<in>set ms. role m = CoreRoleActive \<longrightarrow> memberID m = a)"
  by (induction ms arbitrary: seen n) (fastforce split: if_splits sum.splits)+

definition handoff_ok :: "stateFile \<Rightarrow> bool" where
  "handoff_ok st \<longleftrightarrow> (case handoff st of None \<Rightarrow> True
     | Some h \<Rightarrow> fromID h \<in> memberID ` set (members st) \<and> toID h \<in> memberID ` set (members st) \<and> fromID h \<noteq> toID h)"

definition roles_ok :: "stateFile \<Rightarrow> bool" where
  "roles_ok st \<longleftrightarrow> distinct (map memberID (members st)) \<and> (\<forall>m\<in>set (members st). memberID m \<noteq> '''') \<and>
     (\<forall>m\<in>set (members st). role m = CoreRoleActive \<longrightarrow> memberID m = activeID st) \<and>
     (activeID st \<noteq> '''' \<longrightarrow> (\<exists>m\<in>set (members st). memberID m = activeID st \<and> role m = CoreRoleActive))"

definition fence_ok :: "stateFile \<Rightarrow> bool" where
  "fence_ok st \<longleftrightarrow> (case handoff st of Some h \<Rightarrow> handoffState h = CoreHandoffFenced \<longrightarrow> activeID st = '''' | None \<Rightarrow> True)"

definition state_ok :: "stateFile \<Rightarrow> bool" where
  "state_ok st \<longleftrightarrow> roles_ok st \<and> handoff_ok st \<and> fence_ok st \<and> 1 \<le> epoch st \<and> epoch st < 2 ^ 64 \<and> version st = storeVersion"

lemma validCoreID_nonempty: "validCoreID x \<Longrightarrow> x \<noteq> ''''"
  by (auto simp: validCoreID_def Let_def)

lemma validateState_ok:
  assumes "validateState net st = None"
  shows "roles_ok st \<and> handoff_ok st \<and> version st = storeVersion"
proof -
  obtain seen n where v: "validate_members net (activeID st) [] 0 (members st) = Inr (seen, n)"
    using assms by (auto simp: validateState_def split: if_splits sum.splits)
  note m = validate_members_Inr [OF this]
  have "\<exists>m\<in>set (members st). memberID m = activeID st \<and> role m = CoreRoleActive" if "activeID st \<noteq> ''''"
  proof -
    have "n = 1" using assms v that by (auto simp: validateState_def split: if_splits)
    with m have "filter (\<lambda>m. role m = CoreRoleActive) (members st) \<noteq> []" by auto
    with m show ?thesis by (auto simp: filter_empty_conv)
  qed
  with m have "roles_ok st" unfolding roles_ok_def using validCoreID_nonempty by blast
  then show ?thesis using assms m v by (auto simp: validateState_def handoff_ok_def split: if_splits option.splits)
qed

section \<open>Rows represent the topology\<close>

lemma insert_members_all: "insert_members coll n rs ms = Inr rs' \<Longrightarrow> rs' = rs @ ms"
  by (induction ms arbitrary: n rs) (fastforce split: if_splits)+

lemma write_load:
  assumes "writeState coll now st create db = Inr db'" and "version st = storeVersion" and "create \<or> authority db \<noteq> None"
  shows "loadState db' = Some st"
  using assms
  by (auto simp: writeState_def Let_def loadState_def insert_handoff_def split: if_splits sum.splits option.splits dest!: insert_members_all
      intro!: stateFile.equality)

lemma write_epoch: "writeState coll now st create db = Inr db' \<Longrightarrow> 1 \<le> epoch st"
  by (auto simp: writeState_def Let_def split: if_splits)

section \<open>Changes of state\<close>

lemma memberIndex_from_Some: "memberIndex_from n x ms = Some i \<Longrightarrow> n \<le> i \<and> i < n + length ms \<and> memberID (ms ! (i - n)) = x"
proof (induction ms arbitrary: n)
  case (Cons m ms)
  then show ?case
    by (cases "memberID m = x") (fastforce simp: nth_Cons' dest!: Cons.IH)+
qed simp

lemma memberIndex_Some: "memberIndexLocked x st = Some i \<Longrightarrow> i < length (members st) \<and> memberID (members st ! i) = x"
  unfolding memberIndexLocked_def by (drule memberIndex_from_Some) simp

lemma memberIndex_from_None: "memberIndex_from n x ms = None \<longleftrightarrow> x \<notin> memberID ` set ms"
  by (induction ms arbitrary: n) auto

lemma memberIndex_None: "memberIndexLocked x st = None \<longleftrightarrow> x \<notin> memberID ` set (members st)"
  by (simp add: memberIndexLocked_def memberIndex_from_None)

lemma member_at:
  assumes "distinct (map memberID (members st))" and "m \<in> set (members st)"
  shows "\<exists>i. memberIndexLocked (memberID m) st = Some i \<and> members st ! i = m"
proof -
  obtain i where i: "memberIndexLocked (memberID m) st = Some i"
    using assms(2) memberIndex_None [of "memberID m" st] by (cases "memberIndexLocked (memberID m) st") auto
  with memberIndex_Some have "i < length (members st)" "memberID (members st ! i) = memberID m" by blast+
  with assms have "members st ! i = m" by (metis distinct_map inj_onD nth_mem)
  with i show ?thesis by blast
qed

definition authority_order :: "stateFile \<Rightarrow> stateFile \<Rightarrow> bool" where
  "authority_order st st' \<longleftrightarrow> epoch st < epoch st' \<or>
     (epoch st = epoch st' \<and> (activeID st' = activeID st \<or> activeID st' = ''''))"

lemma authority_order_refl [simp]: "authority_order st st" by (simp add: authority_order_def)

lemma authority_order_trans:
  "authority_order a b \<Longrightarrow> authority_order b c \<Longrightarrow> authority_order a c"
  by (auto simp: authority_order_def)

text \<open>What a topology change does to authority: it keeps it, gives it up by a fence, or takes it
  under the next epoch.\<close>

lemma change_order:
  "add_member m cfg st = Inr st' \<Longrightarrow> authority_order st st' \<and> fence_ok st' = fence_ok st \<and> version st' = version st \<and> epoch st' = epoch st"
  "verify_member now x cfg st = Inr st' \<Longrightarrow> authority_order st st' \<and> fence_ok st' = fence_ok st \<and> version st' = version st \<and> epoch st' = epoch st"
  "prepare_handoff now x cfg st = Inr st' \<Longrightarrow> authority_order st st' \<and> fence_ok st' \<and> version st' = version st \<and> epoch st' = epoch st"
  "fence_handoff now x cfg st = Inr st' \<Longrightarrow> authority_order st st' \<and> fence_ok st' \<and> version st' = version st \<and> epoch st' = epoch st"
  by (auto simp: add_member_def verify_member_def prepare_handoff_def fence_handoff_def update_member_def authority_order_def fence_ok_def
      split: if_splits option.splits)

lemma promote_order:
  assumes "promote emergency cfg st = Inr st'" and "epoch st < 2 ^ 64" and "1 \<le> epoch st'"
  shows "epoch st' = epoch st + 1 \<and> fence_ok st' \<and> version st' = version st \<and> activeID st' = cfgID cfg \<and> handoff st' = None"
proof -
  have st': "epoch st' = (epoch st + 1) mod 2 ^ 64" "fence_ok st'" "version st' = version st" "activeID st' = cfgID cfg" "handoff st' = None"
    using assms(1) by (auto simp: promote_def Let_def update_member_def fence_ok_def split: if_splits option.splits)
  have "epoch st + 1 < 2 ^ 64"
  proof (rule ccontr)
    assume "\<not> epoch st + 1 < 2 ^ 64"
    with assms(2) have "epoch st + 1 = 2 ^ 64" by simp
    with st'(1) assms(3) show False by simp
  qed
  with st' show ?thesis by simp
qed

lemma promote_planned:
  "promote False cfg st = Inr st' \<Longrightarrow> \<exists>h. handoff st = Some h \<and> handoffState h = CoreHandoffFenced \<and> toID h = cfgID cfg"
  by (auto simp: promote_def Let_def split: if_splits option.splits)

section \<open>Every change is lawful\<close>

text \<open>The contract of a topology change: on a good state it moves authority forward only.\<close>

locale topology_change =
  fixes change :: "stateFile \<Rightarrow> core_error + stateFile"
  assumes lawful: "state_ok st \<Longrightarrow> change st = Inr st' \<Longrightarrow> 1 \<le> epoch st' \<Longrightarrow>
    authority_order st st' \<and> fence_ok st' \<and> version st' = storeVersion \<and> epoch st' < 2 ^ 64"
begin

lemma committed:
  assumes "loadState db = Some st" and "state_ok st" and "transactTx net coll now change db = Inr (st', db')"
  shows "loadState db' = Some st'" "state_ok st'" "authority_order st st'"
proof -
  from assms have c: "change st = Inr st'" "validateState net st' = None" "writeState coll now st' False db = Inr db'"
    by (auto simp: transactTx_def split: sum.splits option.splits)
  note ok = lawful [OF assms(2) c(1) write_epoch [OF c(3)]] validateState_ok [OF c(2)]
  show "loadState db' = Some st'" using c(3) ok assms(1) by (intro write_load) (auto simp: loadState_def)
  show "state_ok st'" "authority_order st st'" using ok write_epoch [OF c(3)] by (auto simp: state_ok_def)
qed

end

interpretation adding: topology_change "add_member m cfg" for m cfg
  by unfold_locales (auto dest!: change_order(1) simp: state_ok_def)

interpretation verifying: topology_change "verify_member now x cfg" for now x cfg
  by unfold_locales (auto dest!: change_order(2) simp: state_ok_def)

interpretation preparing: topology_change "prepare_handoff now x cfg" for now x cfg
  by unfold_locales (auto dest!: change_order(3) simp: state_ok_def)

interpretation fencing: topology_change "fence_handoff now x cfg" for now x cfg
  by unfold_locales (auto dest!: change_order(4) simp: state_ok_def)

interpretation promoting: topology_change "promote emergency cfg" for emergency cfg
proof
  fix st st' assume st: "state_ok st" "promote emergency cfg st = Inr st'" "1 \<le> epoch st'"
  then have e: "epoch st' = (epoch st + 1) mod 2 ^ 64" by (auto simp: promote_def Let_def update_member_def split: if_splits option.splits)
  have "epoch st' < 2 ^ 64" unfolding e by (rule mod_less_divisor) simp
  with st promote_order [OF st(2) _ st(3)] show "authority_order st st' \<and> fence_ok st' \<and> version st' = storeVersion \<and> epoch st' < 2 ^ 64"
    by (simp add: state_ok_def authority_order_def)
qed

section \<open>Processes on one database\<close>

record core_system =
  stores :: "Store list"
  tables :: core_db

datatype topo_op =
    OpOpen "tx_event list list" time Config
  | OpAdd "tx_event list" bool time ReplicaInput
  | OpVerify "tx_event list" bool time string
  | OpPrepare "tx_event list" bool time string
  | OpFence "tx_event list" bool time string
  | OpPromote "tx_event list" bool time bool
  | OpRefresh tx_event

text \<open>Operation \<open>op\<close> of process \<open>i\<close>; opening adds a process.\<close>

fun topo_run :: "net_lib \<Rightarrow> (string \<Rightarrow> string) \<Rightarrow> topo_op \<Rightarrow> Store \<Rightarrow> core_db \<Rightarrow> Store \<times> core_db" where
  "topo_run net coll (OpAdd evs reached now input) c db = snd (AddReplica net coll evs reached now input c db)"
| "topo_run net coll (OpVerify evs reached now x) c db = snd (VerifyReplica net coll evs reached now x c db)"
| "topo_run net coll (OpPrepare evs reached now x) c db = snd (PrepareHandoff net coll evs reached now x c db)"
| "topo_run net coll (OpFence evs reached now x) c db = snd (FenceForHandoff net coll evs reached now x c db)"
| "topo_run net coll (OpPromote evs reached now emergency) c db = snd (PromoteLocal net coll evs reached now emergency c db)"
| "topo_run net coll (OpRefresh ev) c db = (snd (refresh ev c db), db)"
| "topo_run net coll (OpOpen evss now input) c db = (c, db)"

fun topo_exec :: "net_lib \<Rightarrow> (string \<Rightarrow> string) \<Rightarrow> nat \<times> topo_op \<Rightarrow> core_system \<Rightarrow> core_system" where
  "topo_exec net coll (i, OpOpen evss now input) y =
     (case Open net coll evss now input (tables y) of
        (Inl _, db) \<Rightarrow> y\<lparr>tables := db\<rparr>
      | (Inr c, db) \<Rightarrow> y\<lparr>stores := stores y @ [c], tables := db\<rparr>)"
| "topo_exec net coll (i, op) y =
     (if i < length (stores y)
      then case topo_run net coll op (stores y ! i) (tables y) of (c, db) \<Rightarrow> y\<lparr>stores := (stores y)[i := c], tables := db\<rparr>
      else y)"

definition no_topology :: core_db where
  "no_topology = \<lparr>authority = None, memberRows = [], handoffRow = None\<rparr>"

definition db_ok :: "core_db \<Rightarrow> bool" where
  "db_ok db \<longleftrightarrow> (case loadState db of None \<Rightarrow> True | Some st \<Rightarrow> state_ok st)"

definition db_order :: "core_db \<Rightarrow> core_db \<Rightarrow> bool" where
  "db_order db db' \<longleftrightarrow> (case loadState db of None \<Rightarrow> True
     | Some st \<Rightarrow> (case loadState db' of None \<Rightarrow> False | Some st' \<Rightarrow> authority_order st st'))"

lemma db_order_refl [simp]: "db_order db db"
  by (simp add: db_order_def split: option.split)

lemma db_order_trans: "db_order a b \<Longrightarrow> db_order b c \<Longrightarrow> db_order a c"
  by (auto simp: db_order_def split: option.splits intro: authority_order_trans)

context topology_change
begin

lemma tx_ok:
  assumes "db_ok db" and "transactTx net coll now change db = Inr (st', db')"
  shows "db_ok db' \<and> db_order db db'"
proof (cases "loadState db")
  case None
  with assms(2) show ?thesis by (simp add: transactTx_def)
next
  case (Some st)
  with assms(1) have "state_ok st" by (simp add: db_ok_def)
  with committed [OF Some this assms(2)] Some show ?thesis by (simp add: db_ok_def db_order_def)
qed

end

text \<open>A change of the topology is a transaction body that keeps the tables in order and only moves the
  authority forward, so the same holds of the transaction with its retries.\<close>

sublocale topology_change \<subseteq> body: transactional "\<lambda>db'. db_ok db' \<and> db_order db db'" "transactTx net coll now change"
  for db net coll now
  by unfold_locales (blast dest: tx_ok intro: db_order_trans)

context topology_change
begin

lemma withTx_ok:
  "db_ok db \<Longrightarrow> db_ok (snd (WithTx evs (transactTx net coll now change) db)) \<and> db_order db (snd (WithTx evs (transactTx net coll now change) db))"
  using body.WithTx_inv [of db db] by simp

end

lemma transact_state:
  "snd (snd (transact net coll evs reached now fn c db)) = snd (WithTx evs (transactTx net coll now (fn (config c))) db)"
  by (auto simp: transact_def Let_def split: prod.split sum.split)

lemma normalizeConfig_id: "normalizeConfig net input = Inr cfg \<Longrightarrow> cfgID cfg \<noteq> ''''"
  by (auto simp: normalizeConfig_def Let_def dest: validCoreID_nonempty split: if_splits sum.splits)

lemma join_ok:
  assumes "state_ok st" and "\<not> hasMemberLocked (cfgID cfg) st" and "cfgID cfg \<noteq> ''''"
  shows "state_ok (st\<lparr>members := members st @ [joining_member cfg]\<rparr>)"
  using assms by (auto simp: state_ok_def roles_ok_def handoff_ok_def fence_ok_def hasMemberLocked_def memberIndex_None joining_member_def
      split: option.splits)

lemma openTx_ok:
  assumes "db_ok db" and "cfgID cfg \<noteq> ''''" and "openTx net coll now cfg db = Inr (st', db')"
  shows "db_ok db' \<and> db_order db db'"
proof (cases "loadState db")
  case None
  let ?st = "\<lparr>activeID = (if cfgMode cfg = ''active'' then cfgID cfg else ''''), epoch = 1, handoff = None,
      members = [newLocalMember cfg], version = storeVersion\<rparr>"
  have "writeState coll now ?st True db = Inr db'" using assms(3) None by (auto simp: openTx_def Let_def split: sum.splits)
  then have "loadState db' = Some ?st" by (rule write_load) simp_all
  moreover have "state_ok ?st" using assms(2) by (simp add: state_ok_def roles_ok_def handoff_ok_def fence_ok_def newLocalMember_def)
  ultimately show ?thesis using None by (simp add: db_ok_def db_order_def)
next
  case (Some st)
  have ok: "state_ok st" using assms(1) Some by (simp add: db_ok_def)
  let ?st = "st\<lparr>members := members st @ [joining_member cfg]\<rparr>"
  consider "db' = db" | "\<not> hasMemberLocked (cfgID cfg) st" "writeState coll now ?st False db = Inr db'"
    using assms(3) Some by (auto simp: openTx_def Let_def split: if_splits option.splits sum.splits)
  then show ?thesis
  proof cases
    case 2
    have "loadState db' = Some ?st" using Some ok by (intro write_load [OF 2(2)]) (auto simp: loadState_def state_ok_def)
    with join_ok [OF ok 2(1) assms(2)] Some show ?thesis by (simp add: db_ok_def db_order_def authority_order_def)
  qed (use assms(1) in simp)
qed

lemma Open_ok: "db_ok db \<Longrightarrow> db_ok (snd (Open net coll evss now input db)) \<and> db_order db (snd (Open net coll evss now input db))"
proof (induction evss arbitrary: input db)
  case (Cons evs evss)
  show ?case
  proof (cases "normalizeConfig net input")
    case (Inr cfg)
    then show ?thesis using Cons.IH [of db cfg] Cons.prems openTx_ok [OF Cons.prems normalizeConfig_id [OF Inr]]
      by (cases rule: WithTx_cases [of evs "openTx net coll now cfg" db]) auto
  qed (use Cons.prems in simp)
next
  case Nil
  show ?case
  proof (cases "normalizeConfig net input")
    case (Inr cfg)
    then show ?thesis using Nil openTx_ok [OF Nil normalizeConfig_id [OF Inr]]
      by (cases rule: WithTx_cases [of "[]" "openTx net coll now cfg" db]) auto
  qed (use Nil in simp)
qed

lemma topo_run_ok:
  assumes "db_ok db"
  shows "db_ok (snd (topo_run net coll op c db)) \<and> db_order db (snd (topo_run net coll op c db))"
  by (cases op)
    (auto simp: AddReplica_def VerifyReplica_def PrepareHandoff_def FenceForHandoff_def PromoteLocal_def transact_state
      assms adding.withTx_ok [OF assms] verifying.withTx_ok [OF assms] preparing.withTx_ok [OF assms] fencing.withTx_ok [OF assms]
      promoting.withTx_ok [OF assms] split: sum.split)

lemma topo_exec_ok:
  assumes "db_ok (tables y)"
  shows "db_ok (tables (topo_exec net coll iop y)) \<and> db_order (tables y) (tables (topo_exec net coll iop y))"
proof (cases iop)
  case (Pair i op)
  then show ?thesis
    using Open_ok [OF assms, of net coll] topo_run_ok [OF assms, of net coll op] assms
    by (cases op) (auto split: prod.split sum.split simp del: Open.simps topo_run.simps, (metis snd_conv)+)
qed

interpretation topology: op_system "\<lambda>_ _. True" "topo_exec net coll" "\<lambda>y. db_ok (tables y)" for net coll
  by unfold_locales (simp add: topo_exec_ok)

lemma reach_order:
  "reach (\<lambda>_ _. True) (topo_exec net coll) y y' \<Longrightarrow> db_ok (tables y) \<Longrightarrow> db_ok (tables y') \<and> db_order (tables y) (tables y')"
  by (induction rule: reach.induct) (auto intro: db_order_trans topo_exec_ok [THEN conjunct1] topo_exec_ok [THEN conjunct2])

section \<open>Who may manage\<close>

lemma CanManage_state:
  assumes "fst (CanManage ev c db)"
  shows "\<exists>st. loadState db = Some st \<and> canManageLocked (config c) st"
  using assms by (auto simp: CanManage_def refresh_def runTx_def split: tx_event.splits option.splits)

lemma canManage_active: "canManageLocked cfg st \<Longrightarrow> state_ok st \<Longrightarrow> activeID st = cfgID cfg \<and> cfgID cfg \<noteq> ''''"
proof -
  assume m: "canManageLocked cfg st" and ok: "state_ok st"
  obtain i where "memberIndexLocked (cfgID cfg) st = Some i"
    using m by (auto simp: canManageLocked_def localRoleLocked_def split: option.splits)
  then have "cfgID cfg \<in> memberID ` set (members st)" using memberIndex_None [of "cfgID cfg" st] by auto
  with m ok show ?thesis by (auto simp: canManageLocked_def state_ok_def roles_ok_def)
qed

text \<open>C33: An authority epoch belongs to one core. Whatever the processes on the database do, with any
  faults and in any order, if one core may manage now and a different one may manage later, the
  later one does so under a larger epoch.\<close>

theorem an_epoch_has_one_active_core:
  assumes init: "reach (\<lambda>_ _. True) (topo_exec net coll) \<lparr>stores = [], tables = no_topology\<rparr> y"
    and later: "reach (\<lambda>_ _. True) (topo_exec net coll) y y'"
    and "fst (CanManage ev c (tables y))" and "fst (CanManage ev' c' (tables y'))" and "cfgID (config c) \<noteq> cfgID (config c')"
  shows "\<exists>st st'. loadState (tables y) = Some st \<and> loadState (tables y') = Some st' \<and> epoch st < epoch st'"
proof -
  have "db_ok (tables \<lparr>stores = [], tables = no_topology\<rparr>)" by (simp add: db_ok_def no_topology_def loadState_def)
  from topology.reach_inv [OF init this] have ok: "db_ok (tables y)" .
  note ok' = reach_order [OF later ok]
  obtain st st' where st: "loadState (tables y) = Some st" "loadState (tables y') = Some st'"
    and m: "canManageLocked (config c) st" "canManageLocked (config c') st'"
    using CanManage_state [OF assms(3)] CanManage_state [OF assms(4)] by blast
  have "state_ok st" "state_ok st'" "authority_order st st'" using ok ok' st by (simp_all add: db_ok_def db_order_def)
  with canManage_active m assms(5) have "epoch st < epoch st'" unfolding authority_order_def by metis
  with st show ?thesis by blast
qed

lemma memberIndex_from_ids: "map memberID ms = map memberID ms' \<Longrightarrow> memberIndex_from n x ms = memberIndex_from n x ms'"
proof (induction ms arbitrary: ms' n)
  case (Cons m ms)
  then show ?case by (cases ms') auto
qed simp

lemma update_member_ids:
  "i < length (members st) \<Longrightarrow> memberID (f (members st ! i)) = memberID (members st ! i) \<Longrightarrow> map memberID (members (update_member i f st)) = map memberID (members st)"
  by (auto simp: update_member_def list_eq_iff_nth_eq nth_list_update)

lemma promote_manages:
  assumes "promote emergency cfg st = Inr st'"
  shows "canManageLocked cfg st'"
proof -
  obtain i where i: "memberIndexLocked (cfgID cfg) st = Some i" using assms by (auto simp: promote_def split: option.splits)
  let ?down = "\<lambda>m. m\<lparr>role := CoreRoleStandby\<rparr>" and ?up = "\<lambda>m. m\<lparr>role := CoreRoleActive, replicaState := CoreReplicaVerified\<rparr>"
  define st1 where "st1 = (case memberIndexLocked (activeID st) st of Some a \<Rightarrow> update_member a ?down st | None \<Rightarrow> st)"
  have st': "st' = (update_member i ?up st1)\<lparr>activeID := cfgID cfg, epoch := (epoch st + 1) mod 2 ^ 64, handoff := None\<rparr>"
    using assms i by (auto simp: promote_def Let_def st1_def split: if_splits option.splits)
  have ids: "map memberID (members st1) = map memberID (members st)"
    using memberIndex_Some by (auto simp: st1_def intro!: update_member_ids split: option.split)
  then have len: "i < length (members st1)" using memberIndex_Some [OF i] by (metis length_map)
  then have "map memberID (members st') = map memberID (members st1)" using update_member_ids [of i st1 ?up] by (simp add: st')
  with ids have "memberIndexLocked (cfgID cfg) st' = Some i"
    using i memberIndex_from_ids [of "members st'" "members st"] by (simp add: memberIndexLocked_def)
  then show ?thesis using len by (simp add: canManageLocked_def localRoleLocked_def st' update_member_def)
qed

lemma nobody_after_fence:
  assumes "state_ok st" and "handoff st = Some h" and "handoffState h = CoreHandoffFenced"
  shows "\<not> canManageLocked cfg st"
  using assms canManage_active [of cfg st] by (auto simp: state_ok_def fence_ok_def)

text \<open>C34: A planned promotion never overlaps with another active core. It succeeds only where a fenced
  handoff names this core, and then no core at all was able to manage; afterwards this core is the
  only one that can, under the next epoch and with the handoff gone.\<close>

theorem planned_promotion_follows_fence:
  assumes init: "reach (\<lambda>_ _. True) (topo_exec net coll) \<lparr>stores = [], tables = no_topology\<rparr> y"
    and run: "PromoteLocal net coll evs reached now False c (tables y) = (Inr t, c', db')"
  shows "(\<forall>ev d. \<not> fst (CanManage ev d (tables y))) \<and> fst (CanManage Runs c' db') \<and>
    (\<forall>ev d. fst (CanManage ev d db') \<longrightarrow> cfgID (config d) = cfgID (config c)) \<and>
    (\<exists>st. loadState (tables y) = Some st \<and> tEpoch t = epoch st + 1 \<and> tHandoff t = None)"
proof -
  have "db_ok (tables \<lparr>stores = [], tables = no_topology\<rparr>)" by (simp add: db_ok_def no_topology_def loadState_def)
  from topology.reach_inv [OF init this] have ok: "db_ok (tables y)" .
  obtain st' where tx: "WithTx evs (transactTx net coll now (promote False (config c))) (tables y) = (Inr st', db')"
    and t: "t = statusLocked (config c) st'" and c': "c' = c\<lparr>state' := st'\<rparr>"
    using run by (auto simp: PromoteLocal_def transact_def Let_def split: prod.splits sum.splits)
  note body = WithTx_valueD [OF tx]
  then obtain st where st: "loadState (tables y) = Some st" "promote False (config c) st = Inr st'"
    by (auto simp: transactTx_def split: option.splits sum.splits)
  with ok have sok: "state_ok st" by (simp add: db_ok_def)
  note committed = promoting.committed [OF st(1) sok body]
  obtain h where h: "handoff st = Some h" "handoffState h = CoreHandoffFenced" using promote_planned [OF st(2)] by blast
  have "\<not> fst (CanManage ev d (tables y))" for ev d
    using CanManage_state [of ev d "tables y"] nobody_after_fence [OF sok h] st(1) by auto
  moreover have "fst (CanManage Runs c' db')"
    using committed(1) promote_manages [OF st(2)] by (simp add: CanManage_def refresh_def runTx_def c')
  moreover have e: "epoch st' = epoch st + 1 \<and> activeID st' = cfgID (config c) \<and> handoff st' = None"
    using promote_order [OF st(2)] sok committed(2) by (simp add: state_ok_def)
  moreover have "cfgID (config d) = cfgID (config c)" if "fst (CanManage ev d db')" for ev d
    using CanManage_state [OF that] committed canManage_active [of "config d" st'] e by auto
  ultimately show ?thesis using st(1) by (auto simp: t statusLocked_def)
qed

section \<open>A sample handover\<close>

definition sample_net :: net_lib where
  "sample_net = \<lparr>urlParse = (\<lambda>_. None), lookupPort = (\<lambda>_. True), loopbackAddr = (\<lambda>_. False)\<rparr>"

definition sample_config :: "string \<Rightarrow> string \<Rightarrow> Config" where
  "sample_config x m = \<lparr>cfgEndpoint = '''', cfgID = x, cfgMode = m, cfgName = x\<rparr>"

definition sample_member :: "string \<Rightarrow> CoreRole \<Rightarrow> CoreReplicaState \<Rightarrow> time option \<Rightarrow> CoreMember" where
  "sample_member x r p t = \<lparr>agentServerID = '''', endpoint = '''', memberID = x, lastCheckpointAt = t, memberName = x, replicaState = p, role = r\<rparr>"

definition sample_topology :: "string \<Rightarrow> nat \<Rightarrow> CoreHandoff option \<Rightarrow> CoreMember list \<Rightarrow> stateFile" where
  "sample_topology a e h ms = \<lparr>activeID = a, epoch = e, handoff = h, members = ms, version = storeVersion\<rparr>"

definition sample_open :: stateFile where
  "sample_open = sample_topology ''core-a'' 1 None [sample_member ''core-a'' CoreRoleActive CoreReplicaVerified None,
     sample_member ''core-b'' CoreRoleStandby CoreReplicaAwaitingRestore None]"

definition sample_handoff :: "CoreHandoffState \<Rightarrow> time option \<Rightarrow> CoreHandoff" where
  "sample_handoff h t = \<lparr>fencedAt = t, fromID = ''core-a'', preparedAt = 3, handoffState = h, toID = ''core-b''\<rparr>"

definition sample_fenced :: stateFile where
  "sample_fenced = sample_topology '''' 1 (Some (sample_handoff CoreHandoffFenced (Some 4)))
     [sample_member ''core-a'' CoreRoleStandby CoreReplicaVerified None, sample_member ''core-b'' CoreRoleStandby CoreReplicaVerified (Some 2)]"

definition sample_ops :: "(nat \<times> topo_op) list" where
  "sample_ops = [(0, OpOpen [] 1 (sample_config ''core-a'' ''active'')), (0, OpOpen [] 1 (sample_config ''core-b'' ''standby'')),
     (0, OpVerify [] False 2 ''core-b''), (0, OpPrepare [] False 3 ''core-b''), (0, OpFence [] False 4 ''core-b''), (1, OpPromote [] False 5 False)]"

lemma reach_fold: "reach (\<lambda>_ _. True) exec s0 (fold exec ops s0)"
proof (induction ops rule: rev_induct)
  case (snoc op ops)
  then show ?case using reach.step [of "\<lambda>_ _. True" exec s0 "fold exec ops s0" op] by simp
qed (simp add: reach.start)

lemma sample_ids: "validCoreID ''core-a''" "validCoreID ''core-b''" "RuneCount ''core-a'' = 6" "RuneCount ''core-b'' = 6" "RuneCount '''' = 0"
  "TrimSpace ''core-a'' = ''core-a''" "TrimSpace ''core-b'' = ''core-b''" "TrimSpace '''' = ''''"
  "\<not> ContainsAny ''core-a'' line_breaks" "\<not> ContainsAny ''core-b'' line_breaks"
  by code_simp+

lemma open_runs:
  assumes "normalizeConfig net input = Inr cfg" and "openTx net coll now cfg (tables y) = Inr (st, db)"
  shows "topo_exec net coll (i, OpOpen [] now input) y = y\<lparr>stores := stores y @ [\<lparr>config = cfg, state' = st\<rparr>], tables := db\<rparr>"
  using assms(1) WithTx_runs [where fn = "openTx net coll now cfg" and s = "tables y", OF assms(2)] by simp

lemma transact_runs:
  assumes "loadState db = Some st" and "fn (config c) st = Inr st'" and "validateState net st' = None" and "writeState coll now st' False db = Inr db'"
  shows "transact net coll [] reached now fn c db = (Inr (statusLocked (config c) st'), c\<lparr>state' := st'\<rparr>, db')"
proof -
  have "transactTx net coll now (fn (config c)) db = Inr (st', db')" using assms by (simp add: transactTx_def)
  from WithTx_runs [where fn = "transactTx net coll now (fn (config c))" and s = db, OF this] show ?thesis by (simp add: transact_def)
qed

definition sample_tables :: "time \<Rightarrow> stateFile \<Rightarrow> core_db" where
  "sample_tables now st = \<lparr>authority = Some \<lparr>aActive = (if activeID st = '''' then None else Some (activeID st)), aEpoch = epoch st, aUpdatedAt = now\<rparr>,
     memberRows = members st, handoffRow = handoff st\<rparr>"

lemma sample_config_ok: "normalizeConfig sample_net (sample_config ''core-a'' ''active'') = Inr (sample_config ''core-a'' ''active'')"
  "normalizeConfig sample_net (sample_config ''core-b'' ''standby'') = Inr (sample_config ''core-b'' ''standby'')"
  by (simp_all add: normalizeConfig_def sample_config_def sample_ids normalizeEndpoint_def Let_def)

lemma sample_load: "version st = storeVersion \<Longrightarrow> loadState (sample_tables now st) = Some st"
  by (auto simp: loadState_def sample_tables_def intro!: stateFile.equality)

lemmas sample_topology_defs = sample_topology_def sample_member_def sample_handoff_def sample_config_def newLocalMember_def joining_member_def
  member_fits_def insert_handoff_def no_topology_def

lemma sample_first: "openTx sample_net id 1 (sample_config ''core-a'' ''active'') no_topology =
    (let st = sample_topology ''core-a'' 1 None [sample_member ''core-a'' CoreRoleActive CoreReplicaVerified None] in Inr (st, sample_tables 1 st))"
  by (simp add: openTx_def loadState_def writeState_def Let_def sample_tables_def sample_topology_defs sample_ids)

lemma sample_second:
  "openTx sample_net id 1 (sample_config ''core-b'' ''standby'') (sample_tables 1 (sample_topology ''core-a'' 1 None [sample_member ''core-a'' CoreRoleActive CoreReplicaVerified None])) =
   Inr (sample_open, sample_tables 1 sample_open)"
  by (simp add: openTx_def loadState_def writeState_def Let_def sample_tables_def sample_open_def sample_topology_defs sample_ids validateState_def storeVersion_def
     normalizeEndpoint_def hasMemberLocked_def memberIndexLocked_def)

abbreviation sample_a :: "stateFile \<Rightarrow> Store" where "sample_a st \<equiv> \<lparr>config = sample_config ''core-a'' ''active'', state' = st\<rparr>"
abbreviation sample_b :: "stateFile \<Rightarrow> Store" where "sample_b st \<equiv> \<lparr>config = sample_config ''core-b'' ''standby'', state' = st\<rparr>"

definition sample_verified :: "CoreHandoff option \<Rightarrow> stateFile" where
  "sample_verified h = sample_topology ''core-a'' 1 h [sample_member ''core-a'' CoreRoleActive CoreReplicaVerified None,
     sample_member ''core-b'' CoreRoleStandby CoreReplicaVerified (Some 2)]"

definition sample_promoted :: stateFile where
  "sample_promoted = sample_topology ''core-b'' 2 None [sample_member ''core-a'' CoreRoleStandby CoreReplicaVerified None,
     sample_member ''core-b'' CoreRoleActive CoreReplicaVerified (Some 2)]"

lemmas sample_states = sample_open_def sample_verified_def sample_fenced_def sample_promoted_def

lemma sample_versions [simp]: "version sample_open = storeVersion" "version (sample_verified h) = storeVersion" "version sample_fenced = storeVersion"
  by (simp_all add: sample_states sample_topology_def)

lemmas sample_index = memberIndexLocked_def canManageLocked_def localRoleLocked_def update_member_def

lemma sample_changes:
  "verify_member 2 ''core-b'' (sample_config ''core-a'' ''active'') sample_open = Inr (sample_verified None)"
  "prepare_handoff 3 ''core-b'' (sample_config ''core-a'' ''active'') (sample_verified None) = Inr (sample_verified (Some (sample_handoff CoreHandoffPrepared None)))"
  "fence_handoff 4 ''core-b'' (sample_config ''core-a'' ''active'') (sample_verified (Some (sample_handoff CoreHandoffPrepared None))) = Inr sample_fenced"
  "promote False (sample_config ''core-b'' ''standby'') sample_fenced = Inr sample_promoted"
  by (simp_all add: verify_member_def prepare_handoff_def fence_handoff_def promote_def sample_states sample_topology_defs sample_index Let_def)

lemma sample_topologies_valid:
  "validateState sample_net (sample_verified None) = None" "validateState sample_net sample_fenced = None" "validateState sample_net sample_promoted = None"
  "validateState sample_net (sample_verified (Some (sample_handoff CoreHandoffPrepared None))) = None"
  by (simp_all add: validateState_def sample_states sample_topology_defs sample_ids normalizeEndpoint_def storeVersion_def IsZero_def)

lemma sample_writes:
  "writeState id now (sample_verified None) False (sample_tables t st) = Inr (sample_tables now (sample_verified None))"
  "writeState id now (sample_verified (Some (sample_handoff CoreHandoffPrepared None))) False (sample_tables t st) =
    Inr (sample_tables now (sample_verified (Some (sample_handoff CoreHandoffPrepared None))))"
  "writeState id now sample_fenced False (sample_tables t st) = Inr (sample_tables now sample_fenced)"
  "writeState id now sample_promoted False (sample_tables t st) = Inr (sample_tables now sample_promoted)"
  by (simp_all add: writeState_def sample_tables_def sample_states sample_topology_defs sample_ids Let_def)

lemma sample_opened:
  "fold (topo_exec sample_net id) (take 2 sample_ops) \<lparr>stores = [], tables = no_topology\<rparr> =
   \<lparr>stores = [sample_a (sample_topology ''core-a'' 1 None [sample_member ''core-a'' CoreRoleActive CoreReplicaVerified None]), sample_b sample_open],
    tables = sample_tables 1 sample_open\<rparr>"
  using open_runs [OF sample_config_ok(1), of id 1 "\<lparr>stores = [], tables = no_topology\<rparr>"] sample_first
    open_runs [OF sample_config_ok(2), of id 1] sample_second
  by (simp add: sample_ops_def Let_def del: topo_exec.simps Open.simps)

lemma sample_run:
  "fold (topo_exec sample_net id) (take 5 sample_ops) \<lparr>stores = [], tables = no_topology\<rparr> =
   \<lparr>stores = [sample_a sample_fenced, sample_b sample_open], tables = sample_tables 4 sample_fenced\<rparr>"
proof -
  have split: "take 5 sample_ops = take 2 sample_ops @ [(0, OpVerify [] False 2 ''core-b''), (0, OpPrepare [] False 3 ''core-b''), (0, OpFence [] False 4 ''core-b'')]"
    by (simp add: sample_ops_def)
  note step = transact_runs [OF sample_load, where net = sample_net and coll = id and reached = False]
  show ?thesis
    by (simp add: split sample_opened VerifyReplica_def PrepareHandoff_def FenceForHandoff_def
      step [where fn = "verify_member 2 ''core-b''"] step [where fn = "prepare_handoff 3 ''core-b''"] step [where fn = "fence_handoff 4 ''core-b''"]
      sample_changes sample_topologies_valid sample_writes)
qed

lemma sample_promotion:
  "PromoteLocal sample_net id [] False 5 False (sample_b st0) (sample_tables 4 sample_fenced) =
    (Inr (statusLocked (sample_config ''core-b'' ''standby'') sample_promoted), sample_b sample_promoted, sample_tables 5 sample_promoted)"
  using transact_runs [OF sample_load, where net = sample_net and coll = id and reached = False and fn = "promote False" and c = "sample_b st0"
      and st = sample_fenced and now = 5]
  by (simp add: PromoteLocal_def sample_changes sample_topologies_valid sample_writes)

theorem planned_promotion_follows_fence_witness:
  "\<exists>t c' db'. PromoteLocal sample_net id [] False 5 False (sample_b sample_open) (sample_tables 4 sample_fenced) = (Inr t, c', db') \<and>
    fst (CanManage Runs c' db') \<and> (\<forall>ev d. \<not> fst (CanManage ev d (sample_tables 4 sample_fenced))) \<and> tHandoff t = None"
proof -
  have "reach (\<lambda>_ _. True) (topo_exec sample_net id) \<lparr>stores = [], tables = no_topology\<rparr>
      \<lparr>stores = [sample_a sample_fenced, sample_b sample_open], tables = sample_tables 4 sample_fenced\<rparr>"
    using reach_fold [of "topo_exec sample_net id" "\<lparr>stores = [], tables = no_topology\<rparr>" "take 5 sample_ops"] by (simp only: sample_run)
  from planned_promotion_follows_fence [OF this, of "[]" False 5 "sample_b sample_open"] sample_promotion [of sample_open] show ?thesis by auto
qed

theorem an_epoch_has_one_active_core_witness:
  "\<exists>st st'. loadState (sample_tables 1 sample_open) = Some st \<and> loadState (sample_tables 5 sample_promoted) = Some st' \<and>
    fst (CanManage Runs (sample_a sample_open) (sample_tables 1 sample_open)) \<and>
    fst (CanManage Runs (sample_b sample_open) (sample_tables 5 sample_promoted)) \<and> epoch st < epoch st'"
proof -
  let ?s0 = "\<lparr>stores = [], tables = no_topology\<rparr>" and ?run = "\<lambda>n. fold (topo_exec sample_net id) (take n sample_ops) \<lparr>stores = [], tables = no_topology\<rparr>"
  have six: "take 6 sample_ops = take 5 sample_ops @ [(1, OpPromote [] False 5 False)]" "take 6 sample_ops = take 2 sample_ops @ drop 2 sample_ops"
    by (simp_all add: sample_ops_def)
  have db: "tables (?run 2) = sample_tables 1 sample_open" "tables (?run 6) = sample_tables 5 sample_promoted"
    by (simp only: sample_opened, simp) (simp add: six(1) sample_run sample_promotion)
  have r: "reach (\<lambda>_ _. True) (topo_exec sample_net id) ?s0 (?run 2)" by (rule reach_fold)
  have r': "reach (\<lambda>_ _. True) (topo_exec sample_net id) (?run 2) (?run 6)"
    using reach_fold [of "topo_exec sample_net id" "?run 2" "drop 2 sample_ops"] by (simp only: six(2) fold_append comp_apply)
  have "loadState (sample_tables 5 sample_promoted) = Some sample_promoted" by (rule sample_load) (simp add: sample_promoted_def sample_topology_def)
  then have m: "fst (CanManage Runs (sample_a sample_open) (tables (?run 2)))" "fst (CanManage Runs (sample_b sample_open) (tables (?run 6)))"
    unfolding db by (simp_all add: CanManage_def refresh_def runTx_def sample_load) (simp_all add: sample_states sample_topology_defs sample_index)
  have "cfgID (config (sample_a sample_open)) \<noteq> cfgID (config (sample_b sample_open))" by (simp add: sample_config_def)
  from an_epoch_has_one_active_core [OF r r' m this] m show ?thesis unfolding db by blast
qed

text \<open>The copy a process keeps is not always a topology that was read: after a promotion whose commit
  failed, the process answers with an epoch that was never committed while the database is away.\<close>

lemma uncommitted_epoch_is_served:
  "\<exists>c. PromoteLocal sample_net id [Drops] True 5 False (sample_b sample_open) (sample_tables 4 sample_fenced) =
      (Inl Driver, c, sample_tables 4 sample_fenced) \<and> fst (AuthorityEpoch Drops c (sample_tables 4 sample_fenced)) = 2 \<and> epoch sample_fenced = 1"
proof -
  have "WithTx [Drops] fn db = (Inl Driver, db)" for fn :: "(core_db, core_error, stateFile) tx" and db
    by (simp add: WithTx_def maxTransactionAttempts_def eval_nat_numeral runTx_def retryable_def)
  then have "PromoteLocal sample_net id [Drops] True 5 False (sample_b sample_open) (sample_tables 4 sample_fenced) =
      (Inl Driver, sample_b sample_promoted, sample_tables 4 sample_fenced)"
    by (simp add: PromoteLocal_def transact_def body_state_def sample_load sample_changes)
  moreover have "fst (AuthorityEpoch Drops (sample_b sample_promoted) db) = 2" for db
    by (simp add: AuthorityEpoch_def refresh_def runTx_def sample_promoted_def sample_topology_def)
  moreover have "epoch sample_fenced = 1" by (simp add: sample_fenced_def sample_topology_def)
  ultimately show ?thesis by blast
qed

section \<open>Reading back\<close>

text \<open>C35: What a topology change returns is what every process reads next: after a committed change the
  status of any core shows the same active member, epoch, handoff and members, and the status of
  the core that made the change is exactly the returned one.\<close>

theorem committed_change_is_read_back:
  assumes "transact net coll evs reached now change c db = (Inr t, c', db')"
  shows "fst (Status Runs c' db') = t \<and>
    (\<forall>d. let u = fst (Status Runs d db') in tActiveID u = tActiveID t \<and> tEpoch u = tEpoch t \<and> tHandoff u = tHandoff t \<and> tMembers u = tMembers t)"
proof -
  obtain st' where tx: "WithTx evs (transactTx net coll now (change (config c))) db = (Inr st', db')"
    and t: "t = statusLocked (config c) st'" "c' = c\<lparr>state' := st'\<rparr>"
    using assms by (auto simp: transact_def Let_def split: prod.splits sum.splits)
  from WithTx_valueD [OF tx] have w: "writeState coll now st' False db = Inr db'" "validateState net st' = None" "authority db \<noteq> None"
    by (auto simp: transactTx_def loadState_def split: option.splits sum.splits)
  have "loadState db' = Some st'" using validateState_ok [OF w(2)] w(3) by (intro write_load [OF w(1)]) auto
  then show ?thesis by (simp add: Status_def refresh_def runTx_def t statusLocked_def Let_def)
qed

theorem committed_change_is_read_back_witness:
  "fst (Status Runs (sample_b sample_promoted) (sample_tables 5 sample_promoted)) = statusLocked (sample_config ''core-b'' ''standby'') sample_promoted"
  using committed_change_is_read_back [OF sample_promotion [unfolded PromoteLocal_def]] by blast

text \<open>The identifier pattern admits 68 characters, the columns hold 64: such a core can be neither
  registered nor opened.\<close>

definition long_id :: string where "long_id = ''core-'' @ replicate 63 CHR ''a''"

lemma long_id_cannot_be_stored: "validCoreID long_id \<and> insert_members coll n rs (joining_member (sample_config long_id ''standby'') # ms) = Inl (Server ErrDataTooLong)"
proof -
  have "RuneCount long_id = 68" "validCoreID long_id" by code_simp+
  then show ?thesis by (simp add: joining_member_def sample_config_def member_fits_def)
qed

end
