(* ===== verification/Agent_Broker.thy ===== *)
theory Agent_Broker
  imports Swarm_Prelude
begin

text \<open>
  The rendezvous between Core and its outbound agents, \<^verbatim>\<open>internal/agentpull/broker.go\<close> and
  \<^verbatim>\<open>protocol.go\<close>. A request is queued for an agent, handed out when the agent polls, handed out
  once more when a later poll shows that the agent has not accepted it, and resolved by the
  response, its expiry or the caller giving up.

  The items of \<open>queue\<close> and \<open>waiting\<close> are shared pointers in the source; sequence numbers identify
  them here. What is sent on an item's result channel is appended to \<open>results\<close>. The clock is read
  once for each scan a poll makes under the lock.
\<close>

section \<open>Protocol\<close>

definition ProtocolVersion :: nat where "ProtocolVersion = 1"
definition MaxBodyBytes :: nat where "MaxBodyBytes = 67108864"
definition MaxResponseBytes :: nat where "MaxResponseBytes = 4194304"

record PollRequest =
  prAgentID :: string
  prEpoch :: nat
  prCursor :: nat
  prProtocol :: nat

record Request =
  rqEpoch :: nat
  rqBody :: string
  rqCreatedAt :: time
  rqExpiresAt :: time
  rqHeader :: "(string \<times> string) list"
  rqID :: string
  rqMethod :: string
  rqPath :: string
  rqSequence :: nat

record Response =
  rsBody :: string
  rsHeader :: "(string \<times> string) list"
  rsRequestID :: string
  rsSequence :: nat
  rsStatus :: int

datatype agent_error =
    IdentityRequired | Incompatible | NewerAuthority | ErrStaleAuthority | ResponseIdentity | ResponseInvalid
  | NoActiveLease | NotCatalogued | PathInvalid | BodyUnreadable | BodyTooLarge | NoRandomness | DeadlineExceeded

text \<open>Request-URI parsing of the standard library: whether the URI is absolute, its host and path.\<close>

type_synonym parse_uri = "string \<Rightarrow> (bool \<times> string \<times> string) option"

definition catalogued :: "string list" where
  "catalogued = [''/v1/status'', ''/v1/diagnostics'', ''/v1/snapshot'', ''/v1/metrics'', ''/v1/metrics/query'', ''/v1/swarm/join-token'',
     ''/v1/provisioning'', ''/v1/provisioning/status'', ''/v1/agent/update'', ''/v1/commands'', ''/v1/logs/query'', ''/v1/logs/status'']"

definition validateRequest :: "parse_uri \<Rightarrow> string \<Rightarrow> string \<Rightarrow> agent_error option" where
  "validateRequest uri m requestURI =
     (if m \<noteq> ''GET'' \<and> m \<noteq> ''POST'' then Some NotCatalogued
      else case uri requestURI of
        None \<Rightarrow> Some PathInvalid
      | Some (isAbs, host, path) \<Rightarrow>
          if isAbs \<or> host \<noteq> '''' then Some PathInvalid
          else if path \<in> set catalogued \<or> HasPrefix path ''/v1/routing/'' \<or> HasPrefix path ''/v1/traefik/'' \<or> HasPrefix path ''/v1/engine/''
          then None
          else Some NotCatalogued)"

section \<open>Broker\<close>

record pending =
  request :: Request
  delivered :: bool
  redelivered :: bool

record agentState =
  cursor :: nat
  next_seq :: nat
  queue :: "pending list"
  waiting :: "pending list"
  results :: "(nat \<times> (agent_error + Response)) list"

record Broker =
  brEpoch :: nat
  agents :: "string \<Rightarrow> agentState option"

definition defaultLease :: duration where "defaultLease = 35 * Second"

definition NewBroker :: "nat \<Rightarrow> Broker" where
  "NewBroker e = \<lparr>brEpoch = (if e = 0 then 1 else e), agents = (\<lambda>_. None)\<rparr>"

definition SetAuthorityEpoch :: "nat \<Rightarrow> Broker \<Rightarrow> Broker" where
  "SetAuthorityEpoch e b = (if e = 0 \<or> e \<le> brEpoch b then b else b\<lparr>brEpoch := e\<rparr>)"

definition new_agent :: agentState where
  "new_agent = \<lparr>cursor = 0, next_seq = 0, queue = [], waiting = [], results = []\<rparr>"

definition stateLocked :: "string \<Rightarrow> Broker \<Rightarrow> agentState" where
  "stateLocked a b = (case agents b a of None \<Rightarrow> new_agent | Some st \<Rightarrow> st)"

definition set_agent :: "string \<Rightarrow> agentState \<Rightarrow> Broker \<Rightarrow> Broker" where
  "set_agent a st b = b\<lparr>agents := (agents b)(a := Some st)\<rparr>"

abbreviation seq :: "pending \<Rightarrow> nat" where "seq p \<equiv> rqSequence (request p)"
abbreviation pid :: "pending \<Rightarrow> string" where "pid p \<equiv> rqID (request p)"

text \<open>\<open>waiting\<close> is keyed by request identifier.\<close>

definition unwait :: "string \<Rightarrow> agentState \<Rightarrow> agentState" where
  "unwait i st = st\<lparr>waiting := filter (\<lambda>p. pid p \<noteq> i) (waiting st)\<rparr>"

definition mark :: "(pending \<Rightarrow> pending) \<Rightarrow> nat \<Rightarrow> agentState \<Rightarrow> agentState" where
  "mark f n st = st\<lparr>waiting := map (\<lambda>p. if seq p = n then f p else p) (waiting st)\<rparr>"

definition send :: "nat \<Rightarrow> (agent_error + Response) \<Rightarrow> agentState \<Rightarrow> agentState" where
  "send n r st = st\<lparr>results := results st @ [(n, r)]\<rparr>"

definition sortedWaiting :: "pending list \<Rightarrow> pending list" where
  "sortedWaiting ps = sort_key seq ps"

text \<open>The request is gone once its lease has expired.\<close>

definition expire :: "pending \<Rightarrow> agentState \<Rightarrow> agentState" where
  "expire p st = send (seq p) (Inl DeadlineExceeded) (unwait (pid p) st)"

fun redeliver_scan :: "time \<Rightarrow> nat \<Rightarrow> pending list \<Rightarrow> agentState \<Rightarrow> Request option \<times> agentState" where
  "redeliver_scan now c [] st = (None, st)"
| "redeliver_scan now c (p # ps) st =
     (if \<not> delivered p \<or> redelivered p \<or> seq p \<le> c then redeliver_scan now c ps st
      else if now > rqExpiresAt (request p) then redeliver_scan now c ps (expire p st)
      else (Some (request p), mark (\<lambda>p. p\<lparr>redelivered := True\<rparr>) (seq p) st))"

fun queue_scan :: "time \<Rightarrow> pending list \<Rightarrow> agentState \<Rightarrow> Request option \<times> agentState" where
  "queue_scan now [] st = (None, st\<lparr>queue := []\<rparr>)"
| "queue_scan now (p # ps) st =
     (if now > rqExpiresAt (request p) then queue_scan now ps (expire p st)
      else (Some (request p), mark (\<lambda>p. p\<lparr>delivered := True\<rparr>) (seq p) (st\<lparr>queue := ps\<rparr>)))"

text \<open>One pass of the loop of \<^verbatim>\<open>Poll\<close>; without a request the poll waits and makes another pass when it is
  woken, or ends with its context.\<close>

definition poll_pass :: "time \<Rightarrow> nat \<Rightarrow> agentState \<Rightarrow> Request option \<times> agentState" where
  "poll_pass now c st =
     (let st = (if c > cursor st then st\<lparr>cursor := c\<rparr> else st);
          st = (if c > next_seq st then st\<lparr>next_seq := c\<rparr> else st) in
      case redeliver_scan now c (sortedWaiting (waiting st)) st of
        (Some r, st') \<Rightarrow> (Some r, st')
      | (None, st') \<Rightarrow> queue_scan now (queue st') st')"

text \<open>A poll that waits was let in before; its further passes do not look at the epoch again.\<close>

definition Poll_again :: "time \<Rightarrow> PollRequest \<Rightarrow> Broker \<Rightarrow> (agent_error + Request option) \<times> Broker" where
  "Poll_again now input b =
     (case poll_pass now (prCursor input) (stateLocked (prAgentID input) b) of
        (r, st) \<Rightarrow> (Inr r, set_agent (prAgentID input) st b))"

definition Poll :: "time \<Rightarrow> PollRequest \<Rightarrow> Broker \<Rightarrow> (agent_error + Request option) \<times> Broker" where
  "Poll now input b =
     (if TrimSpace (prAgentID input) = '''' then (Inl IdentityRequired, b)
      else if prProtocol input \<noteq> ProtocolVersion then (Inl Incompatible, b)
      else if prEpoch input > brEpoch b then (Inl NewerAuthority, b)
      else if prEpoch input \<noteq> 0 \<and> prEpoch input < brEpoch b then (Inl ErrStaleAuthority, b)
      else Poll_again now input b)"

definition Respond :: "string \<Rightarrow> Response \<Rightarrow> Broker \<Rightarrow> agent_error option \<times> Broker" where
  "Respond a rs b =
     (if TrimSpace a = '''' \<or> TrimSpace (rsRequestID rs) = '''' then (Some ResponseIdentity, b)
      else if rsStatus rs < 100 \<or> rsStatus rs > 599 \<or> length (rsBody rs) > MaxResponseBytes then (Some ResponseInvalid, b)
      else let st = stateLocked a b in
        case List.find (\<lambda>p. pid p = rsRequestID rs) (waiting st) of
          None \<Rightarrow> (Some NoActiveLease, set_agent a st b)
        | Some p \<Rightarrow>
            if seq p \<noteq> rsSequence rs then (Some NoActiveLease, set_agent a st b)
            else let st = unwait (rsRequestID rs) st;
                     st = (if rsSequence rs > cursor st then st\<lparr>cursor := rsSequence rs\<rparr> else st) in
              (None, set_agent a (send (seq p) (Inr rs) st) b))"

definition safe_headers :: "string list \<Rightarrow> (string \<Rightarrow> string) \<Rightarrow> (string \<times> string) list" where
  "safe_headers names get = filter (\<lambda>(_, v). v \<noteq> '''') (map (\<lambda>n. (n, TrimSpace (get n))) names)"

definition safeRequestHeaders :: "(string \<Rightarrow> string) \<Rightarrow> (string \<times> string) list" where
  "safeRequestHeaders = safe_headers [''Content-Type'', ''Accept'']"

text \<open>What a caller passes to the transport: the method, the URI, the header lookup, the body or why it
  could not be read (\<open>None\<close>), the deadline of its context, and the random identifier.\<close>

record call =
  callMethod :: string
  callURI :: string
  callHeader :: "string \<Rightarrow> string"
  callBody :: "string option"
  callDeadline :: "time option"
  callRandom :: "string option"

definition enqueue :: "parse_uri \<Rightarrow> time \<Rightarrow> string \<Rightarrow> call \<Rightarrow> Broker \<Rightarrow> (agent_error + nat) \<times> Broker" where
  "enqueue uri now a call b =
     (case validateRequest uri (callMethod call) (callURI call) of
        Some e \<Rightarrow> (Inl e, b)
      | None \<Rightarrow>
          (case callBody call of
             None \<Rightarrow> (Inl BodyUnreadable, b)
           | Some body \<Rightarrow>
               if length body > MaxBodyBytes then (Inl BodyTooLarge, b)
               else case callRandom call of
                 None \<Rightarrow> (Inl NoRandomness, b)
               | Some bytes \<Rightarrow>
                   (let i = hex_encode bytes;
                        deadline = (case callDeadline call of Some d \<Rightarrow> min d (now + defaultLease) | None \<Rightarrow> now + defaultLease);
                        st = stateLocked a b;
                        n = (next_seq st + 1) mod 2 ^ 64;
                        item = \<lparr>request = \<lparr>rqEpoch = brEpoch b, rqBody = body, rqCreatedAt = now, rqExpiresAt = deadline,
                                  rqHeader = safeRequestHeaders (callHeader call), rqID = i, rqMethod = callMethod call,
                                  rqPath = callURI call, rqSequence = n\<rparr>, delivered = False, redelivered = False\<rparr> in
                    (Inr n, set_agent a (st\<lparr>next_seq := n, queue := queue st @ [item],
                       waiting := filter (\<lambda>p. pid p \<noteq> i) (waiting st) @ [item]\<rparr>) b))))"

text \<open>The caller whose context ended before a result withdraws its request.\<close>

fun remove_first :: "('a \<Rightarrow> bool) \<Rightarrow> 'a list \<Rightarrow> 'a list" where
  "remove_first P [] = []"
| "remove_first P (x # xs) = (if P x then xs else x # remove_first P xs)"

definition remove :: "string \<Rightarrow> string \<Rightarrow> Broker \<Rightarrow> Broker" where
  "remove a i b =
     (case agents b a of
        None \<Rightarrow> b
      | Some st \<Rightarrow> set_agent a ((unwait i st)\<lparr>queue := remove_first (\<lambda>p. pid p = i) (queue st)\<rparr>) b)"

end
