(* ===== verification/Core_Promotion.thy ===== *)
theory Core_Promotion
  imports Core_Authority Queue_Outcomes Agent_Broker
begin

text \<open>
  Promoting a core, \<^verbatim>\<open>corePromote\<close> of \<^verbatim>\<open>api/http/core.go\<close>: the handler that ties the topology, the command
  ledger and the agent broker together. It reads the status and the epoch, fences the ledger at
  the next epoch, promotes the local core and tells the broker and the agent registry. Other core
  processes may act between its calls; what they do is an argument.
\<close>

record world =
  placement :: core_db
  commandLedger :: queue_store
  agentBroker :: Broker
  registryEpoch :: nat

datatype promote_error =
    ConfirmationRequired | StoppedRequired | FenceFailed "queue_error store_error" | TopologyFailed "core_error store_error"

record promote_call =
  coreID :: string
  confirmation :: string
  primaryConfirmedStopped :: bool
  statusEvent :: tx_event
  epochEvent :: tx_event
  fenceEvent :: tx_event
  promoteEvents :: "tx_event list"
  promoteReached :: bool
  callTime :: time

definition registry_epoch :: "nat \<Rightarrow> nat \<Rightarrow> nat" where
  "registry_epoch e current = (if e = 0 then current else max e current)"

definition fenced_to :: "string \<Rightarrow> CoreHandoff option \<Rightarrow> bool" where
  "fenced_to x h \<longleftrightarrow> (case h of None \<Rightarrow> False | Some h \<Rightarrow> handoffState h = CoreHandoffFenced \<and> toID h = x)"

definition corePromote ::
  "net_lib \<Rightarrow> (string \<Rightarrow> string) \<Rightarrow> promote_call \<Rightarrow> (nat \<Rightarrow> world \<Rightarrow> world) \<Rightarrow> Store \<Rightarrow> world \<Rightarrow> (promote_error + CoreTopology) \<times> Store \<times> world"
where
  "corePromote net coll call others c w =
     (if confirmation call \<noteq> ''PROMOTE_CORE:'' @ coreID call then (Inl ConfirmationRequired, c, w)
      else case Status (statusEvent call) c (placement w) of
        (status, c) \<Rightarrow>
          (let planned = fenced_to (coreID call) (tHandoff status) in
           if \<not> planned \<and> \<not> primaryConfirmedStopped call then (Inl StoppedRequired, c, w)
           else let w = others 0 w in
             case AuthorityEpoch (epochEvent call) c (placement w) of
               (current, c) \<Rightarrow>
                 (let w = others 1 w in
                  case FenceAuthority (fenceEvent call) (callTime call) ((current + 1) mod 2 ^ 64) (commandLedger w) of
                    (Inl e, q) \<Rightarrow> (Inl (FenceFailed e), c, w\<lparr>commandLedger := q\<rparr>)
                  | (Inr _, q) \<Rightarrow>
                      (let w = others 2 (w\<lparr>commandLedger := q\<rparr>) in
                       case PromoteLocal net coll (promoteEvents call) (promoteReached call) (callTime call) (\<not> planned) c (placement w) of
                         (Inl e, c, db) \<Rightarrow> (Inl (TopologyFailed e), c, w\<lparr>placement := db\<rparr>)
                       | (Inr t, c, db) \<Rightarrow>
                           (Inr t, c, w\<lparr>placement := db, agentBroker := SetAuthorityEpoch (tEpoch t) (agentBroker w),
                              registryEpoch := registry_epoch (tEpoch t) (registryEpoch w)\<rparr>)))))"

lemma Status_fields: "Status ev c db = (status, c') \<Longrightarrow> config c' = config c"
  by (auto simp: Status_def refresh_def split: sum.splits)

lemma AuthorityEpoch_reads:
  assumes "AuthorityEpoch Runs c db = (n, c')" and "loadState db = Some st" and "1 \<le> epoch st"
  shows "n = epoch st \<and> config c' = config c"
  using assms by (auto simp: AuthorityEpoch_def refresh_def runTx_def)

lemma PromoteLocal_commits:
  assumes "PromoteLocal net coll evs reached now emergency c db = (Inr t, c', db')" and "loadState db = Some st" and "state_ok st"
  shows "tEpoch t = epoch st + 1 \<and> tActiveID t = cfgID (config c) \<and> fst (CanManage Runs c' db')"
proof -
  obtain st' where tx: "WithTx evs (transactTx net coll now (promote emergency (config c))) db = (Inr st', db')"
    and t: "t = statusLocked (config c) st'" "c' = c\<lparr>state' := st'\<rparr>"
    using assms(1) by (auto simp: PromoteLocal_def transact_def Let_def split: prod.splits sum.splits)
  note body = WithTx_valueD [OF tx]
  with assms(2) have st': "promote emergency (config c) st = Inr st'" by (auto simp: transactTx_def split: option.splits sum.splits)
  note committed = promoting.committed [OF assms(2,3) body]
  have "epoch st' = epoch st + 1 \<and> activeID st' = cfgID (config c)"
    using promote_order [OF st'] assms(3) committed(2) by (simp add: state_ok_def)
  then show ?thesis using committed(1) promote_manages [OF st'] by (simp add: t statusLocked_def CanManage_def refresh_def runTx_def)
qed

lemma FenceAuthority_rows:
  assumes "FenceAuthority ev now n s = (Inr (), s')"
  shows "\<forall>r\<in>set (commands s'). authorityEpoch r < n \<longrightarrow> terminalCommandState (state r)"
proof -
  have "s' = s\<lparr>commands := map (\<lambda>r. if authorityEpoch r < n \<and> \<not> terminalCommandState (state r) then fence_row now r else r) (commands s)\<rparr>"
    using assms by (auto simp: FenceAuthority_def runTx_def simp del: terminalCommandState.simps split: if_splits tx_event.splits)
  then show ?thesis by (auto simp: fence_row_def)
qed

text \<open>C38: A promotion leaves no unfinished work of an older authority. When no other core acts between the calls
  of the handler and the epoch is read from the database, a successful promotion makes this core
  the active one under the next epoch, every command accepted under an older epoch is in a final
  state, and the broker and the registry refuse older epochs.\<close>

theorem promotion_fences_older_work:
  assumes ok: "loadState (placement w) = Some st" "state_ok st" and "\<And>k. others k = id" and "epochEvent call = Runs"
    and run: "corePromote net coll call others c w = (Inr t, c', w')"
  shows "tEpoch t = epoch st + 1 \<and> tActiveID t = cfgID (config c) \<and> fst (CanManage Runs c' (placement w')) \<and>
    (\<forall>r\<in>set (commands (commandLedger w')). authorityEpoch r < tEpoch t \<longrightarrow> terminalCommandState (state r)) \<and>
    tEpoch t \<le> brEpoch (agentBroker w') \<and> tEpoch t \<le> registryEpoch w'"
proof -
  obtain status c1 where s: "Status (statusEvent call) c (placement w) = (status, c1)" by fastforce
  obtain n c2 where a: "AuthorityEpoch Runs c1 (placement w) = (n, c2)" by fastforce
  note n = AuthorityEpoch_reads [OF a ok(1)]
  obtain fr q where f: "FenceAuthority (fenceEvent call) (callTime call) ((n + 1) mod 2 ^ 64) (commandLedger w) = (fr, q)" by fastforce
  let ?em = "\<not> fenced_to (coreID call) (tHandoff status)"
  obtain pr c3 db where p: "PromoteLocal net coll (promoteEvents call) (promoteReached call) (callTime call) ?em c2 (placement w) = (pr, c3, db)"
    by (metis prod_cases3)
  have pr: "pr = Inr t" "fr = Inr ()" "c' = c3" "placement w' = db" "commandLedger w' = q"
    "agentBroker w' = SetAuthorityEpoch (tEpoch t) (agentBroker w)" "registryEpoch w' = registry_epoch (tEpoch t) (registryEpoch w)"
    using run by (auto simp: corePromote_def s a f [simplified] p assms(3,4) Let_def split: if_splits sum.splits)
  have c: "config c2 = config c" "n = epoch st" using Status_fields [OF s] n ok(2) by (simp_all add: state_ok_def)
  note done' = PromoteLocal_commits [OF p [unfolded pr(1)] ok]
  have "epoch st + 1 < 2 ^ 64"
  proof -
    obtain st' where "loadState db = Some st'" "tEpoch t = epoch st'" "state_ok st'"
      using p pr(1) promoting.committed [OF ok] WithTx_valueD
      by (fastforce simp: PromoteLocal_def transact_def Let_def statusLocked_def split: prod.splits sum.splits)
    with done' show ?thesis by (simp add: state_ok_def)
  qed
  then have "(n + 1) mod 2 ^ 64 = tEpoch t" using c(2) done' by simp
  with FenceAuthority_rows [OF f [unfolded pr(2)]] have "\<forall>r\<in>set (commands q). authorityEpoch r < tEpoch t \<longrightarrow> terminalCommandState (state r)" by simp
  then show ?thesis using done' pr c by (auto simp: SetAuthorityEpoch_def registry_epoch_def)
qed

section \<open>A sample promotion\<close>

definition sample_world :: "core_db \<Rightarrow> queue_store \<Rightarrow> world" where
  "sample_world db q = \<lparr>placement = db, commandLedger = q, agentBroker = NewBroker 1, registryEpoch = 1\<rparr>"

definition sample_promote :: "bool \<Rightarrow> promote_call" where
  "sample_promote stopped = \<lparr>coreID = ''core-b'', confirmation = ''PROMOTE_CORE:core-b'', primaryConfirmedStopped = stopped, statusEvent = Runs,
     epochEvent = Runs, fenceEvent = Runs, promoteEvents = [], promoteReached = False, callTime = 5\<rparr>"

lemma sample_reads:
  assumes "loadState db = Some st" and "epoch st \<noteq> 0"
  shows "Status Runs c db = (statusLocked (config c) st, c\<lparr>state' := st\<rparr>)" "AuthorityEpoch Runs c db = (epoch st, c\<lparr>state' := st\<rparr>)"
  using assms by (simp_all add: Status_def AuthorityEpoch_def refresh_def runTx_def)

lemma sample_fence: "n \<noteq> 0 \<Longrightarrow> \<exists>q. FenceAuthority Runs 5 n s = (Inr (), q)" by (simp add: FenceAuthority_def runTx_def)

theorem promotion_fences_older_work_witness:
  "\<exists>t c' w'. corePromote sample_net id (sample_promote False) (\<lambda>_. id) (sample_b sample_open) (sample_world (sample_tables 4 sample_fenced) sample_running) = (Inr t, c', w') \<and>
    tEpoch t = 2 \<and> fst (CanManage Runs c' (placement w')) \<and>
    list_all (\<lambda>r. 2 \<le> authorityEpoch r \<or> terminalCommandState (state r)) (commands (commandLedger w'))"
proof -
  let ?w = "sample_world (sample_tables 4 sample_fenced) sample_running"
  have load: "loadState (placement ?w) = Some sample_fenced" by (simp add: sample_world_def sample_load)
  have e: "epoch sample_fenced = 1" "fenced_to ''core-b'' (tHandoff (statusLocked cfg sample_fenced))" for cfg
    by (simp_all add: sample_fenced_def sample_topology_def fenced_to_def statusLocked_def sample_handoff_def)
  have ok: "state_ok sample_fenced"
    by (simp add: state_ok_def roles_ok_def handoff_ok_def fence_ok_def sample_fenced_def sample_topology_defs)
  obtain q where q: "FenceAuthority Runs 5 2 sample_running = (Inr (), q)" using sample_fence [of 2 sample_running] by auto
  let ?run = "corePromote sample_net id (sample_promote False) (\<lambda>_. id) (sample_b sample_open) ?w"
  have n: "(1 + 1) mod 2 ^ 64 = (2::nat)" by simp
  have reads: "Status Runs c (sample_tables 4 sample_fenced) = (statusLocked (config c) sample_fenced, c\<lparr>state' := sample_fenced\<rparr>)"
    "AuthorityEpoch Runs c (sample_tables 4 sample_fenced) = (1, c\<lparr>state' := sample_fenced\<rparr>)" for c
    using sample_reads [OF load [unfolded sample_world_def], of c] e(1) by simp_all
  have "fst ?run = Inr (statusLocked (sample_config ''core-b'' ''standby'') sample_promoted)"
    unfolding corePromote_def sample_promote_def sample_world_def
    by (simp add: reads e(2) n q sample_promotion Let_def del: One_nat_def)
  then obtain t c' w' where run: "?run = (Inr t, c', w')" by (metis prod_cases3 fst_conv)
  from promotion_fences_older_work [OF load ok refl _ run] e have r: "tEpoch t = 2" "fst (CanManage Runs c' (placement w'))"
    "\<forall>r\<in>set (commands (commandLedger w')). authorityEpoch r < tEpoch t \<longrightarrow> terminalCommandState (state r)"
    by (simp_all add: sample_promote_def)
  then have "list_all (\<lambda>r. 2 \<le> authorityEpoch r \<or> terminalCommandState (state r)) (commands (commandLedger w'))"
    by (auto simp: list_all_iff simp del: terminalCommandState.simps)
  with run r show ?thesis by blast
qed

section \<open>Two emergency promotions at once\<close>

text \<open>The ledger is fenced at an epoch read beforehand. When another core is promoted and accepts a command before
  this handler's own promotion commits, that command is of an older epoch than the one this core
  ends up with, and it is still waiting to run.\<close>

definition sample_three :: "string \<Rightarrow> nat \<Rightarrow> stateFile" where
  "sample_three a e = sample_topology a e None (map (\<lambda>x. sample_member x (if x = a then CoreRoleActive else CoreRoleStandby) CoreReplicaVerified None)
     [''core-a'', ''core-b'', ''core-c''])"

definition sample_interference :: "nat \<Rightarrow> world \<Rightarrow> world" where
  "sample_interference k w = (if k = 2 then w\<lparr>placement := sample_tables 4 (sample_three ''core-c'' 2),
     commandLedger := sample_store (sample_row\<lparr>authorityEpoch := 2\<rparr>)\<rparr> else w)"

lemma sample_three_simps:
  "loadState (sample_tables t (sample_three a e)) = Some (sample_three a e)" "epoch (sample_three a e) = e" "handoff (sample_three a e) = None"
  by (simp_all add: sample_load sample_three_def sample_topology_def)

lemma sample_three_promote:
  "promote True (sample_config ''core-b'' ''standby'') (sample_three ''core-c'' 2) = Inr (sample_three ''core-b'' 3)"
  by (simp add: promote_def sample_three_def sample_topology_defs sample_index Let_def)

lemma sample_core_c: "validCoreID ''core-c''" "RuneCount ''core-c'' = 6" by code_simp+

lemma sample_three_valid:
  "validateState sample_net (sample_three ''core-b'' 3) = None"
  "writeState id 5 (sample_three ''core-b'' 3) False (sample_tables 4 (sample_three ''core-c'' 2)) = Inr (sample_tables 5 (sample_three ''core-b'' 3))"
  by (simp_all add: validateState_def writeState_def sample_tables_def sample_three_def sample_topology_defs sample_ids sample_core_c normalizeEndpoint_def
      storeVersion_def Let_def)

lemma late_promotion_leaves_older_work:
  "\<exists>t c' w' r. corePromote sample_net id (sample_promote True) sample_interference (sample_b (sample_three ''core-a'' 1))
      (sample_world (sample_tables 1 (sample_three ''core-a'' 1)) sample_running) = (Inr t, c', w') \<and>
    r \<in> set (commands (commandLedger w')) \<and> state r = CommandQueued \<and> authorityEpoch r < tEpoch t"
proof -
  have n: "(1 + 1) mod 2 ^ 64 = (2::nat)" by simp
  have reads: "Status Runs c (sample_tables 1 (sample_three ''core-a'' 1)) = (statusLocked (config c) (sample_three ''core-a'' 1), c\<lparr>state' := sample_three ''core-a'' 1\<rparr>)"
    "AuthorityEpoch Runs c (sample_tables 1 (sample_three ''core-a'' 1)) = (1, c\<lparr>state' := sample_three ''core-a'' 1\<rparr>)" for c
    using sample_reads [OF sample_three_simps(1) [of 1 "''core-a''" 1], of c] by (simp_all add: sample_three_simps)
  have unplanned: "\<not> fenced_to x (tHandoff (statusLocked cfg (sample_three ''core-a'' 1)))" for x cfg
    by (simp add: fenced_to_def statusLocked_def sample_three_simps)
  obtain q where q: "FenceAuthority Runs 5 2 sample_running = (Inr (), q)" using sample_fence [of 2 sample_running] by auto
  have p: "PromoteLocal sample_net id [] False 5 True (sample_b st0) (sample_tables 4 (sample_three ''core-c'' 2)) =
      (Inr (statusLocked (sample_config ''core-b'' ''standby'') (sample_three ''core-b'' 3)), sample_b (sample_three ''core-b'' 3), sample_tables 5 (sample_three ''core-b'' 3))" for st0
    using transact_runs [OF sample_three_simps(1), where net = sample_net and coll = id and reached = False and fn = "promote True" and c = "sample_b st0"]
      sample_three_promote sample_three_valid by (simp add: PromoteLocal_def)
  show ?thesis
    unfolding corePromote_def sample_promote_def sample_world_def
    by (simp add: reads unplanned n q p Let_def sample_interference_def del: One_nat_def)
      (simp add: sample_store_def sample_row_def statusLocked_def sample_three_simps)
qed

end
