(* ===== verification/Agent_Client.thy ===== *)
theory Agent_Client
  imports Agent_Broker Sql_Tx
begin

text \<open>
  The agent's side of the rendezvous, \<^verbatim>\<open>internal/agentpull/client.go\<close>, and both sides together. A cycle
  of the client is the two steps \<open>client_accept\<close>, up to the decision to run a request, and
  \<open>client_finish\<close>, which runs it, posts the response and advances the cursor; other operations of
  Core may happen between them, replies and acknowledgements may be lost, writes of the state
  file may fail, and the agent may restart.
\<close>

section \<open>Client\<close>

record clientState =
  csEpoch :: nat
  csCursor :: nat

record agent =
  mem :: clientState
  disk :: clientState

datatype client_error = PollFailed | EpochRejected | HttpStatus int | BadReply | StaleRequest | RepeatedRequest | SaveFailed | AckFailed

datatype core_reply = Unreachable | NoContent "nat option" | Conflict "nat option" | OtherStatus int | Undecodable | Work Request

definition saveState :: "bool \<Rightarrow> agent \<Rightarrow> client_error option \<times> agent" where
  "saveState ok ag = (if ok then (None, ag\<lparr>disk := mem ag\<rparr>) else (Some SaveFailed, ag))"

definition adopt :: "nat \<Rightarrow> agent \<Rightarrow> agent" where
  "adopt e ag = ag\<lparr>mem := (mem ag)\<lparr>csEpoch := e\<rparr>\<rparr>"

text \<open>The outcome of the first step: an error, nothing to do, or a request to run.\<close>

fun client_accept :: "bool \<Rightarrow> core_reply \<Rightarrow> agent \<Rightarrow> (client_error + Request option) \<times> agent" where
  "client_accept saved Unreachable ag = (Inl PollFailed, ag)"
| "client_accept saved (NoContent e) ag =
     (case e of
        Some v \<Rightarrow>
          if v > csEpoch (mem ag)
          then (case saveState saved (adopt v ag) of (Some err, ag') \<Rightarrow> (Inl err, ag') | (None, ag') \<Rightarrow> (Inr None, ag'))
          else (Inr None, ag)
      | None \<Rightarrow> (Inr None, ag))"
| "client_accept saved (Conflict e) ag =
     (case e of
        Some v \<Rightarrow>
          if v > csEpoch (mem ag)
          then (case saveState saved (adopt v ag) of (Some err, ag') \<Rightarrow> (Inl err, ag') | (None, ag') \<Rightarrow> (Inr None, ag'))
          else (Inl EpochRejected, ag)
      | None \<Rightarrow> (Inl EpochRejected, ag))"
| "client_accept saved (OtherStatus n) ag = (Inl (HttpStatus n), ag)"
| "client_accept saved Undecodable ag = (Inl BadReply, ag)"
| "client_accept saved (Work r) ag =
     (if rqEpoch r < csEpoch (mem ag) then (Inl StaleRequest, ag)
      else case (if rqEpoch r > csEpoch (mem ag) then saveState saved (adopt (rqEpoch r) ag) else (None, ag)) of
        (Some err, ag') \<Rightarrow> (Inl err, ag')
      | (None, ag') \<Rightarrow>
          if rqSequence r \<le> csCursor (mem ag') then (Inl RepeatedRequest, ag') else (Inr (Some r), ag'))"

definition failure :: "string \<Rightarrow> int \<Rightarrow> Request \<Rightarrow> Response" where
  "failure message status r =
     \<lparr>rsBody = message, rsHeader = [(''Content-Type'', ''application/json'')], rsRequestID = rqID r, rsSequence = rqSequence r, rsStatus = status\<rparr>"

text \<open>\<open>serve\<close> is the local handler: its status, header lookup and body; \<open>buildable\<close> tells whether a request
  can be built for a path.\<close>

type_synonym handler = "Request \<Rightarrow> int \<times> (string \<Rightarrow> string) \<times> string"

definition dispatch :: "parse_uri \<Rightarrow> (string \<Rightarrow> bool) \<Rightarrow> handler \<Rightarrow> time \<Rightarrow> clientState \<Rightarrow> Request \<Rightarrow> bool \<times> Response" where
  "dispatch uri buildable serve now st r =
     (if validateRequest uri (rqMethod r) (rqPath r) \<noteq> None \<or> rqEpoch r \<noteq> csEpoch st \<or> now > rqExpiresAt r
      then (False, failure ''{\"error\":\"catalog request was rejected\"}'' 422 r)
      else if \<not> buildable (rqPath r)
      then (False, \<lparr>rsBody = '''', rsHeader = [], rsRequestID = rqID r, rsSequence = rqSequence r, rsStatus = 400\<rparr>)
      else case serve r of
        (status, header, body) \<Rightarrow>
          if length body > MaxResponseBytes
          then (True, failure ''{\"error\":\"agent response exceeded its safety boundary\"}'' 502 r)
          else (True, \<lparr>rsBody = body, rsHeader = safe_headers [''Content-Type'', ''Docker-Content-Digest''] header,
                 rsRequestID = rqID r, rsSequence = rqSequence r, rsStatus = status\<rparr>))"

definition client_finish :: "bool \<Rightarrow> bool \<Rightarrow> Request \<Rightarrow> agent \<Rightarrow> client_error option \<times> agent" where
  "client_finish acked saved r ag =
     (if \<not> acked then (Some AckFailed, ag)
      else saveState saved (ag\<lparr>mem := (mem ag)\<lparr>csCursor := rqSequence r\<rparr>\<rparr>))"

section \<open>Both sides\<close>

text \<open>\<open>handed\<close> and \<open>ran\<close> record what Core gave out and what the handler ran, by sequence number and epoch.\<close>

record link =
  broker :: Broker
  agentOf :: agent
  inbox :: "Request option"
  handed :: "nat list"
  ran :: "(nat \<times> nat) list"

text \<open>\<open>LPoll again\<close> is a poll, or with \<open>again\<close> a further pass of one that waited.\<close>

datatype link_op =
    LCall time call
  | LGiveUp string
  | LPromote nat
  | LPoll bool time bool bool
  | LFinish time bool bool bool
  | LRestart

record site =
  siteAgent :: string
  siteURI :: parse_uri
  siteBuildable :: "string \<Rightarrow> bool"
  siteServe :: handler

definition reply_of :: "Broker \<Rightarrow> agent_error + Request option \<Rightarrow> core_reply" where
  "reply_of b r =
     (case r of
        Inr (Some q) \<Rightarrow> Work q
      | Inr None \<Rightarrow> NoContent (Some (brEpoch b))
      | Inl ErrStaleAuthority \<Rightarrow> Conflict (Some (brEpoch b))
      | Inl _ \<Rightarrow> OtherStatus 422)"

definition poll_input :: "site \<Rightarrow> agent \<Rightarrow> PollRequest" where
  "poll_input w ag = \<lparr>prAgentID = siteAgent w, prEpoch = csEpoch (mem ag), prCursor = csCursor (mem ag), prProtocol = ProtocolVersion\<rparr>"

fun link_exec :: "site \<Rightarrow> link_op \<Rightarrow> link \<Rightarrow> link" where
  "link_exec w (LCall now call) y = y\<lparr>broker := snd (enqueue (siteURI w) now (siteAgent w) call (broker y))\<rparr>"
| "link_exec w (LGiveUp i) y = y\<lparr>broker := remove (siteAgent w) i (broker y)\<rparr>"
| "link_exec w (LPromote e) y = y\<lparr>broker := SetAuthorityEpoch e (broker y)\<rparr>"
| "link_exec w (LPoll again now lost saved) y =
     (if inbox y \<noteq> None then y
      else case (if again then Poll_again else Poll) now (poll_input w (agentOf y)) (broker y) of
        (r, b) \<Rightarrow>
          (let y = y\<lparr>broker := b, handed := handed y @ (case r of Inr (Some q) \<Rightarrow> [rqSequence q] | _ \<Rightarrow> [])\<rparr> in
           case client_accept saved (if lost then Unreachable else reply_of b r) (agentOf y) of
             (Inr (Some q), ag) \<Rightarrow> y\<lparr>agentOf := ag, inbox := Some q\<rparr>
           | (_, ag) \<Rightarrow> y\<lparr>agentOf := ag\<rparr>))"
| "link_exec w (LFinish now postLost ackLost saved) y =
     (case inbox y of
        None \<Rightarrow> y
      | Some q \<Rightarrow>
          (case dispatch (siteURI w) (siteBuildable w) (siteServe w) now (mem (agentOf y)) q of
             (executed, rs) \<Rightarrow>
               (case (if postLost then (Some NoActiveLease, broker y) else Respond (siteAgent w) rs (broker y)) of
                  (err, b) \<Rightarrow>
                    y\<lparr>broker := b, inbox := None, ran := ran y @ (if executed then [(rqSequence q, rqEpoch q)] else []),
                      agentOf := snd (client_finish (err = None \<and> \<not> ackLost) saved q (agentOf y))\<rparr>)))"
| "link_exec w LRestart y = y\<lparr>inbox := None, agentOf := (agentOf y)\<lparr>mem := disk (agentOf y)\<rparr>\<rparr>"

section \<open>How often a request is handed out\<close>

definition handout_ok :: "agentState \<Rightarrow> nat list \<Rightarrow> bool" where
  "handout_ok st hs \<longleftrightarrow> (\<forall>n\<in>set hs. n \<le> next_seq st) \<and> (\<forall>n. count_list hs n \<le> 2) \<and> distinct (map seq (queue st)) \<and>
     (\<forall>p\<in>set (queue st). seq p \<le> next_seq st \<and> seq p \<notin> set hs) \<and>
     (\<forall>q\<in>set (waiting st). seq q \<le> next_seq st \<and> (\<not> redelivered q \<longrightarrow> count_list hs (seq q) \<le> 1) \<and>
        (delivered q \<longrightarrow> seq q \<notin> seq ` set (queue st)))"

definition given :: "Request option \<Rightarrow> nat list" where
  "given r = (case r of Some q \<Rightarrow> [rqSequence q] | None \<Rightarrow> [])"

lemma given_simps [simp]: "given None = []" "given (Some q) = [rqSequence q]" by (simp_all add: given_def)

lemma expire_ok: "handout_ok st hs \<Longrightarrow> handout_ok (expire p st) hs"
  by (auto simp: handout_ok_def expire_def send_def unwait_def)

lemma handout_mark:
  assumes ok: "handout_ok st hs" and n: "n \<le> next_seq st" "n \<notin> seq ` set (queue st)" "count_list hs n \<le> 1"
    and f: "\<And>q. request (f q) = request q" "\<And>q. redelivered (f q) \<or> count_list hs n = 0"
  shows "handout_ok (mark f n st) (hs @ [n])"
proof -
  have "count_list (hs @ [n]) k \<le> 2" for k using ok n(3) by (cases "k = n") (auto simp: handout_ok_def)
  moreover have "seq q \<le> next_seq st \<and> (\<not> redelivered q \<longrightarrow> count_list (hs @ [n]) (seq q) \<le> 1) \<and> (delivered q \<longrightarrow> seq q \<notin> seq ` set (queue st))"
    if q: "q \<in> set (waiting (mark f n st))" for q
  proof -
    obtain q0 where q0: "q0 \<in> set (waiting st)" "q = (if seq q0 = n then f q0 else q0)" using q by (auto simp: mark_def)
    show ?thesis
    proof (cases "seq q0 = n")
      case True
      with q0 f(1) have "seq q = n" by simp
      with True q0 n f(2) [of q0] show ?thesis by auto
    next
      case False
      with q0 ok show ?thesis by (simp add: handout_ok_def)
    qed
  qed
  ultimately show ?thesis using ok n by (auto simp: handout_ok_def mark_def)
qed

lemma redeliver_scan_ok:
  assumes "redeliver_scan now c ps st = (r, st')" and "handout_ok st hs"
    and "\<forall>p\<in>set ps. seq p \<le> next_seq st \<and> (\<not> redelivered p \<longrightarrow> count_list hs (seq p) \<le> 1) \<and> (delivered p \<longrightarrow> seq p \<notin> seq ` set (queue st))"
  shows "handout_ok st' (hs @ given r)"
  using assms
proof (induction ps arbitrary: st)
  case (Cons p ps)
  have keep: "next_seq (expire p st) = next_seq st" "queue (expire p st) = queue st" by (simp_all add: expire_def send_def unwait_def)
  show ?case
  proof (cases "\<not> delivered p \<or> redelivered p \<or> seq p \<le> c \<or> now > rqExpiresAt (request p)")
    case True
    with Cons show ?thesis by (auto split: if_splits simp: keep expire_ok)
  next
    case False
    with Cons.prems(1) have r: "r = Some (request p)" "st' = mark (\<lambda>p. p\<lparr>redelivered := True\<rparr>) (seq p) st" by auto
    with False Cons.prems(2,3) show ?thesis using handout_mark [of st hs "seq p" "\<lambda>p. p\<lparr>redelivered := True\<rparr>"] by simp
  qed
qed simp

lemma queue_scan_ok:
  assumes "queue_scan now ps st = (r, st')" and "handout_ok (st\<lparr>queue := ps\<rparr>) hs"
  shows "handout_ok st' (hs @ given r)"
  using assms
proof (induction ps arbitrary: st)
  case (Cons p ps)
  show ?case
  proof (cases "now > rqExpiresAt (request p)")
    case True
    have "(expire p st)\<lparr>queue := ps\<rparr> = expire p (st\<lparr>queue := ps\<rparr>)" by (simp add: expire_def send_def unwait_def)
    moreover have "handout_ok (st\<lparr>queue := ps\<rparr>) hs" using Cons.prems(2) by (auto simp: handout_ok_def)
    ultimately show ?thesis using Cons.IH [of "expire p st"] Cons.prems(1) True expire_ok by simp
  next
    case False
    with Cons.prems(1) have r: "r = Some (request p)" "st' = mark (\<lambda>p. p\<lparr>delivered := True\<rparr>) (seq p) (st\<lparr>queue := ps\<rparr>)" by auto
    have "count_list hs (seq p) = 0" using Cons.prems(2) by (auto simp: handout_ok_def count_list_0_iff)
    moreover have "handout_ok (st\<lparr>queue := ps\<rparr>) hs" "seq p \<le> next_seq st" "seq p \<notin> seq ` set ps"
      using Cons.prems(2) by (auto simp: handout_ok_def)
    ultimately show ?thesis using r handout_mark [of "st\<lparr>queue := ps\<rparr>" hs "seq p" "\<lambda>p. p\<lparr>delivered := True\<rparr>"] by simp
  qed
qed simp

lemma poll_pass_ok:
  assumes "poll_pass now c st = (r, st')" and "handout_ok st hs"
  shows "handout_ok st' (hs @ given r)"
proof -
  define st1 where "st1 = (let st = (if c > cursor st then st\<lparr>cursor := c\<rparr> else st) in if c > next_seq st then st\<lparr>next_seq := c\<rparr> else st)"
  have ok: "handout_ok st1 hs" using assms(2) by (auto simp: st1_def handout_ok_def Let_def)
  obtain r1 st2 where scan: "redeliver_scan now c (sortedWaiting (waiting st1)) st1 = (r1, st2)" by fastforce
  have "\<forall>p\<in>set (sortedWaiting (waiting st1)). seq p \<le> next_seq st1 \<and> (\<not> redelivered p \<longrightarrow> count_list hs (seq p) \<le> 1) \<and>
      (delivered p \<longrightarrow> seq p \<notin> seq ` set (queue st1))"
    using ok by (simp add: handout_ok_def sortedWaiting_def)
  from redeliver_scan_ok [OF scan ok this] have ok2: "handout_ok st2 (hs @ given r1)" .
  have pass: "poll_pass now c st = (case r1 of Some q \<Rightarrow> (Some q, st2) | None \<Rightarrow> queue_scan now (queue st2) st2)"
    using scan by (simp add: poll_pass_def st1_def Let_def split: option.split)
  show ?thesis
  proof (cases r1)
    case None
    with assms(1) pass have q: "queue_scan now (queue st2) st2 = (r, st')" by simp
    from None ok2 have "handout_ok (st2\<lparr>queue := queue st2\<rparr>) hs" by simp
    from queue_scan_ok [OF q this] show ?thesis .
  qed (use assms(1) pass ok2 in auto)
qed

section \<open>The invariant of both sides\<close>

definition working :: "link \<Rightarrow> nat list" where
  "working y = (case inbox y of Some q \<Rightarrow> [rqSequence q] | None \<Rightarrow> [])"

definition behind :: "clientState \<Rightarrow> clientState \<Rightarrow> bool" where
  "behind a b \<longleftrightarrow> csEpoch a \<le> csEpoch b \<and> csCursor a \<le> csCursor b"

definition link_ok :: "site \<Rightarrow> link \<Rightarrow> bool" where
  "link_ok w y \<longleftrightarrow> handout_ok (stateLocked (siteAgent w) (broker y)) (handed y) \<and>
     (\<forall>n. count_list (map fst (ran y)) n + count_list (working y) n \<le> count_list (handed y) n) \<and>
     behind (disk (agentOf y)) (mem (agentOf y)) \<and>
     (case inbox y of Some q \<Rightarrow> csCursor (mem (agentOf y)) < rqSequence q \<and> rqEpoch q = csEpoch (mem (agentOf y)) | None \<Rightarrow> True)"

text \<open>Sequence numbers are 64 bits wide; the statements are about runs that do not exhaust them.\<close>

definition link_enabled :: "site \<Rightarrow> link_op \<Rightarrow> link \<Rightarrow> bool" where
  "link_enabled w op y \<longleftrightarrow>
     (case op of LCall now call \<Rightarrow> next_seq (stateLocked (siteAgent w) (broker y)) + 1 < 2 ^ 64 | _ \<Rightarrow> True)"

lemma stateLocked_set [simp]: "stateLocked a (set_agent a st b) = st"
  by (simp add: stateLocked_def set_agent_def)

lemma stateLocked_epoch [simp]: "stateLocked a (SetAuthorityEpoch e b) = stateLocked a b"
  by (simp add: stateLocked_def SetAuthorityEpoch_def)

lemma handout_cong:
  "handout_ok st hs \<Longrightarrow> next_seq st' = next_seq st \<Longrightarrow> distinct (map seq (queue st')) \<Longrightarrow> set (queue st') \<subseteq> set (queue st) \<Longrightarrow>
   set (waiting st') \<subseteq> set (waiting st) \<Longrightarrow> handout_ok st' hs"
  unfolding handout_ok_def by (simp add: subset_iff image_iff)

lemma enqueue_ok:
  assumes "handout_ok (stateLocked a b) hs" and "next_seq (stateLocked a b) + 1 < 2 ^ 64"
  shows "handout_ok (stateLocked a (snd (enqueue uri now a call b))) hs"
proof -
  let ?st = "stateLocked a b"
  have "handout_ok (?st\<lparr>next_seq := next_seq ?st + 1, queue := queue ?st @ [item],
       waiting := filter P (waiting ?st) @ [item]\<rparr>) hs" if "seq item = next_seq ?st + 1" "\<not> delivered item" for item P
  proof -
    have "seq item \<notin> set hs" "count_list hs (seq item) = 0" "seq item \<notin> seq ` set (queue ?st)" "seq item \<notin> seq ` set (waiting ?st)"
      using assms(1) that(1) by (auto simp: handout_ok_def count_list_0_iff)
    with assms(1) that show ?thesis by (auto simp: handout_ok_def)
  qed
  then show ?thesis using assms by (auto simp: enqueue_def Let_def split: option.split)
qed

lemma Respond_ok:
  assumes "handout_ok (stateLocked a b) hs"
  shows "handout_ok (stateLocked a (snd (Respond a rs b))) hs"
proof -
  have "distinct (map seq (queue (stateLocked a b)))" using assms by (simp add: handout_ok_def)
  then show ?thesis
    by (auto simp: Respond_def Let_def send_def unwait_def assms split: option.split intro!: handout_cong [OF assms])
qed

lemma distinct_remove_first: "distinct (map f xs) \<Longrightarrow> distinct (map f (remove_first P xs)) \<and> set (remove_first P xs) \<subseteq> set xs"
  by (induction xs) auto

lemma remove_ok: "handout_ok (stateLocked a b) hs \<Longrightarrow> handout_ok (stateLocked a (remove a i b)) hs"
proof (cases "agents b a")
  case (Some st)
  assume ok: "handout_ok (stateLocked a b) hs"
  with Some have st: "handout_ok st hs" by (simp add: stateLocked_def)
  then have "distinct (map seq (queue st))" by (simp add: handout_ok_def)
  note distinct_remove_first [OF this, of "\<lambda>p. pid p = i"]
  then show ?thesis by (auto simp: remove_def Some unwait_def intro!: handout_cong [OF st])
qed (simp add: remove_def)

lemma Poll_ok:
  assumes "(if again then Poll_again else Poll) now input b = (r, b')" and "handout_ok (stateLocked (prAgentID input) b) hs"
  shows "handout_ok (stateLocked (prAgentID input) b') (hs @ (case r of Inr q \<Rightarrow> given q | Inl _ \<Rightarrow> []))"
  using assms poll_pass_ok [of now "prCursor input" "stateLocked (prAgentID input) b"]
  by (auto simp: Poll_def Poll_again_def split: if_splits prod.splits)

lemma behind_simps [simp]: "behind a a" "behind a (b\<lparr>csEpoch := e\<rparr>) \<longleftrightarrow> csEpoch a \<le> e \<and> csCursor a \<le> csCursor b"
  "behind a (b\<lparr>csCursor := n\<rparr>) \<longleftrightarrow> csEpoch a \<le> csEpoch b \<and> csCursor a \<le> n"
  by (auto simp: behind_def)

lemma behind_trans: "behind a b \<Longrightarrow> behind b c \<Longrightarrow> behind a c" by (auto simp: behind_def)

lemma client_accept_ok:
  assumes "client_accept saved reply ag = (r, ag')" and "behind (disk ag) (mem ag)"
  shows "behind (disk ag') (mem ag') \<and> behind (disk ag) (disk ag') \<and>
    (\<forall>q. r = Inr (Some q) \<longrightarrow> reply = Work q \<and> csCursor (mem ag') < rqSequence q \<and> rqEpoch q = csEpoch (mem ag'))"
proof (cases reply)
  case (Work x)
  with assms show ?thesis
    by (auto simp: saveState_def adopt_def behind_def split: if_splits)
qed (use assms in \<open>auto simp: saveState_def adopt_def behind_def split: if_splits option.splits\<close>)

lemma link_poll_ok:
  assumes "link_ok w y"
  shows "link_ok w (link_exec w (LPoll again now lost saved) y) \<and> ran (link_exec w (LPoll again now lost saved) y) = ran y \<and>
    behind (disk (agentOf y)) (disk (agentOf (link_exec w (LPoll again now lost saved) y)))"
proof (cases "inbox y")
  case None
  let ?in = "poll_input w (agentOf y)"
  obtain r b where p: "(if again then Poll_again else Poll) now ?in (broker y) = (r, b)" by fastforce
  let ?hs = "case r of Inr q \<Rightarrow> given q | Inl _ \<Rightarrow> []"
  have hs: "(case r of Inr (Some q) \<Rightarrow> [rqSequence q] | _ \<Rightarrow> []) = ?hs" by (auto simp: given_def split: sum.split option.split)
  obtain a ag where acc: "client_accept saved (if lost then Unreachable else reply_of b r) (agentOf y) = (a, ag)" by fastforce
  have ok: "handout_ok (stateLocked (siteAgent w) b) (handed y @ ?hs)" "behind (disk (agentOf y)) (mem (agentOf y))"
    using Poll_ok [OF p, of "handed y"] assms by (simp_all add: link_ok_def poll_input_def)
  note accepted = client_accept_ok [OF acc ok(2)]
  have work: "?hs = [rqSequence q]" if "a = Inr (Some q)" for q
    using accepted that by (auto simp: reply_of_def given_def split: if_splits sum.splits option.splits agent_error.splits)
  let ?y = "link_exec w (LPoll again now lost saved) y"
  have y: "broker ?y = b" "handed ?y = handed y @ ?hs" "ran ?y = ran y" "agentOf ?y = ag" "inbox ?y = (case a of Inr x \<Rightarrow> x | Inl _ \<Rightarrow> None)"
    using None p acc hs by (auto simp: Let_def split: sum.split option.split)
  have "count_list (map fst (ran y)) n \<le> count_list (handed y) n" for n
    using assms None by (auto simp: link_ok_def working_def dest: spec [of _ n])
  then have "count_list (map fst (ran ?y)) n + count_list (working ?y) n \<le> count_list (handed ?y) n" for n
    using work by (auto simp: y working_def simp del: link_exec.simps split: sum.split option.split intro: trans_le_add1)
  then show ?thesis using ok(1) accepted by (auto simp: link_ok_def y simp del: link_exec.simps split: sum.split option.split)
qed (use assms in simp)

lemma dispatch_ids: "dispatch uri ok serve now st q = (x, rs) \<Longrightarrow> rsSequence rs = rqSequence q \<and> (x \<longrightarrow> rqEpoch q = csEpoch st)"
  by (auto simp: dispatch_def failure_def split: if_splits prod.splits)

text \<open>What a step may run: nothing at or below the saved cursor, nothing of an epoch before the saved one.\<close>

definition fresh_work :: "clientState \<Rightarrow> (nat \<times> nat) list \<Rightarrow> bool" where
  "fresh_work st work \<longleftrightarrow> (\<forall>(n, e)\<in>set work. csCursor st < n \<and> csEpoch st \<le> e)"

definition advances :: "link \<Rightarrow> link \<Rightarrow> bool" where
  "advances y y' \<longleftrightarrow> behind (disk (agentOf y)) (disk (agentOf y')) \<and> (\<exists>work. ran y' = ran y @ work \<and> fresh_work (disk (agentOf y)) work)"

lemma advances_refl [simp]: "advances y y" by (simp add: advances_def fresh_work_def)

lemma advances_trans:
  assumes "advances a b" "advances b c"
  shows "advances a c"
proof -
  obtain u v where "ran b = ran a @ u" "ran c = ran b @ v" "fresh_work (disk (agentOf a)) u" "fresh_work (disk (agentOf b)) v"
    and b: "behind (disk (agentOf a)) (disk (agentOf b))" "behind (disk (agentOf b)) (disk (agentOf c))"
    using assms by (auto simp: advances_def)
  then have "ran c = ran a @ (u @ v)" "fresh_work (disk (agentOf a)) (u @ v)" by (auto simp: fresh_work_def behind_def dest: le_less_trans le_trans)
  with b show ?thesis by (auto simp: advances_def intro: behind_trans)
qed

lemma link_finish_ok:
  assumes "link_ok w y"
  shows "link_ok w (link_exec w (LFinish now postLost ackLost saved) y) \<and> advances y (link_exec w (LFinish now postLost ackLost saved) y)"
proof (cases "inbox y")
  case (Some q)
  obtain x rs where d: "dispatch (siteURI w) (siteBuildable w) (siteServe w) now (mem (agentOf y)) q = (x, rs)" by fastforce
  obtain err b where p: "(if postLost then (Some NoActiveLease, broker y) else Respond (siteAgent w) rs (broker y)) = (err, b)" by fastforce
  let ?y = "link_exec w (LFinish now postLost ackLost saved) y"
  let ?ag = "snd (client_finish (err = None \<and> \<not> ackLost) saved q (agentOf y))"
  have y: "broker ?y = b" "handed ?y = handed y" "ran ?y = ran y @ (if x then [(rqSequence q, rqEpoch q)] else [])" "agentOf ?y = ?ag" "inbox ?y = None"
    using Some d p by (auto split: if_splits)
  have ok: "handout_ok (stateLocked (siteAgent w) b) (handed y)"
    using p Respond_ok [of "siteAgent w" "broker y" "handed y" rs] assms by (auto simp: link_ok_def split: if_splits)
  have q: "csCursor (mem (agentOf y)) < rqSequence q" "rqEpoch q = csEpoch (mem (agentOf y))" "behind (disk (agentOf y)) (mem (agentOf y))"
    using assms Some by (simp_all add: link_ok_def)
  then have ag: "behind (disk ?ag) (mem ?ag)" "behind (disk (agentOf y)) (disk ?ag)"
    by (auto simp: client_finish_def saveState_def behind_def)
  have "count_list (map fst (ran ?y)) n + count_list (working ?y) n \<le> count_list (handed ?y) n" for n
    using assms Some unfolding y by (auto simp: link_ok_def working_def y simp del: link_exec.simps dest: spec [of _ n])
  then have "link_ok w ?y" using ok ag by (simp add: link_ok_def y del: link_exec.simps)
  moreover have "advances y ?y" using ag q by (auto simp: advances_def fresh_work_def y behind_def simp del: link_exec.simps)
  ultimately show ?thesis by blast
qed (use assms in simp)

lemma link_exec_ok:
  assumes "link_ok w y" and "link_enabled w op y"
  shows "link_ok w (link_exec w op y) \<and> advances y (link_exec w op y)"
proof (cases op)
  case (LCall now call)
  with assms enqueue_ok [of "siteAgent w" "broker y" "handed y"] show ?thesis
    by (cases "inbox y") (simp_all add: link_ok_def link_enabled_def working_def advances_def fresh_work_def)
next
  case (LPoll again now lost saved)
  with link_poll_ok [OF assms(1)] show ?thesis by (simp add: advances_def fresh_work_def del: link_exec.simps)
next
  case (LFinish now postLost ackLost saved)
  with link_finish_ok [OF assms(1)] show ?thesis by (simp del: link_exec.simps)
qed (use assms remove_ok [of "siteAgent w" "broker y" "handed y"] in
    \<open>auto simp: link_ok_def working_def advances_def fresh_work_def split: option.splits intro: le_trans [OF le_add1] dest: spec\<close>)

interpretation rendezvous: op_system "link_enabled w" "link_exec w" "link_ok w" for w
  by unfold_locales (simp add: link_exec_ok)

section \<open>Properties\<close>

text \<open>Core starts with an empty broker; the agent's saved state is whatever it was.\<close>

definition link_start :: "nat \<Rightarrow> clientState \<Rightarrow> link" where
  "link_start e st = \<lparr>broker = NewBroker e, agentOf = \<lparr>mem = st, disk = st\<rparr>, inbox = None, handed = [], ran = []\<rparr>"

lemma link_start_ok: "link_ok w (link_start e st)"
  by (simp add: link_ok_def link_start_def NewBroker_def stateLocked_def new_agent_def handout_ok_def working_def)

lemma reach_advances: "reach (link_enabled w) (link_exec w) y y' \<Longrightarrow> link_ok w y \<Longrightarrow> link_ok w y' \<and> advances y y'"
  by (induction rule: reach.induct) (auto intro: link_exec_ok [THEN conjunct1] advances_trans link_exec_ok [THEN conjunct2] simp del: link_exec.simps)

text \<open>C36: A request runs at most twice on the agent. Whatever is lost between Core and the agent, whoever
  gives up waiting and however often the agent restarts, the handler runs a request of Core at
  most two times, and never a request that Core did not hand out.\<close>

theorem requests_run_at_most_twice:
  assumes "reach (link_enabled w) (link_exec w) (link_start e st) y"
  shows "count_list (map fst (ran y)) n \<le> 2 \<and> count_list (map fst (ran y)) n \<le> count_list (handed y) n"
proof -
  have ok: "link_ok w y" using rendezvous.reach_inv [OF assms link_start_ok] .
  then have "count_list (map fst (ran y)) n + count_list (working y) n \<le> count_list (handed y) n" "count_list (handed y) n \<le> 2"
    by (simp_all add: link_ok_def handout_ok_def)
  then show ?thesis by linarith
qed

text \<open>C37: The agent never goes back. From the moment a cursor and an authority epoch are saved, nothing that
  runs later has a sequence number at or below that cursor or an older epoch, across lost messages
  and restarts.\<close>

theorem agent_never_goes_back:
  assumes "reach (link_enabled w) (link_exec w) (link_start e st) y" and "reach (link_enabled w) (link_exec w) y y'"
  shows "\<exists>work. ran y' = ran y @ work \<and> (\<forall>(n, k)\<in>set work. csCursor (disk (agentOf y)) < n \<and> csEpoch (disk (agentOf y)) \<le> k) \<and>
    csCursor (disk (agentOf y)) \<le> csCursor (disk (agentOf y')) \<and> csEpoch (disk (agentOf y)) \<le> csEpoch (disk (agentOf y'))"
proof -
  have "link_ok w y" using rendezvous.reach_inv [OF assms(1) link_start_ok] .
  from reach_advances [OF assms(2) this] show ?thesis by (auto simp: advances_def fresh_work_def behind_def)
qed

section \<open>A sample exchange\<close>

definition sample_site :: site where
  "sample_site = \<lparr>siteAgent = ''agent-1'', siteURI = (\<lambda>s. Some (False, '''', s)), siteBuildable = (\<lambda>_. True),
     siteServe = (\<lambda>_. (200, \<lambda>_. '''', ''ok''))\<rparr>"

definition sample_call :: call where
  "sample_call = \<lparr>callMethod = ''POST'', callURI = ''/v1/commands'', callHeader = (\<lambda>_. ''''), callBody = Some ''run'', callDeadline = None,
     callRandom = Some ''1''\<rparr>"

definition sample_request :: Request where
  "sample_request = \<lparr>rqEpoch = 1, rqBody = ''run'', rqCreatedAt = 0, rqExpiresAt = 35 * Second, rqHeader = [], rqID = ''31'', rqMethod = ''POST'',
     rqPath = ''/v1/commands'', rqSequence = 1\<rparr>"

definition sample_pending_item :: "bool \<Rightarrow> bool \<Rightarrow> pending" where
  "sample_pending_item d r = \<lparr>request = sample_request, delivered = d, redelivered = r\<rparr>"

definition sample_broker :: "agentState \<Rightarrow> Broker" where
  "sample_broker st = \<lparr>brEpoch = 1, agents = (\<lambda>_. None)(''agent-1'' := Some st)\<rparr>"

lemma sample_texts: "hex_char 3 = CHR ''3''" "hex_char (Suc 0) = CHR ''1''" "hex_encode ''1'' = ''31''" "TrimSpace ''agent-1'' = ''agent-1''" "TrimSpace '''' = ''''" "TrimSpace ''31'' = ''31''"
  "validateRequest (\<lambda>s. Some (False, '''', s)) ''POST'' ''/v1/commands'' = None"
  by code_simp+

lemma sample_called:
  "link_exec sample_site (LCall 0 sample_call) (link_start 1 \<lparr>csEpoch = 1, csCursor = 0\<rparr>) =
   (link_start 1 \<lparr>csEpoch = 1, csCursor = 0\<rparr>)\<lparr>broker := sample_broker \<lparr>cursor = 0, next_seq = 1, queue = [sample_pending_item False False],
      waiting = [sample_pending_item False False], results = []\<rparr>\<rparr>"
  by (simp add: link_start_def sample_site_def sample_call_def enqueue_def sample_texts MaxBodyBytes_def Let_def stateLocked_def NewBroker_def
      new_agent_def set_agent_def sample_broker_def sample_pending_item_def sample_request_def defaultLease_def safeRequestHeaders_def safe_headers_def)

definition sample_link :: "pending list \<Rightarrow> pending list \<Rightarrow> Request option \<Rightarrow> nat list \<Rightarrow> (nat \<times> nat) list \<Rightarrow> link" where
  "sample_link q ps x hs work = (link_start 1 \<lparr>csEpoch = 1, csCursor = 0\<rparr>)
     \<lparr>broker := sample_broker \<lparr>cursor = 0, next_seq = 1, queue = q, waiting = ps, results = []\<rparr>, inbox := x, handed := hs, ran := work\<rparr>"

lemmas sample_link_defs = sample_link_def link_start_def sample_site_def sample_broker_def sample_pending_item_def sample_request_def poll_input_def Poll_def
  Poll_again_def ProtocolVersion_def sample_texts poll_pass_def Let_def stateLocked_def set_agent_def sortedWaiting_def mark_def reply_of_def

lemma sample_polls:
  "link_exec sample_site (LPoll False 1 False True) (sample_link [sample_pending_item False False] [sample_pending_item False False] None [] []) =
    sample_link [] [sample_pending_item True False] (Some sample_request) [1] []"
  "link_exec sample_site (LPoll False 3 False True) (sample_link [] [sample_pending_item True False] None [1] work) =
    sample_link [] [sample_pending_item True True] (Some sample_request) [1, 1] work"
  by (simp_all add: sample_link_defs)

lemma sample_lost_post:
  "link_exec sample_site (LFinish t True False True) (sample_link q ps (Some sample_request) hs work) = sample_link q ps None hs (work @ [(1, 1)])"
  if "t \<le> 35 * Second"
  using that by (simp add: sample_link_defs dispatch_def MaxResponseBytes_def client_finish_def)

lemma sample_exchange:
  "fold (link_exec sample_site) [LCall 0 sample_call, LPoll False 1 False True, LFinish 2 True False True, LPoll False 3 False True, LFinish 4 True False True]
     (link_start 1 \<lparr>csEpoch = 1, csCursor = 0\<rparr>) = sample_link [] [sample_pending_item True True] None [1, 1] [(1, 1), (1, 1)]"
proof -
  have "link_exec sample_site (LCall 0 sample_call) (link_start 1 \<lparr>csEpoch = 1, csCursor = 0\<rparr>) =
      sample_link [sample_pending_item False False] [sample_pending_item False False] None [] []"
    unfolding sample_called by (simp add: sample_link_def link_start_def)
  then show ?thesis by (simp add: sample_polls sample_lost_post del: link_exec.simps One_nat_def)
qed

lemma reach_ops:
  "reach (link_enabled w) (link_exec w) s0 y \<Longrightarrow> list_all (\<lambda>op. case op of LCall _ _ \<Rightarrow> False | _ \<Rightarrow> True) ops \<Longrightarrow>
   reach (link_enabled w) (link_exec w) s0 (fold (link_exec w) ops y)"
proof (induction ops arbitrary: y)
  case (Cons op ops)
  then have "link_enabled w op y" by (auto simp: link_enabled_def split: link_op.splits)
  with Cons show ?case by (auto intro: reach.step simp del: link_exec.simps)
qed simp

lemma sample_reach_called:
  "reach (link_enabled sample_site) (link_exec sample_site) (link_start 1 \<lparr>csEpoch = 1, csCursor = 0\<rparr>)
     (link_exec sample_site (LCall 0 sample_call) (link_start 1 \<lparr>csEpoch = 1, csCursor = 0\<rparr>))"
  by (rule reach.step [OF reach.start]) (simp add: link_enabled_def link_start_def NewBroker_def stateLocked_def new_agent_def)

lemma sample_reach:
  "reach (link_enabled sample_site) (link_exec sample_site) (link_start 1 \<lparr>csEpoch = 1, csCursor = 0\<rparr>)
     (sample_link [] [sample_pending_item True True] None [1, 1] [(1, 1), (1, 1)])"
  using reach_ops [OF sample_reach_called, of "[LPoll False 1 False True, LFinish 2 True False True, LPoll False 3 False True, LFinish 4 True False True]"]
    sample_exchange by (simp del: link_exec.simps One_nat_def)

theorem requests_run_at_most_twice_witness:
  "\<exists>y. reach (link_enabled sample_site) (link_exec sample_site) (link_start 1 \<lparr>csEpoch = 1, csCursor = 0\<rparr>) y \<and>
    count_list (map fst (ran y)) 1 = 2 \<and> count_list (handed y) 1 = 2 \<and> count_list (map fst (ran y)) 1 \<le> 2"
  using requests_run_at_most_twice [OF sample_reach, of 1] sample_reach
  by (intro exI [of _ "sample_link [] [sample_pending_item True True] None [1, 1] [(1, 1), (1, 1)]"]) (simp add: sample_link_def)

theorem agent_never_goes_back_witness:
  "\<exists>work. ran (sample_link [] [sample_pending_item True True] None [1, 1] [(1, 1), (1, 1)]) = [] @ work \<and> list_all (\<lambda>(n, k). 0 < n \<and> 1 \<le> k) work"
proof -
  let ?s0 = "link_start 1 \<lparr>csEpoch = 1, csCursor = 0\<rparr>"
  obtain work where "ran (sample_link [] [sample_pending_item True True] None [1, 1] [(1, 1), (1, 1)]) = ran ?s0 @ work"
    "\<forall>(n, k)\<in>set work. csCursor (disk (agentOf ?s0)) < n \<and> csEpoch (disk (agentOf ?s0)) \<le> k"
    using agent_never_goes_back [OF reach.start sample_reach] by blast
  then show ?thesis by (auto simp: link_start_def list_all_iff)
qed

text \<open>The broker hands a request out again when the agent's cursor is below it, taking it for lost; but the agent
  moves its cursor only after its response was accepted. A request whose response was lost has run,
  is handed out again and runs a second time.\<close>

lemma lost_response_repeats_request:
  "\<exists>y. reach (link_enabled sample_site) (link_exec sample_site) (link_start 1 \<lparr>csEpoch = 1, csCursor = 0\<rparr>) y \<and> ran y = [(1, 1), (1, 1)]"
  using sample_reach by (intro exI) (auto simp: sample_link_def)

end
