(* ===== verification/Auth_Limiter.thy ===== *)
theory Auth_Limiter
  imports Sql_Tx
begin

text \<open>
  The in-process limiter of password guesses, \<^verbatim>\<open>internal/auth/limiter.go\<close>. The map of attempts is an
  association list; which entry a map iteration meets first is an argument (\<open>victim\<close>).
\<close>

record loginAttempts =
  blockedUntil :: time
  firstTry :: time
  tries :: nat

record LoginLimiter =
  entries :: "(string \<times> loginAttempts) list"
  maxEntries :: nat
  maxTries :: nat
  window :: duration

definition zero_time :: time where "zero_time = - 62135596800000000"

definition NewLoginLimiter :: "nat \<Rightarrow> duration \<Rightarrow> LoginLimiter" where
  "NewLoginLimiter n d = \<lparr>entries = [], maxEntries = 2048, maxTries = n, window = d\<rparr>"

definition limiterKey :: "string \<Rightarrow> string" where
  "limiterKey value = (let value = TrimSpace value in if length value = 0 \<or> length value > 256 then '''' else value)"

definition drop_key :: "string \<Rightarrow> LoginLimiter \<Rightarrow> LoginLimiter" where
  "drop_key k l = l\<lparr>entries := filter (\<lambda>(x, _). x \<noteq> k) (entries l)\<rparr>"

definition put_key :: "string \<Rightarrow> loginAttempts \<Rightarrow> LoginLimiter \<Rightarrow> LoginLimiter" where
  "put_key k e l = l\<lparr>entries := filter (\<lambda>(x, _). x \<noteq> k) (entries l) @ [(k, e)]\<rparr>"

definition Allow :: "time \<Rightarrow> string \<Rightarrow> LoginLimiter \<Rightarrow> bool \<times> LoginLimiter" where
  "Allow now key l =
     (let key = limiterKey key in
      if key = '''' then (False, l)
      else case map_of (entries l) key of
        None \<Rightarrow> (True, l)
      | Some e \<Rightarrow>
          if now > blockedUntil e \<and> now - firstTry e > window l then (True, drop_key key l)
          else (\<not> now < blockedUntil e, l))"

definition entry_lapsed :: "time \<Rightarrow> LoginLimiter \<Rightarrow> loginAttempts \<Rightarrow> bool" where
  "entry_lapsed now l e \<longleftrightarrow> now - firstTry e > window l \<and> \<not> now < blockedUntil e"

definition prune :: "time \<Rightarrow> nat \<Rightarrow> LoginLimiter \<Rightarrow> LoginLimiter" where
  "prune now victim l =
     (if length (entries l) < maxEntries l then l
      else let l = l\<lparr>entries := filter (\<lambda>(_, e). \<not> entry_lapsed now l e) (entries l)\<rparr> in
        if length (entries l) \<ge> maxEntries l \<and> entries l \<noteq> []
        then drop_key (fst (entries l ! (victim mod length (entries l)))) l
        else l)"

definition Failure :: "time \<Rightarrow> nat \<Rightarrow> string \<Rightarrow> LoginLimiter \<Rightarrow> LoginLimiter" where
  "Failure now victim key l =
     (let key = limiterKey key in
      if key = '''' then l
      else let l = prune now victim l;
               e = (case map_of (entries l) key of Some e \<Rightarrow> e | None \<Rightarrow> \<lparr>blockedUntil = zero_time, firstTry = zero_time, tries = 0\<rparr>);
               e = (if firstTry e = zero_time \<or> now - firstTry e > window l
                    then \<lparr>blockedUntil = zero_time, firstTry = now, tries = 0\<rparr> else e);
               e = e\<lparr>tries := tries e + 1\<rparr>;
               e = (if tries e \<ge> maxTries l then e\<lparr>blockedUntil := now + window l\<rparr> else e) in
        put_key key e l)"

definition Success :: "string \<Rightarrow> LoginLimiter \<Rightarrow> LoginLimiter" where
  "Success key l = drop_key (limiterKey key) l"

section \<open>The table stays bounded\<close>

definition limiter_ok :: "LoginLimiter \<Rightarrow> bool" where
  "limiter_ok l \<longleftrightarrow> distinct (map fst (entries l)) \<and> length (entries l) \<le> maxEntries l \<and> 0 < maxEntries l"

lemma distinct_filter_fst: "distinct (map fst xs) \<Longrightarrow> distinct (map fst (filter P xs))"
  by (induction xs) auto

lemma length_drop_key_in: "distinct (map fst xs) \<Longrightarrow> k \<in> fst ` set xs \<Longrightarrow> length (filter (\<lambda>(x, _). x \<noteq> k) xs) = length xs - 1"
proof (induction xs)
  case (Cons a xs)
  show ?case
  proof (cases "fst a = k")
    case True
    with Cons.prems have "filter (\<lambda>(x, _). x \<noteq> k) xs = xs" by (intro filter_True) (auto simp: image_iff)
    with True show ?thesis by (cases a) simp
  next
    case False
    with Cons have "k \<in> fst ` set xs" by auto
    then have "xs \<noteq> []" by auto
    with False Cons \<open>k \<in> fst ` set xs\<close> show ?thesis by (cases a, cases xs) auto
  qed
qed simp

lemma drop_key_ok: "limiter_ok l \<Longrightarrow> limiter_ok (drop_key k l)"
  by (auto simp: limiter_ok_def drop_key_def intro: distinct_filter_fst le_trans [OF length_filter_le])

lemma prune_ok:
  assumes "limiter_ok l"
  shows "limiter_ok (prune now victim l) \<and> length (entries (prune now victim l)) < maxEntries l \<and> maxEntries (prune now victim l) = maxEntries l"
proof (cases "length (entries l) < maxEntries l")
  case False
  define l1 where "l1 = l\<lparr>entries := filter (\<lambda>(_, e). \<not> entry_lapsed now l e) (entries l)\<rparr>"
  have l1: "limiter_ok l1" "maxEntries l1 = maxEntries l" using assms
    by (auto simp: limiter_ok_def l1_def intro: distinct_filter_fst le_trans [OF length_filter_le])
  have p: "prune now victim l = (if length (entries l1) \<ge> maxEntries l1 \<and> entries l1 \<noteq> []
      then drop_key (fst (entries l1 ! (victim mod length (entries l1)))) l1 else l1)"
    using False by (simp add: prune_def l1_def Let_def)
  show ?thesis
  proof (cases "length (entries l1) \<ge> maxEntries l1 \<and> entries l1 \<noteq> []")
    case True
    let ?k = "fst (entries l1 ! (victim mod length (entries l1)))"
    have "?k \<in> fst ` set (entries l1)" using True by (intro imageI nth_mem) simp
    with l1(1) have "length (entries (drop_key ?k l1)) = length (entries l1) - 1"
      using length_drop_key_in [of "entries l1" ?k] by (simp add: drop_key_def limiter_ok_def)
    with True l1 drop_key_ok [OF l1(1)] show ?thesis by (auto simp: p limiter_ok_def drop_key_def)
  qed (use l1 p in \<open>auto simp: limiter_ok_def\<close>)
qed (use assms in \<open>simp add: prune_def\<close>)

lemma put_key_ok: "limiter_ok l \<Longrightarrow> length (entries l) < maxEntries l \<Longrightarrow> limiter_ok (put_key k e l)"
  by (auto simp: limiter_ok_def put_key_def Suc_le_eq intro: distinct_filter_fst le_less_trans [OF length_filter_le])

datatype limiter_op = LAllow time string | LFailure time nat string | LSuccess string

fun limiter_exec :: "limiter_op \<Rightarrow> LoginLimiter \<Rightarrow> LoginLimiter" where
  "limiter_exec (LAllow now key) l = snd (Allow now key l)"
| "limiter_exec (LFailure now victim key) l = Failure now victim key l"
| "limiter_exec (LSuccess key) l = Success key l"

lemma limiter_exec_ok: "limiter_ok l \<Longrightarrow> limiter_ok (limiter_exec op l)"
proof (cases op)
  case (LFailure now victim key)
  assume "limiter_ok l"
  from prune_ok [OF this, of now victim] put_key_ok [of "prune now victim l"] \<open>limiter_ok l\<close> show ?thesis
    by (simp add: LFailure Failure_def Let_def)
qed (auto simp: Allow_def Success_def Let_def drop_key_ok split: option.split)

interpretation limiter: op_system "\<lambda>_ _. True" limiter_exec limiter_ok
  by unfold_locales (rule limiter_exec_ok)

text \<open>C39: The limiter's memory is bounded. After any sequence of login attempts, with keys and times of an
  attacker's choice, it holds at most 2048 entries.\<close>

theorem limiter_is_bounded:
  assumes "reach (\<lambda>_ _. True) limiter_exec (NewLoginLimiter n d) l"
  shows "length (entries l) \<le> 2048"
proof -
  have max: "maxEntries l = 2048" using assms
  proof (induction rule: reach.induct)
    case (step l op)
    then show ?case
      by (cases op) (auto simp: Allow_def Failure_def Success_def prune_def put_key_def drop_key_def Let_def split: option.split)
  qed (simp add: NewLoginLimiter_def)
  have "limiter_ok (NewLoginLimiter n d)" by (simp add: limiter_ok_def NewLoginLimiter_def)
  from limiter.reach_inv [OF assms this] max show ?thesis by (simp add: limiter_ok_def)
qed

theorem limiter_is_bounded_witness: "length (entries (Failure 5 0 ''10.0.0.1'' (NewLoginLimiter 3 Minute))) \<le> 2048"
  using limiter_is_bounded [OF reach.step [OF reach.start, where op = "LFailure 5 0 ''10.0.0.1''"]] by simp

section \<open>Guessing is blocked\<close>

lemma map_of_drop: "map_of (filter (\<lambda>(x, _). x \<noteq> k) xs) j = (if j = k then None else map_of xs j)"
  by (induction xs) auto

lemma Failure_entry:
  fixes now :: time and l :: LoginLimiter and key :: string and v :: nat
  assumes "limiterKey key \<noteq> ''''" and "length (entries l) < maxEntries l"
  defines "e \<equiv> (case map_of (entries l) (limiterKey key) of
      Some e \<Rightarrow> if firstTry e = zero_time \<or> now - firstTry e > window l then \<lparr>blockedUntil = zero_time, firstTry = now, tries = 0\<rparr> else e
    | None \<Rightarrow> \<lparr>blockedUntil = zero_time, firstTry = now, tries = 0\<rparr>)"
  shows "map_of (entries (Failure now v key l)) (limiterKey key) =
      Some (if tries e + 1 \<ge> maxTries l then e\<lparr>tries := tries e + 1, blockedUntil := now + window l\<rparr> else e\<lparr>tries := tries e + 1\<rparr>)"
    "length (entries (Failure now v key l)) \<le> length (entries l) + 1" "maxEntries (Failure now v key l) = maxEntries l"
    "maxTries (Failure now v key l) = maxTries l" "window (Failure now v key l) = window l"
  using assms(1,2)
  by (auto simp: e_def Failure_def prune_def put_key_def Let_def map_add_def map_of_drop split: option.split)

lemma failures_counted:
  assumes "limiterKey key \<noteq> ''''" and "map_of (entries l) (limiterKey key) = Some e" and "firstTry e = t" "t \<noteq> zero_time"
    and "\<forall>u\<in>set us. u - t \<le> window l" and "length (entries l) + length us \<le> maxEntries l"
  shows "\<exists>e'. map_of (entries (fold (\<lambda>u. Failure u v key) us l)) (limiterKey key) = Some e' \<and> firstTry e' = t \<and> tries e' = tries e + length us \<and>
    (us \<noteq> [] \<and> maxTries l \<le> tries e' \<longrightarrow> blockedUntil e' = last us + window l) \<and>
    (us = [] \<longrightarrow> e' = e) \<and> window (fold (\<lambda>u. Failure u v key) us l) = window l"
  using assms
proof (induction us arbitrary: l e)
  case (Cons u us)
  let ?l = "Failure u v key l"
  note step = Failure_entry [where now = u and v = v, OF Cons.prems(1), of l]
  have room: "length (entries l) < maxEntries l" using Cons.prems(6) by simp
  obtain e1 where e1: "map_of (entries ?l) (limiterKey key) = Some e1" "firstTry e1 = t" "tries e1 = tries e + 1"
    "maxTries l \<le> tries e1 \<longrightarrow> blockedUntil e1 = u + window l"
    using step(1) [OF room] Cons.prems(2-5) by auto
  have "\<forall>u\<in>set us. u - t \<le> window ?l" "length (entries ?l) + length us \<le> maxEntries ?l"
    using step(2,3,5) [OF room] Cons.prems(5,6) by auto
  from Cons.IH [OF Cons.prems(1) e1(1,2) Cons.prems(4) this] show ?case
    using e1 step(4,5) [OF room] by (cases us) auto
qed simp



text \<open>A full table gives up an arbitrary known entry for the new key, a blocked one included: that key may guess
  again before its block ends.\<close>

lemma eviction_unblocks:
  assumes "limiter_ok l" and "length (entries l) = maxEntries l" and "\<forall>(k, e)\<in>set (entries l). \<not> entry_lapsed now l e"
    and "i < length (entries l)" and "fst (entries l ! i) = limiterKey key" and "limiterKey key \<noteq> ''''"
    and "limiterKey other \<noteq> ''''" "limiterKey other \<noteq> limiterKey key"
  shows "fst (Allow now key (Failure now i other l))"
proof -
  have "filter (\<lambda>(_, e). \<not> entry_lapsed now l e) (entries l) = entries l" using assms(3) by (intro filter_True) auto
  then have "prune now i l = drop_key (limiterKey key) l" using assms(1,2,4,5) by (auto simp: prune_def limiter_ok_def)
  then obtain e where "Failure now i other l = put_key (limiterKey other) e (drop_key (limiterKey key) l)"
    using assms(7) by (auto simp: Failure_def Let_def)
  then have "map_of (entries (Failure now i other l)) (limiterKey key) = None"
    using assms(8) by (simp add: put_key_def drop_key_def map_add_def map_of_drop del: filter_filter)
  then show ?thesis using assms(6) by (simp add: Allow_def Let_def)
qed

end
