(* ===== verification/Spec2Isabelle.thy ===== *)
theory Spec2Isabelle
  imports Queue_Worker Cloud_Charges Cloud_Access Cloud_Isolation Core_Promotion Agent_Client Auth_Limiter
begin

text \<open>
  Verification of the SwarmOps controller, a Go program that manages Docker Swarm machines and sells
  hosting on them. The development follows the state the controller keeps: the durable command
  ledger, the commerce service, the placement of the control plane, the rendezvous with the
  machine agents and the limiter of password guesses. Paths below are relative to \<^verbatim>\<open>src/\<close>.

  \<^bold>\<open>How the parts interact.\<close> Every change of a machine is a command in the ledger
  (\<^verbatim>\<open>internal/queue\<close>), submitted by the API or by the commerce service, claimed by the worker and
  settled with an outcome. The commerce service (\<^verbatim>\<open>internal/cloud\<close>) confirms an order by charging
  the wallet and submitting the deployment to the ledger in one database transaction, and learns
  the outcome through \<^verbatim>\<open>OnCommandTransition\<close>. Several core processes share the database;
  \<^verbatim>\<open>internal/coretopology\<close> decides which one is active and under which authority epoch, and a
  promotion (\<^verbatim>\<open>api/http/core.go\<close>) fences the ledger and moves the agent broker
  (\<^verbatim>\<open>internal/agentpull\<close>) to the next epoch. All stores run on \<^verbatim>\<open>WithTx\<close> of \<^verbatim>\<open>internal/sqlstore\<close>.

  \<^bold>\<open>Foundations.\<close>
  \<^item> \<open>Swarm_Prelude\<close>: Go's strings as byte lists with the functions of \<^verbatim>\<open>strings\<close> the code calls, durations and times
    as microseconds in \<open>int\<close>, tables as lists of rows, \<open>wrap64\<close> for \<^verbatim>\<open>int64\<close> arithmetic.
  \<^item> \<open>Sql_Tx\<close>: a transaction is a function from the tables to an error or a result with new tables. What the
    server does to each attempt (run it, abort it, drop the connection, outlast the context) is a list of events given as
    an argument, so a statement about all lists covers all these faults. Transactions are atomic steps, and an attempt that
    reports an error did not commit; the interleaving inside transactions and a commit whose acknowledgement is lost
    are not modelled, and statements that an error changed nothing are to be read with that limit. The locales \<open>transactional\<close> and
    \<open>op_system\<close> carry invariants over retries and over arbitrary sequences of operations.
  \<^item> \<open>Go_Json\<close>, \<open>Json_Encode\<close>, \<open>Go_Time\<close>: \<^verbatim>\<open>json.Valid\<close>, \<^verbatim>\<open>json.Marshal\<close> and the calendar, as far as used.
  \<^item> \<open>Domain\<close>, \<open>App_Spec\<close>: the shared records of \<^verbatim>\<open>internal/domain\<close>; the application specification of
    \<^verbatim>\<open>internal/ops/application.go\<close> with its normalisation and validation.

  \<^bold>\<open>Command ledger.\<close> \<open>Queue_Diagnostics\<close> (\<^verbatim>\<open>diagnostics.go\<close>), \<open>Queue_Ledger\<close> and \<open>Queue_Scheduler\<close>
  (\<^verbatim>\<open>store.go\<close>) and \<open>Queue_Worker\<close> (\<^verbatim>\<open>worker.go\<close>) hold the operations; the state \<open>queue_store\<close> is the command tables
  and the sealed files beside them. \<open>Queue_Invariant\<close> has an abstract ledger as a step relation, \<open>Queue_Refinement\<close>
  shows that each operation is a sequence of its steps under any faults, \<open>Queue_Wf\<close> proves the invariant of the
  rows through the locale \<open>row_contract\<close>. \<open>Queue_Props\<close>, \<open>Queue_Outcomes\<close> and \<open>Queue_Worker\<close> state what follows (C1 to C18):
  tables stay well formed, at most one command runs and it is the oldest due one, attempts are bounded, submissions are
  idempotent and supersede pending work, outcomes, leases, fencing, recovery, pruning and stored data behave as
  described, and a worker iteration settles the command it claimed.

  \<^bold>\<open>Commerce.\<close> \<open>Cloud_Data\<close> has the tables of \<^verbatim>\<open>0008_commerce.sql\<close>; \<open>Cloud_Wallet\<close>, \<open>Cloud_Accounts\<close>, \<open>Cloud_Catalog\<close>
  (with the tickets), \<open>Cloud_Orders\<close>, \<open>Cloud_Confirm\<close>, \<open>Cloud_Billing\<close> and \<open>Cloud_Invoices\<close> (with the reports) the
  operations of the files of the same names. \<open>Cloud_Invariant\<close> and \<open>Cloud_Refinement\<close> relate them to abstract steps,
  \<open>Cloud_System\<close> runs them together with the real ledger, which it reaches through the locale \<open>command_queue\<close>.
  \<open>Cloud_Sample\<close> is a concrete shop for the witnesses. The properties (C19 to C32, \<open>Cloud_Props\<close>, \<open>Cloud_Charges\<close>,
  \<open>Cloud_Access\<close>, \<open>Cloud_Isolation\<close>): balances equal their ledgers, hours are billed once and within the monthly price,
  invoices reconcile, confirming is atomic, refunds and top-ups happen once, references resolve, sessions live until
  expiry, logout or suspension, and customers neither see nor change each other's rows.

  \<^bold>\<open>Control plane and agents.\<close> \<open>Core_Topology\<close> models \<^verbatim>\<open>coretopology/store.go\<close> with the copy of the topology each
  process keeps, \<open>Core_Authority\<close> any number of processes on one database (C33 to C35: one active core per epoch).
  \<open>Core_Promotion\<close> is \<^verbatim>\<open>corePromote\<close> with everything it changes (C38). \<open>Agent_Broker\<close> and \<open>Agent_Client\<close> are both ends of the
  rendezvous, composed with loss of replies and acknowledgements, failed saves and restarts (C36, C37).
  \<open>Auth_Limiter\<close> is \<^verbatim>\<open>internal/auth/limiter.go\<close> (C39, C40).

  \<^bold>\<open>Bounds.\<close> No operation needs fuel: loops recurse on the data, on the list of transaction events (\<^verbatim>\<open>WithTx\<close> makes at most
  \<^verbatim>\<open>maxTransactionAttempts\<close> attempts) or on the bounded number of retries the source has. The iterations of the worker are
  the elements of a list. Money is \<open>int\<close> with \<open>wrap64\<close> where the code computes in \<^verbatim>\<open>int64\<close>; epochs and sequence numbers wrap as
  the source's unsigned integers do where the code adds to them.

  \<^bold>\<open>Parameters.\<close> Collation, SHA-256, bcrypt, mail address, URL and address parsing, random bytes, the provisioner, the agent's
  local handler and the order in which Go iterates a map are arguments; what a property needs of them is a hypothesis.

  \<^bold>\<open>What the model shows beyond the documentation.\<close> A lost response makes an agent run a request twice
  (\<open>lost_response_repeats_request\<close>); two promotions that race leave older work runnable
  (\<open>late_promotion_leaves_older_work\<close>); a fenced lease survives a retry (\<open>stale_lease_survives_fence\<close>); a finishing upload can
  requeue a running command (\<open>finish_requeues_running\<close>); a customer can occupy the key of a coming charge
  (\<open>usage_key_squatting\<close>); the month to invoice is wrong at the end of a long month (\<open>may_31_invoices_may\<close>); an eviction can
  lift a login block (\<open>eviction_unblocks\<close>).

  \<^bold>\<open>Not modelled.\<close> Docker, Traefik and DNS control and the routing store (\<^verbatim>\<open>internal/ops\<close> but for the application specification),
  machine agents and connections to them (\<^verbatim>\<open>internal/agent\<close>, \<^verbatim>\<open>internal/remote\<close>, \<^verbatim>\<open>internal/agentcontrol\<close>), agent
  certificates (\<^verbatim>\<open>agentpull/registry.go\<close> but for its epoch), source scanning and builds, logs, metrics and diagnosis, the release
  updater, the command line, configuration and the web console: they act on the outside world, rest on third-party code, or lie
  outside the scope chosen here. HTTP handlers other than \<^verbatim>\<open>corePromote\<close> are left out, as are opening and migrating the
  database and the one-time imports of files of older releases.
\<close>

end
